(* ===== verification/Prelude.thy ===== *)
theory Prelude
  imports "HOL-Library.Word" "HOL-Library.Monad_Syntax"
begin

unbundle bit_operations_syntax

text \<open>
  What every component shares: the C integer types, the truth value of a masked word, the
  little-endian view of multi-byte values, byte-addressed memory, and the lemma collections.

  \<^item> \<open>bits\<close> collects the rewrite rules for tests of a word that was built with \<open>OR\<close> and
    \<open>AND NOT\<close>.
  \<^item> \<open>frame\<close> collects the facts that say which part of the state an operation leaves alone.

  Operations that cannot fail are functions on the state.  Operations that may stop the
  machine (\<^verbatim>\<open>BUG_ON\<close>, a NULL dereference, a division by zero) or may never return
  (a polling loop) have an \<^theory_text>\<open>option\<close> result, and \<open>None\<close> is "does not return".
\<close>

named_theorems bits "tests of masked words"
named_theorems frame "what an operation leaves unchanged"

subsection \<open>C types\<close>

type_synonym u8 = "8 word"
type_synonym u16 = "16 word"
type_synonym u32 = "32 word"
type_synonym u64 = "64 word"

subsection \<open>C's truth value of a masked word\<close>

definition tst :: "'a::len word \<Rightarrow> 'a word \<Rightarrow> bool" where
  "tst x m \<longleftrightarrow> x AND m \<noteq> 0"

lemma tst_or [bits, simp]: "tst (x OR y) m \<longleftrightarrow> tst x m \<or> tst y m"
  by (auto simp: tst_def bit_eq_iff bit_simps)

lemma tst_or_mask: "tst x (m OR n) \<longleftrightarrow> tst x m \<or> tst x n"
  by (auto simp: tst_def bit_eq_iff bit_simps)

lemma tst_zero [simp]: "\<not> tst 0 m" "\<not> tst x 0"
  by (simp_all add: tst_def)

lemma tst_numeral [simp]:
  "tst (numeral a) (numeral b :: 'a::len word) \<longleftrightarrow> (numeral a :: 'a word) AND numeral b \<noteq> 0"
  by (simp add: tst_def)

lemma tst_one [simp]:
  "tst 1 (numeral b :: 'a::len word) \<longleftrightarrow> (1 :: 'a word) AND numeral b \<noteq> 0"
  "tst (numeral a) (1 :: 'a::len word) \<longleftrightarrow> (numeral a :: 'a word) AND 1 \<noteq> 0"
  "tst (1 :: 'a word) 1"
  by (simp_all add: tst_def)

lemma tst_clear_other [bits, simp]: "m AND y = 0 \<Longrightarrow> tst (x AND NOT y) m \<longleftrightarrow> tst x m"
proof -
  assume "m AND y = 0"
  then have "(x AND NOT y) AND m = x AND m"
    by (intro bit_word_eqI) (auto simp: bit_eq_iff bit_simps)
  then show ?thesis by (simp add: tst_def)
qed

lemma tst_clear_same [bits, simp]: "m AND y = m \<Longrightarrow> \<not> tst (x AND NOT y) m"
proof -
  assume "m AND y = m"
  then have "(x AND NOT y) AND m = 0"
    by (intro bit_word_eqI) (auto simp: bit_eq_iff bit_simps)
  then show ?thesis by (simp add: tst_def)
qed

lemma tst_and_sub [bits]: "n AND m = n \<Longrightarrow> tst (x AND m) n \<longleftrightarrow> tst x n"
proof -
  assume "n AND m = n"
  then have "(x AND m) AND n = x AND n"
    by (metis and.assoc and.commute)
  then show ?thesis by (simp add: tst_def)
qed

lemma tst_mono: "tst x n \<Longrightarrow> n AND m = n \<Longrightarrow> tst x m"
  by (metis and.assoc and.commute and_zero_eq tst_def)

lemma tst_bit: "tst x (2 ^ n) \<longleftrightarrow> bit x n" for x :: "'a::len word"
  by (simp add: tst_def and_exp_eq_0_iff_not_bit)

lemma not_tst: "\<not> tst x m \<longleftrightarrow> x AND m = 0"
  by (simp add: tst_def)

subsection \<open>Bytes of a word, least significant first\<close>

definition le16 :: "u16 \<Rightarrow> u8 list" where
  "le16 v = [ucast v, ucast (drop_bit 8 v)]"

definition le32 :: "u32 \<Rightarrow> u8 list" where
  "le32 v = [ucast v, ucast (drop_bit 8 v), ucast (drop_bit 16 v), ucast (drop_bit 24 v)]"

definition of_le16 :: "u8 \<Rightarrow> u8 \<Rightarrow> u16" where
  "of_le16 a b = ucast a OR push_bit 8 (ucast b)"

definition of_le32 :: "u8 \<Rightarrow> u8 \<Rightarrow> u8 \<Rightarrow> u8 \<Rightarrow> u32" where
  "of_le32 a b c d =
     ucast a OR push_bit 8 (ucast b) OR push_bit 16 (ucast c) OR push_bit 24 (ucast d)"

lemma length_le [simp]: "length (le16 v) = 2" "length (le32 w) = 4"
  by (simp_all add: le16_def le32_def)

lemma of_le16_le16: "of_le16 (ucast v) (ucast (drop_bit 8 v)) = v"
  unfolding of_le16_def
  by (rule bit_word_eqI) (auto simp: bit_simps)

lemma of_le32_le32:
  "of_le32 (ucast v) (ucast (drop_bit 8 v)) (ucast (drop_bit 16 v)) (ucast (drop_bit 24 v)) = v"
proof (rule bit_word_eqI)
  fix n assume n: "n < LENGTH(32)"
  then consider "n < 8" | "8 \<le> n" "n < 16" | "16 \<le> n" "n < 24" | "24 \<le> n" "n < 32"
    by fastforce
  then show "bit (of_le32 (ucast v) (ucast (drop_bit 8 v)) (ucast (drop_bit 16 v))
      (ucast (drop_bit 24 v))) n = bit v n"
    by cases (auto simp: of_le32_def bit_simps)
qed

subsection \<open>Byte-addressed memory\<close>

type_synonym memory = "u64 \<Rightarrow> u8"

fun store_bytes :: "memory \<Rightarrow> u64 \<Rightarrow> u8 list \<Rightarrow> memory" where
  "store_bytes m a [] = m"
| "store_bytes m a (b # bs) = store_bytes (m(a := b)) (a + 1) bs"

definition load16 :: "memory \<Rightarrow> u64 \<Rightarrow> u16" where
  "load16 m a = of_le16 (m a) (m (a + 1))"

definition load32 :: "memory \<Rightarrow> u64 \<Rightarrow> u32" where
  "load32 m a = of_le32 (m a) (m (a + 1)) (m (a + 2)) (m (a + 3))"

definition store16 :: "memory \<Rightarrow> u64 \<Rightarrow> u16 \<Rightarrow> memory" where
  "store16 m a v = store_bytes m a (le16 v)"

definition store32 :: "memory \<Rightarrow> u64 \<Rightarrow> u32 \<Rightarrow> memory" where
  "store32 m a v = store_bytes m a (le32 v)"

text \<open>\<^verbatim>\<open>memcpy(dst, src, n)\<close> on regions that do not overlap; \<open>a - dst\<close> wraps, so it is below
  \<open>n\<close> exactly on the \<open>n\<close> bytes from \<open>dst\<close> on.\<close>

definition memcpy :: "memory \<Rightarrow> u64 \<Rightarrow> u64 \<Rightarrow> u64 \<Rightarrow> memory" where
  "memcpy m dst src n = (\<lambda>a. if a - dst < n then m (src + (a - dst)) else m a)"

lemma memcpy_inside: "a - dst < n \<Longrightarrow> memcpy m dst src n a = m (src + (a - dst))"
  by (simp add: memcpy_def)

lemma memcpy_outside: "\<not> a - dst < n \<Longrightarrow> memcpy m dst src n a = m a"
  by (simp add: memcpy_def)

lemma memcpy_at: "k < n \<Longrightarrow> memcpy m dst src n (dst + k) = m (src + k)"
  by (simp add: memcpy_def)

lemma store_bytes_outside:
  "(\<forall>i < length bs. x \<noteq> a + of_nat i) \<Longrightarrow> store_bytes m a bs x = m x"
proof (induction bs arbitrary: m a)
  case Nil
  then show ?case by simp
next
  case (Cons b bs)
  have "x \<noteq> a" using Cons.prems[rule_format, of 0] by simp
  moreover have "\<forall>i < length bs. x \<noteq> (a + 1) + of_nat i"
  proof (intro allI impI)
    fix i assume "i < length bs"
    then show "x \<noteq> (a + 1) + of_nat i"
      using Cons.prems[rule_format, of "Suc i"] by (simp add: add.assoc)
  qed
  ultimately show ?case by (simp add: Cons.IH)
qed

text \<open>Addresses relative to a base: distinct offsets below \<open>2 ^ 64\<close> are distinct addresses.\<close>

lemma offset_eq_iff:
  "i < 2 ^ 64 \<Longrightarrow> j < 2 ^ 64 \<Longrightarrow> base + of_nat i = base + (of_nat j :: u64) \<longleftrightarrow> i = j"
  by (simp add: word_of_nat_eq_iff take_bit_nat_eq_self)

lemma store_bytes_append:
  "store_bytes m a (xs @ ys) = store_bytes (store_bytes m a xs) (a + of_nat (length xs)) ys"
  by (induction xs arbitrary: m a) (simp_all add: add.assoc)

lemma store_bytes_rel:
  assumes "k + length bs \<le> 2 ^ 64" "j < 2 ^ 64"
  shows "store_bytes m (base + of_nat k) bs (base + of_nat j) =
    (if k \<le> j \<and> j < k + length bs then bs ! (j - k) else m (base + of_nat j))"
  using assms
proof (induction bs arbitrary: m k)
  case Nil
  then show ?case by auto
next
  case (Cons b bs)
  have step: "base + of_nat k + 1 = base + (of_nat (Suc k) :: u64)" by (simp add: add.assoc)
  have eq: "base + of_nat j = base + (of_nat k :: u64) \<longleftrightarrow> j = k"
    using Cons.prems by (intro offset_eq_iff) auto
  define m' where "m' = m(base + of_nat k := b)"
  have at: "m' (base + of_nat j) = (if j = k then b else m (base + of_nat j))"
    unfolding m'_def using eq by simp
  have "store_bytes m (base + of_nat k) (b # bs) = store_bytes m' (base + of_nat (Suc k)) bs"
    unfolding m'_def step[symmetric] by simp
  moreover have "store_bytes m' (base + of_nat (Suc k)) bs (base + of_nat j) =
      (if Suc k \<le> j \<and> j < Suc k + length bs then bs ! (j - Suc k) else m' (base + of_nat j))"
    using Cons.prems by (intro Cons.IH) auto
  ultimately show ?case
    by (auto simp: at nth_Cons' Suc_diff_le not_less_eq_eq)
qed

lemma memcpy_rel:
  assumes "k + n \<le> 2 ^ 64" "n < 2 ^ 64" "j < 2 ^ 64"
  shows "memcpy m (base + of_nat k) src (of_nat n) (base + of_nat j) =
    (if k \<le> j \<and> j < k + n then m (src + of_nat (j - k)) else m (base + of_nat j))"
proof (cases "k \<le> j")
  case True
  then have "base + of_nat j - (base + of_nat k) = (of_nat (j - k) :: u64)"
    by (simp add: of_nat_diff)
  moreover have "(of_nat (j - k) :: u64) < of_nat n \<longleftrightarrow> j - k < n"
    using assms by (simp add: word_of_nat_less_iff take_bit_nat_eq_self)
  ultimately show ?thesis using True by (auto simp: memcpy_def)
next
  case False
  define d where "d = 2 ^ 64 - (k - j)"
  have "(of_nat d :: u64) = of_nat j - of_nat k"
    using False assms unfolding d_def by (simp add: of_nat_diff)
  then have "base + of_nat j - (base + of_nat k) = (of_nat d :: u64)" by simp
  moreover have "n \<le> d" "d < 2 ^ 64" using assms False unfolding d_def by auto
  then have "\<not> (of_nat d :: u64) < of_nat n"
    using assms by (simp add: word_of_nat_less_iff take_bit_nat_eq_self)
  ultimately show ?thesis using False by (simp add: memcpy_def)
qed

lemma load16_store16 [simp]: "load16 (store16 m a v) a = v"
  by (simp add: load16_def store16_def le16_def of_le16_le16)

lemma load32_store32 [simp]: "load32 (store32 m a v) a = v"
  by (simp add: load32_def store32_def le32_def of_le32_le32)

subsection \<open>Option results\<close>

lemma bind_eq_SomeD:
  assumes "Option.bind m f = Some y"
  obtains x where "m = Some x" and "f x = Some y"
  using assms by (cases m) auto

lemma option_Some_ex: "(\<exists>y. m = Some y) \<longleftrightarrow> m \<noteq> None"
  by (cases m) auto

end
