(* ===== verification/Regs.thy ===== *)
theory Regs
  imports Prelude
begin

text \<open>
  The constants of \<^verbatim>\<open>sdhci.h\<close>, one abbreviation per \<^verbatim>\<open>#define\<close>, under the macro's
  own name.  An offset into the register window is a natural number; a bit mask or a field
  value is a word of any width, because the code uses the same macro on 8, 16 and 32 bit
  values.  Abbreviations are expanded by the parser, so the proofs see numerals, which the
  simplifier evaluates.
\<close>

subsection \<open>Register offsets and bit fields\<close>

abbreviation (input) SDHCI_DMA_ADDRESS :: "nat" where
  "SDHCI_DMA_ADDRESS \<equiv> 0"

abbreviation (input) SDHCI_ARGUMENT2 :: "nat" where
  "SDHCI_ARGUMENT2 \<equiv> SDHCI_DMA_ADDRESS"

abbreviation (input) SDHCI_32BIT_BLK_CNT :: "nat" where
  "SDHCI_32BIT_BLK_CNT \<equiv> SDHCI_DMA_ADDRESS"

abbreviation (input) SDHCI_BLOCK_SIZE :: "nat" where
  "SDHCI_BLOCK_SIZE \<equiv> 0x04"

abbreviation (input) SDHCI_BLOCK_COUNT :: "nat" where
  "SDHCI_BLOCK_COUNT \<equiv> 0x06"

abbreviation (input) SDHCI_ARGUMENT :: "nat" where
  "SDHCI_ARGUMENT \<equiv> 0x08"

abbreviation (input) SDHCI_TRANSFER_MODE :: "nat" where
  "SDHCI_TRANSFER_MODE \<equiv> 0x0C"

abbreviation (input) SDHCI_TRNS_DMA :: "'a::len word" where
  "SDHCI_TRNS_DMA \<equiv> 0x01"

abbreviation (input) SDHCI_TRNS_BLK_CNT_EN :: "'a::len word" where
  "SDHCI_TRNS_BLK_CNT_EN \<equiv> 0x02"

abbreviation (input) SDHCI_TRNS_AUTO_CMD12 :: "'a::len word" where
  "SDHCI_TRNS_AUTO_CMD12 \<equiv> 0x04"

abbreviation (input) SDHCI_TRNS_AUTO_CMD23 :: "'a::len word" where
  "SDHCI_TRNS_AUTO_CMD23 \<equiv> 0x08"

abbreviation (input) SDHCI_TRNS_AUTO_SEL :: "'a::len word" where
  "SDHCI_TRNS_AUTO_SEL \<equiv> 0x0C"

abbreviation (input) SDHCI_TRNS_READ :: "'a::len word" where
  "SDHCI_TRNS_READ \<equiv> 0x10"

abbreviation (input) SDHCI_TRNS_MULTI :: "'a::len word" where
  "SDHCI_TRNS_MULTI \<equiv> 0x20"

abbreviation (input) SDHCI_COMMAND :: "nat" where
  "SDHCI_COMMAND \<equiv> 0x0E"

abbreviation (input) SDHCI_CMD_RESP_MASK :: "'a::len word" where
  "SDHCI_CMD_RESP_MASK \<equiv> 0x03"

abbreviation (input) SDHCI_CMD_CRC :: "'a::len word" where
  "SDHCI_CMD_CRC \<equiv> 0x08"

abbreviation (input) SDHCI_CMD_INDEX :: "'a::len word" where
  "SDHCI_CMD_INDEX \<equiv> 0x10"

abbreviation (input) SDHCI_CMD_DATA :: "'a::len word" where
  "SDHCI_CMD_DATA \<equiv> 0x20"

abbreviation (input) SDHCI_CMD_ABORTCMD :: "'a::len word" where
  "SDHCI_CMD_ABORTCMD \<equiv> 0xC0"

abbreviation (input) SDHCI_CMD_RESP_NONE :: "'a::len word" where
  "SDHCI_CMD_RESP_NONE \<equiv> 0"

abbreviation (input) SDHCI_CMD_RESP_LONG :: "'a::len word" where
  "SDHCI_CMD_RESP_LONG \<equiv> 0x01"

abbreviation (input) SDHCI_CMD_RESP_SHORT :: "'a::len word" where
  "SDHCI_CMD_RESP_SHORT \<equiv> 0x02"

abbreviation (input) SDHCI_CMD_RESP_SHORT_BUSY :: "'a::len word" where
  "SDHCI_CMD_RESP_SHORT_BUSY \<equiv> 0x03"

abbreviation (input) SDHCI_RESPONSE :: "nat" where
  "SDHCI_RESPONSE \<equiv> 0x10"

abbreviation (input) SDHCI_BUFFER :: "nat" where
  "SDHCI_BUFFER \<equiv> 0x20"

abbreviation (input) SDHCI_PRESENT_STATE :: "nat" where
  "SDHCI_PRESENT_STATE \<equiv> 0x24"

abbreviation (input) SDHCI_CMD_INHIBIT :: "'a::len word" where
  "SDHCI_CMD_INHIBIT \<equiv> 0x00000001"

abbreviation (input) SDHCI_DATA_INHIBIT :: "'a::len word" where
  "SDHCI_DATA_INHIBIT \<equiv> 0x00000002"

abbreviation (input) SDHCI_DOING_WRITE :: "'a::len word" where
  "SDHCI_DOING_WRITE \<equiv> 0x00000100"

abbreviation (input) SDHCI_DOING_READ :: "'a::len word" where
  "SDHCI_DOING_READ \<equiv> 0x00000200"

abbreviation (input) SDHCI_SPACE_AVAILABLE :: "'a::len word" where
  "SDHCI_SPACE_AVAILABLE \<equiv> 0x00000400"

abbreviation (input) SDHCI_DATA_AVAILABLE :: "'a::len word" where
  "SDHCI_DATA_AVAILABLE \<equiv> 0x00000800"

abbreviation (input) SDHCI_CARD_PRESENT :: "'a::len word" where
  "SDHCI_CARD_PRESENT \<equiv> 0x00010000"

abbreviation (input) SDHCI_CARD_PRES_SHIFT :: "nat" where
  "SDHCI_CARD_PRES_SHIFT \<equiv> 16"

abbreviation (input) SDHCI_CD_STABLE :: "'a::len word" where
  "SDHCI_CD_STABLE \<equiv> 0x00020000"

abbreviation (input) SDHCI_CD_LVL :: "'a::len word" where
  "SDHCI_CD_LVL \<equiv> 0x00040000"

abbreviation (input) SDHCI_CD_LVL_SHIFT :: "nat" where
  "SDHCI_CD_LVL_SHIFT \<equiv> 18"

abbreviation (input) SDHCI_WRITE_PROTECT :: "'a::len word" where
  "SDHCI_WRITE_PROTECT \<equiv> 0x00080000"

abbreviation (input) SDHCI_DATA_LVL_MASK :: "'a::len word" where
  "SDHCI_DATA_LVL_MASK \<equiv> 0x00F00000"

abbreviation (input) SDHCI_DATA_LVL_SHIFT :: "nat" where
  "SDHCI_DATA_LVL_SHIFT \<equiv> 20"

abbreviation (input) SDHCI_DATA_0_LVL_MASK :: "'a::len word" where
  "SDHCI_DATA_0_LVL_MASK \<equiv> 0x00100000"

abbreviation (input) SDHCI_CMD_LVL :: "'a::len word" where
  "SDHCI_CMD_LVL \<equiv> 0x01000000"

abbreviation (input) SDHCI_HOST_CONTROL :: "nat" where
  "SDHCI_HOST_CONTROL \<equiv> 0x28"

abbreviation (input) SDHCI_CTRL_LED :: "'a::len word" where
  "SDHCI_CTRL_LED \<equiv> 0x01"

abbreviation (input) SDHCI_CTRL_4BITBUS :: "'a::len word" where
  "SDHCI_CTRL_4BITBUS \<equiv> 0x02"

abbreviation (input) SDHCI_CTRL_HISPD :: "'a::len word" where
  "SDHCI_CTRL_HISPD \<equiv> 0x04"

abbreviation (input) SDHCI_CTRL_DMA_MASK :: "'a::len word" where
  "SDHCI_CTRL_DMA_MASK \<equiv> 0x18"

abbreviation (input) SDHCI_CTRL_SDMA :: "'a::len word" where
  "SDHCI_CTRL_SDMA \<equiv> 0"

abbreviation (input) SDHCI_CTRL_ADMA1 :: "'a::len word" where
  "SDHCI_CTRL_ADMA1 \<equiv> 0x08"

abbreviation (input) SDHCI_CTRL_ADMA32 :: "'a::len word" where
  "SDHCI_CTRL_ADMA32 \<equiv> 0x10"

abbreviation (input) SDHCI_CTRL_ADMA64 :: "'a::len word" where
  "SDHCI_CTRL_ADMA64 \<equiv> 0x18"

abbreviation (input) SDHCI_CTRL_ADMA3 :: "'a::len word" where
  "SDHCI_CTRL_ADMA3 \<equiv> 0x18"

abbreviation (input) SDHCI_CTRL_8BITBUS :: "'a::len word" where
  "SDHCI_CTRL_8BITBUS \<equiv> 0x20"

abbreviation (input) SDHCI_CTRL_CDTEST_INS :: "'a::len word" where
  "SDHCI_CTRL_CDTEST_INS \<equiv> 0x40"

abbreviation (input) SDHCI_CTRL_CDTEST_EN :: "'a::len word" where
  "SDHCI_CTRL_CDTEST_EN \<equiv> 0x80"

abbreviation (input) SDHCI_POWER_CONTROL :: "nat" where
  "SDHCI_POWER_CONTROL \<equiv> 0x29"

abbreviation (input) SDHCI_POWER_ON :: "'a::len word" where
  "SDHCI_POWER_ON \<equiv> 0x01"

abbreviation (input) SDHCI_POWER_180 :: "'a::len word" where
  "SDHCI_POWER_180 \<equiv> 0x0A"

abbreviation (input) SDHCI_POWER_300 :: "'a::len word" where
  "SDHCI_POWER_300 \<equiv> 0x0C"

abbreviation (input) SDHCI_POWER_330 :: "'a::len word" where
  "SDHCI_POWER_330 \<equiv> 0x0E"

abbreviation (input) SDHCI_BLOCK_GAP_CONTROL :: "nat" where
  "SDHCI_BLOCK_GAP_CONTROL \<equiv> 0x2A"

abbreviation (input) SDHCI_WAKE_UP_CONTROL :: "nat" where
  "SDHCI_WAKE_UP_CONTROL \<equiv> 0x2B"

abbreviation (input) SDHCI_WAKE_ON_INT :: "'a::len word" where
  "SDHCI_WAKE_ON_INT \<equiv> 0x01"

abbreviation (input) SDHCI_WAKE_ON_INSERT :: "'a::len word" where
  "SDHCI_WAKE_ON_INSERT \<equiv> 0x02"

abbreviation (input) SDHCI_WAKE_ON_REMOVE :: "'a::len word" where
  "SDHCI_WAKE_ON_REMOVE \<equiv> 0x04"

abbreviation (input) SDHCI_CLOCK_CONTROL :: "nat" where
  "SDHCI_CLOCK_CONTROL \<equiv> 0x2C"

abbreviation (input) SDHCI_DIVIDER_SHIFT :: "nat" where
  "SDHCI_DIVIDER_SHIFT \<equiv> 8"

abbreviation (input) SDHCI_DIVIDER_HI_SHIFT :: "nat" where
  "SDHCI_DIVIDER_HI_SHIFT \<equiv> 6"

abbreviation (input) SDHCI_DIV_MASK :: "'a::len word" where
  "SDHCI_DIV_MASK \<equiv> 0xFF"

abbreviation (input) SDHCI_DIV_MASK_LEN :: "nat" where
  "SDHCI_DIV_MASK_LEN \<equiv> 8"

abbreviation (input) SDHCI_DIV_HI_MASK :: "'a::len word" where
  "SDHCI_DIV_HI_MASK \<equiv> 0x300"

abbreviation (input) SDHCI_PROG_CLOCK_MODE :: "'a::len word" where
  "SDHCI_PROG_CLOCK_MODE \<equiv> 0x0020"

abbreviation (input) SDHCI_CLOCK_CARD_EN :: "'a::len word" where
  "SDHCI_CLOCK_CARD_EN \<equiv> 0x0004"

abbreviation (input) SDHCI_CLOCK_PLL_EN :: "'a::len word" where
  "SDHCI_CLOCK_PLL_EN \<equiv> 0x0008"

abbreviation (input) SDHCI_CLOCK_INT_STABLE :: "'a::len word" where
  "SDHCI_CLOCK_INT_STABLE \<equiv> 0x0002"

abbreviation (input) SDHCI_CLOCK_INT_EN :: "'a::len word" where
  "SDHCI_CLOCK_INT_EN \<equiv> 0x0001"

abbreviation (input) SDHCI_TIMEOUT_CONTROL :: "nat" where
  "SDHCI_TIMEOUT_CONTROL \<equiv> 0x2E"

abbreviation (input) SDHCI_SOFTWARE_RESET :: "nat" where
  "SDHCI_SOFTWARE_RESET \<equiv> 0x2F"

abbreviation (input) SDHCI_RESET_ALL :: "'a::len word" where
  "SDHCI_RESET_ALL \<equiv> 0x01"

abbreviation (input) SDHCI_RESET_CMD :: "'a::len word" where
  "SDHCI_RESET_CMD \<equiv> 0x02"

abbreviation (input) SDHCI_RESET_DATA :: "'a::len word" where
  "SDHCI_RESET_DATA \<equiv> 0x04"

abbreviation (input) SDHCI_INT_STATUS :: "nat" where
  "SDHCI_INT_STATUS \<equiv> 0x30"

abbreviation (input) SDHCI_INT_ENABLE :: "nat" where
  "SDHCI_INT_ENABLE \<equiv> 0x34"

abbreviation (input) SDHCI_SIGNAL_ENABLE :: "nat" where
  "SDHCI_SIGNAL_ENABLE \<equiv> 0x38"

abbreviation (input) SDHCI_INT_RESPONSE :: "'a::len word" where
  "SDHCI_INT_RESPONSE \<equiv> 0x00000001"

abbreviation (input) SDHCI_INT_DATA_END :: "'a::len word" where
  "SDHCI_INT_DATA_END \<equiv> 0x00000002"

abbreviation (input) SDHCI_INT_BLK_GAP :: "'a::len word" where
  "SDHCI_INT_BLK_GAP \<equiv> 0x00000004"

abbreviation (input) SDHCI_INT_DMA_END :: "'a::len word" where
  "SDHCI_INT_DMA_END \<equiv> 0x00000008"

abbreviation (input) SDHCI_INT_SPACE_AVAIL :: "'a::len word" where
  "SDHCI_INT_SPACE_AVAIL \<equiv> 0x00000010"

abbreviation (input) SDHCI_INT_DATA_AVAIL :: "'a::len word" where
  "SDHCI_INT_DATA_AVAIL \<equiv> 0x00000020"

abbreviation (input) SDHCI_INT_CARD_INSERT :: "'a::len word" where
  "SDHCI_INT_CARD_INSERT \<equiv> 0x00000040"

abbreviation (input) SDHCI_INT_CARD_REMOVE :: "'a::len word" where
  "SDHCI_INT_CARD_REMOVE \<equiv> 0x00000080"

abbreviation (input) SDHCI_INT_CARD_INT :: "'a::len word" where
  "SDHCI_INT_CARD_INT \<equiv> 0x00000100"

abbreviation (input) SDHCI_INT_RETUNE :: "'a::len word" where
  "SDHCI_INT_RETUNE \<equiv> 0x00001000"

abbreviation (input) SDHCI_INT_CQE :: "'a::len word" where
  "SDHCI_INT_CQE \<equiv> 0x00004000"

abbreviation (input) SDHCI_INT_ERROR :: "'a::len word" where
  "SDHCI_INT_ERROR \<equiv> 0x00008000"

abbreviation (input) SDHCI_INT_TIMEOUT :: "'a::len word" where
  "SDHCI_INT_TIMEOUT \<equiv> 0x00010000"

abbreviation (input) SDHCI_INT_CRC :: "'a::len word" where
  "SDHCI_INT_CRC \<equiv> 0x00020000"

abbreviation (input) SDHCI_INT_END_BIT :: "'a::len word" where
  "SDHCI_INT_END_BIT \<equiv> 0x00040000"

abbreviation (input) SDHCI_INT_INDEX :: "'a::len word" where
  "SDHCI_INT_INDEX \<equiv> 0x00080000"

abbreviation (input) SDHCI_INT_DATA_TIMEOUT :: "'a::len word" where
  "SDHCI_INT_DATA_TIMEOUT \<equiv> 0x00100000"

abbreviation (input) SDHCI_INT_DATA_CRC :: "'a::len word" where
  "SDHCI_INT_DATA_CRC \<equiv> 0x00200000"

abbreviation (input) SDHCI_INT_DATA_END_BIT :: "'a::len word" where
  "SDHCI_INT_DATA_END_BIT \<equiv> 0x00400000"

abbreviation (input) SDHCI_INT_BUS_POWER :: "'a::len word" where
  "SDHCI_INT_BUS_POWER \<equiv> 0x00800000"

abbreviation (input) SDHCI_INT_AUTO_CMD_ERR :: "'a::len word" where
  "SDHCI_INT_AUTO_CMD_ERR \<equiv> 0x01000000"

abbreviation (input) SDHCI_INT_ADMA_ERROR :: "'a::len word" where
  "SDHCI_INT_ADMA_ERROR \<equiv> 0x02000000"

abbreviation (input) SDHCI_INT_NORMAL_MASK :: "'a::len word" where
  "SDHCI_INT_NORMAL_MASK \<equiv> 0x00007FFF"

abbreviation (input) SDHCI_INT_ERROR_MASK :: "'a::len word" where
  "SDHCI_INT_ERROR_MASK \<equiv> 0xFFFF8000"

abbreviation (input) SDHCI_INT_CMD_MASK :: "'a::len word" where
  "SDHCI_INT_CMD_MASK \<equiv> SDHCI_INT_RESPONSE OR SDHCI_INT_TIMEOUT OR SDHCI_INT_CRC OR SDHCI_INT_END_BIT OR SDHCI_INT_INDEX OR SDHCI_INT_AUTO_CMD_ERR"

abbreviation (input) SDHCI_INT_DATA_MASK :: "'a::len word" where
  "SDHCI_INT_DATA_MASK \<equiv> SDHCI_INT_DATA_END OR SDHCI_INT_DMA_END OR SDHCI_INT_DATA_AVAIL OR SDHCI_INT_SPACE_AVAIL OR SDHCI_INT_DATA_TIMEOUT OR SDHCI_INT_DATA_CRC OR SDHCI_INT_DATA_END_BIT OR SDHCI_INT_ADMA_ERROR OR SDHCI_INT_BLK_GAP"

abbreviation (input) SDHCI_CQE_INT_ERR_MASK :: "'a::len word" where
  "SDHCI_CQE_INT_ERR_MASK \<equiv> SDHCI_INT_ADMA_ERROR OR SDHCI_INT_BUS_POWER OR SDHCI_INT_DATA_END_BIT OR SDHCI_INT_DATA_CRC OR SDHCI_INT_DATA_TIMEOUT OR SDHCI_INT_INDEX OR SDHCI_INT_END_BIT OR SDHCI_INT_CRC OR SDHCI_INT_TIMEOUT"

abbreviation (input) SDHCI_CQE_INT_MASK :: "'a::len word" where
  "SDHCI_CQE_INT_MASK \<equiv> SDHCI_CQE_INT_ERR_MASK OR SDHCI_INT_CQE"

abbreviation (input) SDHCI_AUTO_CMD_STATUS :: "nat" where
  "SDHCI_AUTO_CMD_STATUS \<equiv> 0x3C"

abbreviation (input) SDHCI_AUTO_CMD_TIMEOUT :: "'a::len word" where
  "SDHCI_AUTO_CMD_TIMEOUT \<equiv> 0x00000002"

abbreviation (input) SDHCI_AUTO_CMD_CRC :: "'a::len word" where
  "SDHCI_AUTO_CMD_CRC \<equiv> 0x00000004"

abbreviation (input) SDHCI_AUTO_CMD_END_BIT :: "'a::len word" where
  "SDHCI_AUTO_CMD_END_BIT \<equiv> 0x00000008"

abbreviation (input) SDHCI_AUTO_CMD_INDEX :: "'a::len word" where
  "SDHCI_AUTO_CMD_INDEX \<equiv> 0x00000010"

abbreviation (input) SDHCI_HOST_CONTROL2 :: "nat" where
  "SDHCI_HOST_CONTROL2 \<equiv> 0x3E"

abbreviation (input) SDHCI_CTRL_UHS_MASK :: "'a::len word" where
  "SDHCI_CTRL_UHS_MASK \<equiv> 0x0007"

abbreviation (input) SDHCI_CTRL_UHS_SDR12 :: "'a::len word" where
  "SDHCI_CTRL_UHS_SDR12 \<equiv> 0"

abbreviation (input) SDHCI_CTRL_UHS_SDR25 :: "'a::len word" where
  "SDHCI_CTRL_UHS_SDR25 \<equiv> 0x0001"

abbreviation (input) SDHCI_CTRL_UHS_SDR50 :: "'a::len word" where
  "SDHCI_CTRL_UHS_SDR50 \<equiv> 0x0002"

abbreviation (input) SDHCI_CTRL_UHS_SDR104 :: "'a::len word" where
  "SDHCI_CTRL_UHS_SDR104 \<equiv> 0x0003"

abbreviation (input) SDHCI_CTRL_UHS_DDR50 :: "'a::len word" where
  "SDHCI_CTRL_UHS_DDR50 \<equiv> 0x0004"

abbreviation (input) SDHCI_CTRL_HS400 :: "'a::len word" where
  "SDHCI_CTRL_HS400 \<equiv> 0x0005"

abbreviation (input) SDHCI_CTRL_VDD_180 :: "'a::len word" where
  "SDHCI_CTRL_VDD_180 \<equiv> 0x0008"

abbreviation (input) SDHCI_CTRL_DRV_TYPE_MASK :: "'a::len word" where
  "SDHCI_CTRL_DRV_TYPE_MASK \<equiv> 0x0030"

abbreviation (input) SDHCI_CTRL_DRV_TYPE_B :: "'a::len word" where
  "SDHCI_CTRL_DRV_TYPE_B \<equiv> 0"

abbreviation (input) SDHCI_CTRL_DRV_TYPE_A :: "'a::len word" where
  "SDHCI_CTRL_DRV_TYPE_A \<equiv> 0x0010"

abbreviation (input) SDHCI_CTRL_DRV_TYPE_C :: "'a::len word" where
  "SDHCI_CTRL_DRV_TYPE_C \<equiv> 0x0020"

abbreviation (input) SDHCI_CTRL_DRV_TYPE_D :: "'a::len word" where
  "SDHCI_CTRL_DRV_TYPE_D \<equiv> 0x0030"

abbreviation (input) SDHCI_CTRL_EXEC_TUNING :: "'a::len word" where
  "SDHCI_CTRL_EXEC_TUNING \<equiv> 0x0040"

abbreviation (input) SDHCI_CTRL_TUNED_CLK :: "'a::len word" where
  "SDHCI_CTRL_TUNED_CLK \<equiv> 0x0080"

abbreviation (input) SDHCI_CMD23_ENABLE :: "'a::len word" where
  "SDHCI_CMD23_ENABLE \<equiv> 0x0800"

abbreviation (input) SDHCI_CTRL_V4_MODE :: "'a::len word" where
  "SDHCI_CTRL_V4_MODE \<equiv> 0x1000"

abbreviation (input) SDHCI_CTRL_64BIT_ADDR :: "'a::len word" where
  "SDHCI_CTRL_64BIT_ADDR \<equiv> 0x2000"

abbreviation (input) SDHCI_CTRL_PRESET_VAL_ENABLE :: "'a::len word" where
  "SDHCI_CTRL_PRESET_VAL_ENABLE \<equiv> 0x8000"

abbreviation (input) SDHCI_CAPABILITIES :: "nat" where
  "SDHCI_CAPABILITIES \<equiv> 0x40"

abbreviation (input) SDHCI_TIMEOUT_CLK_MASK :: "'a::len word" where
  "SDHCI_TIMEOUT_CLK_MASK \<equiv> 0x3f"

abbreviation (input) SDHCI_TIMEOUT_CLK_UNIT :: "'a::len word" where
  "SDHCI_TIMEOUT_CLK_UNIT \<equiv> 0x00000080"

abbreviation (input) SDHCI_CLOCK_BASE_MASK :: "'a::len word" where
  "SDHCI_CLOCK_BASE_MASK \<equiv> 0x3f00"

abbreviation (input) SDHCI_CLOCK_V3_BASE_MASK :: "'a::len word" where
  "SDHCI_CLOCK_V3_BASE_MASK \<equiv> 0xff00"

abbreviation (input) SDHCI_MAX_BLOCK_MASK :: "'a::len word" where
  "SDHCI_MAX_BLOCK_MASK \<equiv> 0x00030000"

abbreviation (input) SDHCI_MAX_BLOCK_SHIFT :: "nat" where
  "SDHCI_MAX_BLOCK_SHIFT \<equiv> 16"

abbreviation (input) SDHCI_CAN_DO_8BIT :: "'a::len word" where
  "SDHCI_CAN_DO_8BIT \<equiv> 0x00040000"

abbreviation (input) SDHCI_CAN_DO_ADMA2 :: "'a::len word" where
  "SDHCI_CAN_DO_ADMA2 \<equiv> 0x00080000"

abbreviation (input) SDHCI_CAN_DO_ADMA1 :: "'a::len word" where
  "SDHCI_CAN_DO_ADMA1 \<equiv> 0x00100000"

abbreviation (input) SDHCI_CAN_DO_HISPD :: "'a::len word" where
  "SDHCI_CAN_DO_HISPD \<equiv> 0x00200000"

abbreviation (input) SDHCI_CAN_DO_SDMA :: "'a::len word" where
  "SDHCI_CAN_DO_SDMA \<equiv> 0x00400000"

abbreviation (input) SDHCI_CAN_DO_SUSPEND :: "'a::len word" where
  "SDHCI_CAN_DO_SUSPEND \<equiv> 0x00800000"

abbreviation (input) SDHCI_CAN_VDD_330 :: "'a::len word" where
  "SDHCI_CAN_VDD_330 \<equiv> 0x01000000"

abbreviation (input) SDHCI_CAN_VDD_300 :: "'a::len word" where
  "SDHCI_CAN_VDD_300 \<equiv> 0x02000000"

abbreviation (input) SDHCI_CAN_VDD_180 :: "'a::len word" where
  "SDHCI_CAN_VDD_180 \<equiv> 0x04000000"

abbreviation (input) SDHCI_CAN_64BIT_V4 :: "'a::len word" where
  "SDHCI_CAN_64BIT_V4 \<equiv> 0x08000000"

abbreviation (input) SDHCI_CAN_64BIT :: "'a::len word" where
  "SDHCI_CAN_64BIT \<equiv> 0x10000000"

abbreviation (input) SDHCI_CAPABILITIES_1 :: "nat" where
  "SDHCI_CAPABILITIES_1 \<equiv> 0x44"

abbreviation (input) SDHCI_SUPPORT_SDR50 :: "'a::len word" where
  "SDHCI_SUPPORT_SDR50 \<equiv> 0x00000001"

abbreviation (input) SDHCI_SUPPORT_SDR104 :: "'a::len word" where
  "SDHCI_SUPPORT_SDR104 \<equiv> 0x00000002"

abbreviation (input) SDHCI_SUPPORT_DDR50 :: "'a::len word" where
  "SDHCI_SUPPORT_DDR50 \<equiv> 0x00000004"

abbreviation (input) SDHCI_DRIVER_TYPE_A :: "'a::len word" where
  "SDHCI_DRIVER_TYPE_A \<equiv> 0x00000010"

abbreviation (input) SDHCI_DRIVER_TYPE_C :: "'a::len word" where
  "SDHCI_DRIVER_TYPE_C \<equiv> 0x00000020"

abbreviation (input) SDHCI_DRIVER_TYPE_D :: "'a::len word" where
  "SDHCI_DRIVER_TYPE_D \<equiv> 0x00000040"

abbreviation (input) SDHCI_RETUNING_TIMER_COUNT_MASK :: "'a::len word" where
  "SDHCI_RETUNING_TIMER_COUNT_MASK \<equiv> 0xf00"

abbreviation (input) SDHCI_USE_SDR50_TUNING :: "'a::len word" where
  "SDHCI_USE_SDR50_TUNING \<equiv> 0x00002000"

abbreviation (input) SDHCI_RETUNING_MODE_MASK :: "'a::len word" where
  "SDHCI_RETUNING_MODE_MASK \<equiv> 0xc000"

abbreviation (input) SDHCI_CLOCK_MUL_MASK :: "'a::len word" where
  "SDHCI_CLOCK_MUL_MASK \<equiv> 0xff0000"

abbreviation (input) SDHCI_CAN_DO_ADMA3 :: "'a::len word" where
  "SDHCI_CAN_DO_ADMA3 \<equiv> 0x08000000"

abbreviation (input) SDHCI_SUPPORT_HS400 :: "'a::len word" where
  "SDHCI_SUPPORT_HS400 \<equiv> 0x80000000"

abbreviation (input) SDHCI_MAX_CURRENT :: "nat" where
  "SDHCI_MAX_CURRENT \<equiv> 0x48"

abbreviation (input) SDHCI_MAX_CURRENT_LIMIT :: "'a::len word" where
  "SDHCI_MAX_CURRENT_LIMIT \<equiv> 0xff"

abbreviation (input) SDHCI_MAX_CURRENT_330_MASK :: "'a::len word" where
  "SDHCI_MAX_CURRENT_330_MASK \<equiv> 0xff"

abbreviation (input) SDHCI_MAX_CURRENT_300_MASK :: "'a::len word" where
  "SDHCI_MAX_CURRENT_300_MASK \<equiv> 0xff00"

abbreviation (input) SDHCI_MAX_CURRENT_180_MASK :: "'a::len word" where
  "SDHCI_MAX_CURRENT_180_MASK \<equiv> 0xff0000"

abbreviation (input) SDHCI_MAX_CURRENT_MULTIPLIER :: "'a::len word" where
  "SDHCI_MAX_CURRENT_MULTIPLIER \<equiv> 4"

abbreviation (input) SDHCI_SET_ACMD12_ERROR :: "nat" where
  "SDHCI_SET_ACMD12_ERROR \<equiv> 0x50"

abbreviation (input) SDHCI_SET_INT_ERROR :: "nat" where
  "SDHCI_SET_INT_ERROR \<equiv> 0x52"

abbreviation (input) SDHCI_ADMA_ERROR :: "nat" where
  "SDHCI_ADMA_ERROR \<equiv> 0x54"

abbreviation (input) SDHCI_ADMA_ADDRESS :: "nat" where
  "SDHCI_ADMA_ADDRESS \<equiv> 0x58"

abbreviation (input) SDHCI_ADMA_ADDRESS_HI :: "nat" where
  "SDHCI_ADMA_ADDRESS_HI \<equiv> 0x5C"

abbreviation (input) SDHCI_PRESET_FOR_SDR12 :: "nat" where
  "SDHCI_PRESET_FOR_SDR12 \<equiv> 0x66"

abbreviation (input) SDHCI_PRESET_FOR_SDR25 :: "nat" where
  "SDHCI_PRESET_FOR_SDR25 \<equiv> 0x68"

abbreviation (input) SDHCI_PRESET_FOR_SDR50 :: "nat" where
  "SDHCI_PRESET_FOR_SDR50 \<equiv> 0x6A"

abbreviation (input) SDHCI_PRESET_FOR_SDR104 :: "nat" where
  "SDHCI_PRESET_FOR_SDR104 \<equiv> 0x6C"

abbreviation (input) SDHCI_PRESET_FOR_DDR50 :: "nat" where
  "SDHCI_PRESET_FOR_DDR50 \<equiv> 0x6E"

abbreviation (input) SDHCI_PRESET_FOR_HS400 :: "nat" where
  "SDHCI_PRESET_FOR_HS400 \<equiv> 0x74"

abbreviation (input) SDHCI_PRESET_DRV_MASK :: "'a::len word" where
  "SDHCI_PRESET_DRV_MASK \<equiv> 0xc000"

abbreviation (input) SDHCI_PRESET_CLKGEN_SEL :: "'a::len word" where
  "SDHCI_PRESET_CLKGEN_SEL \<equiv> 0x400"

abbreviation (input) SDHCI_PRESET_SDCLK_FREQ_MASK :: "'a::len word" where
  "SDHCI_PRESET_SDCLK_FREQ_MASK \<equiv> 0x3ff"

abbreviation (input) SDHCI_SLOT_INT_STATUS :: "nat" where
  "SDHCI_SLOT_INT_STATUS \<equiv> 0xFC"

abbreviation (input) SDHCI_HOST_VERSION :: "nat" where
  "SDHCI_HOST_VERSION \<equiv> 0xFE"

abbreviation (input) SDHCI_VENDOR_VER_MASK :: "'a::len word" where
  "SDHCI_VENDOR_VER_MASK \<equiv> 0xFF00"

abbreviation (input) SDHCI_VENDOR_VER_SHIFT :: "nat" where
  "SDHCI_VENDOR_VER_SHIFT \<equiv> 8"

abbreviation (input) SDHCI_SPEC_VER_MASK :: "'a::len word" where
  "SDHCI_SPEC_VER_MASK \<equiv> 0x00FF"

abbreviation (input) SDHCI_SPEC_VER_SHIFT :: "nat" where
  "SDHCI_SPEC_VER_SHIFT \<equiv> 0"

abbreviation (input) SDHCI_SPEC_100 :: "'a::len word" where
  "SDHCI_SPEC_100 \<equiv> 0"

abbreviation (input) SDHCI_SPEC_200 :: "'a::len word" where
  "SDHCI_SPEC_200 \<equiv> 1"

abbreviation (input) SDHCI_SPEC_300 :: "'a::len word" where
  "SDHCI_SPEC_300 \<equiv> 2"

abbreviation (input) SDHCI_SPEC_400 :: "'a::len word" where
  "SDHCI_SPEC_400 \<equiv> 3"

abbreviation (input) SDHCI_SPEC_410 :: "'a::len word" where
  "SDHCI_SPEC_410 \<equiv> 4"

abbreviation (input) SDHCI_SPEC_420 :: "'a::len word" where
  "SDHCI_SPEC_420 \<equiv> 5"

subsection \<open>Clock divider limits\<close>

abbreviation (input) SDHCI_MAX_DIV_SPEC_200 :: "nat" where
  "SDHCI_MAX_DIV_SPEC_200 \<equiv> 256"

abbreviation (input) SDHCI_MAX_DIV_SPEC_300 :: "nat" where
  "SDHCI_MAX_DIV_SPEC_300 \<equiv> 2046"

subsection \<open>ADMA2 descriptors\<close>

abbreviation (input) SDHCI_ADMA2_32_DESC_SZ :: "'a::len word" where
  "SDHCI_ADMA2_32_DESC_SZ \<equiv> 8"

abbreviation (input) SDHCI_ADMA2_ALIGN :: "'a::len word" where
  "SDHCI_ADMA2_ALIGN \<equiv> 4"

abbreviation (input) SDHCI_ADMA2_MASK :: "'a::len word" where
  "SDHCI_ADMA2_MASK \<equiv> SDHCI_ADMA2_ALIGN - 1"

abbreviation (input) SDHCI_ADMA2_DESC_ALIGN :: "'a::len word" where
  "SDHCI_ADMA2_DESC_ALIGN \<equiv> 8"

abbreviation (input) ADMA2_TRAN_VALID :: "'a::len word" where
  "ADMA2_TRAN_VALID \<equiv> 0x21"

abbreviation (input) ADMA2_NOP_END_VALID :: "'a::len word" where
  "ADMA2_NOP_END_VALID \<equiv> 0x3"

abbreviation (input) ADMA2_END :: "'a::len word" where
  "ADMA2_END \<equiv> 0x2"

subsection \<open>Quirk bits\<close>

abbreviation (input) SDHCI_QUIRK_CLOCK_BEFORE_RESET :: "'a::len word" where
  "SDHCI_QUIRK_CLOCK_BEFORE_RESET \<equiv> 0x1"

abbreviation (input) SDHCI_QUIRK_FORCE_DMA :: "'a::len word" where
  "SDHCI_QUIRK_FORCE_DMA \<equiv> 0x2"

abbreviation (input) SDHCI_QUIRK_NO_CARD_NO_RESET :: "'a::len word" where
  "SDHCI_QUIRK_NO_CARD_NO_RESET \<equiv> 0x4"

abbreviation (input) SDHCI_QUIRK_SINGLE_POWER_WRITE :: "'a::len word" where
  "SDHCI_QUIRK_SINGLE_POWER_WRITE \<equiv> 0x8"

abbreviation (input) SDHCI_QUIRK_RESET_CMD_DATA_ON_IOS :: "'a::len word" where
  "SDHCI_QUIRK_RESET_CMD_DATA_ON_IOS \<equiv> 0x10"

abbreviation (input) SDHCI_QUIRK_BROKEN_DMA :: "'a::len word" where
  "SDHCI_QUIRK_BROKEN_DMA \<equiv> 0x20"

abbreviation (input) SDHCI_QUIRK_BROKEN_ADMA :: "'a::len word" where
  "SDHCI_QUIRK_BROKEN_ADMA \<equiv> 0x40"

abbreviation (input) SDHCI_QUIRK_32BIT_DMA_ADDR :: "'a::len word" where
  "SDHCI_QUIRK_32BIT_DMA_ADDR \<equiv> 0x80"

abbreviation (input) SDHCI_QUIRK_32BIT_DMA_SIZE :: "'a::len word" where
  "SDHCI_QUIRK_32BIT_DMA_SIZE \<equiv> 0x100"

abbreviation (input) SDHCI_QUIRK_32BIT_ADMA_SIZE :: "'a::len word" where
  "SDHCI_QUIRK_32BIT_ADMA_SIZE \<equiv> 0x200"

abbreviation (input) SDHCI_QUIRK_RESET_AFTER_REQUEST :: "'a::len word" where
  "SDHCI_QUIRK_RESET_AFTER_REQUEST \<equiv> 0x400"

abbreviation (input) SDHCI_QUIRK_NO_SIMULT_VDD_AND_POWER :: "'a::len word" where
  "SDHCI_QUIRK_NO_SIMULT_VDD_AND_POWER \<equiv> 0x800"

abbreviation (input) SDHCI_QUIRK_BROKEN_TIMEOUT_VAL :: "'a::len word" where
  "SDHCI_QUIRK_BROKEN_TIMEOUT_VAL \<equiv> 0x1000"

abbreviation (input) SDHCI_QUIRK_BROKEN_SMALL_PIO :: "'a::len word" where
  "SDHCI_QUIRK_BROKEN_SMALL_PIO \<equiv> 0x2000"

abbreviation (input) SDHCI_QUIRK_NO_BUSY_IRQ :: "'a::len word" where
  "SDHCI_QUIRK_NO_BUSY_IRQ \<equiv> 0x4000"

abbreviation (input) SDHCI_QUIRK_BROKEN_CARD_DETECTION :: "'a::len word" where
  "SDHCI_QUIRK_BROKEN_CARD_DETECTION \<equiv> 0x8000"

abbreviation (input) SDHCI_QUIRK_INVERTED_WRITE_PROTECT :: "'a::len word" where
  "SDHCI_QUIRK_INVERTED_WRITE_PROTECT \<equiv> 0x10000"

abbreviation (input) SDHCI_QUIRK_BROKEN_CQE :: "'a::len word" where
  "SDHCI_QUIRK_BROKEN_CQE \<equiv> 0x20000"

abbreviation (input) SDHCI_QUIRK_PIO_NEEDS_DELAY :: "'a::len word" where
  "SDHCI_QUIRK_PIO_NEEDS_DELAY \<equiv> 0x40000"

abbreviation (input) SDHCI_QUIRK_NO_LED :: "'a::len word" where
  "SDHCI_QUIRK_NO_LED \<equiv> 0x80000"

abbreviation (input) SDHCI_QUIRK_FORCE_BLK_SZ_2048 :: "'a::len word" where
  "SDHCI_QUIRK_FORCE_BLK_SZ_2048 \<equiv> 0x100000"

abbreviation (input) SDHCI_QUIRK_NO_MULTIBLOCK :: "'a::len word" where
  "SDHCI_QUIRK_NO_MULTIBLOCK \<equiv> 0x200000"

abbreviation (input) SDHCI_QUIRK_FORCE_1_BIT_DATA :: "'a::len word" where
  "SDHCI_QUIRK_FORCE_1_BIT_DATA \<equiv> 0x400000"

abbreviation (input) SDHCI_QUIRK_DELAY_AFTER_POWER :: "'a::len word" where
  "SDHCI_QUIRK_DELAY_AFTER_POWER \<equiv> 0x800000"

abbreviation (input) SDHCI_QUIRK_DATA_TIMEOUT_USES_SDCLK :: "'a::len word" where
  "SDHCI_QUIRK_DATA_TIMEOUT_USES_SDCLK \<equiv> 0x1000000"

abbreviation (input) SDHCI_QUIRK_CAP_CLOCK_BASE_BROKEN :: "'a::len word" where
  "SDHCI_QUIRK_CAP_CLOCK_BASE_BROKEN \<equiv> 0x2000000"

abbreviation (input) SDHCI_QUIRK_NO_ENDATTR_IN_NOPDESC :: "'a::len word" where
  "SDHCI_QUIRK_NO_ENDATTR_IN_NOPDESC \<equiv> 0x4000000"

abbreviation (input) SDHCI_QUIRK_MISSING_CAPS :: "'a::len word" where
  "SDHCI_QUIRK_MISSING_CAPS \<equiv> 0x8000000"

abbreviation (input) SDHCI_QUIRK_MULTIBLOCK_READ_ACMD12 :: "'a::len word" where
  "SDHCI_QUIRK_MULTIBLOCK_READ_ACMD12 \<equiv> 0x10000000"

abbreviation (input) SDHCI_QUIRK_NO_HISPD_BIT :: "'a::len word" where
  "SDHCI_QUIRK_NO_HISPD_BIT \<equiv> 0x20000000"

abbreviation (input) SDHCI_QUIRK_BROKEN_ADMA_ZEROLEN_DESC :: "'a::len word" where
  "SDHCI_QUIRK_BROKEN_ADMA_ZEROLEN_DESC \<equiv> 0x40000000"

abbreviation (input) SDHCI_QUIRK_UNSTABLE_RO_DETECT :: "'a::len word" where
  "SDHCI_QUIRK_UNSTABLE_RO_DETECT \<equiv> 0x80000000"

abbreviation (input) SDHCI_QUIRK2_HOST_OFF_CARD_ON :: "'a::len word" where
  "SDHCI_QUIRK2_HOST_OFF_CARD_ON \<equiv> 0x1"

abbreviation (input) SDHCI_QUIRK2_HOST_NO_CMD23 :: "'a::len word" where
  "SDHCI_QUIRK2_HOST_NO_CMD23 \<equiv> 0x2"

abbreviation (input) SDHCI_QUIRK2_NO_1_8_V :: "'a::len word" where
  "SDHCI_QUIRK2_NO_1_8_V \<equiv> 0x4"

abbreviation (input) SDHCI_QUIRK2_PRESET_VALUE_BROKEN :: "'a::len word" where
  "SDHCI_QUIRK2_PRESET_VALUE_BROKEN \<equiv> 0x8"

abbreviation (input) SDHCI_QUIRK2_CARD_ON_NEEDS_BUS_ON :: "'a::len word" where
  "SDHCI_QUIRK2_CARD_ON_NEEDS_BUS_ON \<equiv> 0x10"

abbreviation (input) SDHCI_QUIRK2_BROKEN_HOST_CONTROL :: "'a::len word" where
  "SDHCI_QUIRK2_BROKEN_HOST_CONTROL \<equiv> 0x20"

abbreviation (input) SDHCI_QUIRK2_BROKEN_HS200 :: "'a::len word" where
  "SDHCI_QUIRK2_BROKEN_HS200 \<equiv> 0x40"

abbreviation (input) SDHCI_QUIRK2_BROKEN_DDR50 :: "'a::len word" where
  "SDHCI_QUIRK2_BROKEN_DDR50 \<equiv> 0x80"

abbreviation (input) SDHCI_QUIRK2_STOP_WITH_TC :: "'a::len word" where
  "SDHCI_QUIRK2_STOP_WITH_TC \<equiv> 0x100"

abbreviation (input) SDHCI_QUIRK2_BROKEN_64_BIT_DMA :: "'a::len word" where
  "SDHCI_QUIRK2_BROKEN_64_BIT_DMA \<equiv> 0x200"

abbreviation (input) SDHCI_QUIRK2_CLEAR_TRANSFERMODE_REG_BEFORE_CMD :: "'a::len word" where
  "SDHCI_QUIRK2_CLEAR_TRANSFERMODE_REG_BEFORE_CMD \<equiv> 0x400"

abbreviation (input) SDHCI_QUIRK2_CAPS_BIT63_FOR_HS400 :: "'a::len word" where
  "SDHCI_QUIRK2_CAPS_BIT63_FOR_HS400 \<equiv> 0x800"

abbreviation (input) SDHCI_QUIRK2_TUNING_WORK_AROUND :: "'a::len word" where
  "SDHCI_QUIRK2_TUNING_WORK_AROUND \<equiv> 0x1000"

abbreviation (input) SDHCI_QUIRK2_SUPPORT_SINGLE :: "'a::len word" where
  "SDHCI_QUIRK2_SUPPORT_SINGLE \<equiv> 0x2000"

abbreviation (input) SDHCI_QUIRK2_ACMD23_BROKEN :: "'a::len word" where
  "SDHCI_QUIRK2_ACMD23_BROKEN \<equiv> 0x4000"

abbreviation (input) SDHCI_QUIRK2_CLOCK_DIV_ZERO_BROKEN :: "'a::len word" where
  "SDHCI_QUIRK2_CLOCK_DIV_ZERO_BROKEN \<equiv> 0x8000"

abbreviation (input) SDHCI_QUIRK2_RSP_136_HAS_CRC :: "'a::len word" where
  "SDHCI_QUIRK2_RSP_136_HAS_CRC \<equiv> 0x10000"

abbreviation (input) SDHCI_QUIRK2_DISABLE_HW_TIMEOUT :: "'a::len word" where
  "SDHCI_QUIRK2_DISABLE_HW_TIMEOUT \<equiv> 0x20000"

abbreviation (input) SDHCI_QUIRK2_USE_32BIT_BLK_CNT :: "'a::len word" where
  "SDHCI_QUIRK2_USE_32BIT_BLK_CNT \<equiv> 0x40000"

subsection \<open>Host attribute bits\<close>

abbreviation (input) SDHCI_USE_SDMA :: "'a::len word" where
  "SDHCI_USE_SDMA \<equiv> 0x1"

abbreviation (input) SDHCI_USE_ADMA :: "'a::len word" where
  "SDHCI_USE_ADMA \<equiv> 0x2"

abbreviation (input) SDHCI_REQ_USE_DMA :: "'a::len word" where
  "SDHCI_REQ_USE_DMA \<equiv> 0x4"

abbreviation (input) SDHCI_DEVICE_DEAD :: "'a::len word" where
  "SDHCI_DEVICE_DEAD \<equiv> 0x8"

abbreviation (input) SDHCI_SDR50_NEEDS_TUNING :: "'a::len word" where
  "SDHCI_SDR50_NEEDS_TUNING \<equiv> 0x10"

abbreviation (input) SDHCI_AUTO_CMD12 :: "'a::len word" where
  "SDHCI_AUTO_CMD12 \<equiv> 0x40"

abbreviation (input) SDHCI_AUTO_CMD23 :: "'a::len word" where
  "SDHCI_AUTO_CMD23 \<equiv> 0x80"

abbreviation (input) SDHCI_PV_ENABLED :: "'a::len word" where
  "SDHCI_PV_ENABLED \<equiv> 0x100"

abbreviation (input) SDHCI_USE_64_BIT_DMA :: "'a::len word" where
  "SDHCI_USE_64_BIT_DMA \<equiv> 0x1000"

abbreviation (input) SDHCI_HS400_TUNING :: "'a::len word" where
  "SDHCI_HS400_TUNING \<equiv> 0x2000"

abbreviation (input) SDHCI_SIGNALING_330 :: "'a::len word" where
  "SDHCI_SIGNALING_330 \<equiv> 0x4000"

abbreviation (input) SDHCI_SIGNALING_180 :: "'a::len word" where
  "SDHCI_SIGNALING_180 \<equiv> 0x8000"

abbreviation (input) SDHCI_SIGNALING_120 :: "'a::len word" where
  "SDHCI_SIGNALING_120 \<equiv> 0x10000"

subsection \<open>Re-tuning modes\<close>

abbreviation (input) SDHCI_TUNING_MODE_1 :: "'a::len word" where
  "SDHCI_TUNING_MODE_1 \<equiv> 0"

abbreviation (input) SDHCI_TUNING_MODE_2 :: "'a::len word" where
  "SDHCI_TUNING_MODE_2 \<equiv> 1"

abbreviation (input) SDHCI_TUNING_MODE_3 :: "'a::len word" where
  "SDHCI_TUNING_MODE_3 \<equiv> 2"

subsection \<open>Function-like macros\<close>

definition SDHCI_MAKE_BLKSZ :: "u32 \<Rightarrow> u32 \<Rightarrow> u16" where
  "SDHCI_MAKE_BLKSZ dma blksz = ucast (push_bit 12 (dma AND 0x7) OR (blksz AND 0xFFF))"

definition SDHCI_MAKE_CMD :: "u32 \<Rightarrow> u32 \<Rightarrow> u16" where
  "SDHCI_MAKE_CMD c f = ucast (push_bit 8 (c AND 0xff) OR (f AND 0xff))"

definition SDHCI_GET_CMD :: "u16 \<Rightarrow> u32" where
  "SDHCI_GET_CMD c = ucast (drop_bit 8 c AND 0x3f)"

definition SDHCI_MAX_SEGS :: nat where
  "SDHCI_MAX_SEGS = 128"

definition SDHCI_MAX_MRQS :: nat where
  "SDHCI_MAX_MRQS = 2"

definition SDHCI_DEFAULT_BOUNDARY_SIZE :: "'a::len word" where
  "SDHCI_DEFAULT_BOUNDARY_SIZE = 512 * 1024"

text \<open>The command register as the interrupt handler reads it back.\<close>

lemma SDHCI_GET_MAKE_CMD:
  "SDHCI_GET_CMD (SDHCI_MAKE_CMD c f) = c AND 0x3f"
proof -
  have m: "(0xff :: u32) = mask 8" "(0x3f :: u32) = mask 6" "(0x3f :: u16) = mask 6"
    by (simp_all add: mask_eq_exp_minus_1)
  show ?thesis
    unfolding SDHCI_GET_CMD_def SDHCI_MAKE_CMD_def m
    by (rule bit_word_eqI) (auto simp: bit_simps)
qed

end
