(* ===== verification/Mmc.thy ===== *)
theory Mmc
  imports Regs
begin

text \<open>
  The request interface between the MMC core and the driver (\<^verbatim>\<open>port/osdep/mmc/mmc.h\<close>,
  \<^verbatim>\<open>port/osdep/_sys/sg.h\<close>): commands, data descriptors, requests, scatter lists and bus
  settings.  Objects the C code reaches through pointers have an identity: a pointer to a
  command, a data descriptor or a request is a natural number, NULL is \<open>None\<close>, and the
  objects themselves live in the stores of the world state.

  The numbers behind the enumerations of the MMC core (\<^verbatim>\<open>drivers/mmcsd_core.h\<close> of RT-Thread)
  are not part of this repository, so an enumeration is a datatype and a direction flag is a
  boolean.  Only the command numbers, which reach the command register, are numerals: they
  are fixed by the SD and MMC standards.
\<close>

type_synonym cmdp = nat
type_synonym datap = nat
type_synonym mrqp = nat

subsection \<open>Error numbers\<close>

text \<open>\<open>Some e\<close> in an error field is the negative number \<^verbatim>\<open>-e\<close>; \<open>None\<close> is 0.\<close>

datatype errno =
    EIO | ENOSPC | ENOMEDIUM | ETIMEDOUT | EILSEQ | EINVAL | ENOMEM | EBUSY | EAGAIN
  | ENODEV | ENOSYS | EOPNOTSUPP | EPROBE_DEFER | EOTHER nat

subsection \<open>Response flags of a command\<close>

abbreviation (input) MMC_RSP_PRESENT :: u32 where "MMC_RSP_PRESENT \<equiv> 0x10000"

abbreviation (input) MMC_RSP_136 :: u32 where "MMC_RSP_136 \<equiv> 0x20000"

abbreviation (input) MMC_RSP_CRC :: u32 where "MMC_RSP_CRC \<equiv> 0x40000"

abbreviation (input) MMC_RSP_BUSY :: u32 where "MMC_RSP_BUSY \<equiv> 0x80000"

abbreviation (input) MMC_RSP_OPCODE :: u32 where "MMC_RSP_OPCODE \<equiv> 0x100000"

abbreviation (input) MMC_RSP_NONE :: u32 where "MMC_RSP_NONE \<equiv> 0"

abbreviation (input) MMC_RSP_R1 :: u32 where
  "MMC_RSP_R1 \<equiv> MMC_RSP_PRESENT OR MMC_RSP_CRC OR MMC_RSP_OPCODE"

abbreviation (input) MMC_RSP_R1B :: u32 where
  "MMC_RSP_R1B \<equiv> MMC_RSP_PRESENT OR MMC_RSP_CRC OR MMC_RSP_OPCODE OR MMC_RSP_BUSY"

abbreviation (input) MMC_RSP_R2 :: u32 where
  "MMC_RSP_R2 \<equiv> MMC_RSP_PRESENT OR MMC_RSP_136 OR MMC_RSP_CRC"

abbreviation (input) MMC_RSP_R3 :: u32 where "MMC_RSP_R3 \<equiv> MMC_RSP_PRESENT"

abbreviation (input) MMC_RSP_R4 :: u32 where "MMC_RSP_R4 \<equiv> MMC_RSP_PRESENT"

abbreviation (input) MMC_RSP_R5 :: u32 where
  "MMC_RSP_R5 \<equiv> MMC_RSP_PRESENT OR MMC_RSP_CRC OR MMC_RSP_OPCODE"

abbreviation (input) MMC_RSP_R6 :: u32 where
  "MMC_RSP_R6 \<equiv> MMC_RSP_PRESENT OR MMC_RSP_CRC OR MMC_RSP_OPCODE"

abbreviation (input) MMC_RSP_R7 :: u32 where
  "MMC_RSP_R7 \<equiv> MMC_RSP_PRESENT OR MMC_RSP_CRC OR MMC_RSP_OPCODE"

subsection \<open>Command numbers\<close>

abbreviation (input) MMC_STOP_TRANSMISSION :: u32 where "MMC_STOP_TRANSMISSION \<equiv> 12"

abbreviation (input) MMC_BUS_TEST_R :: u32 where "MMC_BUS_TEST_R \<equiv> 14"

abbreviation (input) MMC_READ_MULTIPLE_BLOCK :: u32 where "MMC_READ_MULTIPLE_BLOCK \<equiv> 18"

abbreviation (input) MMC_SEND_TUNING_BLOCK :: u32 where "MMC_SEND_TUNING_BLOCK \<equiv> 19"

abbreviation (input) MMC_SEND_TUNING_BLOCK_HS200 :: u32 where
  "MMC_SEND_TUNING_BLOCK_HS200 \<equiv> 21"

abbreviation (input) MMC_WRITE_MULTIPLE_BLOCK :: u32 where "MMC_WRITE_MULTIPLE_BLOCK \<equiv> 25"

abbreviation (input) SD_IO_RW_EXTENDED :: u32 where "SD_IO_RW_EXTENDED \<equiv> 53"

definition mmc_op_multi :: "u32 \<Rightarrow> bool" where
  "mmc_op_multi opcode \<longleftrightarrow>
     opcode = MMC_WRITE_MULTIPLE_BLOCK \<or> opcode = MMC_READ_MULTIPLE_BLOCK"

subsection \<open>Scatter lists\<close>

record scatterlist =
  sg_page_link :: u64
  sg_offset :: u32
  sg_flags :: u8
  sg_length :: u32
  sg_dma_address :: u64
  sg_old_addr :: u64

abbreviation (input) SG_END :: u8 where "SG_END \<equiv> 0x02"

abbreviation (input) SG_REA :: u8 where "SG_REA \<equiv> 0x04"

definition sg_is_last :: "scatterlist \<Rightarrow> bool" where
  "sg_is_last s \<longleftrightarrow> tst (sg_flags s) SG_END"

definition sg_virt :: "scatterlist \<Rightarrow> u64" where
  "sg_virt s = sg_page_link s + ucast (sg_offset s)"

text \<open>A pointer into a scatter list is the rest of the list from there on; NULL is \<open>[]\<close>.\<close>

definition sg_next :: "scatterlist list \<Rightarrow> scatterlist list" where
  "sg_next l = (if sg_is_last (hd l) then [] else tl l)"

text \<open>
  The entries \<^verbatim>\<open>for_each_sg\<close> visits in \<open>n\<close> iterations; \<open>None\<close> when the walk dereferences the
  NULL that follows the last entry.
\<close>

fun sg_walk :: "nat \<Rightarrow> scatterlist list \<Rightarrow> scatterlist list option" where
  "sg_walk 0 l = Some []"
| "sg_walk (Suc n) [] = None"
| "sg_walk (Suc n) (s # l) = map_option (Cons s) (sg_walk n (sg_next (s # l)))"

subsection \<open>Commands, data and requests\<close>

datatype sdhci_cookie = COOKIE_UNMAPPED | COOKIE_PRE_MAPPED | COOKIE_MAPPED

record mmc_command =
  c_opcode :: u32
  c_arg :: u32
  c_resp :: "u32 list"
  c_flags :: u32
  c_error :: "errno option"
  c_busy_timeout :: u32
  c_data :: "datap option"
  c_mrq :: mrqp

record mmc_data =
  d_timeout_ns :: u32
  d_timeout_clks :: u32
  d_blksz :: u32
  d_blocks :: u32
  d_read :: bool
  d_write :: bool
  d_error :: "errno option"
  d_bytes_xfered :: u32
  d_stop :: "cmdp option"
  d_mrq :: mrqp
  d_buf :: u64
  d_sg_len :: u32
  d_sg_count :: int
  d_host_cookie :: sdhci_cookie

record mmc_request =
  q_sbc :: "cmdp option"
  q_cmd :: cmdp
  q_data :: "datap option"
  q_cap_cmd_during_tfr :: bool

datatype dma_data_direction = DMA_BIDIRECTIONAL | DMA_TO_DEVICE | DMA_FROM_DEVICE | DMA_NONE

definition mmc_get_dma_dir :: "mmc_data \<Rightarrow> dma_data_direction" where
  "mmc_get_dma_dir d = (if d_write d then DMA_TO_DEVICE else DMA_FROM_DEVICE)"

subsection \<open>Bus settings\<close>

datatype mmc_timing =
    MMC_TIMING_MMC_HS | MMC_TIMING_SD_HS | MMC_TIMING_UHS_SDR12 | MMC_TIMING_UHS_SDR25
  | MMC_TIMING_UHS_SDR50 | MMC_TIMING_UHS_SDR104 | MMC_TIMING_UHS_DDR50
  | MMC_TIMING_MMC_DDR52 | MMC_TIMING_MMC_HS200 | MMC_TIMING_MMC_HS400
  | MMC_TIMING_OTHER nat

datatype mmc_bus_width = MMC_BUS_WIDTH_1 | MMC_BUS_WIDTH_4 | MMC_BUS_WIDTH_8

datatype mmc_power_mode = MMC_POWER_OFF | MMC_POWER_UP | MMC_POWER_ON | MMC_POWER_UNDEFINED

datatype mmc_signal_voltage =
    MMC_SIGNAL_VOLTAGE_330 | MMC_SIGNAL_VOLTAGE_180 | MMC_SIGNAL_VOLTAGE_120
  | MMC_SIGNAL_VOLTAGE_OTHER nat

abbreviation (input) MMC_SET_DRIVER_TYPE_B :: u8 where "MMC_SET_DRIVER_TYPE_B \<equiv> 0"

abbreviation (input) MMC_SET_DRIVER_TYPE_A :: u8 where "MMC_SET_DRIVER_TYPE_A \<equiv> 1"

abbreviation (input) MMC_SET_DRIVER_TYPE_C :: u8 where "MMC_SET_DRIVER_TYPE_C \<equiv> 2"

abbreviation (input) MMC_SET_DRIVER_TYPE_D :: u8 where "MMC_SET_DRIVER_TYPE_D \<equiv> 3"

record mmc_ios =
  i_clock :: u32
  i_vdd :: u16
  i_power_mode :: mmc_power_mode
  i_bus_width :: mmc_bus_width
  i_timing :: mmc_timing
  i_signal_voltage :: mmc_signal_voltage
  i_drv_type :: u8

text \<open>A regulator handle: NULL, an \<^verbatim>\<open>ERR_PTR\<close>, or a regulator.\<close>

datatype regulator = NoSupply | ErrSupply errno | Supply nat

definition IS_ERR_supply :: "regulator \<Rightarrow> bool" where
  "IS_ERR_supply r = (case r of ErrSupply _ \<Rightarrow> True | _ \<Rightarrow> False)"

subsection \<open>Walking a scatter list\<close>

text \<open>A well-formed list carries the end mark on its last entry only.\<close>

definition sg_wf :: "scatterlist list \<Rightarrow> bool" where
  "sg_wf l \<longleftrightarrow> l \<noteq> [] \<and> sg_is_last (last l) \<and> (\<forall>s \<in> set (butlast l). \<not> sg_is_last s)"

lemma sg_walk_wf: "sg_wf l \<Longrightarrow> sg_walk (length l) l = Some l"
proof (induction l)
  case Nil
  then show ?case by (simp add: sg_wf_def)
next
  case (Cons s l)
  show ?case
  proof (cases "l = []")
    case True
    then show ?thesis by (simp add: sg_next_def)
  next
    case False
    with Cons.prems have "\<not> sg_is_last s" "sg_wf l" by (auto simp: sg_wf_def)
    with Cons.IH show ?thesis by (simp add: sg_next_def)
  qed
qed

lemma sg_walk_length: "sg_walk n l = Some xs \<Longrightarrow> length xs = n"
  by (induction n l arbitrary: xs rule: sg_walk.induct) auto

lemma sg_walk_take: "sg_walk n l = Some xs \<Longrightarrow> xs = take n l"
proof (induction n l arbitrary: xs rule: sg_walk.induct)
  case (3 n s l)
  from "3.prems" obtain ys where ys: "sg_walk n (sg_next (s # l)) = Some ys" "xs = s # ys"
    by auto
  then have "ys = take n (sg_next (s # l))" using "3.IH" by blast
  moreover have "sg_walk n [] = Some ys \<Longrightarrow> n = 0" by (cases n) auto
  ultimately show ?case using ys by (auto simp: sg_next_def split: if_splits)
qed auto

end
