(* ===== verification/World.thy ===== *)
theory World
  imports Mmc
begin

text \<open>
  The state one controller instance works on, and the code's way to the outside.

  \<^verbatim>\<open>struct sdhci_host\<close> (\<^verbatim>\<open>sdhci.h\<close>) is the record \<open>sdhci_host\<close>, its fields prefixed with
  \<open>h_\<close>; \<open>world\<close> extends it with the fields of \<^verbatim>\<open>struct mmc_host\<close> that the driver uses
  (prefix \<open>m_\<close>), the stores of the commands, data descriptors and requests that exist,
  memory, the history of everything done to the outside, and the environment (prefix \<open>e_\<close>).

  The environment is the hardware and the operating system.  Its answers are functions of the
  history: \<open>e_rd\<close> gives what a read of a register returns after the given history, \<open>e_tick\<close>
  what the tick counter shows.  Every theorem holds for all such functions, so for any device
  behaviour, including registers that change on their own: a polling read extends the history,
  so the next read may return something else.
\<close>

subsection \<open>History\<close>

datatype event =
    Rd32 nat | Rd16 nat | Rd8 nat
  | Wr32 nat u32 | Wr16 nat u16 | Wr8 nat u8
  | ReadTick
  | Udelay nat | Mdelay nat
  | TimerStart bool u32 | TimerStop bool
  | RequestDone mrqp | CommandDone mrqp
  | QueueWork | WakeBufReady | DetectChange | RetuneNeeded | SdioIrq
  | CacheFlush u64 u32 | CacheInvalidate u64 u32
  | MallocAlign u64 u64 | FreeAlign u64
  | Malloc u64 | Free u64 | PagesAlloc u64 | FreeCoherent u64 u64 u64
  | IoRd8 u64 | IoWr8 u64 u8 | IoRd32 u64 | IoWr32 u64 u32
  | OsCall string
  | Warn nat

text \<open>
  \<open>TimerStart\<close> and \<open>TimerStop\<close> carry \<open>True\<close> for the data timer.  \<open>Warn n\<close> is the
  \<^verbatim>\<open>WARN_ON\<close> at line \<open>n\<close> of \<^verbatim>\<open>sdhci.c\<close> (0 for the one of \<^verbatim>\<open>l-timer.c\<close>).  \<open>IoRd8\<close> and its
  companions are accesses to other blocks of the chip, with their physical address.
  \<open>OsCall\<close> is a call of RT-Thread that only sets something up, with its name.
\<close>

subsection \<open>State\<close>

record sg_mapping_iter =
  mi_length :: u32
  mi_consumed :: u32
  mi_addr :: u64

record sdhci_host =
  h_quirks :: u32
  h_quirks2 :: u32
  h_bounce_buffer :: "u64 option"
  h_bounce_addr :: u64
  h_bounce_buffer_size :: u32
  h_flags :: u32
  h_version :: u32
  h_max_clk :: u32
  h_timeout_clk :: u32
  h_clk_mul :: u32
  h_clock :: u32
  h_pwr :: u8
  h_runtime_suspended :: bool
  h_bus_on :: bool
  h_preset_enabled :: bool
  h_pending_reset :: bool
  h_irq_wake_enabled :: bool
  h_v4_mode :: bool
  h_use_external_dma :: bool
  h_always_defer_done :: bool
  h_mrqs_done :: "mrqp option list"
  h_cmd :: "cmdp option"
  h_data_cmd :: "cmdp option"
  h_deferred_cmd :: "cmdp option"
  h_data :: "datap option"
  h_data_early :: bool
  h_sg_miter :: sg_mapping_iter
  h_blocks :: u32
  h_sg_count :: nat
  h_adma_table :: u64
  h_align_buffer :: "u64 option"
  h_adma_table_sz :: u64
  h_align_buffer_sz :: u64
  h_adma_addr :: u64
  h_align_addr :: u64
  h_desc_sz :: u32
  h_alloc_desc_sz :: u32
  h_timer :: "u32 option"
  h_data_timer :: "u32 option"
  h_caps :: u32
  h_caps1 :: u32
  h_read_caps :: bool
  h_timing :: mmc_timing
  h_thread_isr :: u32
  h_ier :: u32
  h_cqe_on :: bool
  h_cqe_ier :: u32
  h_cqe_err_ier :: u32
  h_tuning_done :: bool
  h_tuning_count :: u32
  h_tuning_mode :: u32
  h_tuning_err :: "errno option"
  h_tuning_delay :: int
  h_tuning_loop_count :: nat
  h_sdma_boundary :: u32
  h_adma_table_cnt :: u32
  h_data_timeout :: u64
  h_ocr_mask :: u32
  h_ocr_avail_sdio :: u32
  h_ocr_avail_sd :: u32
  h_ocr_avail_mmc :: u32
  h_dma_mask :: u64
  h_sdhci_core_to_disable_vqmmc :: bool

text \<open>The timers hold the tick count they were started with, \<open>None\<close> when stopped.\<close>

text \<open>
  The part of \<^verbatim>\<open>struct mmc_host\<close> that is filled when the host is set up; \<^verbatim>\<open>f_max\<close>, \<^verbatim>\<open>f_min\<close>
  and the \<^verbatim>\<open>max_\<close> fields are those of the RT-Thread host inside it.
\<close>

record mmc_host =
  f_max :: u32
  f_min :: u32
  max_segs :: u32
  max_seg_size :: u32
  max_blk_count :: u32
  max_req_size :: u32
  max_current_330 :: u32
  max_current_300 :: u32
  max_current_180 :: u32
  ocr_avail :: u32
  ocr_avail_mmc :: u32
  ocr_avail_sd :: u32
  ocr_avail_sdio :: u32
  pm_caps :: u32
  rmh_flags :: u32
  rmh_valid_ocr :: u32
  rmh_name :: string

text \<open>The value of a device tree property: a number, or a string behind a pointer.\<close>

datatype prop_val = PropNum u64 | PropStr u64 string

text \<open>The numbers RT-Thread gives to the capabilities, and how long a host's name may be.\<close>

record rtt_numbers =
  n_BUSWIDTH_4 :: u32
  n_SUP_HIGHSPEED :: u32
  n_SUP_HS200_1V8 :: u32
  n_SUP_HS200 :: u32
  n_SUP_DDR_1V8 :: u32
  n_SUP_DDR_3V3 :: u32
  n_SUP_DDR_1V2 :: u32
  n_NAME_LEN :: nat

text \<open>The private data of the CVITEK driver.\<close>

record sdhci_cvi_host =
  final_tap :: u8
  sdio0_voltage_1_8_v :: u8

record world = sdhci_host +
  m_actual_clock :: u32
  m_caps :: u32
  m_caps2 :: u32
  m_ios :: mmc_ios
  m_max_blk_size :: u32
  m_max_busy_timeout :: u32
  m_retune_period :: u32
  m_vmmc :: regulator
  m_vqmmc :: regulator
  m_sg :: "scatterlist list"
  mh :: mmc_host
  of_node :: "(string \<times> prop_val) list option"
  m_dev_name :: string
  pltfm_clock :: u32
  cvi :: sdhci_cvi_host
  cmds :: "cmdp \<Rightarrow> mmc_command"
  datas :: "datap \<Rightarrow> mmc_data"
  mrqs :: "mrqp \<Rightarrow> mmc_request"
  mem :: memory
  hist :: "event list"
  e_rd :: "event list \<Rightarrow> nat \<Rightarrow> u32"
  e_tick :: "event list \<Rightarrow> u32"
  e_alloc :: "event list \<Rightarrow> u64"
  e_v2p :: "u64 \<Rightarrow> u64"
  e_HZ :: u32
  e_CAP_NONREMOVABLE :: u32
  e_CAP_8_BIT_DATA :: u32
  e_CMD_ADTC :: u32
  e_num :: rtt_numbers
  e_io :: "event list \<Rightarrow> u64 \<Rightarrow> u32"

definition emit :: "event \<Rightarrow> world \<Rightarrow> world" where
  "emit e w = w\<lparr>hist := e # hist w\<rparr>"

subsection \<open>A state to start from\<close>

text \<open>A zeroed host on a silent device: what a concrete example changes a few fields of.\<close>

definition blank_cmd :: mmc_command where
  "blank_cmd = \<lparr>c_opcode = 0, c_arg = 0, c_resp = [0, 0, 0, 0], c_flags = 0, c_error = None,
     c_busy_timeout = 0, c_data = None, c_mrq = 0\<rparr>"

definition blank_data :: mmc_data where
  "blank_data = \<lparr>d_timeout_ns = 0, d_timeout_clks = 0, d_blksz = 0, d_blocks = 0,
     d_read = False, d_write = False, d_error = None, d_bytes_xfered = 0, d_stop = None,
     d_mrq = 0, d_buf = 0, d_sg_len = 0, d_sg_count = 0, d_host_cookie = COOKIE_UNMAPPED\<rparr>"

definition blank_world :: world where
  "blank_world = \<lparr>
    h_quirks = 0, h_quirks2 = 0, h_bounce_buffer = None, h_bounce_addr = 0,
    h_bounce_buffer_size = 0, h_flags = 0, h_version = 0, h_max_clk = 0, h_timeout_clk = 0,
    h_clk_mul = 0, h_clock = 0, h_pwr = 0, h_runtime_suspended = False, h_bus_on = False,
    h_preset_enabled = False, h_pending_reset = False, h_irq_wake_enabled = False,
    h_v4_mode = False, h_use_external_dma = False, h_always_defer_done = False,
    h_mrqs_done = [None, None], h_cmd = None, h_data_cmd = None, h_deferred_cmd = None,
    h_data = None, h_data_early = False,
    h_sg_miter = \<lparr>mi_length = 0, mi_consumed = 0, mi_addr = 0\<rparr>, h_blocks = 0,
    h_sg_count = 0, h_adma_table = 0, h_align_buffer = None, h_adma_table_sz = 0,
    h_align_buffer_sz = 0, h_adma_addr = 0, h_align_addr = 0, h_desc_sz = 0, h_alloc_desc_sz = 0,
    h_timer = None, h_data_timer = None, h_caps = 0, h_caps1 = 0, h_read_caps = False,
    h_timing = MMC_TIMING_OTHER 0, h_thread_isr = 0, h_ier = 0, h_cqe_on = False, h_cqe_ier = 0,
    h_cqe_err_ier = 0, h_tuning_done = False, h_tuning_count = 0, h_tuning_mode = 0,
    h_tuning_err = None, h_tuning_delay = 0, h_tuning_loop_count = 0, h_sdma_boundary = 0,
    h_adma_table_cnt = 0, h_data_timeout = 0, h_ocr_mask = 0, h_ocr_avail_sdio = 0,
    h_ocr_avail_sd = 0, h_ocr_avail_mmc = 0, h_dma_mask = 0,
    h_sdhci_core_to_disable_vqmmc = False, m_actual_clock = 0, m_caps = 0, m_caps2 = 0,
    m_ios = \<lparr>i_clock = 0, i_vdd = 0, i_power_mode = MMC_POWER_OFF,
      i_bus_width = MMC_BUS_WIDTH_1,
      i_timing = MMC_TIMING_OTHER 0, i_signal_voltage = MMC_SIGNAL_VOLTAGE_330, i_drv_type = 0\<rparr>,
    m_max_blk_size = 0, m_max_busy_timeout = 0, m_retune_period = 0, m_vmmc = NoSupply,
    m_vqmmc = NoSupply, m_sg = [],
    mh = \<lparr>f_max = 0, f_min = 0, max_segs = 0, max_seg_size = 0, max_blk_count = 0,
      max_req_size = 0, max_current_330 = 0, max_current_300 = 0, max_current_180 = 0,
      ocr_avail = 0, ocr_avail_mmc = 0, ocr_avail_sd = 0, ocr_avail_sdio = 0, pm_caps = 0,
      rmh_flags = 0, rmh_valid_ocr = 0, rmh_name = []\<rparr>,
    of_node = None, m_dev_name = [], pltfm_clock = 0,
    cvi = \<lparr>final_tap = 0, sdio0_voltage_1_8_v = 0\<rparr>, cmds = (\<lambda>_. blank_cmd),
    datas = (\<lambda>_. blank_data),
    mrqs = (\<lambda>_. \<lparr>q_sbc = None, q_cmd = 0, q_data = None, q_cap_cmd_during_tfr = False\<rparr>),
    mem = (\<lambda>_. 0), hist = [], e_rd = (\<lambda>_ _. 0), e_tick = (\<lambda>_. 0),
    e_alloc = (\<lambda>_. 0), e_v2p = (\<lambda>a. a), e_HZ = 1000, e_CAP_NONREMOVABLE = 0,
    e_CAP_8_BIT_DATA = 0, e_CMD_ADTC = 0,
    e_num = \<lparr>n_BUSWIDTH_4 = 0, n_SUP_HIGHSPEED = 0, n_SUP_HS200_1V8 = 0, n_SUP_HS200 = 0,
      n_SUP_DDR_1V8 = 0, n_SUP_DDR_3V3 = 0, n_SUP_DDR_1V2 = 0, n_NAME_LEN = 0\<rparr>,
    e_io = (\<lambda>_ _. 0)\<rparr>"

lemma blank_world_simps [simp]:
  "h_quirks blank_world = 0"
  "h_quirks2 blank_world = 0"
  "h_bounce_buffer blank_world = None"
  "h_bounce_addr blank_world = 0"
  "h_bounce_buffer_size blank_world = 0"
  "h_flags blank_world = 0"
  "h_version blank_world = 0"
  "h_max_clk blank_world = 0"
  "h_timeout_clk blank_world = 0"
  "h_clk_mul blank_world = 0"
  "h_clock blank_world = 0"
  "h_pwr blank_world = 0"
  "h_runtime_suspended blank_world = False"
  "h_bus_on blank_world = False"
  "h_preset_enabled blank_world = False"
  "h_pending_reset blank_world = False"
  "h_irq_wake_enabled blank_world = False"
  "h_v4_mode blank_world = False"
  "h_use_external_dma blank_world = False"
  "h_always_defer_done blank_world = False"
  "h_mrqs_done blank_world = [None, None]"
  "h_cmd blank_world = None"
  "h_data_cmd blank_world = None"
  "h_deferred_cmd blank_world = None"
  "h_data blank_world = None"
  "h_data_early blank_world = False"
  "h_sg_miter blank_world = \<lparr>mi_length = 0, mi_consumed = 0, mi_addr = 0\<rparr>"
  "h_blocks blank_world = 0"
  "h_sg_count blank_world = 0"
  "h_adma_table blank_world = 0"
  "h_align_buffer blank_world = None"
  "h_adma_table_sz blank_world = 0"
  "h_align_buffer_sz blank_world = 0"
  "h_adma_addr blank_world = 0"
  "h_align_addr blank_world = 0"
  "h_desc_sz blank_world = 0"
  "h_alloc_desc_sz blank_world = 0"
  "h_timer blank_world = None"
  "h_data_timer blank_world = None"
  "h_caps blank_world = 0"
  "h_caps1 blank_world = 0"
  "h_read_caps blank_world = False"
  "h_timing blank_world = MMC_TIMING_OTHER 0"
  "h_thread_isr blank_world = 0"
  "h_ier blank_world = 0"
  "h_cqe_on blank_world = False"
  "h_cqe_ier blank_world = 0"
  "h_cqe_err_ier blank_world = 0"
  "h_tuning_done blank_world = False"
  "h_tuning_count blank_world = 0"
  "h_tuning_mode blank_world = 0"
  "h_tuning_err blank_world = None"
  "h_tuning_delay blank_world = 0"
  "h_tuning_loop_count blank_world = 0"
  "h_sdma_boundary blank_world = 0"
  "h_adma_table_cnt blank_world = 0"
  "h_data_timeout blank_world = 0"
  "h_ocr_mask blank_world = 0"
  "h_ocr_avail_sdio blank_world = 0"
  "h_ocr_avail_sd blank_world = 0"
  "h_ocr_avail_mmc blank_world = 0"
  "h_dma_mask blank_world = 0"
  "h_sdhci_core_to_disable_vqmmc blank_world = False"
  "m_actual_clock blank_world = 0"
  "m_caps blank_world = 0"
  "m_caps2 blank_world = 0"
  "m_ios blank_world = \<lparr>i_clock = 0, i_vdd = 0, i_power_mode = MMC_POWER_OFF,
    i_bus_width = MMC_BUS_WIDTH_1,
    i_timing = MMC_TIMING_OTHER 0, i_signal_voltage = MMC_SIGNAL_VOLTAGE_330, i_drv_type = 0\<rparr>"
  "m_max_blk_size blank_world = 0"
  "m_max_busy_timeout blank_world = 0"
  "m_retune_period blank_world = 0"
  "m_vmmc blank_world = NoSupply"
  "m_vqmmc blank_world = NoSupply"
  "m_sg blank_world = []"
  "cmds blank_world = (\<lambda>_. blank_cmd)"
  "datas blank_world = (\<lambda>_. blank_data)"
  "mrqs blank_world = (\<lambda>_. \<lparr>q_sbc = None, q_cmd = 0, q_data = None, q_cap_cmd_during_tfr = False\<rparr>)"
  "mem blank_world = (\<lambda>_. 0)"
  "hist blank_world = []"
  "e_rd blank_world = (\<lambda>_ _. 0)"
  "e_tick blank_world = (\<lambda>_. 0)"
  "e_alloc blank_world = (\<lambda>_. 0)"
  "e_v2p blank_world = (\<lambda>a. a)"
  "e_HZ blank_world = 1000"
  "e_CAP_NONREMOVABLE blank_world = 0"
  "e_CAP_8_BIT_DATA blank_world = 0"
  "e_CMD_ADTC blank_world = 0"
  "of_node blank_world = None"
  "m_dev_name blank_world = []"
  "pltfm_clock blank_world = 0"
  "cvi blank_world = \<lparr>final_tap = 0, sdio0_voltage_1_8_v = 0\<rparr>"
  "mh blank_world = \<lparr>f_max = 0, f_min = 0, max_segs = 0, max_seg_size = 0, max_blk_count = 0,
     max_req_size = 0, max_current_330 = 0, max_current_300 = 0, max_current_180 = 0,
     ocr_avail = 0, ocr_avail_mmc = 0, ocr_avail_sd = 0, ocr_avail_sdio = 0, pm_caps = 0,
     rmh_flags = 0, rmh_valid_ocr = 0, rmh_name = []\<rparr>"
  "e_num blank_world = \<lparr>n_BUSWIDTH_4 = 0, n_SUP_HIGHSPEED = 0, n_SUP_HS200_1V8 = 0,
     n_SUP_HS200 = 0, n_SUP_DDR_1V8 = 0, n_SUP_DDR_3V3 = 0, n_SUP_DDR_1V2 = 0, n_NAME_LEN = 0\<rparr>"
  "e_io blank_world = (\<lambda>_ _. 0)"
  by (simp_all add: blank_world_def)

subsection \<open>Register access\<close>

text \<open>
  \<^verbatim>\<open>CONFIG_MMC_SDHCI_IO_ACCESSORS\<close> is set in \<^verbatim>\<open>port.h\<close>, so every accessor first tests its hook
  (\<^verbatim>\<open>host->ops->read_l\<close> \<dots> \<^verbatim>\<open>write_b\<close>).  No operations table of the repository sets one of the
  six hooks: they are NULL, and an access is one of the memory-mapped device.
\<close>

definition sdhci_readl :: "nat \<Rightarrow> world \<Rightarrow> u32 \<times> world" where
  "sdhci_readl reg w = (e_rd w (hist w) reg, emit (Rd32 reg) w)"

definition sdhci_readw :: "nat \<Rightarrow> world \<Rightarrow> u16 \<times> world" where
  "sdhci_readw reg w = (ucast (e_rd w (hist w) reg), emit (Rd16 reg) w)"

definition sdhci_readb :: "nat \<Rightarrow> world \<Rightarrow> u8 \<times> world" where
  "sdhci_readb reg w = (ucast (e_rd w (hist w) reg), emit (Rd8 reg) w)"

definition sdhci_writel :: "u32 \<Rightarrow> nat \<Rightarrow> world \<Rightarrow> world" where
  "sdhci_writel v reg w = emit (Wr32 reg v) w"

definition sdhci_writew :: "u16 \<Rightarrow> nat \<Rightarrow> world \<Rightarrow> world" where
  "sdhci_writew v reg w = emit (Wr16 reg v) w"

definition sdhci_writeb :: "u8 \<Rightarrow> nat \<Rightarrow> world \<Rightarrow> world" where
  "sdhci_writeb v reg w = emit (Wr8 reg v) w"

lemmas access_defs =
  sdhci_readl_def sdhci_readw_def sdhci_readb_def
  sdhci_writel_def sdhci_writew_def sdhci_writeb_def emit_def

text \<open>The value last written to a 32-bit register, \<open>None\<close> before the first write.\<close>

fun last_wr32 :: "nat \<Rightarrow> event list \<Rightarrow> u32 option" where
  "last_wr32 r [] = None"
| "last_wr32 r (Wr32 r' v # es) = (if r' = r then Some v else last_wr32 r es)"
| "last_wr32 r (_ # es) = last_wr32 r es"

fun last_wr16 :: "nat \<Rightarrow> event list \<Rightarrow> u16 option" where
  "last_wr16 r [] = None"
| "last_wr16 r (Wr16 r' v # es) = (if r' = r then Some v else last_wr16 r es)"
| "last_wr16 r (_ # es) = last_wr16 r es"

fun last_wr8 :: "nat \<Rightarrow> event list \<Rightarrow> u8 option" where
  "last_wr8 r [] = None"
| "last_wr8 r (Wr8 r' v # es) = (if r' = r then Some v else last_wr8 r es)"
| "last_wr8 r (_ # es) = last_wr8 r es"

subsection \<open>Updates of the stores\<close>

definition upd_cmd :: "cmdp \<Rightarrow> (mmc_command \<Rightarrow> mmc_command) \<Rightarrow> world \<Rightarrow> world" where
  "upd_cmd c f w = w\<lparr>cmds := (cmds w)(c := f (cmds w c))\<rparr>"

definition upd_data :: "datap \<Rightarrow> (mmc_data \<Rightarrow> mmc_data) \<Rightarrow> world \<Rightarrow> world" where
  "upd_data d f w = w\<lparr>datas := (datas w)(d := f (datas w d))\<rparr>"

definition WARN_ON :: "nat \<Rightarrow> bool \<Rightarrow> world \<Rightarrow> world" where
  "WARN_ON n b w = (if b then emit (Warn n) w else w)"

text \<open>\<^verbatim>\<open>BUG_ON\<close> stops the machine (\<^verbatim>\<open>__builtin_trap\<close>).\<close>

definition BUG_ON :: "bool \<Rightarrow> world \<Rightarrow> world option" where
  "BUG_ON b w = (if b then None else Some w)"

lemma BUG_ON_Some [simp]: "BUG_ON b w = Some w' \<longleftrightarrow> \<not> b \<and> w' = w"
  by (auto simp: BUG_ON_def)

end
