(* ===== verification/Os.thy ===== *)
theory Os
  imports World
begin

text \<open>
  The operating-system layer of the port that the core calls: \<^verbatim>\<open>port/l-timer.c\<close> (tick counter,
  kernel time, delays, the two request timers), \<^verbatim>\<open>port/port.c\<close> (bit scan), the request and
  card stubs of \<^verbatim>\<open>port/l-mmc.c\<close> and the work queue of \<^verbatim>\<open>port/l-workqueue.c\<close>.  What lies
  below it (RT-Thread) is the environment: the tick counter is \<open>e_tick\<close>, and a call that only
  acts on the outside is an event.
\<close>

subsection \<open>Bit scan\<close>

definition fls :: "u32 \<Rightarrow> nat" where
  "fls x =
     (if x = 0 then 0
      else
       (let r = 32;
            (x, r) = (if x AND 0xffff0000 = 0 then (push_bit 16 x, r - 16) else (x, r));
            (x, r) = (if x AND 0xff000000 = 0 then (push_bit 8 x, r - 8) else (x, r));
            (x, r) = (if x AND 0xf0000000 = 0 then (push_bit 4 x, r - 4) else (x, r));
            (x, r) = (if x AND 0xc0000000 = 0 then (push_bit 2 x, r - 2) else (x, r));
            (x, r) = (if x AND 0x80000000 = 0 then (push_bit 1 x, r - 1) else (x, r))
        in r))"

definition sdhci_ilog2 :: "u32 \<Rightarrow> int" where
  "sdhci_ilog2 v = int (fls v) - 1"

subsection \<open>Time\<close>

abbreviation (input) NSEC_PER_USEC :: u64 where "NSEC_PER_USEC \<equiv> 1000"

abbreviation (input) NSEC_PER_MSEC :: u64 where "NSEC_PER_MSEC \<equiv> 1000000"

abbreviation (input) NSEC_PER_SEC :: u64 where "NSEC_PER_SEC \<equiv> 1000000000"

definition rt_tick_get :: "world \<Rightarrow> u32 \<times> world" where
  "rt_tick_get w = (e_tick w (hist w), emit ReadTick w)"

definition jiffies :: "world \<Rightarrow> u64 \<times> world" where
  "jiffies w = (let (t, w) = rt_tick_get w in (ucast t, w))"

definition jiffies_to_msecs :: "u32 \<Rightarrow> u64 \<Rightarrow> u32" where
  "jiffies_to_msecs hz j = ucast (j * ucast (1000 div hz))"

definition nsecs_to_jiffies :: "u64 \<Rightarrow> u64" where
  "nsecs_to_jiffies n = 0"

definition ktime_get :: "world \<Rightarrow> u64 \<times> world" where
  "ktime_get w =
     (let (j, w) = jiffies w in (ucast (jiffies_to_msecs (e_HZ w) j) * NSEC_PER_MSEC, w))"

definition ktime_compare :: "u64 \<Rightarrow> u64 \<Rightarrow> int" where
  "ktime_compare cmp1 cmp2 =
     (if sint cmp1 < sint cmp2 then -1 else if sint cmp1 > sint cmp2 then 1 else 0)"

definition ktime_after :: "u64 \<Rightarrow> u64 \<Rightarrow> bool" where
  "ktime_after cmp1 cmp2 \<longleftrightarrow> ktime_compare cmp1 cmp2 > 0"

definition ktime_add_ms :: "u64 \<Rightarrow> u64 \<Rightarrow> u64" where
  "ktime_add_ms kt msec = kt + msec * NSEC_PER_MSEC"

definition udelay :: "nat \<Rightarrow> world \<Rightarrow> world" where
  "udelay u = emit (Udelay u)"

definition mdelay :: "nat \<Rightarrow> world \<Rightarrow> world" where
  "mdelay x = emit (Mdelay x)"

definition msleep :: "nat \<Rightarrow> world \<Rightarrow> world" where
  "msleep x = emit (Mdelay x)"

definition usleep_range :: "nat \<Rightarrow> nat \<Rightarrow> world \<Rightarrow> world" where
  "usleep_range lo hi w =
     (let msecs = (lo + hi) div 2000
      in if msecs \<noteq> 0 then mdelay msecs w else udelay ((lo + hi) div 2) w)"

subsection \<open>The request timers\<close>

text \<open>The first argument tells \<^verbatim>\<open>host->data_timer\<close> (\<open>True\<close>) from \<^verbatim>\<open>host->timer\<close>.\<close>

definition mod_timer :: "bool \<Rightarrow> u64 \<Rightarrow> world \<Rightarrow> world" where
  "mod_timer dt expires w =
     (let (tick, w) = rt_tick_get w;
          late = expires < ucast tick;
          w = WARN_ON 0 late w;
          expires = (if late then ucast tick else expires);
          delta = (ucast (expires - ucast tick) :: u32);
          w = emit (TimerStop dt) w;
          w = emit (TimerStart dt delta) w
      in if dt then w\<lparr>h_data_timer := Some delta\<rparr> else w\<lparr>h_timer := Some delta\<rparr>)"

definition del_timer :: "bool \<Rightarrow> world \<Rightarrow> world" where
  "del_timer dt w =
     (let w = emit (TimerStop dt) w
      in if dt then w\<lparr>h_data_timer := None\<rparr> else w\<lparr>h_timer := None\<rparr>)"

subsection \<open>The MMC core and the card slot\<close>

definition mmc_request_done :: "mrqp \<Rightarrow> world \<Rightarrow> world" where
  "mmc_request_done mrq = emit (RequestDone mrq)"

definition mmc_command_done :: "mrqp \<Rightarrow> world \<Rightarrow> world" where
  "mmc_command_done mrq = emit (CommandDone mrq)"

definition mmc_detect_change :: "world \<Rightarrow> world" where
  "mmc_detect_change = emit DetectChange"

definition mmc_retune_needed :: "world \<Rightarrow> world" where
  "mmc_retune_needed = emit RetuneNeeded"

definition sdio_signal_irq :: "world \<Rightarrow> world" where
  "sdio_signal_irq = emit SdioIrq"

definition mmc_gpio_get_cd :: "errno + nat" where
  "mmc_gpio_get_cd = Inl ENOSYS"

definition mmc_can_gpio_cd :: bool where
  "mmc_can_gpio_cd = False"

definition mmc_can_gpio_ro :: bool where
  "mmc_can_gpio_ro = False"

definition mmc_gpio_get_ro :: nat where
  "mmc_gpio_get_ro = 0"

definition mmc_card_is_removable :: "world \<Rightarrow> bool" where
  "mmc_card_is_removable w \<longleftrightarrow> \<not> tst (m_caps w) (e_CAP_NONREMOVABLE w)"

definition mmc_regulator_get_supply :: "world \<Rightarrow> errno option \<times> world" where
  "mmc_regulator_get_supply w =
     (None, w\<lparr>m_vmmc := ErrSupply ENODEV, m_vqmmc := ErrSupply ENODEV\<rparr>)"

definition mmc_regulator_set_ocr :: "regulator \<Rightarrow> u16 \<Rightarrow> world \<Rightarrow> world" where
  "mmc_regulator_set_ocr supply vdd w = w"

definition mmc_regulator_set_vqmmc :: "mmc_ios \<Rightarrow> world \<Rightarrow> errno option \<times> world" where
  "mmc_regulator_set_vqmmc ios w = (None, w)"

definition mmc_abort_tuning :: "u32 \<Rightarrow> world \<Rightarrow> world" where
  "mmc_abort_tuning opcode w = w"

definition queue_work :: "world \<Rightarrow> world" where
  "queue_work = emit QueueWork"

definition wake_up_buf_ready :: "world \<Rightarrow> world" where
  "wake_up_buf_ready = emit WakeBufReady"

subsection \<open>Find last set is the position of the highest bit\<close>

lemma fls_zero [simp]: "fls 0 = 0"
  by (simp add: fls_def)

end
