(* ===== verification/Views.thy ===== *)
theory Views
  imports Os
begin

text \<open>
  Two views of the state, and what an elementary step leaves of them.

  \<^item> \<open>rq w\<close>: which commands, data and requests the host refers to, and how these objects
    refer to each other (\<open>links w\<close>).
  \<^item> \<open>iv w\<close>: the interrupt mask the driver keeps and everything it has written to the three
    interrupt registers, newest first.

  \<open>vw\<close> is both together; most operations keep it, and say so in one frame lemma.
\<close>

subsection \<open>Elementary steps as events\<close>

lemma access_simps [simp]:
  "sdhci_readl r w = (e_rd w (hist w) r, emit (Rd32 r) w)"
  "sdhci_readw r w = (ucast (e_rd w (hist w) r), emit (Rd16 r) w)"
  "sdhci_readb r w = (ucast (e_rd w (hist w) r), emit (Rd8 r) w)"
  "sdhci_writel v r w = emit (Wr32 r v) w"
  "sdhci_writew x r w = emit (Wr16 r x) w"
  "sdhci_writeb y r w = emit (Wr8 r y) w"
  by (simp_all add: access_defs)

lemma emit_hist [simp]: "hist (emit e w) = e # hist w"
  by (simp add: emit_def)

lemma emit_simps [simp]:
  "h_quirks (emit e w) = h_quirks w"
  "h_quirks2 (emit e w) = h_quirks2 w"
  "h_bounce_buffer (emit e w) = h_bounce_buffer w"
  "h_bounce_addr (emit e w) = h_bounce_addr w"
  "h_bounce_buffer_size (emit e w) = h_bounce_buffer_size w"
  "h_flags (emit e w) = h_flags w"
  "h_version (emit e w) = h_version w"
  "h_max_clk (emit e w) = h_max_clk w"
  "h_timeout_clk (emit e w) = h_timeout_clk w"
  "h_clk_mul (emit e w) = h_clk_mul w"
  "h_clock (emit e w) = h_clock w"
  "h_pwr (emit e w) = h_pwr w"
  "h_runtime_suspended (emit e w) = h_runtime_suspended w"
  "h_bus_on (emit e w) = h_bus_on w"
  "h_preset_enabled (emit e w) = h_preset_enabled w"
  "h_pending_reset (emit e w) = h_pending_reset w"
  "h_irq_wake_enabled (emit e w) = h_irq_wake_enabled w"
  "h_v4_mode (emit e w) = h_v4_mode w"
  "h_use_external_dma (emit e w) = h_use_external_dma w"
  "h_always_defer_done (emit e w) = h_always_defer_done w"
  "h_mrqs_done (emit e w) = h_mrqs_done w"
  "h_cmd (emit e w) = h_cmd w"
  "h_data_cmd (emit e w) = h_data_cmd w"
  "h_deferred_cmd (emit e w) = h_deferred_cmd w"
  "h_data (emit e w) = h_data w"
  "h_data_early (emit e w) = h_data_early w"
  "h_sg_miter (emit e w) = h_sg_miter w"
  "h_blocks (emit e w) = h_blocks w"
  "h_sg_count (emit e w) = h_sg_count w"
  "h_adma_table (emit e w) = h_adma_table w"
  "h_align_buffer (emit e w) = h_align_buffer w"
  "h_adma_table_sz (emit e w) = h_adma_table_sz w"
  "h_align_buffer_sz (emit e w) = h_align_buffer_sz w"
  "h_adma_addr (emit e w) = h_adma_addr w"
  "h_align_addr (emit e w) = h_align_addr w"
  "h_desc_sz (emit e w) = h_desc_sz w"
  "h_alloc_desc_sz (emit e w) = h_alloc_desc_sz w"
  "h_timer (emit e w) = h_timer w"
  "h_data_timer (emit e w) = h_data_timer w"
  "h_caps (emit e w) = h_caps w"
  "h_caps1 (emit e w) = h_caps1 w"
  "h_read_caps (emit e w) = h_read_caps w"
  "h_timing (emit e w) = h_timing w"
  "h_thread_isr (emit e w) = h_thread_isr w"
  "h_ier (emit e w) = h_ier w"
  "h_cqe_on (emit e w) = h_cqe_on w"
  "h_cqe_ier (emit e w) = h_cqe_ier w"
  "h_cqe_err_ier (emit e w) = h_cqe_err_ier w"
  "h_tuning_done (emit e w) = h_tuning_done w"
  "h_tuning_count (emit e w) = h_tuning_count w"
  "h_tuning_mode (emit e w) = h_tuning_mode w"
  "h_tuning_err (emit e w) = h_tuning_err w"
  "h_tuning_delay (emit e w) = h_tuning_delay w"
  "h_tuning_loop_count (emit e w) = h_tuning_loop_count w"
  "h_sdma_boundary (emit e w) = h_sdma_boundary w"
  "h_adma_table_cnt (emit e w) = h_adma_table_cnt w"
  "h_data_timeout (emit e w) = h_data_timeout w"
  "m_actual_clock (emit e w) = m_actual_clock w"
  "m_caps (emit e w) = m_caps w"
  "m_caps2 (emit e w) = m_caps2 w"
  "m_ios (emit e w) = m_ios w"
  "m_max_blk_size (emit e w) = m_max_blk_size w"
  "m_max_busy_timeout (emit e w) = m_max_busy_timeout w"
  "m_retune_period (emit e w) = m_retune_period w"
  "m_vmmc (emit e w) = m_vmmc w"
  "m_vqmmc (emit e w) = m_vqmmc w"
  "m_sg (emit e w) = m_sg w"
  "cmds (emit e w) = cmds w"
  "datas (emit e w) = datas w"
  "mrqs (emit e w) = mrqs w"
  "mem (emit e w) = mem w"
  "e_rd (emit e w) = e_rd w"
  "e_tick (emit e w) = e_tick w"
  "e_alloc (emit e w) = e_alloc w"
  "e_v2p (emit e w) = e_v2p w"
  "e_HZ (emit e w) = e_HZ w"
  "e_CAP_NONREMOVABLE (emit e w) = e_CAP_NONREMOVABLE w"
  "e_CAP_8_BIT_DATA (emit e w) = e_CAP_8_BIT_DATA w"
  "e_CMD_ADTC (emit e w) = e_CMD_ADTC w"
  "h_ocr_mask (emit e w) = h_ocr_mask w"
  "h_ocr_avail_sdio (emit e w) = h_ocr_avail_sdio w"
  "h_ocr_avail_sd (emit e w) = h_ocr_avail_sd w"
  "h_ocr_avail_mmc (emit e w) = h_ocr_avail_mmc w"
  "h_dma_mask (emit e w) = h_dma_mask w"
  "h_sdhci_core_to_disable_vqmmc (emit e w) = h_sdhci_core_to_disable_vqmmc w"
  "mh (emit e w) = mh w"
  "of_node (emit e w) = of_node w"
  "m_dev_name (emit e w) = m_dev_name w"
  "pltfm_clock (emit e w) = pltfm_clock w"
  "cvi (emit e w) = cvi w"
  "e_num (emit e w) = e_num w"
  "e_io (emit e w) = e_io w"
  by (simp_all add: emit_def)

subsection \<open>The request view\<close>

text \<open>What never changes of a command that exists: its opcode, its flags but for the busy bit, and
  the busy bit too unless it is a stop command or has a long response, where the driver corrects
  it before sending.\<close>

definition line_of :: "mmc_command \<Rightarrow> u32 \<times> u32 \<times> bool" where
  "line_of c =
     (c_opcode c, c_flags c AND NOT MMC_RSP_BUSY,
      c_opcode c \<noteq> MMC_STOP_TRANSMISSION \<and> \<not> tst (c_flags c) MMC_RSP_136
        \<and> tst (c_flags c) MMC_RSP_BUSY)"

definition links ::
  "world \<Rightarrow> (cmdp \<Rightarrow> mrqp) \<times> (cmdp \<Rightarrow> datap option) \<times> (datap \<Rightarrow> mrqp)
    \<times> (datap \<Rightarrow> cmdp option) \<times> (cmdp \<Rightarrow> u32 \<times> u32 \<times> bool) \<times> u32
    \<times> (mrqp \<Rightarrow> mmc_request)" where
  "links w = ((\<lambda>c. c_mrq (cmds w c)), (\<lambda>c. c_data (cmds w c)), (\<lambda>d. d_mrq (datas w d)),
              (\<lambda>d. d_stop (datas w d)), (\<lambda>c. line_of (cmds w c)), e_CMD_ADTC w, mrqs w)"

definition rq where
  "rq w = (h_cmd w, h_data_cmd w, h_deferred_cmd w, h_data w, h_mrqs_done w, links w)"

definition is_int :: "event \<Rightarrow> bool" where
  "is_int e = (case e of
     Wr32 r v \<Rightarrow> r = SDHCI_INT_STATUS \<or> r = SDHCI_INT_ENABLE \<or> r = SDHCI_SIGNAL_ENABLE
   | _ \<Rightarrow> False)"

definition iv :: "world \<Rightarrow> u32 \<times> event list" where
  "iv w = (h_ier w, filter is_int (hist w))"

definition vw where
  "vw w = (rq w, iv w)"

lemma is_int_simps [simp]:
  "is_int (Wr32 r v) \<longleftrightarrow>
     r = SDHCI_INT_STATUS \<or> r = SDHCI_INT_ENABLE \<or> r = SDHCI_SIGNAL_ENABLE"
  "\<not> is_int (Rd32 r)" "\<not> is_int (Rd16 r)" "\<not> is_int (Rd8 r)" "\<not> is_int (Wr16 r x)"
  "\<not> is_int (Wr8 r y)" "\<not> is_int ReadTick" "\<not> is_int (Udelay n)" "\<not> is_int (Mdelay n)"
  "\<not> is_int (TimerStart b t)" "\<not> is_int (TimerStop b)" "\<not> is_int (RequestDone q)"
  "\<not> is_int (CommandDone q)" "\<not> is_int QueueWork" "\<not> is_int WakeBufReady"
  "\<not> is_int DetectChange" "\<not> is_int RetuneNeeded" "\<not> is_int SdioIrq"
  "\<not> is_int (CacheFlush a n')" "\<not> is_int (CacheInvalidate a n')" "\<not> is_int (MallocAlign a n'')"
  "\<not> is_int (FreeAlign a)" "\<not> is_int (Warn n)" "\<not> is_int (Malloc a)" "\<not> is_int (Free a)"
  "\<not> is_int (PagesAlloc a)" "\<not> is_int (FreeCoherent a b' c)" "\<not> is_int (IoRd8 a)"
  "\<not> is_int (IoWr8 a y)" "\<not> is_int (IoRd32 a)" "\<not> is_int (IoWr32 a v)" "\<not> is_int (OsCall s)"
  by (simp_all add: is_int_def)

lemma vwD:
  assumes "vw w' = vw w"
  shows "rq w' = rq w" "iv w' = iv w" "links w' = links w" "h_ier w' = h_ier w"
    "h_cmd w' = h_cmd w" "h_data_cmd w' = h_data_cmd w" "h_deferred_cmd w' = h_deferred_cmd w"
    "h_data w' = h_data w" "h_mrqs_done w' = h_mrqs_done w" "mrqs w' = mrqs w"
  using assms by (simp_all add: vw_def rq_def iv_def links_def)

lemma rqD:
  assumes "rq w' = rq w"
  shows "links w' = links w" "h_cmd w' = h_cmd w" "h_data_cmd w' = h_data_cmd w"
    "h_deferred_cmd w' = h_deferred_cmd w" "h_data w' = h_data w"
    "h_mrqs_done w' = h_mrqs_done w" "mrqs w' = mrqs w"
  using assms by (simp_all add: rq_def links_def)

lemma linksD:
  assumes "links w' = links w"
  shows "c_mrq (cmds w' c) = c_mrq (cmds w c)" "c_data (cmds w' c) = c_data (cmds w c)"
    "d_mrq (datas w' d) = d_mrq (datas w d)" "d_stop (datas w' d) = d_stop (datas w d)"
    "mrqs w' = mrqs w" "line_of (cmds w' c) = line_of (cmds w c)" "e_CMD_ADTC w' = e_CMD_ADTC w"
  using assms by (auto simp: links_def fun_eq_iff)

subsection \<open>Elementary steps\<close>

lemma rq_emit [simp]: "rq (emit e w) = rq w" "links (emit e w) = links w"
  by (simp_all add: rq_def links_def)

lemma iv_emit [simp]: "\<not> is_int e \<Longrightarrow> iv (emit e w) = iv w"
  by (simp add: iv_def)

lemma vw_emit [simp]: "\<not> is_int e \<Longrightarrow> vw (emit e w) = vw w"
  by (simp add: vw_def)

lemma links_upd [simp]:
  "links (w\<lparr>h_quirks := x_h_quirks\<rparr>) = links w"
  "links (w\<lparr>h_quirks2 := x_h_quirks2\<rparr>) = links w"
  "links (w\<lparr>h_bounce_buffer := x_h_bounce_buffer\<rparr>) = links w"
  "links (w\<lparr>h_bounce_addr := x_h_bounce_addr\<rparr>) = links w"
  "links (w\<lparr>h_bounce_buffer_size := x_h_bounce_buffer_size\<rparr>) = links w"
  "links (w\<lparr>h_flags := x_h_flags\<rparr>) = links w"
  "links (w\<lparr>h_version := x_h_version\<rparr>) = links w"
  "links (w\<lparr>h_max_clk := x_h_max_clk\<rparr>) = links w"
  "links (w\<lparr>h_timeout_clk := x_h_timeout_clk\<rparr>) = links w"
  "links (w\<lparr>h_clk_mul := x_h_clk_mul\<rparr>) = links w"
  "links (w\<lparr>h_clock := x_h_clock\<rparr>) = links w"
  "links (w\<lparr>h_pwr := x_h_pwr\<rparr>) = links w"
  "links (w\<lparr>h_runtime_suspended := x_h_runtime_suspended\<rparr>) = links w"
  "links (w\<lparr>h_bus_on := x_h_bus_on\<rparr>) = links w"
  "links (w\<lparr>h_preset_enabled := x_h_preset_enabled\<rparr>) = links w"
  "links (w\<lparr>h_pending_reset := x_h_pending_reset\<rparr>) = links w"
  "links (w\<lparr>h_irq_wake_enabled := x_h_irq_wake_enabled\<rparr>) = links w"
  "links (w\<lparr>h_v4_mode := x_h_v4_mode\<rparr>) = links w"
  "links (w\<lparr>h_use_external_dma := x_h_use_external_dma\<rparr>) = links w"
  "links (w\<lparr>h_always_defer_done := x_h_always_defer_done\<rparr>) = links w"
  "links (w\<lparr>h_mrqs_done := x_h_mrqs_done\<rparr>) = links w"
  "links (w\<lparr>h_cmd := x_h_cmd\<rparr>) = links w"
  "links (w\<lparr>h_data_cmd := x_h_data_cmd\<rparr>) = links w"
  "links (w\<lparr>h_deferred_cmd := x_h_deferred_cmd\<rparr>) = links w"
  "links (w\<lparr>h_data := x_h_data\<rparr>) = links w"
  "links (w\<lparr>h_data_early := x_h_data_early\<rparr>) = links w"
  "links (w\<lparr>h_sg_miter := x_h_sg_miter\<rparr>) = links w"
  "links (w\<lparr>h_blocks := x_h_blocks\<rparr>) = links w"
  "links (w\<lparr>h_sg_count := x_h_sg_count\<rparr>) = links w"
  "links (w\<lparr>h_adma_table := x_h_adma_table\<rparr>) = links w"
  "links (w\<lparr>h_align_buffer := x_h_align_buffer\<rparr>) = links w"
  "links (w\<lparr>h_adma_table_sz := x_h_adma_table_sz\<rparr>) = links w"
  "links (w\<lparr>h_align_buffer_sz := x_h_align_buffer_sz\<rparr>) = links w"
  "links (w\<lparr>h_adma_addr := x_h_adma_addr\<rparr>) = links w"
  "links (w\<lparr>h_align_addr := x_h_align_addr\<rparr>) = links w"
  "links (w\<lparr>h_desc_sz := x_h_desc_sz\<rparr>) = links w"
  "links (w\<lparr>h_alloc_desc_sz := x_h_alloc_desc_sz\<rparr>) = links w"
  "links (w\<lparr>h_timer := x_h_timer\<rparr>) = links w"
  "links (w\<lparr>h_data_timer := x_h_data_timer\<rparr>) = links w"
  "links (w\<lparr>h_caps := x_h_caps\<rparr>) = links w"
  "links (w\<lparr>h_caps1 := x_h_caps1\<rparr>) = links w"
  "links (w\<lparr>h_read_caps := x_h_read_caps\<rparr>) = links w"
  "links (w\<lparr>h_timing := x_h_timing\<rparr>) = links w"
  "links (w\<lparr>h_thread_isr := x_h_thread_isr\<rparr>) = links w"
  "links (w\<lparr>h_ier := x_h_ier\<rparr>) = links w"
  "links (w\<lparr>h_cqe_on := x_h_cqe_on\<rparr>) = links w"
  "links (w\<lparr>h_cqe_ier := x_h_cqe_ier\<rparr>) = links w"
  "links (w\<lparr>h_cqe_err_ier := x_h_cqe_err_ier\<rparr>) = links w"
  "links (w\<lparr>h_tuning_done := x_h_tuning_done\<rparr>) = links w"
  "links (w\<lparr>h_tuning_count := x_h_tuning_count\<rparr>) = links w"
  "links (w\<lparr>h_tuning_mode := x_h_tuning_mode\<rparr>) = links w"
  "links (w\<lparr>h_tuning_err := x_h_tuning_err\<rparr>) = links w"
  "links (w\<lparr>h_tuning_delay := x_h_tuning_delay\<rparr>) = links w"
  "links (w\<lparr>h_tuning_loop_count := x_h_tuning_loop_count\<rparr>) = links w"
  "links (w\<lparr>h_sdma_boundary := x_h_sdma_boundary\<rparr>) = links w"
  "links (w\<lparr>h_adma_table_cnt := x_h_adma_table_cnt\<rparr>) = links w"
  "links (w\<lparr>h_data_timeout := x_h_data_timeout\<rparr>) = links w"
  "links (w\<lparr>h_ocr_mask := x_h_ocr_mask\<rparr>) = links w"
  "links (w\<lparr>h_ocr_avail_sdio := x_h_ocr_avail_sdio\<rparr>) = links w"
  "links (w\<lparr>h_ocr_avail_sd := x_h_ocr_avail_sd\<rparr>) = links w"
  "links (w\<lparr>h_ocr_avail_mmc := x_h_ocr_avail_mmc\<rparr>) = links w"
  "links (w\<lparr>h_dma_mask := x_h_dma_mask\<rparr>) = links w"
  "links (w\<lparr>h_sdhci_core_to_disable_vqmmc := x_h_sdhci_core_to_disable_vqmmc\<rparr>) = links w"
  "links (w\<lparr>mh := x_mh\<rparr>) = links w"
  "links (w\<lparr>of_node := x_of_node\<rparr>) = links w"
  "links (w\<lparr>m_dev_name := x_m_dev_name\<rparr>) = links w"
  "links (w\<lparr>pltfm_clock := x_pltfm_clock\<rparr>) = links w"
  "links (w\<lparr>cvi := x_cvi\<rparr>) = links w"
  "links (w\<lparr>e_num := x_e_num\<rparr>) = links w"
  "links (w\<lparr>e_io := x_e_io\<rparr>) = links w"
  "links (w\<lparr>m_actual_clock := x_m_actual_clock\<rparr>) = links w"
  "links (w\<lparr>m_caps := x_m_caps\<rparr>) = links w"
  "links (w\<lparr>m_caps2 := x_m_caps2\<rparr>) = links w"
  "links (w\<lparr>m_ios := x_m_ios\<rparr>) = links w"
  "links (w\<lparr>m_max_blk_size := x_m_max_blk_size\<rparr>) = links w"
  "links (w\<lparr>m_max_busy_timeout := x_m_max_busy_timeout\<rparr>) = links w"
  "links (w\<lparr>m_retune_period := x_m_retune_period\<rparr>) = links w"
  "links (w\<lparr>m_vmmc := x_m_vmmc\<rparr>) = links w"
  "links (w\<lparr>m_vqmmc := x_m_vqmmc\<rparr>) = links w"
  "links (w\<lparr>m_sg := x_m_sg\<rparr>) = links w"
  "links (w\<lparr>mem := x_mem\<rparr>) = links w"
  "links (w\<lparr>hist := x_hist\<rparr>) = links w"
  "links (w\<lparr>e_rd := x_e_rd\<rparr>) = links w"
  "links (w\<lparr>e_tick := x_e_tick\<rparr>) = links w"
  "links (w\<lparr>e_alloc := x_e_alloc\<rparr>) = links w"
  "links (w\<lparr>e_v2p := x_e_v2p\<rparr>) = links w"
  "links (w\<lparr>e_HZ := x_e_HZ\<rparr>) = links w"
  "links (w\<lparr>e_CAP_NONREMOVABLE := x_e_CAP_NONREMOVABLE\<rparr>) = links w"
  "links (w\<lparr>e_CAP_8_BIT_DATA := x_e_CAP_8_BIT_DATA\<rparr>) = links w"
  by (simp_all add: links_def)

lemma rq_upd [simp]:
  "rq (w\<lparr>h_quirks := x_h_quirks\<rparr>) = rq w"
  "rq (w\<lparr>h_quirks2 := x_h_quirks2\<rparr>) = rq w"
  "rq (w\<lparr>h_bounce_buffer := x_h_bounce_buffer\<rparr>) = rq w"
  "rq (w\<lparr>h_bounce_addr := x_h_bounce_addr\<rparr>) = rq w"
  "rq (w\<lparr>h_bounce_buffer_size := x_h_bounce_buffer_size\<rparr>) = rq w"
  "rq (w\<lparr>h_flags := x_h_flags\<rparr>) = rq w"
  "rq (w\<lparr>h_version := x_h_version\<rparr>) = rq w"
  "rq (w\<lparr>h_max_clk := x_h_max_clk\<rparr>) = rq w"
  "rq (w\<lparr>h_timeout_clk := x_h_timeout_clk\<rparr>) = rq w"
  "rq (w\<lparr>h_clk_mul := x_h_clk_mul\<rparr>) = rq w"
  "rq (w\<lparr>h_clock := x_h_clock\<rparr>) = rq w"
  "rq (w\<lparr>h_pwr := x_h_pwr\<rparr>) = rq w"
  "rq (w\<lparr>h_runtime_suspended := x_h_runtime_suspended\<rparr>) = rq w"
  "rq (w\<lparr>h_bus_on := x_h_bus_on\<rparr>) = rq w"
  "rq (w\<lparr>h_preset_enabled := x_h_preset_enabled\<rparr>) = rq w"
  "rq (w\<lparr>h_pending_reset := x_h_pending_reset\<rparr>) = rq w"
  "rq (w\<lparr>h_irq_wake_enabled := x_h_irq_wake_enabled\<rparr>) = rq w"
  "rq (w\<lparr>h_v4_mode := x_h_v4_mode\<rparr>) = rq w"
  "rq (w\<lparr>h_use_external_dma := x_h_use_external_dma\<rparr>) = rq w"
  "rq (w\<lparr>h_always_defer_done := x_h_always_defer_done\<rparr>) = rq w"
  "rq (w\<lparr>h_data_early := x_h_data_early\<rparr>) = rq w"
  "rq (w\<lparr>h_sg_miter := x_h_sg_miter\<rparr>) = rq w"
  "rq (w\<lparr>h_blocks := x_h_blocks\<rparr>) = rq w"
  "rq (w\<lparr>h_sg_count := x_h_sg_count\<rparr>) = rq w"
  "rq (w\<lparr>h_adma_table := x_h_adma_table\<rparr>) = rq w"
  "rq (w\<lparr>h_align_buffer := x_h_align_buffer\<rparr>) = rq w"
  "rq (w\<lparr>h_adma_table_sz := x_h_adma_table_sz\<rparr>) = rq w"
  "rq (w\<lparr>h_align_buffer_sz := x_h_align_buffer_sz\<rparr>) = rq w"
  "rq (w\<lparr>h_adma_addr := x_h_adma_addr\<rparr>) = rq w"
  "rq (w\<lparr>h_align_addr := x_h_align_addr\<rparr>) = rq w"
  "rq (w\<lparr>h_desc_sz := x_h_desc_sz\<rparr>) = rq w"
  "rq (w\<lparr>h_alloc_desc_sz := x_h_alloc_desc_sz\<rparr>) = rq w"
  "rq (w\<lparr>h_timer := x_h_timer\<rparr>) = rq w"
  "rq (w\<lparr>h_data_timer := x_h_data_timer\<rparr>) = rq w"
  "rq (w\<lparr>h_caps := x_h_caps\<rparr>) = rq w"
  "rq (w\<lparr>h_caps1 := x_h_caps1\<rparr>) = rq w"
  "rq (w\<lparr>h_read_caps := x_h_read_caps\<rparr>) = rq w"
  "rq (w\<lparr>h_timing := x_h_timing\<rparr>) = rq w"
  "rq (w\<lparr>h_thread_isr := x_h_thread_isr\<rparr>) = rq w"
  "rq (w\<lparr>h_ier := x_h_ier\<rparr>) = rq w"
  "rq (w\<lparr>h_cqe_on := x_h_cqe_on\<rparr>) = rq w"
  "rq (w\<lparr>h_cqe_ier := x_h_cqe_ier\<rparr>) = rq w"
  "rq (w\<lparr>h_cqe_err_ier := x_h_cqe_err_ier\<rparr>) = rq w"
  "rq (w\<lparr>h_tuning_done := x_h_tuning_done\<rparr>) = rq w"
  "rq (w\<lparr>h_tuning_count := x_h_tuning_count\<rparr>) = rq w"
  "rq (w\<lparr>h_tuning_mode := x_h_tuning_mode\<rparr>) = rq w"
  "rq (w\<lparr>h_tuning_err := x_h_tuning_err\<rparr>) = rq w"
  "rq (w\<lparr>h_tuning_delay := x_h_tuning_delay\<rparr>) = rq w"
  "rq (w\<lparr>h_tuning_loop_count := x_h_tuning_loop_count\<rparr>) = rq w"
  "rq (w\<lparr>h_sdma_boundary := x_h_sdma_boundary\<rparr>) = rq w"
  "rq (w\<lparr>h_adma_table_cnt := x_h_adma_table_cnt\<rparr>) = rq w"
  "rq (w\<lparr>h_data_timeout := x_h_data_timeout\<rparr>) = rq w"
  "rq (w\<lparr>h_ocr_mask := x_h_ocr_mask\<rparr>) = rq w"
  "rq (w\<lparr>h_ocr_avail_sdio := x_h_ocr_avail_sdio\<rparr>) = rq w"
  "rq (w\<lparr>h_ocr_avail_sd := x_h_ocr_avail_sd\<rparr>) = rq w"
  "rq (w\<lparr>h_ocr_avail_mmc := x_h_ocr_avail_mmc\<rparr>) = rq w"
  "rq (w\<lparr>h_dma_mask := x_h_dma_mask\<rparr>) = rq w"
  "rq (w\<lparr>h_sdhci_core_to_disable_vqmmc := x_h_sdhci_core_to_disable_vqmmc\<rparr>) = rq w"
  "rq (w\<lparr>mh := x_mh\<rparr>) = rq w"
  "rq (w\<lparr>of_node := x_of_node\<rparr>) = rq w"
  "rq (w\<lparr>m_dev_name := x_m_dev_name\<rparr>) = rq w"
  "rq (w\<lparr>pltfm_clock := x_pltfm_clock\<rparr>) = rq w"
  "rq (w\<lparr>cvi := x_cvi\<rparr>) = rq w"
  "rq (w\<lparr>e_num := x_e_num\<rparr>) = rq w"
  "rq (w\<lparr>e_io := x_e_io\<rparr>) = rq w"
  "rq (w\<lparr>m_actual_clock := x_m_actual_clock\<rparr>) = rq w"
  "rq (w\<lparr>m_caps := x_m_caps\<rparr>) = rq w"
  "rq (w\<lparr>m_caps2 := x_m_caps2\<rparr>) = rq w"
  "rq (w\<lparr>m_ios := x_m_ios\<rparr>) = rq w"
  "rq (w\<lparr>m_max_blk_size := x_m_max_blk_size\<rparr>) = rq w"
  "rq (w\<lparr>m_max_busy_timeout := x_m_max_busy_timeout\<rparr>) = rq w"
  "rq (w\<lparr>m_retune_period := x_m_retune_period\<rparr>) = rq w"
  "rq (w\<lparr>m_vmmc := x_m_vmmc\<rparr>) = rq w"
  "rq (w\<lparr>m_vqmmc := x_m_vqmmc\<rparr>) = rq w"
  "rq (w\<lparr>m_sg := x_m_sg\<rparr>) = rq w"
  "rq (w\<lparr>mem := x_mem\<rparr>) = rq w"
  "rq (w\<lparr>hist := x_hist\<rparr>) = rq w"
  "rq (w\<lparr>e_rd := x_e_rd\<rparr>) = rq w"
  "rq (w\<lparr>e_tick := x_e_tick\<rparr>) = rq w"
  "rq (w\<lparr>e_alloc := x_e_alloc\<rparr>) = rq w"
  "rq (w\<lparr>e_v2p := x_e_v2p\<rparr>) = rq w"
  "rq (w\<lparr>e_HZ := x_e_HZ\<rparr>) = rq w"
  "rq (w\<lparr>e_CAP_NONREMOVABLE := x_e_CAP_NONREMOVABLE\<rparr>) = rq w"
  "rq (w\<lparr>e_CAP_8_BIT_DATA := x_e_CAP_8_BIT_DATA\<rparr>) = rq w"
  by (simp_all add: rq_def links_def)

lemma iv_upd [simp]:
  "iv (w\<lparr>h_quirks := x_h_quirks\<rparr>) = iv w"
  "iv (w\<lparr>h_quirks2 := x_h_quirks2\<rparr>) = iv w"
  "iv (w\<lparr>h_bounce_buffer := x_h_bounce_buffer\<rparr>) = iv w"
  "iv (w\<lparr>h_bounce_addr := x_h_bounce_addr\<rparr>) = iv w"
  "iv (w\<lparr>h_bounce_buffer_size := x_h_bounce_buffer_size\<rparr>) = iv w"
  "iv (w\<lparr>h_flags := x_h_flags\<rparr>) = iv w"
  "iv (w\<lparr>h_version := x_h_version\<rparr>) = iv w"
  "iv (w\<lparr>h_max_clk := x_h_max_clk\<rparr>) = iv w"
  "iv (w\<lparr>h_timeout_clk := x_h_timeout_clk\<rparr>) = iv w"
  "iv (w\<lparr>h_clk_mul := x_h_clk_mul\<rparr>) = iv w"
  "iv (w\<lparr>h_clock := x_h_clock\<rparr>) = iv w"
  "iv (w\<lparr>h_pwr := x_h_pwr\<rparr>) = iv w"
  "iv (w\<lparr>h_runtime_suspended := x_h_runtime_suspended\<rparr>) = iv w"
  "iv (w\<lparr>h_bus_on := x_h_bus_on\<rparr>) = iv w"
  "iv (w\<lparr>h_preset_enabled := x_h_preset_enabled\<rparr>) = iv w"
  "iv (w\<lparr>h_pending_reset := x_h_pending_reset\<rparr>) = iv w"
  "iv (w\<lparr>h_irq_wake_enabled := x_h_irq_wake_enabled\<rparr>) = iv w"
  "iv (w\<lparr>h_v4_mode := x_h_v4_mode\<rparr>) = iv w"
  "iv (w\<lparr>h_use_external_dma := x_h_use_external_dma\<rparr>) = iv w"
  "iv (w\<lparr>h_always_defer_done := x_h_always_defer_done\<rparr>) = iv w"
  "iv (w\<lparr>h_mrqs_done := x_h_mrqs_done\<rparr>) = iv w"
  "iv (w\<lparr>h_cmd := x_h_cmd\<rparr>) = iv w"
  "iv (w\<lparr>h_data_cmd := x_h_data_cmd\<rparr>) = iv w"
  "iv (w\<lparr>h_deferred_cmd := x_h_deferred_cmd\<rparr>) = iv w"
  "iv (w\<lparr>h_data := x_h_data\<rparr>) = iv w"
  "iv (w\<lparr>h_data_early := x_h_data_early\<rparr>) = iv w"
  "iv (w\<lparr>h_sg_miter := x_h_sg_miter\<rparr>) = iv w"
  "iv (w\<lparr>h_blocks := x_h_blocks\<rparr>) = iv w"
  "iv (w\<lparr>h_sg_count := x_h_sg_count\<rparr>) = iv w"
  "iv (w\<lparr>h_adma_table := x_h_adma_table\<rparr>) = iv w"
  "iv (w\<lparr>h_align_buffer := x_h_align_buffer\<rparr>) = iv w"
  "iv (w\<lparr>h_adma_table_sz := x_h_adma_table_sz\<rparr>) = iv w"
  "iv (w\<lparr>h_align_buffer_sz := x_h_align_buffer_sz\<rparr>) = iv w"
  "iv (w\<lparr>h_adma_addr := x_h_adma_addr\<rparr>) = iv w"
  "iv (w\<lparr>h_align_addr := x_h_align_addr\<rparr>) = iv w"
  "iv (w\<lparr>h_desc_sz := x_h_desc_sz\<rparr>) = iv w"
  "iv (w\<lparr>h_alloc_desc_sz := x_h_alloc_desc_sz\<rparr>) = iv w"
  "iv (w\<lparr>h_timer := x_h_timer\<rparr>) = iv w"
  "iv (w\<lparr>h_data_timer := x_h_data_timer\<rparr>) = iv w"
  "iv (w\<lparr>h_caps := x_h_caps\<rparr>) = iv w"
  "iv (w\<lparr>h_caps1 := x_h_caps1\<rparr>) = iv w"
  "iv (w\<lparr>h_read_caps := x_h_read_caps\<rparr>) = iv w"
  "iv (w\<lparr>h_timing := x_h_timing\<rparr>) = iv w"
  "iv (w\<lparr>h_thread_isr := x_h_thread_isr\<rparr>) = iv w"
  "iv (w\<lparr>h_cqe_on := x_h_cqe_on\<rparr>) = iv w"
  "iv (w\<lparr>h_cqe_ier := x_h_cqe_ier\<rparr>) = iv w"
  "iv (w\<lparr>h_cqe_err_ier := x_h_cqe_err_ier\<rparr>) = iv w"
  "iv (w\<lparr>h_tuning_done := x_h_tuning_done\<rparr>) = iv w"
  "iv (w\<lparr>h_tuning_count := x_h_tuning_count\<rparr>) = iv w"
  "iv (w\<lparr>h_tuning_mode := x_h_tuning_mode\<rparr>) = iv w"
  "iv (w\<lparr>h_tuning_err := x_h_tuning_err\<rparr>) = iv w"
  "iv (w\<lparr>h_tuning_delay := x_h_tuning_delay\<rparr>) = iv w"
  "iv (w\<lparr>h_tuning_loop_count := x_h_tuning_loop_count\<rparr>) = iv w"
  "iv (w\<lparr>h_sdma_boundary := x_h_sdma_boundary\<rparr>) = iv w"
  "iv (w\<lparr>h_adma_table_cnt := x_h_adma_table_cnt\<rparr>) = iv w"
  "iv (w\<lparr>h_data_timeout := x_h_data_timeout\<rparr>) = iv w"
  "iv (w\<lparr>h_ocr_mask := x_h_ocr_mask\<rparr>) = iv w"
  "iv (w\<lparr>h_ocr_avail_sdio := x_h_ocr_avail_sdio\<rparr>) = iv w"
  "iv (w\<lparr>h_ocr_avail_sd := x_h_ocr_avail_sd\<rparr>) = iv w"
  "iv (w\<lparr>h_ocr_avail_mmc := x_h_ocr_avail_mmc\<rparr>) = iv w"
  "iv (w\<lparr>h_dma_mask := x_h_dma_mask\<rparr>) = iv w"
  "iv (w\<lparr>h_sdhci_core_to_disable_vqmmc := x_h_sdhci_core_to_disable_vqmmc\<rparr>) = iv w"
  "iv (w\<lparr>mh := x_mh\<rparr>) = iv w"
  "iv (w\<lparr>of_node := x_of_node\<rparr>) = iv w"
  "iv (w\<lparr>m_dev_name := x_m_dev_name\<rparr>) = iv w"
  "iv (w\<lparr>pltfm_clock := x_pltfm_clock\<rparr>) = iv w"
  "iv (w\<lparr>cvi := x_cvi\<rparr>) = iv w"
  "iv (w\<lparr>e_num := x_e_num\<rparr>) = iv w"
  "iv (w\<lparr>e_io := x_e_io\<rparr>) = iv w"
  "iv (w\<lparr>m_actual_clock := x_m_actual_clock\<rparr>) = iv w"
  "iv (w\<lparr>m_caps := x_m_caps\<rparr>) = iv w"
  "iv (w\<lparr>m_caps2 := x_m_caps2\<rparr>) = iv w"
  "iv (w\<lparr>m_ios := x_m_ios\<rparr>) = iv w"
  "iv (w\<lparr>m_max_blk_size := x_m_max_blk_size\<rparr>) = iv w"
  "iv (w\<lparr>m_max_busy_timeout := x_m_max_busy_timeout\<rparr>) = iv w"
  "iv (w\<lparr>m_retune_period := x_m_retune_period\<rparr>) = iv w"
  "iv (w\<lparr>m_vmmc := x_m_vmmc\<rparr>) = iv w"
  "iv (w\<lparr>m_vqmmc := x_m_vqmmc\<rparr>) = iv w"
  "iv (w\<lparr>m_sg := x_m_sg\<rparr>) = iv w"
  "iv (w\<lparr>cmds := x_cmds\<rparr>) = iv w"
  "iv (w\<lparr>datas := x_datas\<rparr>) = iv w"
  "iv (w\<lparr>mrqs := x_mrqs\<rparr>) = iv w"
  "iv (w\<lparr>mem := x_mem\<rparr>) = iv w"
  "iv (w\<lparr>e_rd := x_e_rd\<rparr>) = iv w"
  "iv (w\<lparr>e_tick := x_e_tick\<rparr>) = iv w"
  "iv (w\<lparr>e_alloc := x_e_alloc\<rparr>) = iv w"
  "iv (w\<lparr>e_v2p := x_e_v2p\<rparr>) = iv w"
  "iv (w\<lparr>e_HZ := x_e_HZ\<rparr>) = iv w"
  "iv (w\<lparr>e_CAP_NONREMOVABLE := x_e_CAP_NONREMOVABLE\<rparr>) = iv w"
  "iv (w\<lparr>e_CAP_8_BIT_DATA := x_e_CAP_8_BIT_DATA\<rparr>) = iv w"
  "iv (w\<lparr>e_CMD_ADTC := x_e_CMD_ADTC\<rparr>) = iv w"
  by (simp_all add: iv_def)

lemma vw_upd [simp]:
  "vw (w\<lparr>h_quirks := x_h_quirks\<rparr>) = vw w"
  "vw (w\<lparr>h_quirks2 := x_h_quirks2\<rparr>) = vw w"
  "vw (w\<lparr>h_bounce_buffer := x_h_bounce_buffer\<rparr>) = vw w"
  "vw (w\<lparr>h_bounce_addr := x_h_bounce_addr\<rparr>) = vw w"
  "vw (w\<lparr>h_bounce_buffer_size := x_h_bounce_buffer_size\<rparr>) = vw w"
  "vw (w\<lparr>h_flags := x_h_flags\<rparr>) = vw w"
  "vw (w\<lparr>h_version := x_h_version\<rparr>) = vw w"
  "vw (w\<lparr>h_max_clk := x_h_max_clk\<rparr>) = vw w"
  "vw (w\<lparr>h_timeout_clk := x_h_timeout_clk\<rparr>) = vw w"
  "vw (w\<lparr>h_clk_mul := x_h_clk_mul\<rparr>) = vw w"
  "vw (w\<lparr>h_clock := x_h_clock\<rparr>) = vw w"
  "vw (w\<lparr>h_pwr := x_h_pwr\<rparr>) = vw w"
  "vw (w\<lparr>h_runtime_suspended := x_h_runtime_suspended\<rparr>) = vw w"
  "vw (w\<lparr>h_bus_on := x_h_bus_on\<rparr>) = vw w"
  "vw (w\<lparr>h_preset_enabled := x_h_preset_enabled\<rparr>) = vw w"
  "vw (w\<lparr>h_pending_reset := x_h_pending_reset\<rparr>) = vw w"
  "vw (w\<lparr>h_irq_wake_enabled := x_h_irq_wake_enabled\<rparr>) = vw w"
  "vw (w\<lparr>h_v4_mode := x_h_v4_mode\<rparr>) = vw w"
  "vw (w\<lparr>h_use_external_dma := x_h_use_external_dma\<rparr>) = vw w"
  "vw (w\<lparr>h_always_defer_done := x_h_always_defer_done\<rparr>) = vw w"
  "vw (w\<lparr>h_data_early := x_h_data_early\<rparr>) = vw w"
  "vw (w\<lparr>h_sg_miter := x_h_sg_miter\<rparr>) = vw w"
  "vw (w\<lparr>h_blocks := x_h_blocks\<rparr>) = vw w"
  "vw (w\<lparr>h_sg_count := x_h_sg_count\<rparr>) = vw w"
  "vw (w\<lparr>h_adma_table := x_h_adma_table\<rparr>) = vw w"
  "vw (w\<lparr>h_align_buffer := x_h_align_buffer\<rparr>) = vw w"
  "vw (w\<lparr>h_adma_table_sz := x_h_adma_table_sz\<rparr>) = vw w"
  "vw (w\<lparr>h_align_buffer_sz := x_h_align_buffer_sz\<rparr>) = vw w"
  "vw (w\<lparr>h_adma_addr := x_h_adma_addr\<rparr>) = vw w"
  "vw (w\<lparr>h_align_addr := x_h_align_addr\<rparr>) = vw w"
  "vw (w\<lparr>h_desc_sz := x_h_desc_sz\<rparr>) = vw w"
  "vw (w\<lparr>h_alloc_desc_sz := x_h_alloc_desc_sz\<rparr>) = vw w"
  "vw (w\<lparr>h_timer := x_h_timer\<rparr>) = vw w"
  "vw (w\<lparr>h_data_timer := x_h_data_timer\<rparr>) = vw w"
  "vw (w\<lparr>h_caps := x_h_caps\<rparr>) = vw w"
  "vw (w\<lparr>h_caps1 := x_h_caps1\<rparr>) = vw w"
  "vw (w\<lparr>h_read_caps := x_h_read_caps\<rparr>) = vw w"
  "vw (w\<lparr>h_timing := x_h_timing\<rparr>) = vw w"
  "vw (w\<lparr>h_thread_isr := x_h_thread_isr\<rparr>) = vw w"
  "vw (w\<lparr>h_cqe_on := x_h_cqe_on\<rparr>) = vw w"
  "vw (w\<lparr>h_cqe_ier := x_h_cqe_ier\<rparr>) = vw w"
  "vw (w\<lparr>h_cqe_err_ier := x_h_cqe_err_ier\<rparr>) = vw w"
  "vw (w\<lparr>h_tuning_done := x_h_tuning_done\<rparr>) = vw w"
  "vw (w\<lparr>h_tuning_count := x_h_tuning_count\<rparr>) = vw w"
  "vw (w\<lparr>h_tuning_mode := x_h_tuning_mode\<rparr>) = vw w"
  "vw (w\<lparr>h_tuning_err := x_h_tuning_err\<rparr>) = vw w"
  "vw (w\<lparr>h_tuning_delay := x_h_tuning_delay\<rparr>) = vw w"
  "vw (w\<lparr>h_tuning_loop_count := x_h_tuning_loop_count\<rparr>) = vw w"
  "vw (w\<lparr>h_sdma_boundary := x_h_sdma_boundary\<rparr>) = vw w"
  "vw (w\<lparr>h_adma_table_cnt := x_h_adma_table_cnt\<rparr>) = vw w"
  "vw (w\<lparr>h_data_timeout := x_h_data_timeout\<rparr>) = vw w"
  "vw (w\<lparr>h_ocr_mask := x_h_ocr_mask\<rparr>) = vw w"
  "vw (w\<lparr>h_ocr_avail_sdio := x_h_ocr_avail_sdio\<rparr>) = vw w"
  "vw (w\<lparr>h_ocr_avail_sd := x_h_ocr_avail_sd\<rparr>) = vw w"
  "vw (w\<lparr>h_ocr_avail_mmc := x_h_ocr_avail_mmc\<rparr>) = vw w"
  "vw (w\<lparr>h_dma_mask := x_h_dma_mask\<rparr>) = vw w"
  "vw (w\<lparr>h_sdhci_core_to_disable_vqmmc := x_h_sdhci_core_to_disable_vqmmc\<rparr>) = vw w"
  "vw (w\<lparr>mh := x_mh\<rparr>) = vw w"
  "vw (w\<lparr>of_node := x_of_node\<rparr>) = vw w"
  "vw (w\<lparr>m_dev_name := x_m_dev_name\<rparr>) = vw w"
  "vw (w\<lparr>pltfm_clock := x_pltfm_clock\<rparr>) = vw w"
  "vw (w\<lparr>cvi := x_cvi\<rparr>) = vw w"
  "vw (w\<lparr>e_num := x_e_num\<rparr>) = vw w"
  "vw (w\<lparr>e_io := x_e_io\<rparr>) = vw w"
  "vw (w\<lparr>m_actual_clock := x_m_actual_clock\<rparr>) = vw w"
  "vw (w\<lparr>m_caps := x_m_caps\<rparr>) = vw w"
  "vw (w\<lparr>m_caps2 := x_m_caps2\<rparr>) = vw w"
  "vw (w\<lparr>m_ios := x_m_ios\<rparr>) = vw w"
  "vw (w\<lparr>m_max_blk_size := x_m_max_blk_size\<rparr>) = vw w"
  "vw (w\<lparr>m_max_busy_timeout := x_m_max_busy_timeout\<rparr>) = vw w"
  "vw (w\<lparr>m_retune_period := x_m_retune_period\<rparr>) = vw w"
  "vw (w\<lparr>m_vmmc := x_m_vmmc\<rparr>) = vw w"
  "vw (w\<lparr>m_vqmmc := x_m_vqmmc\<rparr>) = vw w"
  "vw (w\<lparr>m_sg := x_m_sg\<rparr>) = vw w"
  "vw (w\<lparr>mem := x_mem\<rparr>) = vw w"
  "vw (w\<lparr>e_rd := x_e_rd\<rparr>) = vw w"
  "vw (w\<lparr>e_tick := x_e_tick\<rparr>) = vw w"
  "vw (w\<lparr>e_alloc := x_e_alloc\<rparr>) = vw w"
  "vw (w\<lparr>e_v2p := x_e_v2p\<rparr>) = vw w"
  "vw (w\<lparr>e_HZ := x_e_HZ\<rparr>) = vw w"
  "vw (w\<lparr>e_CAP_NONREMOVABLE := x_e_CAP_NONREMOVABLE\<rparr>) = vw w"
  "vw (w\<lparr>e_CAP_8_BIT_DATA := x_e_CAP_8_BIT_DATA\<rparr>) = vw w"
  by (simp_all add: vw_def)

lemma line_of_upd [simp]:
  "line_of (c\<lparr>c_error := e\<rparr>) = line_of c" "line_of (c\<lparr>c_resp := r\<rparr>) = line_of c"
  by (simp_all add: line_of_def)

lemma line_of_busy:
  "c_opcode c = MMC_STOP_TRANSMISSION \<Longrightarrow> line_of (c\<lparr>c_flags := c_flags c OR MMC_RSP_BUSY\<rparr>) = line_of c"
  "tst (c_flags c) MMC_RSP_136 \<Longrightarrow> line_of (c\<lparr>c_flags := c_flags c AND NOT MMC_RSP_BUSY\<rparr>) = line_of c"
proof -
  have "(f OR MMC_RSP_BUSY) AND NOT MMC_RSP_BUSY = f AND NOT MMC_RSP_BUSY"
    "(f AND NOT MMC_RSP_BUSY) AND NOT MMC_RSP_BUSY = f AND NOT MMC_RSP_BUSY" for f :: u32
    by (auto simp: bit_eq_iff bit_simps)
  moreover have "tst (f AND NOT MMC_RSP_BUSY) MMC_RSP_136 = tst f MMC_RSP_136" for f :: u32
    by (rule tst_clear_other) simp
  ultimately show "c_opcode c = MMC_STOP_TRANSMISSION \<Longrightarrow>
      line_of (c\<lparr>c_flags := c_flags c OR MMC_RSP_BUSY\<rparr>) = line_of c"
    "tst (c_flags c) MMC_RSP_136 \<Longrightarrow>
      line_of (c\<lparr>c_flags := c_flags c AND NOT MMC_RSP_BUSY\<rparr>) = line_of c"
    by (simp_all only: line_of_def mmc_command.simps) simp_all
qed

lemma upd_cmd_view:
  "(\<And>c. c_mrq (f c) = c_mrq c) \<Longrightarrow> (\<And>c. c_data (f c) = c_data c) \<Longrightarrow>
   line_of (f (cmds w cp)) = line_of (cmds w cp) \<Longrightarrow>
   links (upd_cmd cp f w) = links w \<and> rq (upd_cmd cp f w) = rq w
   \<and> iv (upd_cmd cp f w) = iv w \<and> vw (upd_cmd cp f w) = vw w"
  by (auto simp: upd_cmd_def links_def rq_def iv_def vw_def fun_eq_iff)

lemma upd_data_view:
  "(\<And>d. d_mrq (f d) = d_mrq d) \<Longrightarrow> (\<And>d. d_stop (f d) = d_stop d) \<Longrightarrow>
   links (upd_data dp f w) = links w \<and> rq (upd_data dp f w) = rq w
   \<and> iv (upd_data dp f w) = iv w \<and> vw (upd_data dp f w) = vw w"
  by (auto simp: upd_data_def links_def rq_def iv_def vw_def fun_eq_iff)

lemma WARN_ON_simps [simp]:
  "h_quirks (WARN_ON k b w) = h_quirks w"
  "h_quirks2 (WARN_ON k b w) = h_quirks2 w"
  "h_bounce_buffer (WARN_ON k b w) = h_bounce_buffer w"
  "h_bounce_addr (WARN_ON k b w) = h_bounce_addr w"
  "h_bounce_buffer_size (WARN_ON k b w) = h_bounce_buffer_size w"
  "h_flags (WARN_ON k b w) = h_flags w"
  "h_version (WARN_ON k b w) = h_version w"
  "h_max_clk (WARN_ON k b w) = h_max_clk w"
  "h_timeout_clk (WARN_ON k b w) = h_timeout_clk w"
  "h_clk_mul (WARN_ON k b w) = h_clk_mul w"
  "h_clock (WARN_ON k b w) = h_clock w"
  "h_pwr (WARN_ON k b w) = h_pwr w"
  "h_runtime_suspended (WARN_ON k b w) = h_runtime_suspended w"
  "h_bus_on (WARN_ON k b w) = h_bus_on w"
  "h_preset_enabled (WARN_ON k b w) = h_preset_enabled w"
  "h_pending_reset (WARN_ON k b w) = h_pending_reset w"
  "h_irq_wake_enabled (WARN_ON k b w) = h_irq_wake_enabled w"
  "h_v4_mode (WARN_ON k b w) = h_v4_mode w"
  "h_use_external_dma (WARN_ON k b w) = h_use_external_dma w"
  "h_always_defer_done (WARN_ON k b w) = h_always_defer_done w"
  "h_mrqs_done (WARN_ON k b w) = h_mrqs_done w"
  "h_cmd (WARN_ON k b w) = h_cmd w"
  "h_data_cmd (WARN_ON k b w) = h_data_cmd w"
  "h_deferred_cmd (WARN_ON k b w) = h_deferred_cmd w"
  "h_data (WARN_ON k b w) = h_data w"
  "h_data_early (WARN_ON k b w) = h_data_early w"
  "h_sg_miter (WARN_ON k b w) = h_sg_miter w"
  "h_blocks (WARN_ON k b w) = h_blocks w"
  "h_sg_count (WARN_ON k b w) = h_sg_count w"
  "h_adma_table (WARN_ON k b w) = h_adma_table w"
  "h_align_buffer (WARN_ON k b w) = h_align_buffer w"
  "h_adma_table_sz (WARN_ON k b w) = h_adma_table_sz w"
  "h_align_buffer_sz (WARN_ON k b w) = h_align_buffer_sz w"
  "h_adma_addr (WARN_ON k b w) = h_adma_addr w"
  "h_align_addr (WARN_ON k b w) = h_align_addr w"
  "h_desc_sz (WARN_ON k b w) = h_desc_sz w"
  "h_alloc_desc_sz (WARN_ON k b w) = h_alloc_desc_sz w"
  "h_timer (WARN_ON k b w) = h_timer w"
  "h_data_timer (WARN_ON k b w) = h_data_timer w"
  "h_caps (WARN_ON k b w) = h_caps w"
  "h_caps1 (WARN_ON k b w) = h_caps1 w"
  "h_read_caps (WARN_ON k b w) = h_read_caps w"
  "h_timing (WARN_ON k b w) = h_timing w"
  "h_thread_isr (WARN_ON k b w) = h_thread_isr w"
  "h_ier (WARN_ON k b w) = h_ier w"
  "h_cqe_on (WARN_ON k b w) = h_cqe_on w"
  "h_cqe_ier (WARN_ON k b w) = h_cqe_ier w"
  "h_cqe_err_ier (WARN_ON k b w) = h_cqe_err_ier w"
  "h_tuning_done (WARN_ON k b w) = h_tuning_done w"
  "h_tuning_count (WARN_ON k b w) = h_tuning_count w"
  "h_tuning_mode (WARN_ON k b w) = h_tuning_mode w"
  "h_tuning_err (WARN_ON k b w) = h_tuning_err w"
  "h_tuning_delay (WARN_ON k b w) = h_tuning_delay w"
  "h_tuning_loop_count (WARN_ON k b w) = h_tuning_loop_count w"
  "h_sdma_boundary (WARN_ON k b w) = h_sdma_boundary w"
  "h_adma_table_cnt (WARN_ON k b w) = h_adma_table_cnt w"
  "h_data_timeout (WARN_ON k b w) = h_data_timeout w"
  "h_ocr_mask (WARN_ON k b w) = h_ocr_mask w"
  "h_ocr_avail_sdio (WARN_ON k b w) = h_ocr_avail_sdio w"
  "h_ocr_avail_sd (WARN_ON k b w) = h_ocr_avail_sd w"
  "h_ocr_avail_mmc (WARN_ON k b w) = h_ocr_avail_mmc w"
  "h_dma_mask (WARN_ON k b w) = h_dma_mask w"
  "h_sdhci_core_to_disable_vqmmc (WARN_ON k b w) = h_sdhci_core_to_disable_vqmmc w"
  "mh (WARN_ON k b w) = mh w"
  "of_node (WARN_ON k b w) = of_node w"
  "m_dev_name (WARN_ON k b w) = m_dev_name w"
  "pltfm_clock (WARN_ON k b w) = pltfm_clock w"
  "cvi (WARN_ON k b w) = cvi w"
  "e_num (WARN_ON k b w) = e_num w"
  "e_io (WARN_ON k b w) = e_io w"
  "m_actual_clock (WARN_ON k b w) = m_actual_clock w"
  "m_caps (WARN_ON k b w) = m_caps w"
  "m_caps2 (WARN_ON k b w) = m_caps2 w"
  "m_ios (WARN_ON k b w) = m_ios w"
  "m_max_blk_size (WARN_ON k b w) = m_max_blk_size w"
  "m_max_busy_timeout (WARN_ON k b w) = m_max_busy_timeout w"
  "m_retune_period (WARN_ON k b w) = m_retune_period w"
  "m_vmmc (WARN_ON k b w) = m_vmmc w"
  "m_vqmmc (WARN_ON k b w) = m_vqmmc w"
  "m_sg (WARN_ON k b w) = m_sg w"
  "cmds (WARN_ON k b w) = cmds w"
  "datas (WARN_ON k b w) = datas w"
  "mrqs (WARN_ON k b w) = mrqs w"
  "mem (WARN_ON k b w) = mem w"
  "e_rd (WARN_ON k b w) = e_rd w"
  "e_tick (WARN_ON k b w) = e_tick w"
  "e_alloc (WARN_ON k b w) = e_alloc w"
  "e_v2p (WARN_ON k b w) = e_v2p w"
  "e_HZ (WARN_ON k b w) = e_HZ w"
  "e_CAP_NONREMOVABLE (WARN_ON k b w) = e_CAP_NONREMOVABLE w"
  "e_CAP_8_BIT_DATA (WARN_ON k b w) = e_CAP_8_BIT_DATA w"
  "e_CMD_ADTC (WARN_ON k b w) = e_CMD_ADTC w"
  by (simp_all add: WARN_ON_def)

lemma WARN_ON_view [simp]:
  "rq (WARN_ON n b w) = rq w" "iv (WARN_ON n b w) = iv w" "vw (WARN_ON n b w) = vw w"
  "links (WARN_ON n b w) = links w"
  by (simp_all add: WARN_ON_def)

subsection \<open>The interrupt mask is the one the controller was given\<close>

text \<open>
  \<open>ier_ok w\<close>: the last value written to the two interrupt enable registers is \<open>h_ier w\<close>.
  \<open>acked w\<close>: the interrupt status bits the driver has cleared (writing 1 clears a bit).
\<close>

definition ier_ok :: "world \<Rightarrow> bool" where
  "ier_ok w \<longleftrightarrow> last_wr32 SDHCI_INT_ENABLE (hist w) = Some (h_ier w)
     \<and> last_wr32 SDHCI_SIGNAL_ENABLE (hist w) = Some (h_ier w)"

fun acked_bits :: "event list \<Rightarrow> u32" where
  "acked_bits [] = 0"
| "acked_bits (Wr32 r v # es) = (if r = SDHCI_INT_STATUS then v OR acked_bits es else acked_bits es)"
| "acked_bits (_ # es) = acked_bits es"

definition acked :: "world \<Rightarrow> u32" where
  "acked w = acked_bits (hist w)"

lemma last_wr32_filter:
  assumes "r = SDHCI_INT_ENABLE \<or> r = SDHCI_SIGNAL_ENABLE"
  shows "last_wr32 r (filter is_int es) = last_wr32 r es"
  using assms by (induction r es rule: last_wr32.induct) auto

lemma acked_bits_filter: "acked_bits (filter is_int es) = acked_bits es"
  by (induction es rule: acked_bits.induct) auto

lemma iv_ier_ok: "iv w' = iv w \<Longrightarrow> ier_ok w' \<longleftrightarrow> ier_ok w"
  unfolding ier_ok_def iv_def by (metis last_wr32_filter prod.inject)

lemma iv_acked: "iv w' = iv w \<Longrightarrow> acked w' = acked w"
  unfolding acked_def iv_def by (metis acked_bits_filter prod.inject)

lemma ier_ok_emit [simp]:
  "\<not> is_int e \<Longrightarrow> ier_ok (emit e w) \<longleftrightarrow> ier_ok w"
  "ier_ok (emit (Wr32 SDHCI_INT_STATUS v) w) \<longleftrightarrow> ier_ok w"
  by (rule iv_ier_ok, simp) (simp add: ier_ok_def)

lemma acked_emit [simp]:
  "\<not> is_int e \<Longrightarrow> acked (emit e w) = acked w"
  "acked (emit (Wr32 r v) w) = (if r = SDHCI_INT_STATUS then v OR acked w else acked w)"
  by (rule iv_acked, simp) (simp add: acked_def)

lemma ier_ok_upd [simp]:
  "ier_ok (w\<lparr>h_quirks := x_h_quirks\<rparr>) = ier_ok w"
  "ier_ok (w\<lparr>h_quirks2 := x_h_quirks2\<rparr>) = ier_ok w"
  "ier_ok (w\<lparr>h_bounce_buffer := x_h_bounce_buffer\<rparr>) = ier_ok w"
  "ier_ok (w\<lparr>h_bounce_addr := x_h_bounce_addr\<rparr>) = ier_ok w"
  "ier_ok (w\<lparr>h_bounce_buffer_size := x_h_bounce_buffer_size\<rparr>) = ier_ok w"
  "ier_ok (w\<lparr>h_flags := x_h_flags\<rparr>) = ier_ok w"
  "ier_ok (w\<lparr>h_version := x_h_version\<rparr>) = ier_ok w"
  "ier_ok (w\<lparr>h_max_clk := x_h_max_clk\<rparr>) = ier_ok w"
  "ier_ok (w\<lparr>h_timeout_clk := x_h_timeout_clk\<rparr>) = ier_ok w"
  "ier_ok (w\<lparr>h_clk_mul := x_h_clk_mul\<rparr>) = ier_ok w"
  "ier_ok (w\<lparr>h_clock := x_h_clock\<rparr>) = ier_ok w"
  "ier_ok (w\<lparr>h_pwr := x_h_pwr\<rparr>) = ier_ok w"
  "ier_ok (w\<lparr>h_runtime_suspended := x_h_runtime_suspended\<rparr>) = ier_ok w"
  "ier_ok (w\<lparr>h_bus_on := x_h_bus_on\<rparr>) = ier_ok w"
  "ier_ok (w\<lparr>h_preset_enabled := x_h_preset_enabled\<rparr>) = ier_ok w"
  "ier_ok (w\<lparr>h_pending_reset := x_h_pending_reset\<rparr>) = ier_ok w"
  "ier_ok (w\<lparr>h_irq_wake_enabled := x_h_irq_wake_enabled\<rparr>) = ier_ok w"
  "ier_ok (w\<lparr>h_v4_mode := x_h_v4_mode\<rparr>) = ier_ok w"
  "ier_ok (w\<lparr>h_use_external_dma := x_h_use_external_dma\<rparr>) = ier_ok w"
  "ier_ok (w\<lparr>h_always_defer_done := x_h_always_defer_done\<rparr>) = ier_ok w"
  "ier_ok (w\<lparr>h_mrqs_done := x_h_mrqs_done\<rparr>) = ier_ok w"
  "ier_ok (w\<lparr>h_cmd := x_h_cmd\<rparr>) = ier_ok w"
  "ier_ok (w\<lparr>h_data_cmd := x_h_data_cmd\<rparr>) = ier_ok w"
  "ier_ok (w\<lparr>h_deferred_cmd := x_h_deferred_cmd\<rparr>) = ier_ok w"
  "ier_ok (w\<lparr>h_data := x_h_data\<rparr>) = ier_ok w"
  "ier_ok (w\<lparr>h_data_early := x_h_data_early\<rparr>) = ier_ok w"
  "ier_ok (w\<lparr>h_sg_miter := x_h_sg_miter\<rparr>) = ier_ok w"
  "ier_ok (w\<lparr>h_blocks := x_h_blocks\<rparr>) = ier_ok w"
  "ier_ok (w\<lparr>h_sg_count := x_h_sg_count\<rparr>) = ier_ok w"
  "ier_ok (w\<lparr>h_adma_table := x_h_adma_table\<rparr>) = ier_ok w"
  "ier_ok (w\<lparr>h_align_buffer := x_h_align_buffer\<rparr>) = ier_ok w"
  "ier_ok (w\<lparr>h_adma_table_sz := x_h_adma_table_sz\<rparr>) = ier_ok w"
  "ier_ok (w\<lparr>h_align_buffer_sz := x_h_align_buffer_sz\<rparr>) = ier_ok w"
  "ier_ok (w\<lparr>h_adma_addr := x_h_adma_addr\<rparr>) = ier_ok w"
  "ier_ok (w\<lparr>h_align_addr := x_h_align_addr\<rparr>) = ier_ok w"
  "ier_ok (w\<lparr>h_desc_sz := x_h_desc_sz\<rparr>) = ier_ok w"
  "ier_ok (w\<lparr>h_alloc_desc_sz := x_h_alloc_desc_sz\<rparr>) = ier_ok w"
  "ier_ok (w\<lparr>h_timer := x_h_timer\<rparr>) = ier_ok w"
  "ier_ok (w\<lparr>h_data_timer := x_h_data_timer\<rparr>) = ier_ok w"
  "ier_ok (w\<lparr>h_caps := x_h_caps\<rparr>) = ier_ok w"
  "ier_ok (w\<lparr>h_caps1 := x_h_caps1\<rparr>) = ier_ok w"
  "ier_ok (w\<lparr>h_read_caps := x_h_read_caps\<rparr>) = ier_ok w"
  "ier_ok (w\<lparr>h_timing := x_h_timing\<rparr>) = ier_ok w"
  "ier_ok (w\<lparr>h_thread_isr := x_h_thread_isr\<rparr>) = ier_ok w"
  "ier_ok (w\<lparr>h_cqe_on := x_h_cqe_on\<rparr>) = ier_ok w"
  "ier_ok (w\<lparr>h_cqe_ier := x_h_cqe_ier\<rparr>) = ier_ok w"
  "ier_ok (w\<lparr>h_cqe_err_ier := x_h_cqe_err_ier\<rparr>) = ier_ok w"
  "ier_ok (w\<lparr>h_tuning_done := x_h_tuning_done\<rparr>) = ier_ok w"
  "ier_ok (w\<lparr>h_tuning_count := x_h_tuning_count\<rparr>) = ier_ok w"
  "ier_ok (w\<lparr>h_tuning_mode := x_h_tuning_mode\<rparr>) = ier_ok w"
  "ier_ok (w\<lparr>h_tuning_err := x_h_tuning_err\<rparr>) = ier_ok w"
  "ier_ok (w\<lparr>h_tuning_delay := x_h_tuning_delay\<rparr>) = ier_ok w"
  "ier_ok (w\<lparr>h_tuning_loop_count := x_h_tuning_loop_count\<rparr>) = ier_ok w"
  "ier_ok (w\<lparr>h_sdma_boundary := x_h_sdma_boundary\<rparr>) = ier_ok w"
  "ier_ok (w\<lparr>h_adma_table_cnt := x_h_adma_table_cnt\<rparr>) = ier_ok w"
  "ier_ok (w\<lparr>h_data_timeout := x_h_data_timeout\<rparr>) = ier_ok w"
  "ier_ok (w\<lparr>h_ocr_mask := x_h_ocr_mask\<rparr>) = ier_ok w"
  "ier_ok (w\<lparr>h_ocr_avail_sdio := x_h_ocr_avail_sdio\<rparr>) = ier_ok w"
  "ier_ok (w\<lparr>h_ocr_avail_sd := x_h_ocr_avail_sd\<rparr>) = ier_ok w"
  "ier_ok (w\<lparr>h_ocr_avail_mmc := x_h_ocr_avail_mmc\<rparr>) = ier_ok w"
  "ier_ok (w\<lparr>h_dma_mask := x_h_dma_mask\<rparr>) = ier_ok w"
  "ier_ok (w\<lparr>h_sdhci_core_to_disable_vqmmc := x_h_sdhci_core_to_disable_vqmmc\<rparr>) = ier_ok w"
  "ier_ok (w\<lparr>mh := x_mh\<rparr>) = ier_ok w"
  "ier_ok (w\<lparr>of_node := x_of_node\<rparr>) = ier_ok w"
  "ier_ok (w\<lparr>m_dev_name := x_m_dev_name\<rparr>) = ier_ok w"
  "ier_ok (w\<lparr>pltfm_clock := x_pltfm_clock\<rparr>) = ier_ok w"
  "ier_ok (w\<lparr>cvi := x_cvi\<rparr>) = ier_ok w"
  "ier_ok (w\<lparr>e_num := x_e_num\<rparr>) = ier_ok w"
  "ier_ok (w\<lparr>e_io := x_e_io\<rparr>) = ier_ok w"
  "ier_ok (w\<lparr>m_actual_clock := x_m_actual_clock\<rparr>) = ier_ok w"
  "ier_ok (w\<lparr>m_caps := x_m_caps\<rparr>) = ier_ok w"
  "ier_ok (w\<lparr>m_caps2 := x_m_caps2\<rparr>) = ier_ok w"
  "ier_ok (w\<lparr>m_ios := x_m_ios\<rparr>) = ier_ok w"
  "ier_ok (w\<lparr>m_max_blk_size := x_m_max_blk_size\<rparr>) = ier_ok w"
  "ier_ok (w\<lparr>m_max_busy_timeout := x_m_max_busy_timeout\<rparr>) = ier_ok w"
  "ier_ok (w\<lparr>m_retune_period := x_m_retune_period\<rparr>) = ier_ok w"
  "ier_ok (w\<lparr>m_vmmc := x_m_vmmc\<rparr>) = ier_ok w"
  "ier_ok (w\<lparr>m_vqmmc := x_m_vqmmc\<rparr>) = ier_ok w"
  "ier_ok (w\<lparr>m_sg := x_m_sg\<rparr>) = ier_ok w"
  "ier_ok (w\<lparr>cmds := x_cmds\<rparr>) = ier_ok w"
  "ier_ok (w\<lparr>datas := x_datas\<rparr>) = ier_ok w"
  "ier_ok (w\<lparr>mrqs := x_mrqs\<rparr>) = ier_ok w"
  "ier_ok (w\<lparr>mem := x_mem\<rparr>) = ier_ok w"
  "ier_ok (w\<lparr>e_rd := x_e_rd\<rparr>) = ier_ok w"
  "ier_ok (w\<lparr>e_tick := x_e_tick\<rparr>) = ier_ok w"
  "ier_ok (w\<lparr>e_alloc := x_e_alloc\<rparr>) = ier_ok w"
  "ier_ok (w\<lparr>e_v2p := x_e_v2p\<rparr>) = ier_ok w"
  "ier_ok (w\<lparr>e_HZ := x_e_HZ\<rparr>) = ier_ok w"
  "ier_ok (w\<lparr>e_CAP_NONREMOVABLE := x_e_CAP_NONREMOVABLE\<rparr>) = ier_ok w"
  "ier_ok (w\<lparr>e_CAP_8_BIT_DATA := x_e_CAP_8_BIT_DATA\<rparr>) = ier_ok w"
  "ier_ok (w\<lparr>e_CMD_ADTC := x_e_CMD_ADTC\<rparr>) = ier_ok w"
  by (simp_all add: ier_ok_def)

lemma acked_upd [simp]:
  "acked (w\<lparr>h_quirks := x_h_quirks\<rparr>) = acked w"
  "acked (w\<lparr>h_quirks2 := x_h_quirks2\<rparr>) = acked w"
  "acked (w\<lparr>h_bounce_buffer := x_h_bounce_buffer\<rparr>) = acked w"
  "acked (w\<lparr>h_bounce_addr := x_h_bounce_addr\<rparr>) = acked w"
  "acked (w\<lparr>h_bounce_buffer_size := x_h_bounce_buffer_size\<rparr>) = acked w"
  "acked (w\<lparr>h_flags := x_h_flags\<rparr>) = acked w"
  "acked (w\<lparr>h_version := x_h_version\<rparr>) = acked w"
  "acked (w\<lparr>h_max_clk := x_h_max_clk\<rparr>) = acked w"
  "acked (w\<lparr>h_timeout_clk := x_h_timeout_clk\<rparr>) = acked w"
  "acked (w\<lparr>h_clk_mul := x_h_clk_mul\<rparr>) = acked w"
  "acked (w\<lparr>h_clock := x_h_clock\<rparr>) = acked w"
  "acked (w\<lparr>h_pwr := x_h_pwr\<rparr>) = acked w"
  "acked (w\<lparr>h_runtime_suspended := x_h_runtime_suspended\<rparr>) = acked w"
  "acked (w\<lparr>h_bus_on := x_h_bus_on\<rparr>) = acked w"
  "acked (w\<lparr>h_preset_enabled := x_h_preset_enabled\<rparr>) = acked w"
  "acked (w\<lparr>h_pending_reset := x_h_pending_reset\<rparr>) = acked w"
  "acked (w\<lparr>h_irq_wake_enabled := x_h_irq_wake_enabled\<rparr>) = acked w"
  "acked (w\<lparr>h_v4_mode := x_h_v4_mode\<rparr>) = acked w"
  "acked (w\<lparr>h_use_external_dma := x_h_use_external_dma\<rparr>) = acked w"
  "acked (w\<lparr>h_always_defer_done := x_h_always_defer_done\<rparr>) = acked w"
  "acked (w\<lparr>h_mrqs_done := x_h_mrqs_done\<rparr>) = acked w"
  "acked (w\<lparr>h_cmd := x_h_cmd\<rparr>) = acked w"
  "acked (w\<lparr>h_data_cmd := x_h_data_cmd\<rparr>) = acked w"
  "acked (w\<lparr>h_deferred_cmd := x_h_deferred_cmd\<rparr>) = acked w"
  "acked (w\<lparr>h_data := x_h_data\<rparr>) = acked w"
  "acked (w\<lparr>h_data_early := x_h_data_early\<rparr>) = acked w"
  "acked (w\<lparr>h_sg_miter := x_h_sg_miter\<rparr>) = acked w"
  "acked (w\<lparr>h_blocks := x_h_blocks\<rparr>) = acked w"
  "acked (w\<lparr>h_sg_count := x_h_sg_count\<rparr>) = acked w"
  "acked (w\<lparr>h_adma_table := x_h_adma_table\<rparr>) = acked w"
  "acked (w\<lparr>h_align_buffer := x_h_align_buffer\<rparr>) = acked w"
  "acked (w\<lparr>h_adma_table_sz := x_h_adma_table_sz\<rparr>) = acked w"
  "acked (w\<lparr>h_align_buffer_sz := x_h_align_buffer_sz\<rparr>) = acked w"
  "acked (w\<lparr>h_adma_addr := x_h_adma_addr\<rparr>) = acked w"
  "acked (w\<lparr>h_align_addr := x_h_align_addr\<rparr>) = acked w"
  "acked (w\<lparr>h_desc_sz := x_h_desc_sz\<rparr>) = acked w"
  "acked (w\<lparr>h_alloc_desc_sz := x_h_alloc_desc_sz\<rparr>) = acked w"
  "acked (w\<lparr>h_timer := x_h_timer\<rparr>) = acked w"
  "acked (w\<lparr>h_data_timer := x_h_data_timer\<rparr>) = acked w"
  "acked (w\<lparr>h_caps := x_h_caps\<rparr>) = acked w"
  "acked (w\<lparr>h_caps1 := x_h_caps1\<rparr>) = acked w"
  "acked (w\<lparr>h_read_caps := x_h_read_caps\<rparr>) = acked w"
  "acked (w\<lparr>h_timing := x_h_timing\<rparr>) = acked w"
  "acked (w\<lparr>h_thread_isr := x_h_thread_isr\<rparr>) = acked w"
  "acked (w\<lparr>h_ier := x_h_ier\<rparr>) = acked w"
  "acked (w\<lparr>h_cqe_on := x_h_cqe_on\<rparr>) = acked w"
  "acked (w\<lparr>h_cqe_ier := x_h_cqe_ier\<rparr>) = acked w"
  "acked (w\<lparr>h_cqe_err_ier := x_h_cqe_err_ier\<rparr>) = acked w"
  "acked (w\<lparr>h_tuning_done := x_h_tuning_done\<rparr>) = acked w"
  "acked (w\<lparr>h_tuning_count := x_h_tuning_count\<rparr>) = acked w"
  "acked (w\<lparr>h_tuning_mode := x_h_tuning_mode\<rparr>) = acked w"
  "acked (w\<lparr>h_tuning_err := x_h_tuning_err\<rparr>) = acked w"
  "acked (w\<lparr>h_tuning_delay := x_h_tuning_delay\<rparr>) = acked w"
  "acked (w\<lparr>h_tuning_loop_count := x_h_tuning_loop_count\<rparr>) = acked w"
  "acked (w\<lparr>h_sdma_boundary := x_h_sdma_boundary\<rparr>) = acked w"
  "acked (w\<lparr>h_adma_table_cnt := x_h_adma_table_cnt\<rparr>) = acked w"
  "acked (w\<lparr>h_data_timeout := x_h_data_timeout\<rparr>) = acked w"
  "acked (w\<lparr>h_ocr_mask := x_h_ocr_mask\<rparr>) = acked w"
  "acked (w\<lparr>h_ocr_avail_sdio := x_h_ocr_avail_sdio\<rparr>) = acked w"
  "acked (w\<lparr>h_ocr_avail_sd := x_h_ocr_avail_sd\<rparr>) = acked w"
  "acked (w\<lparr>h_ocr_avail_mmc := x_h_ocr_avail_mmc\<rparr>) = acked w"
  "acked (w\<lparr>h_dma_mask := x_h_dma_mask\<rparr>) = acked w"
  "acked (w\<lparr>h_sdhci_core_to_disable_vqmmc := x_h_sdhci_core_to_disable_vqmmc\<rparr>) = acked w"
  "acked (w\<lparr>mh := x_mh\<rparr>) = acked w"
  "acked (w\<lparr>of_node := x_of_node\<rparr>) = acked w"
  "acked (w\<lparr>m_dev_name := x_m_dev_name\<rparr>) = acked w"
  "acked (w\<lparr>pltfm_clock := x_pltfm_clock\<rparr>) = acked w"
  "acked (w\<lparr>cvi := x_cvi\<rparr>) = acked w"
  "acked (w\<lparr>e_num := x_e_num\<rparr>) = acked w"
  "acked (w\<lparr>e_io := x_e_io\<rparr>) = acked w"
  "acked (w\<lparr>m_actual_clock := x_m_actual_clock\<rparr>) = acked w"
  "acked (w\<lparr>m_caps := x_m_caps\<rparr>) = acked w"
  "acked (w\<lparr>m_caps2 := x_m_caps2\<rparr>) = acked w"
  "acked (w\<lparr>m_ios := x_m_ios\<rparr>) = acked w"
  "acked (w\<lparr>m_max_blk_size := x_m_max_blk_size\<rparr>) = acked w"
  "acked (w\<lparr>m_max_busy_timeout := x_m_max_busy_timeout\<rparr>) = acked w"
  "acked (w\<lparr>m_retune_period := x_m_retune_period\<rparr>) = acked w"
  "acked (w\<lparr>m_vmmc := x_m_vmmc\<rparr>) = acked w"
  "acked (w\<lparr>m_vqmmc := x_m_vqmmc\<rparr>) = acked w"
  "acked (w\<lparr>m_sg := x_m_sg\<rparr>) = acked w"
  "acked (w\<lparr>cmds := x_cmds\<rparr>) = acked w"
  "acked (w\<lparr>datas := x_datas\<rparr>) = acked w"
  "acked (w\<lparr>mrqs := x_mrqs\<rparr>) = acked w"
  "acked (w\<lparr>mem := x_mem\<rparr>) = acked w"
  "acked (w\<lparr>e_rd := x_e_rd\<rparr>) = acked w"
  "acked (w\<lparr>e_tick := x_e_tick\<rparr>) = acked w"
  "acked (w\<lparr>e_alloc := x_e_alloc\<rparr>) = acked w"
  "acked (w\<lparr>e_v2p := x_e_v2p\<rparr>) = acked w"
  "acked (w\<lparr>e_HZ := x_e_HZ\<rparr>) = acked w"
  "acked (w\<lparr>e_CAP_NONREMOVABLE := x_e_CAP_NONREMOVABLE\<rparr>) = acked w"
  "acked (w\<lparr>e_CAP_8_BIT_DATA := x_e_CAP_8_BIT_DATA\<rparr>) = acked w"
  "acked (w\<lparr>e_CMD_ADTC := x_e_CMD_ADTC\<rparr>) = acked w"
  by (simp_all add: acked_def)

subsection \<open>All that a frame fact gives\<close>

lemma rq_all:
  assumes "rq w' = rq w"
  shows "rq w' = rq w \<and> links w' = links w \<and> h_cmd w' = h_cmd w \<and> h_data_cmd w' = h_data_cmd w
    \<and> h_deferred_cmd w' = h_deferred_cmd w \<and> h_data w' = h_data w
    \<and> h_mrqs_done w' = h_mrqs_done w \<and> mrqs w' = mrqs w"
  using rqD[OF assms] assms by blast

lemma vw_all:
  assumes "vw w' = vw w"
  shows "vw w' = vw w \<and> rq w' = rq w \<and> links w' = links w \<and> h_cmd w' = h_cmd w
    \<and> h_data_cmd w' = h_data_cmd w \<and> h_deferred_cmd w' = h_deferred_cmd w
    \<and> h_data w' = h_data w \<and> h_mrqs_done w' = h_mrqs_done w \<and> mrqs w' = mrqs w
    \<and> (ier_ok w' \<longleftrightarrow> ier_ok w) \<and> acked w' = acked w"
  using vwD[OF assms] iv_ier_ok iv_acked assms by blast

lemma vwE:
  assumes "vw w' = vw w"
  shows vw_rq: "rq w' = rq w" and vw_links: "links w' = links w"
    and vw_ier_ok: "ier_ok w' \<longleftrightarrow> ier_ok w" and vw_acked: "acked w' = acked w"
    and vw_h_cmd: "h_cmd w' = h_cmd w" and vw_h_data_cmd: "h_data_cmd w' = h_data_cmd w"
    and vw_h_deferred: "h_deferred_cmd w' = h_deferred_cmd w" and vw_h_data: "h_data w' = h_data w"
    and vw_h_done: "h_mrqs_done w' = h_mrqs_done w" and vw_mrqs: "mrqs w' = mrqs w"
  using vw_all[OF assms] by auto

text \<open>What every operation outside the request logic is held to.\<close>

definition tame :: "world \<Rightarrow> world \<Rightarrow> bool" where
  "tame w w' \<longleftrightarrow> rq w' = rq w \<and> acked w' = acked w \<and> (ier_ok w \<longrightarrow> ier_ok w')"

lemma tame_refl [simp]: "tame w w"
  by (simp add: tame_def)

lemma tame_trans [trans]: "tame a b \<Longrightarrow> tame b c \<Longrightarrow> tame a c"
  by (auto simp: tame_def)

lemma vw_tame: "vw w' = vw w \<Longrightarrow> tame w w'"
  using vw_all[of w' w] by (simp add: tame_def)

lemma vw_tame_left: "vw w' = vw w \<Longrightarrow> tame w' x \<longleftrightarrow> tame w x"
  using vw_all[of w' w] by (simp add: tame_def)

lemma vw_tame_right: "vw w' = vw w \<Longrightarrow> tame x w' \<longleftrightarrow> tame x w"
  using vw_all[of w' w] by (simp add: tame_def)

lemma tame_emit [simp]:
  "\<not> is_int e \<Longrightarrow> tame (emit e w) x \<longleftrightarrow> tame w x" "\<not> is_int e \<Longrightarrow> tame x (emit e w) \<longleftrightarrow> tame x w"
  by (simp_all add: tame_def)

lemma WARN_ON_ier_ok [simp]: "ier_ok (WARN_ON n b w) = ier_ok w" "acked (WARN_ON n b w) = acked w"
  by (simp_all add: WARN_ON_def)

lemma tameD:
  assumes "tame w w'"
  shows "rq w' = rq w" "acked w' = acked w" "ier_ok w \<Longrightarrow> ier_ok w'"
  using assms by (simp_all add: tame_def)

end
