(* ===== verification/Ops.thy ===== *)
theory Ops
  imports Os
begin

text \<open>
  \<^verbatim>\<open>struct sdhci_ops\<close>: the table of functions by which a platform driver adapts the core.  A
  pointer the core tests against NULL is an \<open>option\<close>; the four it calls without a test are
  plain functions.  The core's definitions take the table as their first argument, as the
  code reaches it through \<^verbatim>\<open>host->ops\<close>, which is set once when the host is made.  The six
  register access hooks at the head of the table are left out: every table of the repository
  leaves them NULL (see the accessors in \<open>World\<close>).
\<close>

record sdhci_ops =
  o_set_clock :: "u32 \<Rightarrow> world \<Rightarrow> world option"
  o_set_power :: "(mmc_power_mode \<Rightarrow> u16 \<Rightarrow> world \<Rightarrow> world option) option"
  o_irq :: "(u32 \<Rightarrow> world \<Rightarrow> u32 \<times> world) option"
  o_set_dma_mask :: "(world \<Rightarrow> errno option \<times> world) option"
  o_enable_dma :: "(world \<Rightarrow> errno option \<times> world) option"
  o_get_max_clock :: "(world \<Rightarrow> u32 \<times> world) option"
  o_get_min_clock :: "(world \<Rightarrow> u32 \<times> world) option"
  o_get_timeout_clock :: "(world \<Rightarrow> u32 \<times> world) option"
  o_get_max_timeout_count :: "(world \<Rightarrow> u32 \<times> world) option"
  o_set_timeout :: "(cmdp option \<Rightarrow> world \<Rightarrow> world option) option"
  o_set_bus_width :: "mmc_bus_width \<Rightarrow> world \<Rightarrow> world"
  o_platform_send_init_74_clocks :: "(mmc_power_mode \<Rightarrow> world \<Rightarrow> world) option"
  o_get_ro :: "(world \<Rightarrow> bool \<times> world) option"
  o_reset :: "u8 \<Rightarrow> world \<Rightarrow> world option"
  o_platform_execute_tuning :: "(u32 \<Rightarrow> world \<Rightarrow> (errno option \<times> world) option) option"
  o_set_uhs_signaling :: "mmc_timing \<Rightarrow> world \<Rightarrow> world"
  o_hw_reset :: "(world \<Rightarrow> world) option"
  o_adma_workaround :: "(u32 \<Rightarrow> world \<Rightarrow> world) option"
  o_card_event :: "(world \<Rightarrow> world) option"
  o_voltage_switch :: "(world \<Rightarrow> world) option"
  o_adma_write_desc :: "(u64 \<Rightarrow> u64 \<Rightarrow> int \<Rightarrow> u32 \<Rightarrow> world \<Rightarrow> u64 \<times> world) option"
  o_copy_to_bounce_buffer :: "(datap \<Rightarrow> u32 \<Rightarrow> world \<Rightarrow> world) option"
  o_request_done :: "(mrqp \<Rightarrow> world \<Rightarrow> world) option"
  o_dump_vendor_regs :: "(world \<Rightarrow> world) option"

text \<open>Calling an optional operation, and doing nothing when the pointer is NULL.\<close>

definition call_opt :: "(world \<Rightarrow> world) option \<Rightarrow> world \<Rightarrow> world" where
  "call_opt f w = (case f of None \<Rightarrow> w | Some g \<Rightarrow> g w)"

definition run_enable_dma :: "sdhci_ops \<Rightarrow> world \<Rightarrow> world" where
  "run_enable_dma ops w = (case o_enable_dma ops of None \<Rightarrow> w | Some f \<Rightarrow> snd (f w))"

end
