(* ===== verification/LowLevel.thy ===== *)
theory LowLevel
  imports Ops
begin

text \<open>
  The low-level functions of \<^verbatim>\<open>sdhci.c\<close> (its first section): the register dump, card
  detection, controller reset, the default interrupt mask, DMA selection, (re)initialisation,
  the LED and the choice of the request timer.

  \<^verbatim>\<open>mmc->ops\<close> is the table \<^verbatim>\<open>sdhci_ops\<close> that \<^verbatim>\<open>sdhci_alloc_host\<close> installs and nothing changes, so
  \<^verbatim>\<open>mmc->ops->get_cd\<close> is \<open>sdhci_get_cd\<close>.  \<^verbatim>\<open>mmc->ops->set_ios\<close> is an argument of \<open>sdhci_init\<close>,
  because \<open>sdhci_set_ios\<close> itself reinitialises the controller; \<open>sdhci_reinit\<close>, its only other
  caller, asks for a full reset, where the argument is not used.  \<^verbatim>\<open>set_ios\<close> may change the
  settings it is given, so it returns them.  The power management
  macros \<^verbatim>\<open>pm_runtime_get_noresume\<close> and \<^verbatim>\<open>pm_runtime_put_noidle\<close> expand to nothing.
\<close>

subsection \<open>Register dump\<close>

definition dump_regs1 :: "world \<Rightarrow> world" where
  "dump_regs1 w =
     (let w = snd (sdhci_readl SDHCI_DMA_ADDRESS w); w = snd (sdhci_readw SDHCI_HOST_VERSION w);
          w = snd (sdhci_readw SDHCI_BLOCK_SIZE w); w = snd (sdhci_readw SDHCI_BLOCK_COUNT w);
          w = snd (sdhci_readl SDHCI_ARGUMENT w); w = snd (sdhci_readw SDHCI_TRANSFER_MODE w);
          w = snd (sdhci_readl SDHCI_PRESENT_STATE w);
          w = snd (sdhci_readb SDHCI_HOST_CONTROL w);
          w = snd (sdhci_readb SDHCI_POWER_CONTROL w);
          w = snd (sdhci_readb SDHCI_BLOCK_GAP_CONTROL w);
          w = snd (sdhci_readb SDHCI_WAKE_UP_CONTROL w);
          w = snd (sdhci_readw SDHCI_CLOCK_CONTROL w);
          w = snd (sdhci_readb SDHCI_TIMEOUT_CONTROL w)
      in snd (sdhci_readl SDHCI_INT_STATUS w))"

definition dump_regs2 :: "world \<Rightarrow> world" where
  "dump_regs2 w =
     (let w = snd (sdhci_readl SDHCI_INT_ENABLE w); w = snd (sdhci_readl SDHCI_SIGNAL_ENABLE w);
          w = snd (sdhci_readw SDHCI_AUTO_CMD_STATUS w);
          w = snd (sdhci_readw SDHCI_SLOT_INT_STATUS w);
          w = snd (sdhci_readl SDHCI_CAPABILITIES w);
          w = snd (sdhci_readl SDHCI_CAPABILITIES_1 w);
          w = snd (sdhci_readw SDHCI_COMMAND w); w = snd (sdhci_readl SDHCI_MAX_CURRENT w);
          w = snd (sdhci_readl SDHCI_RESPONSE w); w = snd (sdhci_readl (SDHCI_RESPONSE + 4) w);
          w = snd (sdhci_readl (SDHCI_RESPONSE + 8) w);
          w = snd (sdhci_readl (SDHCI_RESPONSE + 12) w)
      in snd (sdhci_readw SDHCI_HOST_CONTROL2 w))"

definition sdhci_dumpregs :: "(world \<Rightarrow> world) option \<Rightarrow> world \<Rightarrow> world" where
  "sdhci_dumpregs dump_vendor_regs w =
     (let w = dump_regs1 w;
          w = dump_regs2 w;
          w = (if tst (h_flags w) SDHCI_USE_ADMA then
                 (if tst (h_flags w) SDHCI_USE_64_BIT_DMA then
                    snd (sdhci_readl SDHCI_ADMA_ADDRESS
                      (snd (sdhci_readl SDHCI_ADMA_ADDRESS_HI
                        (snd (sdhci_readl SDHCI_ADMA_ERROR w)))))
                  else
                    snd (sdhci_readl SDHCI_ADMA_ADDRESS
                      (snd (sdhci_readl SDHCI_ADMA_ERROR w))))
               else w)
      in call_opt dump_vendor_regs w)"

subsection \<open>Version 4 mode, card presence and card detection interrupts\<close>

definition sdhci_do_enable_v4_mode :: "world \<Rightarrow> world" where
  "sdhci_do_enable_v4_mode w =
     (let (ctrl2, w) = sdhci_readw SDHCI_HOST_CONTROL2 w
      in if tst ctrl2 SDHCI_CTRL_V4_MODE then w
         else sdhci_writew (ctrl2 OR SDHCI_CTRL_V4_MODE) SDHCI_HOST_CONTROL2 w)"

definition sdhci_enable_v4_mode :: "world \<Rightarrow> world" where
  "sdhci_enable_v4_mode w = sdhci_do_enable_v4_mode (w\<lparr>h_v4_mode := True\<rparr>)"

definition sdhci_data_line_cmd :: "mmc_command \<Rightarrow> bool" where
  "sdhci_data_line_cmd c \<longleftrightarrow> c_data c \<noteq> None \<or> tst (c_flags c) MMC_RSP_BUSY"

definition sdhci_get_cd :: "world \<Rightarrow> bool \<times> world" where
  "sdhci_get_cd w =
     (let gpio_cd = mmc_gpio_get_cd
      in if tst (h_flags w) SDHCI_DEVICE_DEAD then (False, w)
         else if \<not> mmc_card_is_removable w then (True, w)
         else case gpio_cd of
             Inr v \<Rightarrow> (v \<noteq> 0, w)
           | Inl _ \<Rightarrow>
               if tst (h_quirks w) SDHCI_QUIRK_BROKEN_CARD_DETECTION then (True, w)
               else (let (p, w) = sdhci_readl SDHCI_PRESENT_STATE w
                     in (tst p SDHCI_CARD_PRESENT, w)))"

definition write_ier :: "world \<Rightarrow> world" where
  "write_ier w =
     sdhci_writel (h_ier w) SDHCI_SIGNAL_ENABLE (sdhci_writel (h_ier w) SDHCI_INT_ENABLE w)"

definition sdhci_set_card_detection :: "bool \<Rightarrow> world \<Rightarrow> world" where
  "sdhci_set_card_detection enable w =
     (if tst (h_quirks w) SDHCI_QUIRK_BROKEN_CARD_DETECTION
         \<or> \<not> mmc_card_is_removable w \<or> mmc_can_gpio_cd
      then w
      else
        (let w = (if enable then
                    (let (present, w) = sdhci_readl SDHCI_PRESENT_STATE w
                     in w\<lparr>h_ier := h_ier w OR
                            (if tst present SDHCI_CARD_PRESENT then SDHCI_INT_CARD_REMOVE
                             else SDHCI_INT_CARD_INSERT)\<rparr>)
                  else
                    w\<lparr>h_ier := h_ier w AND
                        NOT (SDHCI_INT_CARD_REMOVE OR SDHCI_INT_CARD_INSERT)\<rparr>)
         in write_ier w))"

definition sdhci_enable_card_detection :: "world \<Rightarrow> world" where
  "sdhci_enable_card_detection = sdhci_set_card_detection True"

definition sdhci_disable_card_detection :: "world \<Rightarrow> world" where
  "sdhci_disable_card_detection = sdhci_set_card_detection False"

subsection \<open>Reset\<close>

definition sdhci_runtime_pm_bus_on :: "world \<Rightarrow> world" where
  "sdhci_runtime_pm_bus_on w = (if h_bus_on w then w else w\<lparr>h_bus_on := True\<rparr>)"

definition sdhci_runtime_pm_bus_off :: "world \<Rightarrow> world" where
  "sdhci_runtime_pm_bus_off w = (if \<not> h_bus_on w then w else w\<lparr>h_bus_on := False\<rparr>)"

partial_function (option) reset_wait ::
  "(world \<Rightarrow> world) option \<Rightarrow> u8 \<Rightarrow> u64 \<Rightarrow> world \<Rightarrow> world option" where
  "reset_wait vendor msk timeout w =
     (let (now, w) = ktime_get w;
          timedout = ktime_after now timeout;
          (r, w) = sdhci_readb SDHCI_SOFTWARE_RESET w
      in if \<not> tst r msk then Some w
         else if timedout then Some (sdhci_dumpregs vendor w)
         else reset_wait vendor msk timeout (udelay 10 w))"

definition sdhci_reset :: "(world \<Rightarrow> world) option \<Rightarrow> u8 \<Rightarrow> world \<Rightarrow> world option" where
  "sdhci_reset vendor msk w =
     (let w = sdhci_writeb msk SDHCI_SOFTWARE_RESET w;
          w = (if tst msk SDHCI_RESET_ALL then
                 (let w = w\<lparr>h_clock := 0\<rparr>
                  in if tst (h_quirks2 w) SDHCI_QUIRK2_CARD_ON_NEEDS_BUS_ON
                     then sdhci_runtime_pm_bus_off w else w)
               else w);
          (now, w) = ktime_get w;
          timeout = ktime_add_ms now 100
      in reset_wait vendor msk timeout w)"

definition reset_epilogue :: "sdhci_ops \<Rightarrow> u8 \<Rightarrow> world \<Rightarrow> world" where
  "reset_epilogue ops msk w =
     (if tst msk SDHCI_RESET_ALL then
        (let w = (if tst (h_flags w) (SDHCI_USE_SDMA OR SDHCI_USE_ADMA)
                  then run_enable_dma ops w else w)
         in w\<lparr>h_preset_enabled := False\<rparr>)
      else w)"

definition sdhci_do_reset :: "sdhci_ops \<Rightarrow> u8 \<Rightarrow> world \<Rightarrow> world option" where
  "sdhci_do_reset ops msk w =
     (let (skip, w) = (if tst (h_quirks w) SDHCI_QUIRK_NO_CARD_NO_RESET
                       then (let (cd, w) = sdhci_get_cd w in (\<not> cd, w)) else (False, w))
      in if skip then Some w
         else do {
           w \<leftarrow> o_reset ops msk w;
           Some (reset_epilogue ops msk w)
         })"

subsection \<open>Interrupt mask and DMA selection\<close>

definition sdhci_set_default_irqs :: "world \<Rightarrow> world" where
  "sdhci_set_default_irqs w =
     (let w = w\<lparr>h_ier := SDHCI_INT_BUS_POWER OR SDHCI_INT_DATA_END_BIT OR
                SDHCI_INT_DATA_CRC OR SDHCI_INT_DATA_TIMEOUT OR
                SDHCI_INT_INDEX OR SDHCI_INT_END_BIT OR SDHCI_INT_CRC OR
                SDHCI_INT_TIMEOUT OR SDHCI_INT_DATA_END OR SDHCI_INT_RESPONSE\<rparr>;
          w = (if h_tuning_mode w = SDHCI_TUNING_MODE_2
                  \<or> h_tuning_mode w = SDHCI_TUNING_MODE_3
               then w\<lparr>h_ier := h_ier w OR SDHCI_INT_RETUNE\<rparr> else w)
      in write_ier w)"

definition sdhci_config_dma :: "world \<Rightarrow> world" where
  "sdhci_config_dma w =
     (if h_version w < SDHCI_SPEC_200 then w
      else
        (let (ctrl, w) = sdhci_readb SDHCI_HOST_CONTROL w;
             ctrl = ctrl AND NOT SDHCI_CTRL_DMA_MASK
         in if \<not> tst (h_flags w) SDHCI_REQ_USE_DMA
            then sdhci_writeb ctrl SDHCI_HOST_CONTROL w
            else
              (let ctrl = (if tst (h_flags w) SDHCI_USE_ADMA then ctrl OR SDHCI_CTRL_ADMA32
                           else ctrl);
                   (ctrl, w) =
                     (if tst (h_flags w) SDHCI_USE_64_BIT_DMA then
                        (if h_v4_mode w then
                           (let (ctrl2, w) = sdhci_readw SDHCI_HOST_CONTROL2 w;
                                w = sdhci_writew (ctrl2 OR SDHCI_CTRL_64BIT_ADDR)
                                      SDHCI_HOST_CONTROL2 w
                            in (ctrl, w))
                         else if tst (h_flags w) SDHCI_USE_ADMA
                         then (ctrl OR SDHCI_CTRL_ADMA64, w)
                         else (ctrl, w))
                      else (ctrl, w))
               in sdhci_writeb ctrl SDHCI_HOST_CONTROL w)))"

subsection \<open>Initialisation\<close>

definition sdhci_init ::
  "sdhci_ops \<Rightarrow> (mmc_ios \<Rightarrow> world \<Rightarrow> (mmc_ios \<times> world) option) \<Rightarrow> bool
    \<Rightarrow> world \<Rightarrow> world option" where
  "sdhci_init ops set_ios soft w = do {
     w \<leftarrow> (if soft then sdhci_do_reset ops (SDHCI_RESET_CMD OR SDHCI_RESET_DATA) w
           else sdhci_do_reset ops SDHCI_RESET_ALL w);
     let w = (if h_v4_mode w then sdhci_do_enable_v4_mode w else w);
     let w = sdhci_set_default_irqs w;
     let w = w\<lparr>h_cqe_on := False\<rparr>;
     if soft then do {
       let w = w\<lparr>h_clock := 0\<rparr>;
       (ios, w) \<leftarrow> set_ios (m_ios w) w;
       Some (w\<lparr>m_ios := ios\<rparr>)
     } else Some w
   }"

definition sdhci_reinit :: "sdhci_ops \<Rightarrow> world \<Rightarrow> world option" where
  "sdhci_reinit ops w = do {
     let cd = h_ier w AND (SDHCI_INT_CARD_REMOVE OR SDHCI_INT_CARD_INSERT);
     w \<leftarrow> sdhci_init ops (\<lambda>ios w. Some (ios, w)) False w;
     let w = sdhci_enable_card_detection w;
     Some (if cd \<noteq> h_ier w AND (SDHCI_INT_CARD_REMOVE OR SDHCI_INT_CARD_INSERT)
           then mmc_detect_change w else w)
   }"

subsection \<open>LED and request timers\<close>

definition sdhci_led_activate :: "world \<Rightarrow> world" where
  "sdhci_led_activate w =
     (if tst (h_quirks w) SDHCI_QUIRK_NO_LED then w
      else (let (ctrl, w) = sdhci_readb SDHCI_HOST_CONTROL w
            in sdhci_writeb (ctrl OR SDHCI_CTRL_LED) SDHCI_HOST_CONTROL w))"

definition sdhci_led_deactivate :: "world \<Rightarrow> world" where
  "sdhci_led_deactivate w =
     (if tst (h_quirks w) SDHCI_QUIRK_NO_LED then w
      else (let (ctrl, w) = sdhci_readb SDHCI_HOST_CONTROL w
            in sdhci_writeb (ctrl AND NOT SDHCI_CTRL_LED) SDHCI_HOST_CONTROL w))"

definition sdhci_mod_timer :: "mrqp \<Rightarrow> u64 \<Rightarrow> world \<Rightarrow> world" where
  "sdhci_mod_timer mrq timeout w =
     mod_timer (sdhci_data_line_cmd (cmds w (q_cmd (mrqs w mrq)))) timeout w"

definition sdhci_del_timer :: "mrqp \<Rightarrow> world \<Rightarrow> world" where
  "sdhci_del_timer mrq w = del_timer (sdhci_data_line_cmd (cmds w (q_cmd (mrqs w mrq)))) w"

definition sdhci_has_requests :: "world \<Rightarrow> bool" where
  "sdhci_has_requests w \<longleftrightarrow> h_cmd w \<noteq> None \<or> h_data_cmd w \<noteq> None"

end
