(* ===== verification/Dma.thy ===== *)
theory Dma
  imports LowLevel
begin

text \<open>
  Mapping a scatter list for DMA: the scatter list helpers of \<^verbatim>\<open>port/l-sg.c\<close>, the DMA layer of
  \<^verbatim>\<open>port/l-dma.c\<close> and \<open>sdhci_pre_dma_transfer\<close> of \<^verbatim>\<open>sdhci.c\<close>.  \<^verbatim>\<open>data->sg\<close> always points to
  the array \<^verbatim>\<open>mmc->_sg\<close>, which is \<open>m_sg\<close>; an index past its end is an access out of bounds, and
  the result is \<open>None\<close>.  The functions the port leaves as stubs (\<^verbatim>\<open>pr_todo()\<close>) do nothing here
  either.
\<close>

subsection \<open>Scatter list entries\<close>

definition sg_set_buf :: "u64 \<Rightarrow> u32 \<Rightarrow> scatterlist \<Rightarrow> scatterlist" where
  "sg_set_buf buf buflen s =
     s\<lparr>sg_page_link := buf AND NOT 0xfff, sg_offset := ucast (buf AND 0xfff),
       sg_length := buflen, sg_dma_address := 0\<rparr>"

definition sg_init_one :: "u64 \<Rightarrow> u32 \<Rightarrow> scatterlist \<Rightarrow> scatterlist" where
  "sg_init_one buf buflen s =
     (let s = sg_set_buf buf buflen s in s\<lparr>sg_flags := sg_flags s OR SG_END\<rparr>)"

definition sg_zero :: scatterlist where
  "sg_zero = \<lparr>sg_page_link = 0, sg_offset = 0, sg_flags = 0, sg_length = 0,
              sg_dma_address = 0, sg_old_addr = 0\<rparr>"

definition sg_init_table :: "nat \<Rightarrow> scatterlist list \<Rightarrow> scatterlist list option" where
  "sg_init_table nents sgl =
     (if nents = 0 \<or> nents > length sgl then None
      else (let sgl = replicate nents sg_zero @ drop nents sgl;
                s = sgl ! (nents - 1)
            in Some (sgl[nents - 1 := s\<lparr>sg_flags := sg_flags s OR SG_END\<rparr>])))"

lemma sg_virt_set_buf [simp]: "sg_virt (sg_set_buf buf n s) = buf"
proof -
  have f: "(0xfff :: u64) = mask 12" by (simp add: mask_eq_exp_minus_1)
  have "ucast (ucast (buf AND 0xfff) :: u32) = buf AND 0xfff"
    unfolding f by (rule bit_word_eqI) (auto simp: bit_simps)
  then have "sg_virt (sg_set_buf buf n s) = (buf AND NOT 0xfff) + (buf AND 0xfff)"
    by (simp add: sg_virt_def sg_set_buf_def)
  also have "\<dots> = (buf AND NOT 0xfff) OR (buf AND 0xfff)"
    by (rule disjunctive_add) (auto simp: bit_simps)
  also have "\<dots> = buf" by (rule bit_word_eqI) (auto simp: bit_simps)
  finally show ?thesis .
qed

lemma sg_set_buf_simps [simp]:
  "sg_length (sg_set_buf buf n s) = n" "sg_flags (sg_set_buf buf n s) = sg_flags s"
  "sg_old_addr (sg_set_buf buf n s) = sg_old_addr s"
  by (simp_all add: sg_set_buf_def)

subsection \<open>The DMA layer of the port\<close>

definition dma_sync :: "u64 \<Rightarrow> u32 \<Rightarrow> dma_data_direction \<Rightarrow> world \<Rightarrow> world" where
  "dma_sync ptr n dir =
     (if dir = DMA_FROM_DEVICE then emit (CacheInvalidate ptr n) else emit (CacheFlush ptr n))"

fun sg_sync :: "nat \<Rightarrow> nat \<Rightarrow> dma_data_direction \<Rightarrow> world \<Rightarrow> world option" where
  "sg_sync i 0 dir w = Some w"
| "sg_sync i (Suc k) dir w =
     (if i < length (m_sg w) then
        (let s = m_sg w ! i in sg_sync (Suc i) k dir (dma_sync (sg_virt s) (sg_length s) dir w))
      else None)"

fun dma_map_from :: "nat \<Rightarrow> nat \<Rightarrow> dma_data_direction \<Rightarrow> world \<Rightarrow> world option" where
  "dma_map_from i 0 dir w = Some w"
| "dma_map_from i (Suc k) dir w =
     (if i < length (m_sg w) then
        (let s = m_sg w ! i;
             va = sg_virt s;
             w = w\<lparr>m_sg := (m_sg w)[i := s\<lparr>sg_dma_address := e_v2p w va\<rparr>]\<rparr>;
             w = dma_sync va (sg_length s) dir w
         in dma_map_from (Suc i) k dir w)
      else None)"

definition dma_map_sg :: "u32 \<Rightarrow> dma_data_direction \<Rightarrow> world \<Rightarrow> (int \<times> world) option" where
  "dma_map_sg nents dir w = do {
     w \<leftarrow> dma_map_from 0 (unat nents) dir w;
     Some (sint nents, w)
   }"

definition dma_sync_sg_for_cpu :: "u32 \<Rightarrow> dma_data_direction \<Rightarrow> world \<Rightarrow> world option" where
  "dma_sync_sg_for_cpu nelems dir w = sg_sync 0 (unat nelems) dir w"

definition rt_free_align :: "u64 \<Rightarrow> world \<Rightarrow> world" where
  "rt_free_align p = emit (FreeAlign p)"

fun dma_unmap_from :: "nat \<Rightarrow> nat \<Rightarrow> world \<Rightarrow> world option" where
  "dma_unmap_from i 0 w = Some w"
| "dma_unmap_from i (Suc k) w =
     (if i < length (m_sg w) then
        (let s = m_sg w ! i;
             w = (if tst (sg_flags s) SG_REA then
                    (let w = w\<lparr>mem := memcpy (mem w) (sg_old_addr s) (sg_virt s)
                                      (ucast (sg_length s))\<rparr>
                     in rt_free_align (sg_virt s) w)
                  else w)
         in dma_unmap_from (Suc i) k w)
      else None)"

definition dma_unmap_sg :: "u32 \<Rightarrow> dma_data_direction \<Rightarrow> world \<Rightarrow> world option" where
  "dma_unmap_sg nents dir w =
     (if dir = DMA_FROM_DEVICE then dma_unmap_from 0 (unat nents) w else Some w)"

definition sg_copy_to_buffer :: "u32 \<Rightarrow> u64 \<Rightarrow> u32 \<Rightarrow> world \<Rightarrow> world" where
  "sg_copy_to_buffer nents buf buflen w = w"

definition sg_copy_from_buffer :: "u32 \<Rightarrow> u64 \<Rightarrow> u32 \<Rightarrow> world \<Rightarrow> world" where
  "sg_copy_from_buffer nents buf buflen w = w"

definition dma_sync_single_for_device ::
  "u64 \<Rightarrow> u32 \<Rightarrow> dma_data_direction \<Rightarrow> world \<Rightarrow> world" where
  "dma_sync_single_for_device addr n dir w = w"

definition dma_sync_single_for_cpu ::
  "u64 \<Rightarrow> u32 \<Rightarrow> dma_data_direction \<Rightarrow> world \<Rightarrow> world" where
  "dma_sync_single_for_cpu addr n dir w = w"

subsection \<open>Mapping the data of a request\<close>

text \<open>\<open>Inl e\<close> is the negative return value \<^verbatim>\<open>-e\<close>, \<open>Inr n\<close> the count.\<close>

definition map_or_bounce ::
  "sdhci_ops \<Rightarrow> datap \<Rightarrow> world \<Rightarrow> ((errno + int) \<times> world) option" where
  "map_or_bounce ops dp w =
     (let d = datas w dp
      in case h_bounce_buffer w of
           Some bounce \<Rightarrow>
             (let n = d_blksz d * d_blocks d
              in if n > h_bounce_buffer_size w then Some (Inl EIO, w)
                 else
                   (let w = (if mmc_get_dma_dir d = DMA_TO_DEVICE then
                               (case o_copy_to_bounce_buffer ops of
                                  Some f \<Rightarrow> f dp n w
                                | None \<Rightarrow> sg_copy_to_buffer (d_sg_len d) bounce n w)
                             else w);
                        w = dma_sync_single_for_device (h_bounce_addr w)
                              (h_bounce_buffer_size w) (mmc_get_dma_dir d) w
                    in Some (Inr 1, w)))
         | None \<Rightarrow> do {
             (n, w) \<leftarrow> dma_map_sg (d_sg_len d) (mmc_get_dma_dir d) w;
             Some (Inr n, w)
           })"

definition set_mapped :: "datap \<Rightarrow> int \<Rightarrow> sdhci_cookie \<Rightarrow> world \<Rightarrow> world" where
  "set_mapped dp n cookie = upd_data dp (\<lambda>d. d\<lparr>d_sg_count := n, d_host_cookie := cookie\<rparr>)"

definition sdhci_pre_dma_transfer ::
  "sdhci_ops \<Rightarrow> datap \<Rightarrow> sdhci_cookie \<Rightarrow> world \<Rightarrow> ((errno + int) \<times> world) option" where
  "sdhci_pre_dma_transfer ops dp cookie w =
     (if d_host_cookie (datas w dp) = COOKIE_PRE_MAPPED
      then Some (Inr (d_sg_count (datas w dp)), w)
      else do {
        (r, w) \<leftarrow> map_or_bounce ops dp w;
        Some (case r of
                Inl e \<Rightarrow> (Inl e, w)
              | Inr n \<Rightarrow> if n = 0 then (Inl ENOSPC, w) else (Inr n, set_mapped dp n cookie w))
      })"

subsection \<open>What mapping does\<close>

lemma dma_map_from_Some:
  "i + k \<le> length (m_sg w) \<Longrightarrow> \<exists>w'. dma_map_from i k dir w = Some w'"
  by (induction i k dir w rule: dma_map_from.induct)
     (auto simp: Let_def dma_sync_def emit_def)

lemma dma_map_from_frame:
  "dma_map_from i k dir w = Some w' \<Longrightarrow>
   w' = w\<lparr>m_sg := m_sg w', hist := hist w'\<rparr> \<and> length (m_sg w') = length (m_sg w)"
proof (induction i k dir w rule: dma_map_from.induct)
  case (1 i dir w)
  then show ?case by simp
next
  case (2 i k dir w)
  then show ?case
    by (auto simp: Let_def dma_sync_def emit_def split: if_splits)
qed

text \<open>Entry by entry: the visited entries get the bus address of their buffer, and nothing else
  of the list changes.\<close>

lemma dma_map_from_nth:
  assumes "dma_map_from i k dir w = Some w'" "j < length (m_sg w)"
  shows "m_sg w' ! j =
    (if i \<le> j \<and> j < i + k
     then (m_sg w ! j)\<lparr>sg_dma_address := e_v2p w (sg_virt (m_sg w ! j))\<rparr> else m_sg w ! j)"
  using assms
proof (induction i k dir w rule: dma_map_from.induct)
  case (1 i dir w)
  then show ?case by auto
next
  case (2 i k dir w)
  then show ?case
    by (cases "j = i")
       (auto simp: Let_def dma_sync_def emit_def nth_list_update sg_virt_def split: if_splits)
qed

end
