(* ===== verification/Adma.thy ===== *)
theory Adma
  imports Dma
begin

text \<open>
  The ADMA2 descriptor table (\<^verbatim>\<open>sdhci_adma_write_desc\<close> \<dots> \<^verbatim>\<open>sdhci_set_sdma_addr\<close> of
  \<^verbatim>\<open>sdhci.c\<close>).  Descriptors are written byte by byte into memory at the code's addresses,
  little endian (\<^verbatim>\<open>cpu_to_le16\<close> is the identity in this port); a \<^verbatim>\<open>void **desc\<close> argument
  becomes a pointer argument and a pointer result.  A C \<^verbatim>\<open>int\<close> length is an \<open>int\<close>.

  The theory \<open>AdmaFacts\<close> states what a descriptor writer promises and verifies the table builder
  against it.
\<close>

subsection \<open>Writing descriptors\<close>

definition sdhci_adma_write_desc ::
  "u64 \<Rightarrow> u64 \<Rightarrow> int \<Rightarrow> u32 \<Rightarrow> world \<Rightarrow> u64 \<times> world" where
  "sdhci_adma_write_desc desc addr len cmd w =
     (let m = store16 (mem w) desc (ucast cmd);
          m = store16 m (desc + 2) (word_of_int len);
          m = store32 m (desc + 4) (ucast addr);
          m = (if tst (h_flags w) SDHCI_USE_64_BIT_DMA
               then store32 m (desc + 8) (ucast (drop_bit 32 addr)) else m)
      in (desc + ucast (h_desc_sz w), w\<lparr>mem := m\<rparr>))"

definition raw_sdhci_adma_write_desc ::
  "sdhci_ops \<Rightarrow> u64 \<Rightarrow> u64 \<Rightarrow> int \<Rightarrow> u32 \<Rightarrow> world \<Rightarrow> u64 \<times> world" where
  "raw_sdhci_adma_write_desc ops desc addr len cmd w =
     (case o_adma_write_desc ops of
        Some f \<Rightarrow> f desc addr len cmd w
      | None \<Rightarrow> sdhci_adma_write_desc desc addr len cmd w)"

definition sdhci_adma_mark_end :: "u64 \<Rightarrow> world \<Rightarrow> world" where
  "sdhci_adma_mark_end desc w =
     w\<lparr>mem := store16 (mem w) desc (load16 (mem w) desc OR ADMA2_END)\<rparr>"

subsection \<open>Building the table\<close>

definition adma_offset :: "u64 \<Rightarrow> u64" where
  "adma_offset addr = (SDHCI_ADMA2_ALIGN - (addr AND SDHCI_ADMA2_MASK)) AND SDHCI_ADMA2_MASK"

text \<open>One iteration of the loop; \<open>desc\<close>, \<open>align\<close> and \<open>align_addr\<close> are its running pointers.\<close>

definition adma_seg ::
  "sdhci_ops \<Rightarrow> mmc_data \<Rightarrow> scatterlist \<Rightarrow> u64 \<times> u64 \<times> u64 \<Rightarrow> world
    \<Rightarrow> ((u64 \<times> u64 \<times> u64) \<times> world) option" where
  "adma_seg ops d s = (\<lambda>(desc, align, align_addr) w.
     let addr = sg_dma_address s;
         len = sint (sg_length s);
         offset = adma_offset addr
     in do {
       ((desc, align, align_addr, addr, len), w) \<leftarrow>
         (if offset \<noteq> 0 then do {
            let w = (if d_write d then w\<lparr>mem := memcpy (mem w) align (sg_virt s) offset\<rparr> else w);
            let (desc, w) = raw_sdhci_adma_write_desc ops desc align_addr (uint offset)
                              ADMA2_TRAN_VALID w;
            w \<leftarrow> BUG_ON (uint offset > 65536) w;
            Some ((desc, align + SDHCI_ADMA2_ALIGN, align_addr + SDHCI_ADMA2_ALIGN,
                   addr + offset, len - uint offset), w)
          }
          else Some ((desc, align, align_addr, addr, len), w));
       w \<leftarrow> BUG_ON (len > 65536) w;
       let (desc, w) = (if len \<noteq> 0
                        then raw_sdhci_adma_write_desc ops desc addr len ADMA2_TRAN_VALID w
                        else (desc, w));
       let w = WARN_ON 762 (desc - h_adma_table w \<ge> h_adma_table_sz w) w;
       Some ((desc, align, align_addr), w)
     })"

fun adma_segs ::
  "sdhci_ops \<Rightarrow> mmc_data \<Rightarrow> nat \<Rightarrow> scatterlist list \<Rightarrow> u64 \<times> u64 \<times> u64 \<Rightarrow> world
    \<Rightarrow> ((u64 \<times> u64 \<times> u64) \<times> world) option" where
  "adma_segs ops d 0 l p w = Some (p, w)"
| "adma_segs ops d (Suc n) [] p w = None"
| "adma_segs ops d (Suc n) (s # l) p w = do {
     (p, w) \<leftarrow> adma_seg ops d s p w;
     adma_segs ops d n (sg_next (s # l)) p w
   }"

definition ptr_of :: "u64 option \<Rightarrow> u64" where
  "ptr_of p = (case p of None \<Rightarrow> 0 | Some a \<Rightarrow> a)"

definition sdhci_adma_table_pre :: "sdhci_ops \<Rightarrow> datap \<Rightarrow> int \<Rightarrow> world \<Rightarrow> world option" where
  "sdhci_adma_table_pre ops dp sg_count w = do {
     let w = w\<lparr>h_sg_count := nat sg_count\<rparr>;
     ((desc, _, _), w) \<leftarrow> adma_segs ops (datas w dp) (h_sg_count w) (m_sg w)
        (h_adma_table w, ptr_of (h_align_buffer w), h_align_addr w) w;
     Some (if tst (h_quirks w) SDHCI_QUIRK_NO_ENDATTR_IN_NOPDESC then
             (if desc \<noteq> h_adma_table w
              then sdhci_adma_mark_end (desc - ucast (h_desc_sz w)) w else w)
           else snd (raw_sdhci_adma_write_desc ops desc 0 0 ADMA2_NOP_END_VALID w))
   }"

subsection \<open>After the transfer\<close>

definition adma_unaligned :: "scatterlist \<Rightarrow> bool" where
  "adma_unaligned s \<longleftrightarrow> tst (sg_dma_address s) SDHCI_ADMA2_MASK"

fun adma_copy_back :: "nat \<Rightarrow> scatterlist list \<Rightarrow> u64 \<Rightarrow> world \<Rightarrow> world option" where
  "adma_copy_back 0 l align w = Some w"
| "adma_copy_back (Suc n) [] align w = None"
| "adma_copy_back (Suc n) (s # l) align w =
     (if adma_unaligned s then
        adma_copy_back n (sg_next (s # l)) (align + SDHCI_ADMA2_ALIGN)
          (w\<lparr>mem := memcpy (mem w) (sg_virt s) align
                (SDHCI_ADMA2_ALIGN - (sg_dma_address s AND SDHCI_ADMA2_MASK))\<rparr>)
      else adma_copy_back n (sg_next (s # l)) align w)"

fun adma_has_unaligned :: "nat \<Rightarrow> scatterlist list \<Rightarrow> bool option" where
  "adma_has_unaligned 0 l = Some False"
| "adma_has_unaligned (Suc n) [] = None"
| "adma_has_unaligned (Suc n) (s # l) =
     (if adma_unaligned s then Some True else adma_has_unaligned n (sg_next (s # l)))"

definition sdhci_adma_table_post :: "datap \<Rightarrow> world \<Rightarrow> world option" where
  "sdhci_adma_table_post dp w =
     (let d = datas w dp
      in if d_read d then do {
           unaligned \<leftarrow> adma_has_unaligned (h_sg_count w) (m_sg w);
           if unaligned then do {
             w \<leftarrow> dma_sync_sg_for_cpu (d_sg_len d) DMA_FROM_DEVICE w;
             adma_copy_back (h_sg_count w) (m_sg w) (ptr_of (h_align_buffer w)) w
           } else Some w
         } else Some w)"

subsection \<open>DMA addresses\<close>

definition sdhci_set_adma_addr :: "u64 \<Rightarrow> world \<Rightarrow> world" where
  "sdhci_set_adma_addr addr w =
     (let w = sdhci_writel (ucast addr) SDHCI_ADMA_ADDRESS w
      in if tst (h_flags w) SDHCI_USE_64_BIT_DMA
         then sdhci_writel (ucast (drop_bit 32 addr)) SDHCI_ADMA_ADDRESS_HI w else w)"

definition sdhci_sdma_address :: "world \<Rightarrow> u64 option" where
  "sdhci_sdma_address w =
     (case h_bounce_buffer w of
        Some _ \<Rightarrow> Some (h_bounce_addr w)
      | None \<Rightarrow> (case (h_data w, m_sg w) of
           (Some _, s # _) \<Rightarrow> Some (sg_dma_address s) | _ \<Rightarrow> None))"

definition sdhci_set_sdma_addr :: "u64 \<Rightarrow> world \<Rightarrow> world" where
  "sdhci_set_sdma_addr addr w =
     (if h_v4_mode w then sdhci_set_adma_addr addr w
      else sdhci_writel (ucast addr) SDHCI_DMA_ADDRESS w)"

end
