(* ===== verification/Pio.thy ===== *)
theory Pio
  imports Adma
begin

text \<open>
  Programmed I/O (\<^verbatim>\<open>sdhci_read_block_pio\<close>, \<^verbatim>\<open>sdhci_write_block_pio\<close>, \<^verbatim>\<open>sdhci_transfer_pio\<close> of
  \<^verbatim>\<open>sdhci.c\<close>) over the scatter list iterator of \<^verbatim>\<open>port/l-sg.c\<close>, whose three functions are
  stubs: \<^verbatim>\<open>sg_miter_next\<close> always succeeds and leaves the iterator as it is.

  The loop over the bytes of a chunk is structural; the loop over the chunks of a block and the
  loop over blocks may not end, so they are \<^theory_text>\<open>partial_function (option)\<close>.
\<close>

subsection \<open>The scatter list iterator of the port\<close>

definition sg_miter_start :: "world \<Rightarrow> world" where
  "sg_miter_start w = w"

definition sg_miter_next :: "world \<Rightarrow> bool \<times> world" where
  "sg_miter_next w = (True, w)"

definition sg_miter_stop :: "world \<Rightarrow> world" where
  "sg_miter_stop w = w"

definition miter_consume :: "nat \<Rightarrow> world \<Rightarrow> world" where
  "miter_consume n w = w\<lparr>h_sg_miter := (h_sg_miter w)\<lparr>mi_consumed := of_nat n\<rparr>\<rparr>"

subsection \<open>Reading a block\<close>

text \<open>The loop over \<open>len\<close> bytes: \<open>chunk\<close> bytes of \<open>scratch\<close> are left to store.\<close>

fun pio_read_bytes :: "nat \<Rightarrow> u64 \<Rightarrow> nat \<Rightarrow> u32 \<Rightarrow> world \<Rightarrow> nat \<times> u32 \<times> world" where
  "pio_read_bytes 0 buf chunk scratch w = (chunk, scratch, w)"
| "pio_read_bytes (Suc len) buf chunk scratch w =
     (let (chunk, scratch, w) = (if chunk = 0
                                 then (let (v, w) = sdhci_readl SDHCI_BUFFER w in (4, v, w))
                                 else (chunk, scratch, w));
          w = w\<lparr>mem := (mem w)(buf := ucast scratch)\<rparr>
      in pio_read_bytes len (buf + 1) (chunk - 1) (drop_bit 8 scratch) w)"

partial_function (option) pio_read_loop :: "nat \<Rightarrow> nat \<Rightarrow> u32 \<Rightarrow> world \<Rightarrow> world option" where
  "pio_read_loop blksize chunk scratch w =
     (if blksize = 0 then Some w
      else
        (let (ok, w) = sg_miter_next w
         in if \<not> ok then None
            else
              (let len = min (unat (mi_length (h_sg_miter w))) blksize;
                   w = miter_consume len w;
                   (chunk, scratch, w) =
                      pio_read_bytes len (mi_addr (h_sg_miter w)) chunk scratch w
               in pio_read_loop (blksize - len) chunk scratch w)))"

definition sdhci_read_block_pio :: "world \<Rightarrow> world option" where
  "sdhci_read_block_pio w = do {
     dp \<leftarrow> h_data w;
     w \<leftarrow> pio_read_loop (unat (d_blksz (datas w dp))) 0 0 w;
     Some (sg_miter_stop w)
   }"

subsection \<open>Writing a block\<close>

text \<open>\<open>rest\<close> is what is left of the block after this chunk (\<^verbatim>\<open>blksize\<close> in the code).\<close>

fun pio_write_bytes ::
  "nat \<Rightarrow> nat \<Rightarrow> u64 \<Rightarrow> nat \<Rightarrow> u32 \<Rightarrow> world \<Rightarrow> nat \<times> u32 \<times> world" where
  "pio_write_bytes 0 rest buf chunk scratch w = (chunk, scratch, w)"
| "pio_write_bytes (Suc len) rest buf chunk scratch w =
     (let scratch = scratch OR push_bit (chunk * 8) (ucast (mem w buf));
          chunk = chunk + 1;
          (chunk, scratch, w) = (if chunk = 4 \<or> len = 0 \<and> rest = 0
                                 then (0, 0, sdhci_writel scratch SDHCI_BUFFER w)
                                 else (chunk, scratch, w))
      in pio_write_bytes len rest (buf + 1) chunk scratch w)"

partial_function (option) pio_write_loop :: "nat \<Rightarrow> nat \<Rightarrow> u32 \<Rightarrow> world \<Rightarrow> world option" where
  "pio_write_loop blksize chunk scratch w =
     (if blksize = 0 then Some w
      else
        (let (ok, w) = sg_miter_next w
         in if \<not> ok then None
            else
              (let len = min (unat (mi_length (h_sg_miter w))) blksize;
                   w = miter_consume len w;
                   (chunk, scratch, w) =
                      pio_write_bytes len (blksize - len) (mi_addr (h_sg_miter w))
                        chunk scratch w
               in pio_write_loop (blksize - len) chunk scratch w)))"

definition sdhci_write_block_pio :: "world \<Rightarrow> world option" where
  "sdhci_write_block_pio w = do {
     dp \<leftarrow> h_data w;
     w \<leftarrow> pio_write_loop (unat (d_blksz (datas w dp))) 0 0 w;
     Some (sg_miter_stop w)
   }"

subsection \<open>Transferring what the controller is ready for\<close>

partial_function (option) transfer_pio_loop :: "datap \<Rightarrow> u32 \<Rightarrow> world \<Rightarrow> world option" where
  "transfer_pio_loop dp msk w =
     (let (present, w) = sdhci_readl SDHCI_PRESENT_STATE w
      in if \<not> tst present msk then Some w
         else do {
           let w = (if tst (h_quirks w) SDHCI_QUIRK_PIO_NEEDS_DELAY then udelay 100 w else w);
           w \<leftarrow> (if d_read (datas w dp) then sdhci_read_block_pio w
                else sdhci_write_block_pio w);
           let w = w\<lparr>h_blocks := h_blocks w - 1\<rparr>;
           if h_blocks w = 0 then Some w else transfer_pio_loop dp msk w
         })"

definition sdhci_transfer_pio :: "world \<Rightarrow> world option" where
  "sdhci_transfer_pio w =
     (if h_blocks w = 0 then Some w
      else do {
        dp \<leftarrow> h_data w;
        let d = datas w dp;
        let msk = (if d_read d then SDHCI_DATA_AVAILABLE else SDHCI_SPACE_AVAILABLE);
        let msk = (if tst (h_quirks w) SDHCI_QUIRK_BROKEN_SMALL_PIO \<and> d_blocks d = 1
                   then -1 else msk);
        transfer_pio_loop dp msk w
      })"

end
