(* ===== verification/Timeout.thy ===== *)
theory Timeout
  imports Adma
begin

text \<open>
  Data timeouts and the interrupt mask of a transfer (\<^verbatim>\<open>sdhci_target_timeout\<close> \<dots>
  \<^verbatim>\<open>sdhci_set_timeout\<close> of \<^verbatim>\<open>sdhci.c\<close>).  All arithmetic is at the width of the C types; a
  division by zero has no result.
\<close>

definition div_round_up :: "u32 \<Rightarrow> u32 \<Rightarrow> u32" where
  "div_round_up n d = (n + d - 1) div d"

definition sdhci_target_timeout :: "mmc_command \<Rightarrow> mmc_data option \<Rightarrow> world \<Rightarrow> u32" where
  "sdhci_target_timeout c data w =
     (case data of
        None \<Rightarrow> c_busy_timeout c * 1000
      | Some d \<Rightarrow>
          (let t = div_round_up (d_timeout_ns d) 1000
           in if h_clock w \<noteq> 0 \<and> d_timeout_clks d \<noteq> 0 then
                (let val = 1000000 * ucast (d_timeout_clks d) :: u64;
                     t = (if val mod ucast (h_clock w) \<noteq> 0 then t + 1 else t);
                     val = val div ucast (h_clock w)
                 in t + ucast val)
              else t))"

definition bus_lines :: "mmc_bus_width \<Rightarrow> u64" where
  "bus_lines b = (case b of MMC_BUS_WIDTH_1 \<Rightarrow> 1 | MMC_BUS_WIDTH_4 \<Rightarrow> 4 | MMC_BUS_WIDTH_8 \<Rightarrow> 8)"

abbreviation (input) MMC_CMD_TRANSFER_TIME :: u64 where
  "MMC_CMD_TRANSFER_TIME \<equiv> 10 * NSEC_PER_MSEC"

definition sdhci_calc_sw_timeout :: "cmdp \<Rightarrow> world \<Rightarrow> world option" where
  "sdhci_calc_sw_timeout cp w =
     (let c = cmds w cp;
          data = map_option (datas w) (c_data c);
          target = ucast (sdhci_target_timeout c data w) * NSEC_PER_USEC
      in do {
        w \<leftarrow> (case data of
               Some d \<Rightarrow>
                 (let freq = (if m_actual_clock w \<noteq> 0 then m_actual_clock w else h_clock w);
                      t = ucast (d_blksz d) * NSEC_PER_SEC * (8 div bus_lines (i_bus_width (m_ios w)))
                  in if freq = 0 then None
                     else Some (w\<lparr>h_data_timeout :=
                            ucast (d_blocks d) * target + t div ucast freq * 2\<rparr>))
             | None \<Rightarrow> Some (w\<lparr>h_data_timeout := target\<rparr>));
        Some (if h_data_timeout w \<noteq> 0
              then w\<lparr>h_data_timeout := h_data_timeout w + MMC_CMD_TRANSFER_TIME\<rparr> else w)
      })"

function timeout_loop :: "nat \<Rightarrow> u32 \<Rightarrow> u32 \<Rightarrow> nat" where
  "timeout_loop count current target =
     (if current < target then
        (let count = count + 1; current = push_bit 1 current
         in if count \<ge> 0xF then count else timeout_loop count current target)
      else count)"
  by pat_completeness auto
termination by (relation "measure (\<lambda>(c, _). 15 - c)") auto

declare timeout_loop.simps [simp del]

text \<open>The count and \<^verbatim>\<open>*too_big\<close>.\<close>

definition sdhci_calc_timeout :: "cmdp option \<Rightarrow> world \<Rightarrow> (u8 \<times> bool) option" where
  "sdhci_calc_timeout cmd w =
     (if tst (h_quirks w) SDHCI_QUIRK_BROKEN_TIMEOUT_VAL then Some (0xE, True)
      else case cmd of
        None \<Rightarrow> Some (0xE, True)
      | Some cp \<Rightarrow>
          (let c = cmds w cp
           in if c_data c = None \<and> c_busy_timeout c = 0 then Some (0xE, True)
              else if h_timeout_clk w = 0 then None
              else
                (let target = sdhci_target_timeout c (map_option (datas w) (c_data c)) w;
                     count = timeout_loop 0 (8192 * 1000 div h_timeout_clk w) target
                 in Some (if count \<ge> 0xF then (0xE, True) else (of_nat count, False)))))"

definition sdhci_set_transfer_irqs :: "world \<Rightarrow> world" where
  "sdhci_set_transfer_irqs w =
     (let pio_irqs = SDHCI_INT_DATA_AVAIL OR SDHCI_INT_SPACE_AVAIL;
          dma_irqs = SDHCI_INT_DMA_END OR SDHCI_INT_ADMA_ERROR;
          w = (if tst (h_flags w) SDHCI_REQ_USE_DMA
               then w\<lparr>h_ier := h_ier w AND NOT pio_irqs OR dma_irqs\<rparr>
               else w\<lparr>h_ier := h_ier w AND NOT dma_irqs OR pio_irqs\<rparr>);
          w = (if tst (h_flags w) (SDHCI_AUTO_CMD23 OR SDHCI_AUTO_CMD12)
               then w\<lparr>h_ier := h_ier w OR SDHCI_INT_AUTO_CMD_ERR\<rparr>
               else w\<lparr>h_ier := h_ier w AND NOT SDHCI_INT_AUTO_CMD_ERR\<rparr>)
      in write_ier w)"

definition sdhci_set_data_timeout_irq :: "bool \<Rightarrow> world \<Rightarrow> world" where
  "sdhci_set_data_timeout_irq enable w =
     write_ier (if enable then w\<lparr>h_ier := h_ier w OR SDHCI_INT_DATA_TIMEOUT\<rparr>
                else w\<lparr>h_ier := h_ier w AND NOT SDHCI_INT_DATA_TIMEOUT\<rparr>)"

definition raw_sdhci_set_timeout :: "cmdp option \<Rightarrow> world \<Rightarrow> world option" where
  "raw_sdhci_set_timeout cmd w = do {
     (count, too_big) \<leftarrow> sdhci_calc_timeout cmd w;
     w \<leftarrow> (if too_big \<and> tst (h_quirks2 w) SDHCI_QUIRK2_DISABLE_HW_TIMEOUT then do {
             cp \<leftarrow> cmd;
             w \<leftarrow> sdhci_calc_sw_timeout cp w;
             Some (sdhci_set_data_timeout_irq False w)
           }
           else if \<not> tst (h_ier w) SDHCI_INT_DATA_TIMEOUT
           then Some (sdhci_set_data_timeout_irq True w)
           else Some w);
     Some (sdhci_writeb count SDHCI_TIMEOUT_CONTROL w)
   }"

definition sdhci_set_timeout :: "sdhci_ops \<Rightarrow> cmdp option \<Rightarrow> world \<Rightarrow> world option" where
  "sdhci_set_timeout ops cmd w =
     (case o_set_timeout ops of Some f \<Rightarrow> f cmd w | None \<Rightarrow> raw_sdhci_set_timeout cmd w)"

end
