(* ===== verification/Data.thy ===== *)
theory Data
  imports Pio Timeout
begin

text \<open>
  Preparing the data phase of a command (\<^verbatim>\<open>sdhci_initialize_data\<close>, \<^verbatim>\<open>sdhci_set_block_info\<close>,
  \<^verbatim>\<open>sdhci_prepare_data\<close> of \<^verbatim>\<open>sdhci.c\<close>): sanity checks, the choice between DMA and PIO, the
  descriptor table or the SDMA address, and the block registers.
\<close>

definition sdhci_initialize_data :: "datap \<Rightarrow> world \<Rightarrow> world option" where
  "sdhci_initialize_data dp w =
     (let d = datas w dp; w = WARN_ON 1022 (h_data w \<noteq> None) w
      in do {
        w \<leftarrow> BUG_ON (d_blksz d * d_blocks d > 524288) w;
        w \<leftarrow> BUG_ON (d_blksz d > m_max_blk_size w) w;
        w \<leftarrow> BUG_ON (d_blocks d > 65535) w;
        Some (upd_data dp (\<lambda>d. d\<lparr>d_bytes_xfered := 0\<rparr>)
                (w\<lparr>h_data := Some dp, h_data_early := False\<rparr>))
      })"

definition sdhci_set_block_info :: "datap \<Rightarrow> world \<Rightarrow> world" where
  "sdhci_set_block_info dp w =
     (let d = datas w dp;
          w = sdhci_writew (SDHCI_MAKE_BLKSZ (h_sdma_boundary w) (d_blksz d))
                SDHCI_BLOCK_SIZE w
      in if h_version w \<ge> SDHCI_SPEC_410 \<and> h_v4_mode w
            \<and> tst (h_quirks2 w) SDHCI_QUIRK2_USE_32BIT_BLK_CNT
         then
           (let (cnt, w) = sdhci_readw SDHCI_BLOCK_COUNT w;
                w = (if cnt \<noteq> 0 then sdhci_writew 0 SDHCI_BLOCK_COUNT w else w)
            in sdhci_writew (ucast (d_blocks d)) SDHCI_32BIT_BLK_CNT w)
         else sdhci_writew (ucast (d_blocks d)) SDHCI_BLOCK_COUNT w)"

text \<open>The masks of \<^verbatim>\<open>length\<close> and \<^verbatim>\<open>offset\<close> bits that rule DMA out on this controller.\<close>

definition dma_masks :: "world \<Rightarrow> u32 \<times> u32" where
  "dma_masks w =
     (if tst (h_flags w) SDHCI_USE_ADMA then
        (if tst (h_quirks w) SDHCI_QUIRK_32BIT_ADMA_SIZE then (3, 3) else (0, 0))
      else
        (if tst (h_quirks w) SDHCI_QUIRK_32BIT_DMA_SIZE then 3 else 0,
         if tst (h_quirks w) SDHCI_QUIRK_32BIT_DMA_ADDR then 3 else 0))"

text \<open>Whether the scan meets an entry it rejects; \<open>None\<close> if it runs off the list.\<close>

fun sg_rejects :: "nat \<Rightarrow> scatterlist list \<Rightarrow> u32 \<Rightarrow> u32 \<Rightarrow> bool option" where
  "sg_rejects 0 l lmask omask = Some False"
| "sg_rejects (Suc n) [] lmask omask = None"
| "sg_rejects (Suc n) (s # l) lmask omask =
     (if tst (sg_length s) lmask \<or> tst (sg_offset s) omask then Some True
      else sg_rejects n (sg_next (s # l)) lmask omask)"

definition clear_use_dma :: "world \<Rightarrow> world" where
  "clear_use_dma w = w\<lparr>h_flags := h_flags w AND NOT SDHCI_REQ_USE_DMA\<rparr>"

definition prepare_select_dma :: "datap \<Rightarrow> world \<Rightarrow> world option" where
  "prepare_select_dma dp w =
     (if tst (h_flags w) (SDHCI_USE_SDMA OR SDHCI_USE_ADMA) then
        (let w = w\<lparr>h_flags := h_flags w OR SDHCI_REQ_USE_DMA\<rparr>;
             (lmask, omask) = dma_masks w
         in if lmask OR omask \<noteq> 0 then do {
              bad \<leftarrow> sg_rejects (unat (d_sg_len (datas w dp))) (m_sg w) lmask omask;
              Some (if bad then clear_use_dma w else w)
            } else Some w)
      else Some w)"

definition prepare_map :: "sdhci_ops \<Rightarrow> datap \<Rightarrow> world \<Rightarrow> world option" where
  "prepare_map ops dp w =
     (if tst (h_flags w) SDHCI_REQ_USE_DMA then do {
        (r, w) \<leftarrow> sdhci_pre_dma_transfer ops dp COOKIE_MAPPED w;
        (case r of
           Inl e \<Rightarrow> Some (clear_use_dma (WARN_ON 1119 True w))
         | Inr n \<Rightarrow>
             if n \<le> 0 then Some (clear_use_dma (WARN_ON 1119 True w))
             else if tst (h_flags w) SDHCI_USE_ADMA then do {
               w \<leftarrow> sdhci_adma_table_pre ops dp n w;
               Some (sdhci_set_adma_addr (h_adma_addr w) w)
             }
             else do {
               let w = WARN_ON 1125 (n \<noteq> 1) w;
               a \<leftarrow> sdhci_sdma_address w;
               Some (sdhci_set_sdma_addr a w)
             })
      } else Some w)"

definition sdhci_prepare_data :: "sdhci_ops \<Rightarrow> cmdp \<Rightarrow> world \<Rightarrow> world option" where
  "sdhci_prepare_data ops cp w = do {
     dp \<leftarrow> c_data (cmds w cp);
     w \<leftarrow> sdhci_initialize_data dp w;
     w \<leftarrow> prepare_select_dma dp w;
     w \<leftarrow> prepare_map ops dp w;
     let w = sdhci_config_dma w;
     let w = (if \<not> tst (h_flags w) SDHCI_REQ_USE_DMA
              then (sg_miter_start w)\<lparr>h_blocks := d_blocks (datas w dp)\<rparr> else w);
     let w = sdhci_set_transfer_irqs w;
     Some (sdhci_set_block_info dp w)
   }"

end
