(* ===== verification/Request.thy ===== *)
theory Request
  imports Data
begin

text \<open>
  Sending a command and finishing a request (\<^verbatim>\<open>sdhci_auto_cmd12\<close> \<dots>
  \<^verbatim>\<open>sdhci_send_command_retry\<close> of \<^verbatim>\<open>sdhci.c\<close>); what ends a command or a transfer and the entry
  points are in \<open>Complete\<close>.  The driver has at most two requests at a time; \<open>h_cmd\<close> and \<open>h_data_cmd\<close> are
  the commands on the command and on the data line, \<open>h_deferred_cmd\<close> one that waits for the
  lines, \<open>h_data\<close> the running transfer, \<open>h_mrqs_done\<close> the finished requests that wait to be
  handed back.

  Where the code releases the spin lock, other code may run: it is the argument \<open>u\<close>, any
  function on the state.  \<open>False\<close> of \<open>sdhci_send_command\<close> is the code's \<^verbatim>\<open>false\<close>: the
  controller is busy and nothing was sent.
\<close>

subsection \<open>Automatic commands and the transfer mode\<close>

definition sdhci_auto_cmd12 :: "mrqp \<Rightarrow> world \<Rightarrow> bool" where
  "sdhci_auto_cmd12 mrq w \<longleftrightarrow>
     q_sbc (mrqs w mrq) = None \<and> tst (h_flags w) SDHCI_AUTO_CMD12
     \<and> \<not> q_cap_cmd_during_tfr (mrqs w mrq)"

definition sdhci_auto_cmd23 :: "mrqp \<Rightarrow> world \<Rightarrow> bool" where
  "sdhci_auto_cmd23 mrq w \<longleftrightarrow>
     q_sbc (mrqs w mrq) \<noteq> None \<and> tst (h_flags w) SDHCI_AUTO_CMD23"

definition sdhci_manual_cmd23 :: "mrqp \<Rightarrow> world \<Rightarrow> bool" where
  "sdhci_manual_cmd23 mrq w \<longleftrightarrow>
     q_sbc (mrqs w mrq) \<noteq> None \<and> \<not> tst (h_flags w) SDHCI_AUTO_CMD23"

definition sdhci_auto_cmd_select :: "cmdp \<Rightarrow> u16 \<Rightarrow> world \<Rightarrow> u16 \<times> world" where
  "sdhci_auto_cmd_select cp mode w =
     (let c = cmds w cp;
          use_cmd12 = sdhci_auto_cmd12 (c_mrq c) w \<and> c_opcode c \<noteq> SD_IO_RW_EXTENDED;
          use_cmd23 = sdhci_auto_cmd23 (c_mrq c) w
      in if h_version w \<ge> SDHCI_SPEC_410 \<and> h_v4_mode w \<and> (use_cmd12 \<or> use_cmd23) then
           (let mode = mode OR SDHCI_TRNS_AUTO_SEL;
                (ctrl2, w) = sdhci_readw SDHCI_HOST_CONTROL2 w;
                ctrl2 = (if use_cmd23 then ctrl2 OR SDHCI_CMD23_ENABLE
                         else ctrl2 AND NOT SDHCI_CMD23_ENABLE)
            in (mode, sdhci_writew ctrl2 SDHCI_HOST_CONTROL2 w))
         else
           (if use_cmd12 then mode OR SDHCI_TRNS_AUTO_CMD12
            else if use_cmd23 then mode OR SDHCI_TRNS_AUTO_CMD23 else mode, w))"

definition sdhci_set_transfer_mode :: "cmdp \<Rightarrow> world \<Rightarrow> world" where
  "sdhci_set_transfer_mode cp w =
     (let c = cmds w cp
      in case c_data c of
        None \<Rightarrow>
          (if tst (h_quirks2 w) SDHCI_QUIRK2_CLEAR_TRANSFERMODE_REG_BEFORE_CMD then
             (if c_opcode c \<noteq> MMC_SEND_TUNING_BLOCK_HS200
              then sdhci_writew 0 SDHCI_TRANSFER_MODE w else w)
           else
             (let (mode, w) = sdhci_readw SDHCI_TRANSFER_MODE w
              in sdhci_writew (mode AND NOT (SDHCI_TRNS_AUTO_CMD12 OR SDHCI_TRNS_AUTO_CMD23))
                   SDHCI_TRANSFER_MODE w))
      | Some dp \<Rightarrow>
          (let d = datas w dp;
               w = WARN_ON 1411 (h_data w = None) w;
               mode = (if tst (h_quirks2 w) SDHCI_QUIRK2_SUPPORT_SINGLE then 0
                       else SDHCI_TRNS_BLK_CNT_EN);
               (mode, w) =
                 (if mmc_op_multi (c_opcode c) \<or> d_blocks d > 1 then
                    (let (mode, w) = sdhci_auto_cmd_select cp
                                       (SDHCI_TRNS_BLK_CNT_EN OR SDHCI_TRNS_MULTI) w;
                         w = (case q_sbc (mrqs w (c_mrq c)) of
                                Some sbc \<Rightarrow>
                                  if sdhci_auto_cmd23 (c_mrq c) w
                                  then sdhci_writel (c_arg (cmds w sbc)) SDHCI_ARGUMENT2 w
                                  else w
                              | None \<Rightarrow> w)
                     in (mode, w))
                  else (mode, w));
               mode = (if d_read d then mode OR SDHCI_TRNS_READ else mode);
               mode = (if tst (h_flags w) SDHCI_REQ_USE_DMA then mode OR SDHCI_TRNS_DMA
                       else mode)
           in sdhci_writew mode SDHCI_TRANSFER_MODE w))"

subsection \<open>Finishing a request\<close>

definition cmd_failed :: "world \<Rightarrow> cmdp \<Rightarrow> bool" where
  "cmd_failed w cp \<longleftrightarrow> c_error (cmds w cp) \<noteq> None"

definition sdhci_needs_reset :: "mrqp \<Rightarrow> world \<Rightarrow> bool" where
  "sdhci_needs_reset mrq w \<longleftrightarrow>
     (let q = mrqs w mrq
      in \<not> tst (h_flags w) SDHCI_DEVICE_DEAD \<and>
         (cmd_failed w (q_cmd q)
          \<or> (case q_sbc q of Some sbc \<Rightarrow> cmd_failed w sbc | None \<Rightarrow> False)
          \<or> (case q_data q of
               Some dp \<Rightarrow> (case d_stop (datas w dp) of
                            Some st \<Rightarrow> cmd_failed w st | None \<Rightarrow> False)
             | None \<Rightarrow> False)
          \<or> tst (h_quirks w) SDHCI_QUIRK_RESET_AFTER_REQUEST))"

text \<open>The array \<^verbatim>\<open>mrqs_done\<close> is a list; the first loop looks for the request, the second for
  a free slot.\<close>

fun put_free_slot :: "mrqp \<Rightarrow> mrqp option list \<Rightarrow> mrqp option list option" where
  "put_free_slot mrq [] = None"
| "put_free_slot mrq (None # l) = Some (Some mrq # l)"
| "put_free_slot mrq (Some q # l) = map_option (Cons (Some q)) (put_free_slot mrq l)"

definition sdhci_set_mrq_done :: "mrqp \<Rightarrow> world \<Rightarrow> world" where
  "sdhci_set_mrq_done mrq w =
     (if Some mrq \<in> set (h_mrqs_done w) then WARN_ON 1446 True w
      else case put_free_slot mrq (h_mrqs_done w) of
        Some l \<Rightarrow> w\<lparr>h_mrqs_done := l\<rparr>
      | None \<Rightarrow> WARN_ON 1458 True w)"

definition forget_cmd :: "(cmdp option) \<Rightarrow> mrqp \<Rightarrow> world \<Rightarrow> cmdp option" where
  "forget_cmd p mrq w =
     (case p of Some cp \<Rightarrow> if c_mrq (cmds w cp) = mrq then None else p | None \<Rightarrow> None)"

definition forget_data :: "datap option \<Rightarrow> mrqp \<Rightarrow> world \<Rightarrow> datap option" where
  "forget_data p mrq w =
     (case p of Some dp \<Rightarrow> if d_mrq (datas w dp) = mrq then None else p | None \<Rightarrow> None)"

definition raw_sdhci_finish_mrq :: "mrqp \<Rightarrow> world \<Rightarrow> world" where
  "raw_sdhci_finish_mrq mrq w =
     (let w = w\<lparr>h_cmd := forget_cmd (h_cmd w) mrq w\<rparr>;
          w = w\<lparr>h_data_cmd := forget_cmd (h_data_cmd w) mrq w\<rparr>;
          w = w\<lparr>h_deferred_cmd := forget_cmd (h_deferred_cmd w) mrq w\<rparr>;
          w = w\<lparr>h_data := forget_data (h_data w) mrq w\<rparr>;
          w = (if sdhci_needs_reset mrq w then w\<lparr>h_pending_reset := True\<rparr> else w);
          w = sdhci_set_mrq_done mrq w;
          w = sdhci_del_timer mrq w
      in if \<not> sdhci_has_requests w then sdhci_led_deactivate w else w)"

definition sdhci_finish_mrq :: "mrqp \<Rightarrow> world \<Rightarrow> world" where
  "sdhci_finish_mrq mrq w = queue_work (raw_sdhci_finish_mrq mrq w)"

subsection \<open>Sending a command\<close>

definition set_cmd_error :: "cmdp \<Rightarrow> errno option \<Rightarrow> world \<Rightarrow> world" where
  "set_cmd_error cp e = upd_cmd cp (\<lambda>c. c\<lparr>c_error := e\<rparr>)"

definition inhibit_mask :: "cmdp \<Rightarrow> world \<Rightarrow> u32" where
  "inhibit_mask cp w =
     (let c = cmds w cp;
          msk = (if sdhci_data_line_cmd c then SDHCI_CMD_INHIBIT OR SDHCI_DATA_INHIBIT
                 else SDHCI_CMD_INHIBIT)
      in case q_data (mrqs w (c_mrq c)) of
           Some dp \<Rightarrow> if d_stop (datas w dp) = Some cp then msk AND NOT SDHCI_DATA_INHIBIT
                       else msk
         | None \<Rightarrow> msk)"

definition command_flags :: "mmc_command \<Rightarrow> u32" where
  "command_flags c =
     (let flags = (if \<not> tst (c_flags c) MMC_RSP_PRESENT then SDHCI_CMD_RESP_NONE
                   else if tst (c_flags c) MMC_RSP_136 then SDHCI_CMD_RESP_LONG
                   else if tst (c_flags c) MMC_RSP_BUSY then SDHCI_CMD_RESP_SHORT_BUSY
                   else SDHCI_CMD_RESP_SHORT);
          flags = (if tst (c_flags c) MMC_RSP_CRC then flags OR SDHCI_CMD_CRC else flags);
          flags = (if tst (c_flags c) MMC_RSP_OPCODE then flags OR SDHCI_CMD_INDEX else flags)
      in if c_data c \<noteq> None \<or> c_opcode c = MMC_SEND_TUNING_BLOCK
            \<or> c_opcode c = MMC_SEND_TUNING_BLOCK_HS200
         then flags OR SDHCI_CMD_DATA else flags)"

definition request_timeout :: "cmdp \<Rightarrow> world \<Rightarrow> u64 \<times> world" where
  "request_timeout cp w =
     (let (t, w) = jiffies w; c = cmds w cp
      in (if h_data_timeout w \<noteq> 0 then t + nsecs_to_jiffies (h_data_timeout w)
          else if c_data c = None \<and> c_busy_timeout c > 9000
          then t + ucast (div_round_up (c_busy_timeout c) 1000 * e_HZ w + e_HZ w)
          else t + ucast (10 * e_HZ w), w))"

definition sdhci_external_dma_prepare_data :: "world \<Rightarrow> world" where
  "sdhci_external_dma_prepare_data = WARN_ON 1310 True"

definition send_prologue :: "cmdp \<Rightarrow> world \<Rightarrow> world" where
  "send_prologue cp w =
     (let w = WARN_ON 1575 (h_cmd w \<noteq> None) w;
          w = set_cmd_error cp None w
      in if tst (h_quirks2 w) SDHCI_QUIRK2_STOP_WITH_TC
            \<and> c_opcode (cmds w cp) = MMC_STOP_TRANSMISSION
         then upd_cmd cp (\<lambda>c. c\<lparr>c_flags := c_flags c OR MMC_RSP_BUSY\<rparr>) w else w)"

text \<open>What follows once the lines are free.\<close>

definition send_claim :: "sdhci_ops \<Rightarrow> cmdp \<Rightarrow> world \<Rightarrow> world option" where
  "send_claim ops cp w =
     (let w = w\<lparr>h_cmd := Some cp, h_data_timeout := 0\<rparr>
      in if sdhci_data_line_cmd (cmds w cp) then
           (let w = WARN_ON 1599 (h_data_cmd w \<noteq> None) w;
                w = w\<lparr>h_data_cmd := Some cp\<rparr>
            in sdhci_set_timeout ops (Some cp) w)
         else Some w)"

definition send_data :: "sdhci_ops \<Rightarrow> cmdp \<Rightarrow> world \<Rightarrow> world option" where
  "send_data ops cp w =
     (if c_data (cmds w cp) \<noteq> None then
        (if h_use_external_dma w then Some (sdhci_external_dma_prepare_data w)
         else sdhci_prepare_data ops cp w)
      else Some w)"

definition send_issue :: "cmdp \<Rightarrow> world \<Rightarrow> world" where
  "send_issue cp w =
     (let w = sdhci_writel (c_arg (cmds w cp)) SDHCI_ARGUMENT w;
          w = sdhci_set_transfer_mode cp w;
          w = (if tst (c_flags (cmds w cp)) MMC_RSP_136 \<and> tst (c_flags (cmds w cp)) MMC_RSP_BUSY
               then upd_cmd cp (\<lambda>c. c\<lparr>c_flags := c_flags c AND NOT MMC_RSP_BUSY\<rparr>)
                      (WARN_ON 1616 True w)
               else w);
          flags = command_flags (cmds w cp);
          (timeout, w) = request_timeout cp w;
          w = sdhci_mod_timer (c_mrq (cmds w cp)) timeout w
      in sdhci_writew (SDHCI_MAKE_CMD (c_opcode (cmds w cp)) flags) SDHCI_COMMAND w)"

definition sdhci_send_command :: "sdhci_ops \<Rightarrow> cmdp \<Rightarrow> world \<Rightarrow> (bool \<times> world) option" where
  "sdhci_send_command ops cp w =
     (let w = send_prologue cp w;
          msk = inhibit_mask cp w;
          (present, w) = sdhci_readl SDHCI_PRESENT_STATE w
      in if tst present msk then Some (False, w)
         else do {
           w \<leftarrow> send_claim ops cp w;
           w \<leftarrow> send_data ops cp w;
           Some (True, send_issue cp w)
         })"

definition sdhci_present_error :: "cmdp \<Rightarrow> bool \<Rightarrow> world \<Rightarrow> bool \<times> world" where
  "sdhci_present_error cp present w =
     (if \<not> present \<or> tst (h_flags w) SDHCI_DEVICE_DEAD
      then (True, set_cmd_error cp (Some ENOMEDIUM) w) else (False, w))"

fun send_retry_loop ::
  "sdhci_ops \<Rightarrow> (world \<Rightarrow> world) \<Rightarrow> cmdp \<Rightarrow> cmdp option \<Rightarrow> nat \<Rightarrow> world
    \<Rightarrow> (bool \<times> world) option" where
  "send_retry_loop ops u cp deferred timeout w = do {
     (sent, w) \<leftarrow> sdhci_send_command ops cp w;
     if sent then
       Some (True, if Some cp = h_deferred_cmd w then w\<lparr>h_deferred_cmd := None\<rparr> else w)
     else (case timeout of
         0 \<Rightarrow> Some (False, set_cmd_error cp (Some EIO) (sdhci_dumpregs (o_dump_vendor_regs ops) w))
       | Suc timeout \<Rightarrow>
           (let w = usleep_range 1000 1250 w;
                (present, w) = sdhci_get_cd w;
                w = u w
            in if Some cp = deferred \<and> Some cp \<noteq> h_deferred_cmd w then Some (True, w)
               else (let (err, w) = sdhci_present_error cp present w
                     in if err then Some (False, w)
                        else send_retry_loop ops u cp deferred timeout w)))
   }"

declare send_retry_loop.simps [simp del]

definition sdhci_send_command_retry ::
  "sdhci_ops \<Rightarrow> (world \<Rightarrow> world) \<Rightarrow> cmdp \<Rightarrow> world \<Rightarrow> (bool \<times> world) option" where
  "sdhci_send_command_retry ops u cp w =
     send_retry_loop ops u cp (h_deferred_cmd w) 10 w"

end
