(* ===== verification/Complete.thy ===== *)
theory Complete
  imports Request
begin

text \<open>
  The end of commands, transfers and requests: \<^verbatim>\<open>__sdhci_finish_data\<close>, \<^verbatim>\<open>sdhci_read_rsp_136\<close>,
  \<^verbatim>\<open>sdhci_finish_command\<close>, the request entry points, \<^verbatim>\<open>sdhci_request_done\<close>, the two timer
  handlers, \<^verbatim>\<open>sdhci_error_out_mrqs\<close>, \<^verbatim>\<open>sdhci_card_event\<close> and the pre- and post-request hooks
  of \<^verbatim>\<open>sdhci.c\<close>.  A NULL dereference has no result.
\<close>

subsection \<open>Finishing a transfer\<close>

definition set_data_error :: "datap \<Rightarrow> errno option \<Rightarrow> world \<Rightarrow> world" where
  "set_data_error dp e = upd_data dp (\<lambda>d. d\<lparr>d_error := e\<rparr>)"

definition finish_data_reset ::
  "sdhci_ops \<Rightarrow> cmdp option \<Rightarrow> datap \<Rightarrow> world \<Rightarrow> world option" where
  "finish_data_reset ops data_cmd dp w =
     (if d_error (datas w dp) \<noteq> None then do {
        w \<leftarrow> (if h_cmd w = None \<or> h_cmd w = data_cmd
             then sdhci_do_reset ops SDHCI_RESET_CMD w else Some w);
        sdhci_do_reset ops SDHCI_RESET_DATA w
      } else Some w)"

definition finish_data_count :: "datap \<Rightarrow> world \<Rightarrow> world" where
  "finish_data_count dp =
     upd_data dp (\<lambda>d. d\<lparr>d_bytes_xfered :=
       if d_error d \<noteq> None then 0 else d_blksz d * d_blocks d\<rparr>)"

definition finish_data_stop ::
  "sdhci_ops \<Rightarrow> bool \<Rightarrow> cmdp \<Rightarrow> mrqp \<Rightarrow> world \<Rightarrow> world option" where
  "finish_data_stop ops sw_data_timeout st mrq w =
     (if q_cap_cmd_during_tfr (mrqs w mrq) then Some (raw_sdhci_finish_mrq mrq w)
      else do {
        (sent, w) \<leftarrow> sdhci_send_command ops st (w\<lparr>h_cmd := None\<rparr>);
        Some (if sent then w
              else if sw_data_timeout
              then raw_sdhci_finish_mrq mrq (set_cmd_error st (Some EIO) w)
              else (let w = WARN_ON 1554 (h_deferred_cmd w \<noteq> None) w
                    in w\<lparr>h_deferred_cmd := Some st\<rparr>))
      })"

definition raw_sdhci_finish_data :: "sdhci_ops \<Rightarrow> bool \<Rightarrow> world \<Rightarrow> world option" where
  "raw_sdhci_finish_data ops sw_data_timeout w = do {
     let data_cmd = h_data_cmd w;
     dp \<leftarrow> h_data w;
     let w = w\<lparr>h_data := None, h_data_cmd := None\<rparr>;
     w \<leftarrow> finish_data_reset ops data_cmd dp w;
     w \<leftarrow> (if tst (h_flags w) SDHCI_REQ_USE_DMA \<and> tst (h_flags w) SDHCI_USE_ADMA
          then sdhci_adma_table_post dp w else Some w);
     let w = finish_data_count dp w;
     let d = datas w dp;
     (case d_stop d of
        Some st \<Rightarrow>
          if q_sbc (mrqs w (d_mrq d)) = None \<and> \<not> sdhci_auto_cmd12 (d_mrq d) w
             \<or> d_error d \<noteq> None
          then finish_data_stop ops sw_data_timeout st (d_mrq d) w
          else Some (raw_sdhci_finish_mrq (d_mrq d) w)
      | None \<Rightarrow> Some (raw_sdhci_finish_mrq (d_mrq d) w))
   }"

definition sdhci_finish_data :: "sdhci_ops \<Rightarrow> world \<Rightarrow> world option" where
  "sdhci_finish_data ops = raw_sdhci_finish_data ops False"

subsection \<open>Finishing a command\<close>

definition set_resp :: "cmdp \<Rightarrow> nat \<Rightarrow> u32 \<Rightarrow> world \<Rightarrow> world" where
  "set_resp cp i v = upd_cmd cp (\<lambda>c. c\<lparr>c_resp := (c_resp c)[i := v]\<rparr>)"

fun read_rsp_regs :: "nat list \<Rightarrow> cmdp \<Rightarrow> world \<Rightarrow> world" where
  "read_rsp_regs [] cp w = w"
| "read_rsp_regs (i # is) cp w =
     (let (v, w) = sdhci_readl (SDHCI_RESPONSE + (3 - i) * 4) w
      in read_rsp_regs is cp (set_resp cp i v w))"

fun shift_rsp :: "nat list \<Rightarrow> u32 list \<Rightarrow> u32 list" where
  "shift_rsp [] r = r"
| "shift_rsp (i # is) r =
     (let r = r[i := push_bit 8 (r ! i)];
          r = (if i \<noteq> 3 then r[i := r ! i OR drop_bit 24 (r ! (i + 1))] else r)
      in shift_rsp is r)"

definition sdhci_read_rsp_136 :: "cmdp \<Rightarrow> world \<Rightarrow> world" where
  "sdhci_read_rsp_136 cp w =
     (let w = read_rsp_regs [0, 1, 2, 3] cp w
      in if tst (h_quirks2 w) SDHCI_QUIRK2_RSP_136_HAS_CRC then w
         else upd_cmd cp (\<lambda>c. c\<lparr>c_resp := shift_rsp [0, 1, 2, 3] (c_resp c)\<rparr>) w)"

definition read_response :: "cmdp \<Rightarrow> world \<Rightarrow> world" where
  "read_response cp w =
     (if tst (c_flags (cmds w cp)) MMC_RSP_PRESENT then
        (if tst (c_flags (cmds w cp)) MMC_RSP_136 then sdhci_read_rsp_136 cp w
         else (let (v, w) = sdhci_readl SDHCI_RESPONSE w in set_resp cp 0 v w))
      else w)"

text \<open>After the command the driver goes on with the main command, or with the data, or is done.\<close>

definition command_next :: "sdhci_ops \<Rightarrow> cmdp \<Rightarrow> world \<Rightarrow> world option" where
  "command_next ops cp w =
     (let c = cmds w cp; q = mrqs w (c_mrq c)
      in if q_sbc q = Some cp then do {
           (sent, w) \<leftarrow> sdhci_send_command ops (q_cmd q) w;
           Some (if sent then w
                 else (let w = WARN_ON 1773 (h_deferred_cmd w \<noteq> None) w
                       in w\<lparr>h_deferred_cmd := Some (q_cmd q)\<rparr>))
         }
         else do {
           w \<leftarrow> (if h_data w \<noteq> None \<and> h_data_early w then sdhci_finish_data ops w else Some w);
           Some (if c_data (cmds w cp) = None then raw_sdhci_finish_mrq (c_mrq (cmds w cp)) w
                 else w)
         })"

definition sdhci_finish_command :: "sdhci_ops \<Rightarrow> world \<Rightarrow> world option" where
  "sdhci_finish_command ops w = do {
     cp \<leftarrow> h_cmd w;
     let w = w\<lparr>h_cmd := None\<rparr>;
     let w = read_response cp w;
     let c = cmds w cp;
     let w = (if q_cap_cmd_during_tfr (mrqs w (c_mrq c)) \<and> cp = q_cmd (mrqs w (c_mrq c))
              then mmc_command_done (c_mrq c) w else w);
     if tst (c_flags c) MMC_RSP_BUSY \<and> c_data c = None
        \<and> \<not> tst (h_quirks w) SDHCI_QUIRK_NO_BUSY_IRQ \<and> Some cp = h_data_cmd w
     then Some w
     else command_next ops cp w
   }"

subsection \<open>Request entry points\<close>

definition first_command :: "mrqp \<Rightarrow> world \<Rightarrow> cmdp" where
  "first_command mrq w =
     (case q_sbc (mrqs w mrq) of
        Some sbc \<Rightarrow> if sdhci_manual_cmd23 mrq w then sbc else q_cmd (mrqs w mrq)
      | None \<Rightarrow> q_cmd (mrqs w mrq))"

definition sdhci_request ::
  "sdhci_ops \<Rightarrow> (world \<Rightarrow> world) \<Rightarrow> mrqp \<Rightarrow> world \<Rightarrow> world option" where
  "sdhci_request ops u mrq w =
     (let (present, w) = sdhci_get_cd w;
          w = sdhci_led_activate w;
          (err, w) = sdhci_present_error (q_cmd (mrqs w mrq)) present w
      in if err then Some (sdhci_finish_mrq mrq w)
         else do {
           (ok, w) \<leftarrow> sdhci_send_command_retry ops u (first_command mrq w) w;
           Some (if ok then w else sdhci_finish_mrq mrq w)
         })"

definition sdhci_request_atomic ::
  "sdhci_ops \<Rightarrow> mrqp \<Rightarrow> world \<Rightarrow> (errno option \<times> world) option" where
  "sdhci_request_atomic ops mrq w =
     (let (err, w) = sdhci_present_error (q_cmd (mrqs w mrq)) True w
      in if err then Some (None, sdhci_finish_mrq mrq w)
         else do {
           (sent, w) \<leftarrow> sdhci_send_command ops (first_command mrq w) w;
           Some (if sent then (None, sdhci_led_activate w) else (Some EBUSY, w))
         })"

definition sdhci_post_req :: "mrqp \<Rightarrow> world \<Rightarrow> world option" where
  "sdhci_post_req mrq w = do {
     dp \<leftarrow> q_data (mrqs w mrq);
     w \<leftarrow> (if d_host_cookie (datas w dp) \<noteq> COOKIE_UNMAPPED
          then dma_unmap_sg (d_sg_len (datas w dp)) (mmc_get_dma_dir (datas w dp)) w
          else Some w);
     Some (upd_data dp (\<lambda>d. d\<lparr>d_host_cookie := COOKIE_UNMAPPED\<rparr>) w)
   }"

definition sdhci_pre_req :: "sdhci_ops \<Rightarrow> mrqp \<Rightarrow> world \<Rightarrow> world option" where
  "sdhci_pre_req ops mrq w = do {
     dp \<leftarrow> q_data (mrqs w mrq);
     let w = upd_data dp (\<lambda>d. d\<lparr>d_host_cookie := COOKIE_UNMAPPED\<rparr>) w;
     if tst (h_flags w) SDHCI_REQ_USE_DMA \<and> h_bounce_buffer w = None
     then map_option snd (sdhci_pre_dma_transfer ops dp COOKIE_PRE_MAPPED w)
     else Some w
   }"

subsection \<open>Handing finished requests back\<close>

text \<open>The first occupied slot and its request.\<close>

fun first_done :: "nat \<Rightarrow> mrqp option list \<Rightarrow> (nat \<times> mrqp) option" where
  "first_done i [] = None"
| "first_done i (Some q # l) = Some (i, q)"
| "first_done i (None # l) = first_done (Suc i) l"

definition clear_slot :: "nat \<Rightarrow> world \<Rightarrow> world" where
  "clear_slot i w = w\<lparr>h_mrqs_done := (h_mrqs_done w)[i := None]\<rparr>"

definition unmap_bounce :: "datap \<Rightarrow> u64 \<Rightarrow> world \<Rightarrow> world" where
  "unmap_bounce dp bounce w =
     (let d = datas w dp
      in if mmc_get_dma_dir d = DMA_FROM_DEVICE then
           (let n = (if d_bytes_xfered d > h_bounce_buffer_size w then h_bounce_buffer_size w
                     else d_bytes_xfered d);
                w = dma_sync_single_for_cpu (h_bounce_addr w) (h_bounce_buffer_size w)
                      DMA_FROM_DEVICE w
            in sg_copy_from_buffer (d_sg_len d) bounce n w)
         else dma_sync_single_for_cpu (h_bounce_addr w) (h_bounce_buffer_size w)
                (mmc_get_dma_dir d) w)"

definition done_unmap :: "(world \<Rightarrow> world) \<Rightarrow> datap \<Rightarrow> world \<Rightarrow> world option" where
  "done_unmap u dp w =
     (let d = datas w dp
      in if d_host_cookie d = COOKIE_MAPPED then do {
           w \<leftarrow> (case h_bounce_buffer w of
                  Some bounce \<Rightarrow> Some (unmap_bounce dp bounce w)
                | None \<Rightarrow> map_option u (dma_unmap_sg (d_sg_len d) (mmc_get_dma_dir d) w));
           Some (upd_data dp (\<lambda>d. d\<lparr>d_host_cookie := COOKIE_UNMAPPED\<rparr>) w)
         } else Some w)"

definition done_dma :: "(world \<Rightarrow> world) \<Rightarrow> nat \<Rightarrow> mrqp \<Rightarrow> world \<Rightarrow> world option" where
  "done_dma u i mrq w =
     (if tst (h_flags w) SDHCI_REQ_USE_DMA then
        (case q_data (mrqs w mrq) of
           None \<Rightarrow> Some w
         | Some dp \<Rightarrow>
             (let w = (if h_use_external_dma w
                          \<and> (cmd_failed w (q_cmd (mrqs w mrq)) \<or> d_error (datas w dp) \<noteq> None)
                       then sdhci_set_mrq_done mrq (u (clear_slot i w)) else w)
              in done_unmap u dp w))
      else Some w)"

definition done_reset :: "sdhci_ops \<Rightarrow> world \<Rightarrow> world option" where
  "done_reset ops w = do {
     w \<leftarrow> (if tst (h_quirks w) SDHCI_QUIRK_CLOCK_BEFORE_RESET
          then o_set_clock ops (h_clock w) w else Some w);
     w \<leftarrow> sdhci_do_reset ops SDHCI_RESET_CMD w;
     w \<leftarrow> sdhci_do_reset ops SDHCI_RESET_DATA w;
     Some (w\<lparr>h_pending_reset := False\<rparr>)
   }"

definition hand_back :: "sdhci_ops \<Rightarrow> mrqp \<Rightarrow> world \<Rightarrow> world" where
  "hand_back ops mrq w =
     (case o_request_done ops of Some f \<Rightarrow> f mrq w | None \<Rightarrow> mmc_request_done mrq w)"

definition sdhci_request_done ::
  "sdhci_ops \<Rightarrow> (world \<Rightarrow> world) \<Rightarrow> world \<Rightarrow> (bool \<times> world) option" where
  "sdhci_request_done ops u w =
     (case first_done 0 (h_mrqs_done w) of
        None \<Rightarrow> Some (True, w)
      | Some (i, mrq) \<Rightarrow> do {
          w \<leftarrow> done_dma u i mrq w;
          if sdhci_needs_reset mrq w \<and> sdhci_has_requests w then Some (True, w)
          else do {
            w \<leftarrow> (if sdhci_needs_reset mrq w then done_reset ops w else Some w);
            Some (False, hand_back ops mrq (clear_slot i w))
          }
        })"

partial_function (option) request_done_loop ::
  "sdhci_ops \<Rightarrow> (world \<Rightarrow> world) \<Rightarrow> world \<Rightarrow> world option" where
  "request_done_loop ops u w = do {
     (stop, w) \<leftarrow> sdhci_request_done ops u w;
     if stop then Some w else request_done_loop ops u (u w)
   }"

definition sdhci_complete_work ::
  "sdhci_ops \<Rightarrow> (world \<Rightarrow> world) \<Rightarrow> world \<Rightarrow> world option" where
  "sdhci_complete_work = request_done_loop"

subsection \<open>Timers and card removal\<close>

definition sdhci_timeout_timer :: "sdhci_ops \<Rightarrow> world \<Rightarrow> world" where
  "sdhci_timeout_timer ops w =
     (case h_cmd w of
        Some cp \<Rightarrow>
          if \<not> sdhci_data_line_cmd (cmds w cp) then
            (let w = sdhci_dumpregs (o_dump_vendor_regs ops) w;
                 w = set_cmd_error cp (Some ETIMEDOUT) w
             in sdhci_finish_mrq (c_mrq (cmds w cp)) w)
          else w
      | None \<Rightarrow> w)"

definition sdhci_timeout_data_timer :: "sdhci_ops \<Rightarrow> world \<Rightarrow> world option" where
  "sdhci_timeout_data_timer ops w =
     (let dump = sdhci_dumpregs (o_dump_vendor_regs ops);
          fail = (\<lambda>cp w. sdhci_finish_mrq (c_mrq (cmds w cp))
                           (set_cmd_error cp (Some ETIMEDOUT) w))
      in case h_data w of
        Some dp \<Rightarrow> do {
          w \<leftarrow> raw_sdhci_finish_data ops True (set_data_error dp (Some ETIMEDOUT) (dump w));
          Some (queue_work w)
        }
      | None \<Rightarrow>
          (case h_data_cmd w of
             Some cp \<Rightarrow> Some (fail cp (dump w))
           | None \<Rightarrow>
               (case h_cmd w of
                  Some cp \<Rightarrow> Some (if sdhci_data_line_cmd (cmds w cp) then fail cp (dump w)
                                  else w)
                | None \<Rightarrow> Some w)))"

definition fail_mrq :: "errno \<Rightarrow> cmdp option \<Rightarrow> world \<Rightarrow> world" where
  "fail_mrq err p w =
     (case p of
        Some cp \<Rightarrow> sdhci_finish_mrq (c_mrq (cmds w cp)) (set_cmd_error cp (Some err) w)
      | None \<Rightarrow> w)"

definition sdhci_error_out_mrqs :: "errno \<Rightarrow> world \<Rightarrow> world" where
  "sdhci_error_out_mrqs err w =
     (let w = fail_mrq err (h_data_cmd w) w in fail_mrq err (h_cmd w) w)"

definition sdhci_card_event :: "sdhci_ops \<Rightarrow> world \<Rightarrow> world option" where
  "sdhci_card_event ops w =
     (let w = call_opt (o_card_event ops) w;
          (present, w) = sdhci_get_cd w
      in if sdhci_has_requests w \<and> \<not> present then do {
           w \<leftarrow> sdhci_do_reset ops SDHCI_RESET_CMD w;
           w \<leftarrow> sdhci_do_reset ops SDHCI_RESET_DATA w;
           Some (sdhci_error_out_mrqs ENOMEDIUM w)
         } else Some w)"

end
