(* ===== verification/Irq.thy ===== *)
theory Irq
  imports Complete
begin

text \<open>
  Interrupt handling (\<^verbatim>\<open>sdhci_cmd_irq\<close>, \<^verbatim>\<open>sdhci_data_irq\<close>, \<^verbatim>\<open>sdhci_irq\<close>, \<^verbatim>\<open>sdhci_thread_irq\<close> and
  the SDIO interrupt switches of \<^verbatim>\<open>sdhci.c\<close>).  \<^verbatim>\<open>*intmask_p\<close> is a second result.  The loop of
  \<^verbatim>\<open>sdhci_irq\<close> runs at most 16 times, its counter is the structural argument of \<open>irq_loop\<close>.
\<close>

datatype irqreturn = IRQ_NONE | IRQ_HANDLED | IRQ_WAKE_THREAD

subsection \<open>SDIO interrupt\<close>

definition sdhci_enable_sdio_irq_nolock :: "bool \<Rightarrow> world \<Rightarrow> world" where
  "sdhci_enable_sdio_irq_nolock enable w =
     (if \<not> tst (h_flags w) SDHCI_DEVICE_DEAD then
        write_ier (if enable then w\<lparr>h_ier := h_ier w OR SDHCI_INT_CARD_INT\<rparr>
                   else w\<lparr>h_ier := h_ier w AND NOT SDHCI_INT_CARD_INT\<rparr>)
      else w)"

definition sdhci_enable_sdio_irq :: "bool \<Rightarrow> world \<Rightarrow> world" where
  "sdhci_enable_sdio_irq enable w = sdhci_enable_sdio_irq_nolock enable w"

definition sdhci_ack_sdio_irq :: "world \<Rightarrow> world" where
  "sdhci_ack_sdio_irq w = sdhci_enable_sdio_irq_nolock True w"

subsection \<open>Command interrupts\<close>

text \<open>What an automatic command's error means; \<open>Some\<close> is an early return with the new
  \<^verbatim>\<open>*intmask_p\<close>.\<close>

definition auto_cmd12_error :: "u32 \<Rightarrow> u32 \<Rightarrow> world \<Rightarrow> u32 option \<times> world" where
  "auto_cmd12_error intmask intmask_p w =
     (case h_data_cmd w of
        Some cp \<Rightarrow>
          if tst intmask SDHCI_INT_AUTO_CMD_ERR then
            (let mrq = c_mrq (cmds w cp);
                 (status, w) = sdhci_readw SDHCI_AUTO_CMD_STATUS w;
                 data_err_bit = (if tst status SDHCI_AUTO_CMD_TIMEOUT
                                 then SDHCI_INT_DATA_TIMEOUT else SDHCI_INT_DATA_CRC)
             in if q_sbc (mrqs w mrq) = None \<and> tst (h_flags w) SDHCI_AUTO_CMD12
                then (Some (intmask_p OR data_err_bit), w) else (None, w))
          else (None, w)
      | None \<Rightarrow> (None, w))"

definition auto_cmd23_error :: "u32 \<Rightarrow> cmdp \<Rightarrow> world \<Rightarrow> bool \<times> world" where
  "auto_cmd23_error intmask cp w =
     (if tst intmask SDHCI_INT_AUTO_CMD_ERR then
        (let mrq = c_mrq (cmds w cp);
             (status, w) = sdhci_readw SDHCI_AUTO_CMD_STATUS w;
             err = (if tst status SDHCI_AUTO_CMD_TIMEOUT then ETIMEDOUT else EILSEQ)
         in case q_sbc (mrqs w mrq) of
              Some sbc \<Rightarrow>
                if tst (h_flags w) SDHCI_AUTO_CMD23
                then (True, raw_sdhci_finish_mrq mrq (set_cmd_error sbc (Some err) w))
                else (False, w)
            | None \<Rightarrow> (False, w))
      else (False, w))"

definition cmd_irq_error :: "u32 \<Rightarrow> u32 \<Rightarrow> cmdp \<Rightarrow> world \<Rightarrow> u32 \<times> world" where
  "cmd_irq_error intmask intmask_p cp w =
     (let w = set_cmd_error cp
                (Some (if tst intmask SDHCI_INT_TIMEOUT then ETIMEDOUT else EILSEQ)) w
      in if c_data (cmds w cp) \<noteq> None
            \<and> intmask AND (SDHCI_INT_CRC OR SDHCI_INT_TIMEOUT) = SDHCI_INT_CRC
         then (intmask_p OR SDHCI_INT_DATA_CRC, w\<lparr>h_cmd := None\<rparr>)
         else (intmask_p, raw_sdhci_finish_mrq (c_mrq (cmds w cp)) w))"

definition sdhci_cmd_irq ::
  "sdhci_ops \<Rightarrow> u32 \<Rightarrow> u32 \<Rightarrow> world \<Rightarrow> (u32 \<times> world) option" where
  "sdhci_cmd_irq ops intmask intmask_p w =
     (let (ret, w) = auto_cmd12_error intmask intmask_p w
      in case ret of
        Some m \<Rightarrow> Some (m, w)
      | None \<Rightarrow>
          (case h_cmd w of
             None \<Rightarrow>
               Some (intmask_p, if h_pending_reset w then w
                                else sdhci_dumpregs (o_dump_vendor_regs ops) w)
           | Some cp \<Rightarrow>
               if tst intmask (SDHCI_INT_TIMEOUT OR SDHCI_INT_CRC OR
                               SDHCI_INT_END_BIT OR SDHCI_INT_INDEX)
               then Some (cmd_irq_error intmask intmask_p cp w)
               else
                 (let (ret, w) = auto_cmd23_error intmask cp w
                  in if ret then Some (intmask_p, w)
                     else if tst intmask SDHCI_INT_RESPONSE
                     then map_option (Pair intmask_p) (sdhci_finish_command ops w)
                     else Some (intmask_p, w))))"

subsection \<open>Data interrupts\<close>

partial_function (option) adma_show_loop :: "u64 \<Rightarrow> world \<Rightarrow> unit option" where
  "adma_show_loop desc w =
     (if tst (load16 (mem w) desc) ADMA2_END then Some ()
      else adma_show_loop (desc + ucast (h_desc_sz w)) w)"

definition sdhci_adma_show_error :: "sdhci_ops \<Rightarrow> world \<Rightarrow> world option" where
  "sdhci_adma_show_error ops w =
     (let w = sdhci_dumpregs (o_dump_vendor_regs ops) w
      in map_option (\<lambda>_. w) (adma_show_loop (h_adma_table w) w))"

definition is_tuning_command :: "u32 \<Rightarrow> bool" where
  "is_tuning_command command \<longleftrightarrow>
     command = MMC_SEND_TUNING_BLOCK \<or> command = MMC_SEND_TUNING_BLOCK_HS200"

definition tuning_irq :: "u32 \<Rightarrow> world \<Rightarrow> bool \<times> world" where
  "tuning_irq intmask w =
     (if tst intmask SDHCI_INT_DATA_AVAIL then
        (let (v, w) = sdhci_readw SDHCI_COMMAND w
         in if is_tuning_command (SDHCI_GET_CMD v)
            then (True, wake_up_buf_ready (w\<lparr>h_tuning_done := True\<rparr>)) else (False, w))
      else (False, w))"

definition data_irq_idle :: "sdhci_ops \<Rightarrow> u32 \<Rightarrow> world \<Rightarrow> world" where
  "data_irq_idle ops intmask w =
     (let spurious = (if h_pending_reset w then w
                      else sdhci_dumpregs (o_dump_vendor_regs ops) w)
      in case h_data_cmd w of
        Some cp \<Rightarrow>
          if tst (c_flags (cmds w cp)) MMC_RSP_BUSY then
            (if tst intmask SDHCI_INT_DATA_TIMEOUT then
               (let w = set_cmd_error cp (Some ETIMEDOUT) (w\<lparr>h_data_cmd := None\<rparr>)
                in raw_sdhci_finish_mrq (c_mrq (cmds w cp)) w)
             else if tst intmask SDHCI_INT_DATA_END then
               (let w = w\<lparr>h_data_cmd := None\<rparr>
                in if h_cmd w = Some cp then w
                   else raw_sdhci_finish_mrq (c_mrq (cmds w cp)) w)
             else spurious)
          else spurious
      | None \<Rightarrow> spurious)"

definition data_irq_error :: "sdhci_ops \<Rightarrow> u32 \<Rightarrow> datap \<Rightarrow> world \<Rightarrow> world option" where
  "data_irq_error ops intmask dp w =
     (if tst intmask SDHCI_INT_DATA_TIMEOUT then Some (set_data_error dp (Some ETIMEDOUT) w)
      else if tst intmask SDHCI_INT_DATA_END_BIT then Some (set_data_error dp (Some EILSEQ) w)
      else
        (let (bad_crc, w) = (if tst intmask SDHCI_INT_DATA_CRC then
                               (let (v, w) = sdhci_readw SDHCI_COMMAND w
                                in (SDHCI_GET_CMD v \<noteq> MMC_BUS_TEST_R, w))
                             else (False, w))
         in if bad_crc then Some (set_data_error dp (Some EILSEQ) w)
            else if tst intmask SDHCI_INT_ADMA_ERROR then do {
              w \<leftarrow> sdhci_adma_show_error ops w;
              let w = set_data_error dp (Some EIO) w;
              Some (case o_adma_workaround ops of Some f \<Rightarrow> f intmask w | None \<Rightarrow> w)
            }
            else Some w))"

definition dma_next_boundary :: "u64 \<Rightarrow> u64" where
  "dma_next_boundary dmanow =
     (dmanow AND NOT (SDHCI_DEFAULT_BOUNDARY_SIZE - 1)) + SDHCI_DEFAULT_BOUNDARY_SIZE"

definition data_irq_dma :: "datap \<Rightarrow> world \<Rightarrow> world option" where
  "data_irq_dma dp w = do {
     dmastart \<leftarrow> sdhci_sdma_address w;
     let dmanow = dma_next_boundary (dmastart + ucast (d_bytes_xfered (datas w dp)));
     let w = upd_data dp (\<lambda>d. d\<lparr>d_bytes_xfered := ucast (dmanow - dmastart)\<rparr>) w;
     Some (sdhci_set_sdma_addr dmanow w)
   }"

definition data_irq_progress :: "sdhci_ops \<Rightarrow> u32 \<Rightarrow> datap \<Rightarrow> world \<Rightarrow> world option" where
  "data_irq_progress ops intmask dp w = do {
     w \<leftarrow> (if tst intmask (SDHCI_INT_DATA_AVAIL OR SDHCI_INT_SPACE_AVAIL)
          then sdhci_transfer_pio w else Some w);
     w \<leftarrow> (if tst intmask SDHCI_INT_DMA_END then data_irq_dma dp w else Some w);
     if tst intmask SDHCI_INT_DATA_END then
       (if h_cmd w = h_data_cmd w then Some (w\<lparr>h_data_early := True\<rparr>)
        else sdhci_finish_data ops w)
     else Some w
   }"

definition sdhci_data_irq :: "sdhci_ops \<Rightarrow> u32 \<Rightarrow> world \<Rightarrow> world option" where
  "sdhci_data_irq ops intmask w =
     (let (tuning, w) = tuning_irq intmask w
      in if tuning then Some w
         else case h_data w of
           None \<Rightarrow> Some (data_irq_idle ops intmask w)
         | Some dp \<Rightarrow> do {
             w \<leftarrow> data_irq_error ops intmask dp w;
             if d_error (datas w dp) \<noteq> None then sdhci_finish_data ops w
             else data_irq_progress ops intmask dp w
           })"

subsection \<open>The interrupt handler\<close>

definition sdhci_defer_done :: "mrqp \<Rightarrow> world \<Rightarrow> bool" where
  "sdhci_defer_done mrq w \<longleftrightarrow>
     h_pending_reset w \<or> h_always_defer_done w
     \<or> tst (h_flags w) SDHCI_REQ_USE_DMA
       \<and> (case q_data (mrqs w mrq) of
            Some dp \<Rightarrow> d_host_cookie (datas w dp) = COOKIE_MAPPED | None \<Rightarrow> False)"

definition irq_card :: "u32 \<Rightarrow> world \<Rightarrow> world" where
  "irq_card intmask w =
     (let (present, w) = sdhci_readl SDHCI_PRESENT_STATE w;
          w = w\<lparr>h_ier := h_ier w AND NOT (SDHCI_INT_CARD_INSERT OR SDHCI_INT_CARD_REMOVE)\<rparr>;
          w = w\<lparr>h_ier := h_ier w OR (if tst present SDHCI_CARD_PRESENT
                                     then SDHCI_INT_CARD_REMOVE else SDHCI_INT_CARD_INSERT)\<rparr>;
          w = write_ier w;
          chg = intmask AND (SDHCI_INT_CARD_INSERT OR SDHCI_INT_CARD_REMOVE);
          w = sdhci_writel chg SDHCI_INT_STATUS w
      in w\<lparr>h_thread_isr := h_thread_isr w OR chg\<rparr>)"

definition IRQ_KNOWN :: u32 where
  "IRQ_KNOWN = SDHCI_INT_CARD_INSERT OR SDHCI_INT_CARD_REMOVE OR
     SDHCI_INT_CMD_MASK OR SDHCI_INT_DATA_MASK OR
     SDHCI_INT_ERROR OR SDHCI_INT_BUS_POWER OR
     SDHCI_INT_RETUNE OR SDHCI_INT_CARD_INT"

text \<open>The body of the loop for a non-zero \<^verbatim>\<open>intmask\<close>: what comes before the command and data
  handlers, what comes after them, and all of it.  The results are the unexpected bits, the
  return value so far and the state.\<close>

definition irq_begin :: "u32 \<Rightarrow> irqreturn \<Rightarrow> world \<Rightarrow> irqreturn \<times> world" where
  "irq_begin intmask result w =
     (let msk = intmask AND (SDHCI_INT_CMD_MASK OR SDHCI_INT_DATA_MASK OR SDHCI_INT_BUS_POWER);
          w = sdhci_writel msk SDHCI_INT_STATUS w
      in if tst intmask (SDHCI_INT_CARD_INSERT OR SDHCI_INT_CARD_REMOVE)
         then (IRQ_WAKE_THREAD, irq_card intmask w) else (result, w))"

definition irq_end :: "u32 \<Rightarrow> u32 \<Rightarrow> irqreturn \<Rightarrow> world \<Rightarrow> u32 \<times> irqreturn \<times> world" where
  "irq_end intmask unexpected result w =
     (let w = (if tst intmask SDHCI_INT_RETUNE then mmc_retune_needed w else w);
          w = (if tst intmask SDHCI_INT_CARD_INT \<and> tst (h_ier w) SDHCI_INT_CARD_INT
               then sdio_signal_irq (sdhci_enable_sdio_irq_nolock False w) else w);
          rest = intmask AND NOT IRQ_KNOWN
      in if rest \<noteq> 0 then (unexpected OR rest, result, sdhci_writel rest SDHCI_INT_STATUS w)
         else (unexpected, result, w))"

definition irq_body ::
  "sdhci_ops \<Rightarrow> u32 \<Rightarrow> u32 \<Rightarrow> irqreturn \<Rightarrow> world \<Rightarrow> (u32 \<times> irqreturn \<times> world) option" where
  "irq_body ops intmask unexpected result w = do {
     let (result, w) = irq_begin intmask result w;
     (intmask, w) \<leftarrow>
       (if tst intmask SDHCI_INT_CMD_MASK
        then sdhci_cmd_irq ops (intmask AND SDHCI_INT_CMD_MASK) intmask w
        else Some (intmask, w));
     w \<leftarrow> (if tst intmask SDHCI_INT_DATA_MASK
          then sdhci_data_irq ops (intmask AND SDHCI_INT_DATA_MASK) w else Some w);
     Some (irq_end intmask unexpected result w)
   }"

definition handled :: "irqreturn \<Rightarrow> irqreturn" where
  "handled r = (if r = IRQ_NONE then IRQ_HANDLED else r)"

text \<open>\<open>n\<close> iterations are left after this one.\<close>

fun irq_loop ::
  "sdhci_ops \<Rightarrow> nat \<Rightarrow> u32 \<Rightarrow> u32 \<Rightarrow> irqreturn \<Rightarrow> world
    \<Rightarrow> (u32 \<times> irqreturn \<times> world) option" where
  "irq_loop ops n intmask unexpected result w = do {
     let (intmask, w) = (case o_irq ops of Some f \<Rightarrow> f intmask w | None \<Rightarrow> (intmask, w));
     (unexpected, result, w) \<leftarrow>
       (if intmask = 0 \<and> o_irq ops \<noteq> None then Some (unexpected, result, w)
        else irq_body ops intmask unexpected result w);
     let result = handled result;
     let (intmask, w) = sdhci_readl SDHCI_INT_STATUS w;
     (case n of
        Suc m \<Rightarrow> if intmask \<noteq> 0 then irq_loop ops m intmask unexpected result w
                 else Some (unexpected, result, w)
      | 0 \<Rightarrow> Some (unexpected, result, w))
   }"

declare irq_loop.simps [simp del]

text \<open>The requests to complete here, the new slots, and whether the thread must run.\<close>

fun irq_collect ::
  "mrqp option list \<Rightarrow> irqreturn \<Rightarrow> world \<Rightarrow> mrqp list \<times> mrqp option list \<times> irqreturn" where
  "irq_collect [] result w = ([], [], result)"
| "irq_collect (None # l) result w =
     (let (now, keep, result) = irq_collect l result w in (now, None # keep, result))"
| "irq_collect (Some mrq # l) result w =
     (if sdhci_defer_done mrq w then
        (let (now, keep, result) = irq_collect l IRQ_WAKE_THREAD w
         in (now, Some mrq # keep, result))
      else
        (let (now, keep, result) = irq_collect l result w
         in (mrq # now, None # keep, result)))"

text \<open>After the loop: the requests that need no thread are handed back.\<close>

definition irq_complete :: "sdhci_ops \<Rightarrow> u32 \<times> irqreturn \<times> world \<Rightarrow> irqreturn \<times> world" where
  "irq_complete ops = (\<lambda>(unexpected, result, w).
     let (now, keep, result) = irq_collect (h_mrqs_done w) result w;
         w = w\<lparr>h_mrqs_done := keep\<rparr>;
         result = (if h_deferred_cmd w \<noteq> None then IRQ_WAKE_THREAD else result);
         w = fold (hand_back ops) now w
     in (result, if unexpected \<noteq> 0 then sdhci_dumpregs (o_dump_vendor_regs ops) w else w))"

definition sdhci_irq :: "sdhci_ops \<Rightarrow> world \<Rightarrow> (irqreturn \<times> world) option" where
  "sdhci_irq ops w =
     (if h_runtime_suspended w then Some (IRQ_NONE, w)
      else
        (let (intmask, w) = sdhci_readl SDHCI_INT_STATUS w
         in if intmask = 0 \<or> intmask = 0xffffffff
            then Some (if h_deferred_cmd w \<noteq> None then IRQ_WAKE_THREAD else IRQ_NONE, w)
            else map_option (irq_complete ops) (irq_loop ops 15 intmask 0 IRQ_NONE w)))"

definition sdhci_thread_irq ::
  "sdhci_ops \<Rightarrow> (world \<Rightarrow> world) \<Rightarrow> world \<Rightarrow> world option" where
  "sdhci_thread_irq ops u w = do {
     w \<leftarrow> request_done_loop ops u w;
     let w = u w;
     let isr = h_thread_isr w;
     let w = w\<lparr>h_thread_isr := 0\<rparr>;
     w \<leftarrow> (case h_deferred_cmd w of
            Some cp \<Rightarrow> do {
              (ok, w) \<leftarrow> sdhci_send_command_retry ops u cp w;
              Some (if ok then w else sdhci_finish_mrq (c_mrq (cmds w cp)) w)
            }
          | None \<Rightarrow> Some w);
     if tst isr (SDHCI_INT_CARD_INSERT OR SDHCI_INT_CARD_REMOVE)
     then map_option mmc_detect_change (sdhci_card_event ops (u w))
     else Some w
   }"

end
