(* ===== verification/Clock.thy ===== *)
theory Clock
  imports LowLevel
begin

text \<open>
  Clock control (\<^verbatim>\<open>sdhci_get_preset_value\<close>, \<^verbatim>\<open>sdhci_calc_clk\<close>, \<^verbatim>\<open>sdhci_enable_clk\<close>,
  \<^verbatim>\<open>sdhci_set_clock\<close> of \<^verbatim>\<open>sdhci.c\<close>).  Divisors are C \<^verbatim>\<open>int\<close>s between 0 and 2046, here \<open>nat\<close>;
  the frequency arithmetic is the code's 32-bit unsigned one.
\<close>

subsection \<open>Preset values\<close>

definition preset_reg :: "mmc_timing \<Rightarrow> nat" where
  "preset_reg timing =
     (case timing of
        MMC_TIMING_UHS_SDR12 \<Rightarrow> SDHCI_PRESET_FOR_SDR12
      | MMC_TIMING_UHS_SDR25 \<Rightarrow> SDHCI_PRESET_FOR_SDR25
      | MMC_TIMING_UHS_SDR50 \<Rightarrow> SDHCI_PRESET_FOR_SDR50
      | MMC_TIMING_UHS_SDR104 \<Rightarrow> SDHCI_PRESET_FOR_SDR104
      | MMC_TIMING_MMC_HS200 \<Rightarrow> SDHCI_PRESET_FOR_SDR104
      | MMC_TIMING_UHS_DDR50 \<Rightarrow> SDHCI_PRESET_FOR_DDR50
      | MMC_TIMING_MMC_DDR52 \<Rightarrow> SDHCI_PRESET_FOR_DDR50
      | MMC_TIMING_MMC_HS400 \<Rightarrow> SDHCI_PRESET_FOR_HS400
      | _ \<Rightarrow> SDHCI_PRESET_FOR_SDR12)"

definition sdhci_get_preset_value :: "world \<Rightarrow> u16 \<times> world" where
  "sdhci_get_preset_value w = sdhci_readw (preset_reg (h_timing w)) w"

subsection \<open>The divider\<close>

definition fits :: "u32 \<Rightarrow> u32 \<Rightarrow> nat \<Rightarrow> bool" where
  "fits base clock d \<longleftrightarrow> base div of_nat d \<le> clock"

text \<open>The three search loops, each from its running divisor \<open>d\<close> on.\<close>

function prog_div :: "u32 \<Rightarrow> u32 \<Rightarrow> nat \<Rightarrow> nat" where
  "prog_div base clock d =
     (if d \<le> 1024 then (if fits base clock d then d else prog_div base clock (d + 1)) else d)"
  by pat_completeness auto
termination by (relation "measure (\<lambda>(_, _, d). 1025 - d)") auto

function div_300 :: "u32 \<Rightarrow> u32 \<Rightarrow> nat \<Rightarrow> nat" where
  "div_300 base clock d =
     (if d < SDHCI_MAX_DIV_SPEC_300
      then (if fits base clock d then d else div_300 base clock (d + 2)) else d)"
  by pat_completeness auto
termination by (relation "measure (\<lambda>(_, _, d). 2046 - d)") auto

function div_200 :: "u32 \<Rightarrow> u32 \<Rightarrow> nat \<Rightarrow> nat" where
  "div_200 base clock d =
     (if 0 < d \<and> d < SDHCI_MAX_DIV_SPEC_200
      then (if fits base clock d then d else div_200 base clock (d * 2)) else d)"
  by pat_completeness auto
termination by (relation "measure (\<lambda>(_, _, d). 256 - d)") auto

declare prog_div.simps [simp del] div_300.simps [simp del] div_200.simps [simp del]

text \<open>The base clock divider of version 3.00: \<open>div\<close> and \<open>real_div\<close>.\<close>

definition base_div_300 :: "u32 \<Rightarrow> world \<Rightarrow> nat \<times> nat" where
  "base_div_300 clock w =
     (let d = (if h_max_clk w \<le> clock then 1 else div_300 (h_max_clk w) clock 2);
          real_div = d;
          d = d div 2
      in (if tst (h_quirks2 w) SDHCI_QUIRK2_CLOCK_DIV_ZERO_BROKEN \<and> d = 0
             \<and> h_max_clk w \<le> 25000000 then 1 else d, real_div))"

text \<open>At \<^verbatim>\<open>clock_set\<close>: the \<open>clk\<close> so far, \<open>div\<close>, \<open>real_div\<close> and \<open>clk_mul\<close>.\<close>

definition calc_div :: "u32 \<Rightarrow> world \<Rightarrow> (u16 \<times> nat \<times> nat \<times> u32) \<times> world" where
  "calc_div clock w =
     (if h_version w \<ge> SDHCI_SPEC_300 then
        (if h_preset_enabled w then
           (let (clk, w) = sdhci_readw SDHCI_CLOCK_CONTROL w;
                (pre_val, w) = sdhci_get_preset_value w;
                d = unat (pre_val AND SDHCI_PRESET_SDCLK_FREQ_MASK)
            in if h_clk_mul w \<noteq> 0 \<and> tst pre_val SDHCI_PRESET_CLKGEN_SEL
               then ((SDHCI_PROG_CLOCK_MODE, d, d + 1, h_clk_mul w), w)
               else ((clk, d, max 1 (2 * d), 1), w))
         else
           (let d = prog_div (h_max_clk w * h_clk_mul w) clock 1
            in if h_clk_mul w \<noteq> 0 \<and> fits (h_max_clk w * h_clk_mul w) clock d
               then ((SDHCI_PROG_CLOCK_MODE, d - 1, d, h_clk_mul w), w)
               else (let (d, real_div) = base_div_300 clock w in ((0, d, real_div, 1), w))))
      else
        (let d = div_200 (h_max_clk w) clock 1 in ((0, d div 2, d, 1), w)))"

definition clk_field :: "nat \<Rightarrow> u16" where
  "clk_field d =
     push_bit SDHCI_DIVIDER_SHIFT (of_nat d AND SDHCI_DIV_MASK)
     OR push_bit SDHCI_DIVIDER_HI_SHIFT
          (drop_bit SDHCI_DIV_MASK_LEN (of_nat d AND SDHCI_DIV_HI_MASK))"

text \<open>The register value and \<^verbatim>\<open>*actual_clock\<close>, which keeps its value \<open>old\<close> if it is not set.\<close>

definition sdhci_calc_clk :: "u32 \<Rightarrow> u32 \<Rightarrow> world \<Rightarrow> (u16 \<times> u32) \<times> world" where
  "sdhci_calc_clk clock old w =
     (let ((clk, d, real_div, clk_mul), w) = calc_div clock w;
          actual = (if real_div \<noteq> 0 then h_max_clk w * clk_mul div of_nat real_div else old)
      in ((clk OR clk_field d, actual), w))"

subsection \<open>Switching the clock on\<close>

text \<open>The wait for \<^verbatim>\<open>SDHCI_CLOCK_INT_STABLE\<close>: the value read, and whether the clock is stable.\<close>

partial_function (option) clk_wait ::
  "(world \<Rightarrow> world) option \<Rightarrow> u64 \<Rightarrow> world \<Rightarrow> ((u16 \<times> bool) \<times> world) option" where
  "clk_wait vendor timeout w =
     (let (now, w) = ktime_get w;
          timedout = ktime_after now timeout;
          (clk, w) = sdhci_readw SDHCI_CLOCK_CONTROL w
      in if tst clk SDHCI_CLOCK_INT_STABLE then Some ((clk, True), w)
         else if timedout then Some ((clk, False), sdhci_dumpregs vendor w)
         else clk_wait vendor timeout (udelay 10 w))"

definition clk_wait_150 :: "(world \<Rightarrow> world) option \<Rightarrow> world \<Rightarrow> ((u16 \<times> bool) \<times> world) option" where
  "clk_wait_150 vendor w =
     (let (now, w) = ktime_get w in clk_wait vendor (ktime_add_ms now 150) w)"

definition sdhci_enable_clk :: "(world \<Rightarrow> world) option \<Rightarrow> u16 \<Rightarrow> world \<Rightarrow> world option" where
  "sdhci_enable_clk vendor clk w = do {
     let clk = clk OR SDHCI_CLOCK_INT_EN;
     let w = sdhci_writew clk SDHCI_CLOCK_CONTROL w;
     ((clk, stable), w) \<leftarrow> clk_wait_150 vendor w;
     if \<not> stable then Some w
     else do {
       ((clk, stable), w) \<leftarrow>
         (if h_version w \<ge> SDHCI_SPEC_410 \<and> h_v4_mode w then
            (let clk = clk OR SDHCI_CLOCK_PLL_EN;
                 clk = clk AND NOT SDHCI_CLOCK_INT_STABLE;
                 w = sdhci_writew clk SDHCI_CLOCK_CONTROL w
             in clk_wait_150 vendor w)
          else Some ((clk, True), w));
       if \<not> stable then Some w
       else Some (sdhci_writew (clk OR SDHCI_CLOCK_CARD_EN) SDHCI_CLOCK_CONTROL w)
     }
   }"

definition sdhci_set_clock :: "(world \<Rightarrow> world) option \<Rightarrow> u32 \<Rightarrow> world \<Rightarrow> world option" where
  "sdhci_set_clock vendor clock w =
     (let w = w\<lparr>m_actual_clock := 0\<rparr>;
          w = sdhci_writew 0 SDHCI_CLOCK_CONTROL w
      in if clock = 0 then Some w
         else
           (let ((clk, actual), w) = sdhci_calc_clk clock (m_actual_clock w) w;
                w = w\<lparr>m_actual_clock := actual\<rparr>
            in sdhci_enable_clk vendor clk w))"

end
