(* ===== verification/Ios.thy ===== *)
theory Ios
  imports Clock
begin

text \<open>
  Power, bus width, timing and the \<^verbatim>\<open>set_ios\<close> entry point (\<^verbatim>\<open>sdhci_set_power_reg\<close> \<dots>
  \<^verbatim>\<open>sdhci_set_ios\<close>), write protection, signal voltage and the busy test of \<^verbatim>\<open>sdhci.c\<close>.  The
  bits \<^verbatim>\<open>MMC_VDD_*\<close> are those of the card's OCR register, fixed by the SD standard.
\<close>

subsection \<open>Power\<close>

abbreviation (input) MMC_VDD_165_195 :: u32 where "MMC_VDD_165_195 \<equiv> 0x80"

abbreviation (input) MMC_VDD_20_21 :: u32 where "MMC_VDD_20_21 \<equiv> 0x100"

abbreviation (input) MMC_VDD_29_30 :: u32 where "MMC_VDD_29_30 \<equiv> 0x20000"

abbreviation (input) MMC_VDD_30_31 :: u32 where "MMC_VDD_30_31 \<equiv> 0x40000"

abbreviation (input) MMC_VDD_32_33 :: u32 where "MMC_VDD_32_33 \<equiv> 0x100000"

abbreviation (input) MMC_VDD_33_34 :: u32 where "MMC_VDD_33_34 \<equiv> 0x200000"

definition sdhci_set_power_reg :: "mmc_power_mode \<Rightarrow> u16 \<Rightarrow> world \<Rightarrow> world" where
  "sdhci_set_power_reg mode vdd w =
     (let w = mmc_regulator_set_ocr (m_vmmc w) vdd w
      in sdhci_writeb (if mode \<noteq> MMC_POWER_OFF then SDHCI_POWER_ON else 0)
           SDHCI_POWER_CONTROL w)"

text \<open>The power bits of a voltage, \<open>None\<close> for the default branch.\<close>

definition vdd_power :: "u16 \<Rightarrow> u8 option" where
  "vdd_power vdd =
     (let v = push_bit (unat vdd) 1 :: u32
      in if v = MMC_VDD_165_195 \<or> v = MMC_VDD_20_21 then Some SDHCI_POWER_180
         else if v = MMC_VDD_29_30 \<or> v = MMC_VDD_30_31 then Some SDHCI_POWER_300
         else if v = MMC_VDD_32_33 \<or> v = MMC_VDD_33_34 then Some SDHCI_POWER_330
         else None)"

definition power_apply :: "u8 \<Rightarrow> world \<Rightarrow> world" where
  "power_apply pwr w =
     (let w = w\<lparr>h_pwr := pwr\<rparr>
      in if pwr = 0 then
           (let w = sdhci_writeb 0 SDHCI_POWER_CONTROL w
            in if tst (h_quirks2 w) SDHCI_QUIRK2_CARD_ON_NEEDS_BUS_ON
               then sdhci_runtime_pm_bus_off w else w)
         else
           (let w = (if \<not> tst (h_quirks w) SDHCI_QUIRK_SINGLE_POWER_WRITE
                     then sdhci_writeb 0 SDHCI_POWER_CONTROL w else w);
                w = (if tst (h_quirks w) SDHCI_QUIRK_NO_SIMULT_VDD_AND_POWER
                     then sdhci_writeb pwr SDHCI_POWER_CONTROL w else w);
                w = sdhci_writeb (pwr OR SDHCI_POWER_ON) SDHCI_POWER_CONTROL w;
                w = (if tst (h_quirks2 w) SDHCI_QUIRK2_CARD_ON_NEEDS_BUS_ON
                     then sdhci_runtime_pm_bus_on w else w)
            in if tst (h_quirks w) SDHCI_QUIRK_DELAY_AFTER_POWER then mdelay 10 w else w))"

definition sdhci_set_power_noreg :: "mmc_power_mode \<Rightarrow> u16 \<Rightarrow> world \<Rightarrow> world" where
  "sdhci_set_power_noreg mode vdd w =
     (let (pwr, w) = (if mode \<noteq> MMC_POWER_OFF then
                        (case vdd_power vdd of
                           Some p \<Rightarrow> (p, w) | None \<Rightarrow> (0, WARN_ON 2020 True w))
                      else (0, w))
      in if h_pwr w = pwr then w else power_apply pwr w)"

definition sdhci_set_power :: "mmc_power_mode \<Rightarrow> u16 \<Rightarrow> world \<Rightarrow> world" where
  "sdhci_set_power mode vdd w =
     (if IS_ERR_supply (m_vmmc w) then sdhci_set_power_noreg mode vdd w
      else sdhci_set_power_reg mode vdd w)"

definition sdhci_set_power_and_bus_voltage :: "mmc_power_mode \<Rightarrow> u16 \<Rightarrow> world \<Rightarrow> world" where
  "sdhci_set_power_and_bus_voltage mode vdd w =
     (let w = (if \<not> IS_ERR_supply (m_vmmc w) then mmc_regulator_set_ocr (m_vmmc w) vdd w
               else w)
      in sdhci_set_power_noreg mode vdd w)"

subsection \<open>Bus width, timing, preset values\<close>

definition bus_width_ctrl :: "bool \<Rightarrow> mmc_bus_width \<Rightarrow> u8 \<Rightarrow> u8" where
  "bus_width_ctrl cap8 width ctrl =
     (if width = MMC_BUS_WIDTH_8 then (ctrl AND NOT SDHCI_CTRL_4BITBUS) OR SDHCI_CTRL_8BITBUS
      else
        (let ctrl = (if cap8 then ctrl AND NOT SDHCI_CTRL_8BITBUS else ctrl)
         in if width = MMC_BUS_WIDTH_4 then ctrl OR SDHCI_CTRL_4BITBUS
            else ctrl AND NOT SDHCI_CTRL_4BITBUS))"

definition sdhci_set_bus_width :: "mmc_bus_width \<Rightarrow> world \<Rightarrow> world" where
  "sdhci_set_bus_width width w =
     (let (ctrl, w) = sdhci_readb SDHCI_HOST_CONTROL w;
          ctrl = bus_width_ctrl (tst (m_caps w) (e_CAP_8_BIT_DATA w)) width ctrl
      in sdhci_writeb ctrl SDHCI_HOST_CONTROL w)"

definition uhs_bits :: "mmc_timing \<Rightarrow> u16" where
  "uhs_bits timing =
     (if timing = MMC_TIMING_MMC_HS200 \<or> timing = MMC_TIMING_UHS_SDR104
      then SDHCI_CTRL_UHS_SDR104
      else if timing = MMC_TIMING_UHS_SDR12 then SDHCI_CTRL_UHS_SDR12
      else if timing = MMC_TIMING_UHS_SDR25 then SDHCI_CTRL_UHS_SDR25
      else if timing = MMC_TIMING_UHS_SDR50 then SDHCI_CTRL_UHS_SDR50
      else if timing = MMC_TIMING_UHS_DDR50 \<or> timing = MMC_TIMING_MMC_DDR52
      then SDHCI_CTRL_UHS_DDR50
      else if timing = MMC_TIMING_MMC_HS400 then SDHCI_CTRL_HS400
      else 0)"

definition sdhci_set_uhs_signaling :: "mmc_timing \<Rightarrow> world \<Rightarrow> world" where
  "sdhci_set_uhs_signaling timing w =
     (let (ctrl_2, w) = sdhci_readw SDHCI_HOST_CONTROL2 w;
          ctrl_2 = (ctrl_2 AND NOT SDHCI_CTRL_UHS_MASK) OR uhs_bits timing
      in sdhci_writew ctrl_2 SDHCI_HOST_CONTROL2 w)"

definition sdhci_enable_preset_value :: "bool \<Rightarrow> world \<Rightarrow> world" where
  "sdhci_enable_preset_value enable w =
     (if h_version w < SDHCI_SPEC_300 then w
      else if h_preset_enabled w \<noteq> enable then
        (let (ctrl, w) = sdhci_readw SDHCI_HOST_CONTROL2 w;
             ctrl = (if enable then ctrl OR SDHCI_CTRL_PRESET_VAL_ENABLE
                     else ctrl AND NOT SDHCI_CTRL_PRESET_VAL_ENABLE);
             w = sdhci_writew ctrl SDHCI_HOST_CONTROL2 w;
             w = w\<lparr>h_flags := if enable then h_flags w OR SDHCI_PV_ENABLED
                               else h_flags w AND NOT SDHCI_PV_ENABLED\<rparr>
         in w\<lparr>h_preset_enabled := enable\<rparr>)
      else w)"

subsection \<open>Setting the bus\<close>

definition ios_timeout_clk :: "sdhci_ops \<Rightarrow> world \<Rightarrow> world option" where
  "ios_timeout_clk ops w =
     (if tst (h_quirks w) SDHCI_QUIRK_DATA_TIMEOUT_USES_SDCLK \<and> h_clock w \<noteq> 0 then
        (let w = w\<lparr>h_timeout_clk := if m_actual_clock w \<noteq> 0 then m_actual_clock w div 1000
                                     else h_clock w div 1000\<rparr>;
             (n, w) = (case o_get_max_timeout_count ops of
                         Some f \<Rightarrow> f w | None \<Rightarrow> (0x8000000, w))
         in if h_timeout_clk w = 0 then None
            else Some (w\<lparr>m_max_busy_timeout := n div h_timeout_clk w\<rparr>))
      else Some w)"

definition ios_clock :: "sdhci_ops \<Rightarrow> u32 \<Rightarrow> world \<Rightarrow> world option" where
  "ios_clock ops clock w =
     (if clock = 0 \<or> clock \<noteq> h_clock w then do {
        w \<leftarrow> o_set_clock ops clock w;
        ios_timeout_clk ops (w\<lparr>h_clock := clock\<rparr>)
      } else Some w)"

definition ios_power :: "sdhci_ops \<Rightarrow> mmc_ios \<Rightarrow> world \<Rightarrow> world option" where
  "ios_power ops ios w = do {
     w \<leftarrow> (case o_set_power ops of
            Some f \<Rightarrow> f (i_power_mode ios) (i_vdd ios) w
          | None \<Rightarrow> Some (sdhci_set_power (i_power_mode ios) (i_vdd ios) w));
     Some (case o_platform_send_init_74_clocks ops of
             Some f \<Rightarrow> f (i_power_mode ios) w | None \<Rightarrow> w)
   }"

definition hispd_timing :: "mmc_timing \<Rightarrow> bool" where
  "hispd_timing t \<longleftrightarrow>
     t = MMC_TIMING_SD_HS \<or> t = MMC_TIMING_MMC_HS \<or> t = MMC_TIMING_MMC_HS400
     \<or> t = MMC_TIMING_MMC_HS200 \<or> t = MMC_TIMING_MMC_DDR52 \<or> t = MMC_TIMING_UHS_SDR50
     \<or> t = MMC_TIMING_UHS_SDR104 \<or> t = MMC_TIMING_UHS_DDR50 \<or> t = MMC_TIMING_UHS_SDR25"

definition drv_type_bits :: "u8 \<Rightarrow> u16" where
  "drv_type_bits t =
     (if t = MMC_SET_DRIVER_TYPE_A then SDHCI_CTRL_DRV_TYPE_A
      else if t = MMC_SET_DRIVER_TYPE_B then SDHCI_CTRL_DRV_TYPE_B
      else if t = MMC_SET_DRIVER_TYPE_C then SDHCI_CTRL_DRV_TYPE_C
      else if t = MMC_SET_DRIVER_TYPE_D then SDHCI_CTRL_DRV_TYPE_D
      else SDHCI_CTRL_DRV_TYPE_B)"

definition stop_sd_clock :: "world \<Rightarrow> world" where
  "stop_sd_clock w =
     (let (clk, w) = sdhci_readw SDHCI_CLOCK_CONTROL w
      in sdhci_writew (clk AND NOT SDHCI_CLOCK_CARD_EN) SDHCI_CLOCK_CONTROL w)"

definition uses_preset :: "mmc_timing \<Rightarrow> bool" where
  "uses_preset t \<longleftrightarrow>
     t = MMC_TIMING_UHS_SDR12 \<or> t = MMC_TIMING_UHS_SDR25 \<or> t = MMC_TIMING_UHS_SDR50
     \<or> t = MMC_TIMING_UHS_SDR104 \<or> t = MMC_TIMING_UHS_DDR50 \<or> t = MMC_TIMING_MMC_DDR52"

text \<open>The part for version 3.00 and later; \<open>ctrl\<close> is the new host control value.\<close>

definition ios_host_ctrl :: "sdhci_ops \<Rightarrow> u8 \<Rightarrow> mmc_ios \<Rightarrow> world \<Rightarrow> world option" where
  "ios_host_ctrl ops ctrl ios w =
     (if \<not> h_preset_enabled w then
        (let w = sdhci_writeb ctrl SDHCI_HOST_CONTROL w;
             (ctrl_2, w) = sdhci_readw SDHCI_HOST_CONTROL2 w;
             ctrl_2 = (ctrl_2 AND NOT SDHCI_CTRL_DRV_TYPE_MASK) OR drv_type_bits (i_drv_type ios)
         in Some (sdhci_writew ctrl_2 SDHCI_HOST_CONTROL2 w))
      else
        (let w = stop_sd_clock w;
             w = sdhci_writeb ctrl SDHCI_HOST_CONTROL w
         in o_set_clock ops (h_clock w) w))"

definition ios_select_preset :: "mmc_ios \<Rightarrow> world \<Rightarrow> mmc_ios \<times> world" where
  "ios_select_preset ios w =
     (if \<not> tst (h_quirks2 w) SDHCI_QUIRK2_PRESET_VALUE_BROKEN \<and> uses_preset (i_timing ios) then
        (let w = sdhci_enable_preset_value True w;
             (preset, w) = sdhci_get_preset_value w
         in (ios\<lparr>i_drv_type := ucast (drop_bit 14 (preset AND SDHCI_PRESET_DRV_MASK))\<rparr>, w))
      else (ios, w))"

definition ios_v300 ::
  "sdhci_ops \<Rightarrow> u8 \<Rightarrow> mmc_ios \<Rightarrow> world \<Rightarrow> (mmc_ios \<times> world) option" where
  "ios_v300 ops ctrl ios w = do {
     w \<leftarrow> ios_host_ctrl ops ctrl ios w;
     let w = stop_sd_clock w;
     let w = o_set_uhs_signaling ops (i_timing ios) w;
     let w = w\<lparr>h_timing := i_timing ios\<rparr>;
     let (ios, w) = ios_select_preset ios w;
     w \<leftarrow> o_set_clock ops (h_clock w) w;
     Some (ios, w)
   }"

text \<open>What precedes the clock, and the host control register with what follows it.\<close>

definition ios_power_state :: "sdhci_ops \<Rightarrow> mmc_ios \<Rightarrow> world \<Rightarrow> world option" where
  "ios_power_state ops ios w = do {
     w \<leftarrow> (if i_power_mode ios = MMC_POWER_OFF
          then sdhci_reinit ops (sdhci_writel 0 SDHCI_SIGNAL_ENABLE w) else Some w);
     Some (if h_version w \<ge> SDHCI_SPEC_300 \<and> i_power_mode ios = MMC_POWER_UP
              \<and> \<not> tst (h_quirks2 w) SDHCI_QUIRK2_PRESET_VALUE_BROKEN
           then sdhci_enable_preset_value False w else w)
   }"

definition ios_signaling :: "sdhci_ops \<Rightarrow> mmc_ios \<Rightarrow> world \<Rightarrow> (mmc_ios \<times> world) option" where
  "ios_signaling ops ios w =
     (let (ctrl, w) = sdhci_readb SDHCI_HOST_CONTROL w;
          ctrl = (if \<not> tst (h_quirks w) SDHCI_QUIRK_NO_HISPD_BIT then
                    (if hispd_timing (i_timing ios) then ctrl OR SDHCI_CTRL_HISPD
                     else ctrl AND NOT SDHCI_CTRL_HISPD)
                  else ctrl)
      in if h_version w \<ge> SDHCI_SPEC_300 then ios_v300 ops ctrl ios w
         else Some (ios, sdhci_writeb ctrl SDHCI_HOST_CONTROL w))"

definition sdhci_set_ios :: "sdhci_ops \<Rightarrow> mmc_ios \<Rightarrow> world \<Rightarrow> (mmc_ios \<times> world) option" where
  "sdhci_set_ios ops ios w =
     (if i_power_mode ios = MMC_POWER_UNDEFINED then Some (ios, w)
      else if tst (h_flags w) SDHCI_DEVICE_DEAD then
        Some (ios, if \<not> IS_ERR_supply (m_vmmc w) \<and> i_power_mode ios = MMC_POWER_OFF
                   then mmc_regulator_set_ocr (m_vmmc w) 0 w else w)
      else do {
        w \<leftarrow> ios_power_state ops ios w;
        w \<leftarrow> ios_clock ops (i_clock ios) w;
        w \<leftarrow> ios_power ops ios w;
        let w = o_set_bus_width ops (i_bus_width ios) w;
        (ios, w) \<leftarrow> ios_signaling ops ios w;
        w \<leftarrow> (if tst (h_quirks w) SDHCI_QUIRK_RESET_CMD_DATA_ON_IOS
             then sdhci_do_reset ops (SDHCI_RESET_CMD OR SDHCI_RESET_DATA) w else Some w);
        Some (ios, w)
      })"

subsection \<open>Write protection, hardware reset, busy\<close>

definition sdhci_check_ro :: "sdhci_ops \<Rightarrow> world \<Rightarrow> bool \<times> world" where
  "sdhci_check_ro ops w =
     (let (is_readonly, w) =
        (if tst (h_flags w) SDHCI_DEVICE_DEAD then (False, w)
         else case o_get_ro ops of
           Some f \<Rightarrow> f w
         | None \<Rightarrow>
             if mmc_can_gpio_ro then (mmc_gpio_get_ro \<noteq> 0, w)
             else (let (p, w) = sdhci_readl SDHCI_PRESENT_STATE w
                   in (\<not> tst p SDHCI_WRITE_PROTECT, w)))
      in (if tst (h_quirks w) SDHCI_QUIRK_INVERTED_WRITE_PROTECT then \<not> is_readonly
          else is_readonly, w))"

abbreviation (input) SAMPLE_COUNT :: nat where "SAMPLE_COUNT \<equiv> 5"

text \<open>\<open>n\<close> samples are left, \<open>ro_count\<close> were read-only.\<close>

fun ro_loop :: "sdhci_ops \<Rightarrow> nat \<Rightarrow> nat \<Rightarrow> world \<Rightarrow> bool \<times> world" where
  "ro_loop ops 0 ro_count w = (False, w)"
| "ro_loop ops (Suc n) ro_count w =
     (let (ro, w) = sdhci_check_ro ops w;
          ro_count = (if ro then ro_count + 1 else ro_count)
      in if ro \<and> ro_count > SAMPLE_COUNT div 2 then (True, w)
         else ro_loop ops n ro_count (msleep 30 w))"

definition sdhci_get_ro :: "sdhci_ops \<Rightarrow> world \<Rightarrow> bool \<times> world" where
  "sdhci_get_ro ops w =
     (if \<not> tst (h_quirks w) SDHCI_QUIRK_UNSTABLE_RO_DETECT then sdhci_check_ro ops w
      else ro_loop ops SAMPLE_COUNT 0 w)"

definition sdhci_hw_reset :: "sdhci_ops \<Rightarrow> world \<Rightarrow> world" where
  "sdhci_hw_reset ops w = call_opt (o_hw_reset ops) w"

definition sdhci_card_busy :: "world \<Rightarrow> bool \<times> world" where
  "sdhci_card_busy w =
     (let (p, w) = sdhci_readl SDHCI_PRESENT_STATE w
      in (\<not> tst p SDHCI_DATA_0_LVL_MASK, w))"

subsection \<open>Signal voltage\<close>

definition set_vqmmc :: "mmc_ios \<Rightarrow> world \<Rightarrow> errno option \<times> world" where
  "set_vqmmc ios w =
     (if \<not> IS_ERR_supply (m_vqmmc w) then
        (let (ret, w) = mmc_regulator_set_vqmmc ios w
         in (if ret \<noteq> None then Some EIO else None, w))
      else (None, w))"

definition switch_330 :: "mmc_ios \<Rightarrow> u16 \<Rightarrow> world \<Rightarrow> errno option \<times> world" where
  "switch_330 ios ctrl w =
     (if \<not> tst (h_flags w) SDHCI_SIGNALING_330 then (Some EINVAL, w)
      else
        (let w = sdhci_writew (ctrl AND NOT SDHCI_CTRL_VDD_180) SDHCI_HOST_CONTROL2 w;
             (err, w) = set_vqmmc ios w
         in if err \<noteq> None then (err, w)
            else
              (let w = usleep_range 5000 5500 w;
                   (ctrl, w) = sdhci_readw SDHCI_HOST_CONTROL2 w
               in if \<not> tst ctrl SDHCI_CTRL_VDD_180 then (None, w) else (Some EAGAIN, w))))"

definition switch_180 :: "sdhci_ops \<Rightarrow> mmc_ios \<Rightarrow> u16 \<Rightarrow> world \<Rightarrow> errno option \<times> world" where
  "switch_180 ops ios ctrl w =
     (if \<not> tst (h_flags w) SDHCI_SIGNALING_180 then (Some EINVAL, w)
      else
        (let (err, w) = set_vqmmc ios w
         in if err \<noteq> None then (err, w)
            else
              (let w = sdhci_writew (ctrl OR SDHCI_CTRL_VDD_180) SDHCI_HOST_CONTROL2 w;
                   w = call_opt (o_voltage_switch ops) w;
                   (ctrl, w) = sdhci_readw SDHCI_HOST_CONTROL2 w
               in if tst ctrl SDHCI_CTRL_VDD_180 then (None, w) else (Some EAGAIN, w))))"

definition sdhci_start_signal_voltage_switch ::
  "sdhci_ops \<Rightarrow> mmc_ios \<Rightarrow> world \<Rightarrow> errno option \<times> world" where
  "sdhci_start_signal_voltage_switch ops ios w =
     (if h_version w < SDHCI_SPEC_300 then (None, w)
      else
        (let (ctrl, w) = sdhci_readw SDHCI_HOST_CONTROL2 w
         in case i_signal_voltage ios of
              MMC_SIGNAL_VOLTAGE_330 \<Rightarrow> switch_330 ios ctrl w
            | MMC_SIGNAL_VOLTAGE_180 \<Rightarrow> switch_180 ops ios ctrl w
            | MMC_SIGNAL_VOLTAGE_120 \<Rightarrow>
                if \<not> tst (h_flags w) SDHCI_SIGNALING_120 then (Some EINVAL, w)
                else set_vqmmc ios w
            | _ \<Rightarrow> (None, w)))"

end
