(* ===== verification/Frames.thy ===== *)
theory Frames
  imports Views Irq Ios
begin

text \<open>
  Frame lemmas: which operations keep the request view and the interrupt view of the state
  (\<open>Views\<close>).  A total operation has a rewrite rule \<open>vw (f w) = vw w\<close>, one that may not return
  a rule from \<open>f w = Some w'\<close>.

  The locale \<open>host_ops\<close> is the contract of \<^verbatim>\<open>struct sdhci_ops\<close> as far as the core's bookkeeping
  is concerned: a platform operation works on the device and must not touch the request
  pointers nor the interrupt mask.
\<close>

subsection \<open>Time, timers, delays\<close>

lemma ktime_get_eq: "ktime_get w =
    (ucast (jiffies_to_msecs (e_HZ w) (ucast (e_tick w (hist w)))) * 1000000, emit ReadTick w)"
  by (simp add: ktime_get_def jiffies_def rt_tick_get_def)

lemma vw_time [simp]:
  "vw (snd (rt_tick_get w)) = vw w" "vw (snd (jiffies w)) = vw w" "vw (snd (ktime_get w)) = vw w"
  "vw (udelay n w) = vw w" "vw (mdelay n w) = vw w" "vw (msleep n w) = vw w"
  "vw (usleep_range n m w) = vw w"
  by (simp_all add: rt_tick_get_def jiffies_def ktime_get_def udelay_def mdelay_def msleep_def
      usleep_range_def Let_def split: prod.splits)

lemma vw_timers [simp]:
  "vw (mod_timer dt e w) = vw w" "vw (del_timer dt w) = vw w"
  "vw (sdhci_mod_timer q e w) = vw w" "vw (sdhci_del_timer q w) = vw w"
  by (auto simp: mod_timer_def del_timer_def sdhci_mod_timer_def sdhci_del_timer_def Let_def
      rt_tick_get_def WARN_ON_def)

lemma vw_core_calls [simp]:
  "vw (mmc_request_done q w) = vw w" "vw (mmc_command_done q w) = vw w"
  "vw (mmc_detect_change w) = vw w" "vw (mmc_retune_needed w) = vw w"
  "vw (sdio_signal_irq w) = vw w" "vw (queue_work w) = vw w" "vw (wake_up_buf_ready w) = vw w"
  by (simp_all add: mmc_request_done_def mmc_command_done_def mmc_detect_change_def
      mmc_retune_needed_def sdio_signal_irq_def queue_work_def wake_up_buf_ready_def)

subsection \<open>Low-level operations\<close>

lemma vw_dump [simp]: "vw (dump_regs1 w) = vw w" "vw (dump_regs2 w) = vw w"
  by (simp_all add: dump_regs1_def dump_regs2_def Let_def)

lemma vw_get_cd [simp]: "vw (snd (sdhci_get_cd w)) = vw w"
  by (simp add: sdhci_get_cd_def mmc_gpio_get_cd_def Let_def)

lemma vw_led [simp]: "vw (sdhci_led_activate w) = vw w" "vw (sdhci_led_deactivate w) = vw w"
  by (simp_all add: sdhci_led_activate_def sdhci_led_deactivate_def Let_def)

lemma vw_bus [simp]:
  "vw (sdhci_runtime_pm_bus_on w) = vw w" "vw (sdhci_runtime_pm_bus_off w) = vw w"
  by (simp_all add: sdhci_runtime_pm_bus_on_def sdhci_runtime_pm_bus_off_def)

lemma vw_v4 [simp]: "vw (sdhci_do_enable_v4_mode w) = vw w"
  by (simp add: sdhci_do_enable_v4_mode_def Let_def)

lemma vw_config_dma [simp]: "vw (sdhci_config_dma w) = vw w"
  by (simp add: sdhci_config_dma_def Let_def)

lemma rq_write_ier [simp]: "rq (write_ier w) = rq w"
  by (simp add: write_ier_def)

lemma rq_card_detection [simp]:
  "rq (sdhci_set_card_detection e w) = rq w" "rq (sdhci_set_default_irqs w) = rq w"
  by (simp_all add: sdhci_set_card_detection_def sdhci_set_default_irqs_def Let_def)

subsection \<open>DMA and descriptors\<close>

lemma vw_dma_sync [simp]: "vw (dma_sync p n dir w) = vw w"
  by (simp add: dma_sync_def)

lemma vw_dma_loops:
  "sg_sync i k dir w = Some w' \<Longrightarrow> vw w' = vw w"
  "dma_map_from i k dir w = Some w' \<Longrightarrow> vw w' = vw w"
  "dma_unmap_from i k w = Some w' \<Longrightarrow> vw w' = vw w"
proof -
  show "sg_sync i k dir w = Some w' \<Longrightarrow> vw w' = vw w"
    by (induction i k dir w rule: sg_sync.induct) (auto simp: Let_def split: if_splits)
  show "dma_map_from i k dir w = Some w' \<Longrightarrow> vw w' = vw w"
    by (induction i k dir w rule: dma_map_from.induct) (auto simp: Let_def split: if_splits)
  show "dma_unmap_from i k w = Some w' \<Longrightarrow> vw w' = vw w"
    by (induction i k w rule: dma_unmap_from.induct)
       (auto simp: Let_def rt_free_align_def split: if_splits)
qed

lemma vw_dma_calls:
  "dma_map_sg n dir w = Some (c, w') \<Longrightarrow> vw w' = vw w"
  "dma_unmap_sg n dir w = Some w' \<Longrightarrow> vw w' = vw w"
  "dma_sync_sg_for_cpu n dir w = Some w' \<Longrightarrow> vw w' = vw w"
  by (auto simp: dma_map_sg_def dma_unmap_sg_def dma_sync_sg_for_cpu_def Option.bind_eq_Some_conv
      split: if_splits dest: vw_dma_loops)

lemma vw_dma_addr [simp]:
  "vw (sdhci_set_adma_addr a w) = vw w" "vw (sdhci_set_sdma_addr a w) = vw w"
  "vw (sdhci_adma_mark_end d w) = vw w" "vw (snd (sdhci_adma_write_desc d a n c w)) = vw w"
  by (simp_all add: sdhci_set_adma_addr_def sdhci_set_sdma_addr_def sdhci_adma_mark_end_def
      sdhci_adma_write_desc_def Let_def)

lemma vw_copy_back: "adma_copy_back n l a w = Some w' \<Longrightarrow> vw w' = vw w"
  by (induction n l a w rule: adma_copy_back.induct) (auto split: if_splits)

lemma vw_table_post: "sdhci_adma_table_post dp w = Some w' \<Longrightarrow> vw w' = vw w"
  by (auto simp: sdhci_adma_table_post_def Let_def Option.bind_eq_Some_conv split: if_splits
      dest!: vw_copy_back vw_dma_calls)

text \<open>The rules above, read as rules about the single views.\<close>

lemmas vw_simps =
  vw_time vw_timers vw_core_calls vw_dump vw_get_cd vw_led vw_bus vw_v4 vw_config_dma
  vw_dma_sync vw_dma_addr

lemmas vw_views [simp] =
  vw_simps[THEN vw_rq] vw_simps[THEN vw_links] vw_simps[THEN vw_ier_ok] vw_simps[THEN vw_acked]
  vw_simps[THEN vw_h_cmd] vw_simps[THEN vw_h_data_cmd] vw_simps[THEN vw_h_deferred]
  vw_simps[THEN vw_h_data] vw_simps[THEN vw_h_done] vw_simps[THEN vw_mrqs]
  vw_simps[THEN vw_tame_left] vw_simps[THEN vw_tame_right]

subsection \<open>Programmed I/O\<close>

lemma vw_pio_read_bytes [simp]: "vw (snd (snd (pio_read_bytes n b c s w))) = vw w"
  by (induction n arbitrary: b c s w) (auto simp: Let_def)

lemma vw_pio_write_bytes [simp]: "vw (snd (snd (pio_write_bytes n r b c s w))) = vw w"
  by (induction n arbitrary: b c s w) (auto simp: Let_def)

lemma vw_miter [simp]:
  "vw (miter_consume n w) = vw w" "vw (snd (sg_miter_next w)) = vw w"
  "vw (sg_miter_stop w) = vw w" "vw (sg_miter_start w) = vw w"
  by (simp_all add: miter_consume_def sg_miter_next_def sg_miter_stop_def sg_miter_start_def)

lemma vw_pio_read_loop: "pio_read_loop n c s w = Some w' \<Longrightarrow> vw w' = vw w"
proof (induction rule: pio_read_loop.raw_induct[rotated, consumes 1, case_names step])
  case (step loop n c s w w')
  show ?case
    using step(2)
    apply (cases "n = 0")
     apply simp
    apply (simp add: Let_def split_beta split: if_splits)
    apply (drule step(1))
    apply simp
    done
qed

lemma vw_pio_write_loop: "pio_write_loop n c s w = Some w' \<Longrightarrow> vw w' = vw w"
proof (induction rule: pio_write_loop.raw_induct[rotated, consumes 1, case_names step])
  case (step loop n c s w w')
  show ?case
    using step(2)
    apply (cases "n = 0")
     apply simp
    apply (simp add: Let_def split_beta split: if_splits)
    apply (drule step(1))
    apply simp
    done
qed

lemma vw_block_pio:
  "sdhci_read_block_pio w = Some w' \<Longrightarrow> vw w' = vw w"
  "sdhci_write_block_pio w = Some w' \<Longrightarrow> vw w' = vw w"
  by (auto simp: sdhci_read_block_pio_def sdhci_write_block_pio_def Option.bind_eq_Some_conv
      dest!: vw_pio_read_loop vw_pio_write_loop)

lemma vw_transfer_pio_loop: "transfer_pio_loop dp m w = Some w' \<Longrightarrow> vw w' = vw w"
proof (induction rule: transfer_pio_loop.raw_induct[rotated, consumes 1, case_names step])
  case (step loop dp m w w')
  show ?case
    using step(2)
    by (auto simp: Let_def Option.bind_eq_Some_conv split: if_splits dest!: vw_block_pio step(1))
qed

lemma vw_transfer_pio: "sdhci_transfer_pio w = Some w' \<Longrightarrow> vw w' = vw w"
  by (auto simp: sdhci_transfer_pio_def Let_def Option.bind_eq_Some_conv split: if_splits
      dest!: vw_transfer_pio_loop)

subsection \<open>Operations that change the interrupt mask\<close>

lemma write_ier_views [simp]:
  "ier_ok (write_ier w)" "acked (write_ier w) = acked w" "links (write_ier w) = links w"
  "h_cmd (write_ier w) = h_cmd w" "h_data_cmd (write_ier w) = h_data_cmd w"
  "h_deferred_cmd (write_ier w) = h_deferred_cmd w" "h_data (write_ier w) = h_data w"
  "h_mrqs_done (write_ier w) = h_mrqs_done w"
  by (simp_all add: write_ier_def ier_ok_def)

lemma tame_ier:
  "tame w (sdhci_set_card_detection e w)" "tame w (sdhci_set_default_irqs w)"
  "tame w (sdhci_set_transfer_irqs w)" "tame w (sdhci_set_data_timeout_irq e w)"
  "tame w (sdhci_enable_sdio_irq_nolock e w)"
  by (simp_all add: tame_def sdhci_set_card_detection_def sdhci_set_default_irqs_def
      sdhci_set_transfer_irqs_def sdhci_set_data_timeout_irq_def
      sdhci_enable_sdio_irq_nolock_def Let_def)

lemma tame_transfer_irqs: "vw w1 = vw w \<Longrightarrow> tame w (sdhci_set_transfer_irqs w1)"
  using tame_ier(3)[of w1] vw_tame_left by blast

lemma vw_calc_sw_timeout: "sdhci_calc_sw_timeout cp w = Some w' \<Longrightarrow> vw w' = vw w"
  by (auto simp: sdhci_calc_sw_timeout_def Let_def Option.bind_eq_Some_conv
      split: option.splits if_splits)

lemma tame_raw_set_timeout: "raw_sdhci_set_timeout c w = Some w' \<Longrightarrow> tame w w'"
  by (auto simp: raw_sdhci_set_timeout_def Option.bind_eq_Some_conv tame_ier[unfolded tame_def]
      tame_def split: if_splits dest!: vw_all[OF vw_calc_sw_timeout])

subsection \<open>Command registers\<close>

lemma vw_set_block_info [simp]: "vw (sdhci_set_block_info dp w) = vw w"
  by (simp add: sdhci_set_block_info_def Let_def)

lemma vw_auto_cmd_select [simp]: "vw (snd (sdhci_auto_cmd_select cp m w)) = vw w"
  by (simp add: sdhci_auto_cmd_select_def Let_def)

lemma vw_set_transfer_mode [simp]: "vw (sdhci_set_transfer_mode cp w) = vw w"
  by (auto simp: sdhci_set_transfer_mode_def Let_def split_beta split: option.splits)

lemma vw_set_cmd_error [simp]: "vw (set_cmd_error cp e w) = vw w"
  by (simp add: set_cmd_error_def upd_cmd_view)

lemma vw_set_data_error [simp]: "vw (set_data_error dp e w) = vw w"
  by (simp add: set_data_error_def upd_data_view)

lemma vw_present_error [simp]: "vw (snd (sdhci_present_error cp p w)) = vw w"
  by (simp add: sdhci_present_error_def)

lemma vw_send_prologue [simp]: "vw (send_prologue cp w) = vw w"
  by (simp add: send_prologue_def Let_def upd_cmd_view line_of_busy)

lemma vw_request_timeout [simp]: "vw (snd (request_timeout cp w)) = vw w"
  by (simp add: request_timeout_def Let_def split_beta)

lemma vw_send_issue [simp]: "vw (send_issue cp w) = vw w"
  by (simp add: send_issue_def Let_def split_beta upd_cmd_view line_of_busy(2)[simplified])

lemmas vw_cmd_simps =
  vw_set_block_info vw_set_transfer_mode vw_set_cmd_error vw_set_data_error vw_present_error
  vw_send_prologue vw_request_timeout vw_send_issue

lemmas vw_cmd_views [simp] =
  vw_cmd_simps[THEN vw_rq] vw_cmd_simps[THEN vw_links] vw_cmd_simps[THEN vw_ier_ok]
  vw_cmd_simps[THEN vw_acked] vw_cmd_simps[THEN vw_h_cmd] vw_cmd_simps[THEN vw_h_data_cmd]
  vw_cmd_simps[THEN vw_h_deferred] vw_cmd_simps[THEN vw_h_data] vw_cmd_simps[THEN vw_h_done]
  vw_cmd_simps[THEN vw_mrqs] vw_cmd_simps[THEN vw_tame_left] vw_cmd_simps[THEN vw_tame_right]

text \<open>Sending: the command is claimed for the lines it uses, and its data for the transfer.\<close>

definition claim_view :: "cmdp \<Rightarrow> world \<Rightarrow> world \<Rightarrow> bool" where
  "claim_view cp w w' \<longleftrightarrow>
     links w' = links w \<and> h_deferred_cmd w' = h_deferred_cmd w \<and> h_mrqs_done w' = h_mrqs_done w
     \<and> acked w' = acked w \<and> (ier_ok w \<longrightarrow> ier_ok w')
     \<and> h_cmd w' = Some cp
     \<and> (h_data_cmd w' = h_data_cmd w \<or> h_data_cmd w' = Some cp)
     \<and> (h_data w' = h_data w \<or> h_data w' = c_data (cmds w cp))"

lemma claim_view_tame: "claim_view cp w a \<Longrightarrow> tame a b \<Longrightarrow> claim_view cp w b"
  using rq_all[of b a] by (simp add: claim_view_def tame_def)

subsection \<open>The contract of the platform operations\<close>

locale host_ops =
  fixes ops :: sdhci_ops
  assumes reset: "o_reset ops m w = Some w' \<Longrightarrow> tame w w'"
    and set_clock: "o_set_clock ops c w = Some w' \<Longrightarrow> tame w w'"
    and set_timeout: "o_set_timeout ops = Some ft \<Longrightarrow> ft cp w = Some w' \<Longrightarrow> tame w w'"
    and enable_dma: "o_enable_dma ops = Some fe \<Longrightarrow> tame w (snd (fe w))"
    and irq: "o_irq ops = Some fi \<Longrightarrow> tame w (snd (fi m' w))"
    and write_desc: "o_adma_write_desc ops = Some fd \<Longrightarrow> vw (snd (fd d a n cm w)) = vw w"
    and bounce: "o_copy_to_bounce_buffer ops = Some fb \<Longrightarrow> vw (fb dp k w) = vw w"
    and workaround: "o_adma_workaround ops = Some fw \<Longrightarrow> tame w (fw m'' w)"
    and card_event: "o_card_event ops = Some fc \<Longrightarrow> tame w (fc w)"
    and request_done: "o_request_done ops = Some fr \<Longrightarrow> tame w (fr q w)"
    and dump_vendor: "o_dump_vendor_regs ops = Some fv \<Longrightarrow> vw (fv w) = vw w"
begin

lemma vw_dumpregs [simp]: "vw (sdhci_dumpregs (o_dump_vendor_regs ops) w) = vw w"
  by (auto simp: sdhci_dumpregs_def call_opt_def Let_def dump_vendor split: option.splits)

lemma tame_enable_dma: "tame w (run_enable_dma ops w)"
  by (auto simp: run_enable_dma_def enable_dma split: option.splits)

lemma tame_epilogue: "tame w (reset_epilogue ops m w)"
  using tame_enable_dma[of w] by (simp add: reset_epilogue_def tame_def)

lemma tame_do_reset: "sdhci_do_reset ops m w = Some w' \<Longrightarrow> tame w w'"
  by (auto simp: sdhci_do_reset_def Let_def split_beta Option.bind_eq_Some_conv vw_tame
      split: if_splits dest!: reset intro!: tame_trans[OF _ tame_epilogue])

lemma tame_set_timeout: "sdhci_set_timeout ops c w = Some w' \<Longrightarrow> tame w w'"
  by (auto simp: sdhci_set_timeout_def split: option.splits dest: set_timeout tame_raw_set_timeout)

lemma vw_write_desc [simp]: "vw (snd (raw_sdhci_adma_write_desc ops d a n c w)) = vw w"
  by (auto simp: raw_sdhci_adma_write_desc_def write_desc split: option.splits)

lemma vw_adma_seg: "adma_seg ops d s p w = Some (p', w') \<Longrightarrow> vw w' = vw w"
  by (auto simp: adma_seg_def Let_def split_beta Option.bind_eq_Some_conv split: if_splits
      prod.splits)

lemma vw_adma_segs: "adma_segs ops d n l p w = Some (p', w') \<Longrightarrow> vw w' = vw w"
proof (induction n arbitrary: l p w)
  case (Suc n)
  then show ?case
    by (cases l) (auto simp: Option.bind_eq_Some_conv split: prod.splits dest!: vw_adma_seg Suc.IH)
qed simp

lemma vw_table_pre: "sdhci_adma_table_pre ops dp n w = Some w' \<Longrightarrow> vw w' = vw w"
  by (auto simp: sdhci_adma_table_pre_def Let_def Option.bind_eq_Some_conv split: if_splits
      prod.splits dest!: vw_adma_segs)

lemma vw_map_or_bounce: "map_or_bounce ops dp w = Some (r, w') \<Longrightarrow> vw w' = vw w"
  by (auto simp: map_or_bounce_def Let_def Option.bind_eq_Some_conv sg_copy_to_buffer_def
      dma_sync_single_for_device_def bounce split: if_split_asm option.split_asm
      dest!: vw_dma_calls)

lemma vw_set_mapped [simp]: "vw (set_mapped dp n c w) = vw w"
  by (simp add: set_mapped_def upd_data_view)

lemma vw_pre_dma:
  assumes "sdhci_pre_dma_transfer ops dp c w = Some (r, w')"
  shows "vw w' = vw w"
proof (cases "d_host_cookie (datas w dp) = COOKIE_PRE_MAPPED")
  case True
  with assms show ?thesis by (simp add: sdhci_pre_dma_transfer_def)
next
  case False
  with assms obtain r1 w1 where "map_or_bounce ops dp w = Some (r1, w1)"
    "(case r1 of Inl e \<Rightarrow> (Inl e, w1)
      | Inr n \<Rightarrow> if n = 0 then (Inl ENOSPC, w1) else (Inr n, set_mapped dp n c w1)) = (r, w')"
    by (auto simp: sdhci_pre_dma_transfer_def Option.bind_eq_Some_conv)
  then show ?thesis by (cases r1) (auto dest!: vw_map_or_bounce split: if_split_asm)
qed

text \<open>The data phase takes the transfer over and changes nothing else of the bookkeeping.\<close>

lemma vw_select_dma: "prepare_select_dma dp w = Some w' \<Longrightarrow> vw w' = vw w"
  by (auto simp: prepare_select_dma_def clear_use_dma_def Let_def split_beta
      Option.bind_eq_Some_conv split: if_split_asm)

lemma vw_prepare_map:
  assumes "prepare_map ops dp w = Some w'"
  shows "vw w' = vw w"
proof (cases "tst (h_flags w) SDHCI_REQ_USE_DMA")
  case False
  with assms show ?thesis by (simp add: prepare_map_def)
next
  case True
  with assms obtain r w1 where "sdhci_pre_dma_transfer ops dp COOKIE_MAPPED w = Some (r, w1)"
    "(case r of
        Inl e \<Rightarrow> Some (clear_use_dma (WARN_ON 1119 True w1))
      | Inr n \<Rightarrow>
          if n \<le> 0 then Some (clear_use_dma (WARN_ON 1119 True w1))
          else if tst (h_flags w1) SDHCI_USE_ADMA then do {
            w \<leftarrow> sdhci_adma_table_pre ops dp n w1;
            Some (sdhci_set_adma_addr (h_adma_addr w) w)
          }
          else do {
            let w = WARN_ON 1125 (n \<noteq> 1) w1;
            a \<leftarrow> sdhci_sdma_address w;
            Some (sdhci_set_sdma_addr a w)
          }) = Some w'"
    by (auto simp: prepare_map_def Option.bind_eq_Some_conv)
  then show ?thesis
    by (cases r) (auto simp: clear_use_dma_def Let_def Option.bind_eq_Some_conv
        split: if_split_asm dest!: vw_pre_dma vw_table_pre)
qed

lemma initialize_data_views:
  "sdhci_initialize_data dp w = Some w' \<Longrightarrow> vw w' = vw (w\<lparr>h_data := Some dp\<rparr>)"
  by (auto simp: sdhci_initialize_data_def Let_def Option.bind_eq_Some_conv upd_data_view)
     (simp add: vw_def rq_def iv_def links_def WARN_ON_def)

lemma tame_prepare_data:
  assumes "sdhci_prepare_data ops cp w = Some w'"
  shows "tame (w\<lparr>h_data := c_data (cmds w cp)\<rparr>) w'"
proof -
  from assms obtain dp w1 w2 w3 where
    d: "c_data (cmds w cp) = Some dp" and
    w1: "sdhci_initialize_data dp w = Some w1" "prepare_select_dma dp w1 = Some w2"
      "prepare_map ops dp w2 = Some w3" and
    w': "w' = (let w = sdhci_config_dma w3;
         w = (if \<not> tst (h_flags w) SDHCI_REQ_USE_DMA
              then (sg_miter_start w)\<lparr>h_blocks := d_blocks (datas w dp)\<rparr> else w);
         w = sdhci_set_transfer_irqs w in sdhci_set_block_info dp w)"
    by (auto simp: sdhci_prepare_data_def Option.bind_eq_Some_conv Let_def)
  have "vw w3 = vw (w\<lparr>h_data := Some dp\<rparr>)"
    using w1 by (metis initialize_data_views vw_select_dma vw_prepare_map)
  then have "tame (w\<lparr>h_data := c_data (cmds w cp)\<rparr>) w3" by (simp add: vw_tame d)
  also have "tame w3 w'"
    unfolding w' Let_def by (simp add: tame_transfer_irqs)
  finally show ?thesis .
qed

lemma claim_view_send_claim: "send_claim ops cp w = Some w' \<Longrightarrow> claim_view cp w w'"
proof -
  assume a: "send_claim ops cp w = Some w'"
  define w0 where "w0 = w\<lparr>h_cmd := Some cp, h_data_timeout := 0\<rparr>"
  have 0: "claim_view cp w w0"
    "claim_view cp w ((WARN_ON 1599 b w0)\<lparr>h_data_cmd := Some cp\<rparr>)" for b
    by (simp_all add: w0_def claim_view_def)
  show ?thesis
    using a 0 unfolding send_claim_def Let_def w0_def[symmetric]
    by (auto split: if_split_asm dest!: tame_set_timeout intro: claim_view_tame)
qed

lemma claim_view_send_data:
  assumes "claim_view cp w w1" "send_data ops cp w1 = Some w2"
  shows "claim_view cp w w2"
proof -
  from assms(1) have eq: "c_data (cmds w1 cp) = c_data (cmds w cp)"
    using linksD(2)[of w1 w cp] by (simp add: claim_view_def)
  have "claim_view cp w (w1\<lparr>h_data := c_data (cmds w1 cp)\<rparr>)"
    using assms(1) by (simp add: claim_view_def eq)
  then show ?thesis
    using assms by (auto simp: send_data_def sdhci_external_dma_prepare_data_def vw_tame
        split: if_split_asm dest!: tame_prepare_data intro: claim_view_tame)
qed

lemma send_command_cases:
  assumes "sdhci_send_command ops cp w = Some (ok, w')"
  shows "\<not> ok \<and> vw w' = vw w \<or> ok \<and> claim_view cp w w'"
proof (cases ok)
  case False
  with assms show ?thesis
    by (auto simp: sdhci_send_command_def Let_def Option.bind_eq_Some_conv split: if_split_asm)
next
  case True
  define w0 where "w0 = emit (Rd32 SDHCI_PRESENT_STATE) (send_prologue cp w)"
  from assms True obtain w1 w2 where
    "send_claim ops cp w0 = Some w1" "send_data ops cp w1 = Some w2" "w' = send_issue cp w2"
    by (auto simp: sdhci_send_command_def Let_def Option.bind_eq_Some_conv w0_def
        split: if_split_asm)
  then have "claim_view cp w0 w'"
    using claim_view_send_claim claim_view_send_data claim_view_tame vw_tame vw_send_issue
    by blast
  moreover have "vw w0 = vw w" by (simp add: w0_def)
  ultimately show ?thesis
    using True vw_all[of w0 w] linksD(2)[of w0 w] by (simp add: claim_view_def)
qed

end

end
