(* ===== verification/ReqInv.thy ===== *)
theory ReqInv
  imports Frames
begin

text \<open>
  The request invariant.  \<open>active w\<close> are the requests the host still works on (through a command
  pointer or the running transfer), \<open>finished w\<close> those that wait in \<open>h_mrqs_done\<close>.

  \<open>req_inv w\<close> says that no request is both, that no finished request is listed twice, and that
  there are at most \<open>SDHCI_MAX_MRQS\<close> requests in all, provided the objects the MMC core built
  refer to each other as they should (\<open>wf_links\<close>).  \<open>evolves w w'\<close> is what an operation of the
  driver may do: keep the invariant, bring in no request, keep the interrupt mask in step
  with the registers and acknowledge no interrupt.
\<close>

subsection \<open>Active and finished requests\<close>

definition opt_list :: "'a option \<Rightarrow> 'a list" where
  "opt_list p = (case p of None \<Rightarrow> [] | Some x \<Rightarrow> [x])"

lemma opt_list_simps [simp]: "opt_list None = []" "opt_list (Some x) = [x]"
  by (simp_all add: opt_list_def)

definition active :: "world \<Rightarrow> mrqp list" where
  "active w =
     map (\<lambda>c. c_mrq (cmds w c))
       (opt_list (h_cmd w) @ opt_list (h_data_cmd w) @ opt_list (h_deferred_cmd w))
     @ map (\<lambda>d. d_mrq (datas w d)) (opt_list (h_data w))"

fun occupied :: "'a option list \<Rightarrow> 'a list" where
  "occupied [] = []"
| "occupied (None # l) = occupied l"
| "occupied (Some x # l) = x # occupied l"

definition finished :: "world \<Rightarrow> mrqp list" where
  "finished w = occupied (h_mrqs_done w)"

definition wf_links :: "world \<Rightarrow> bool" where
  "wf_links w \<longleftrightarrow>
     (\<forall>c d. c_data (cmds w c) = Some d \<longrightarrow> d_mrq (datas w d) = c_mrq (cmds w c))
     \<and> (\<forall>d s. d_stop (datas w d) = Some s \<longrightarrow> c_mrq (cmds w s) = d_mrq (datas w d))
     \<and> (\<forall>q. c_mrq (cmds w (q_cmd (mrqs w q))) = q)
     \<and> (\<forall>q s. q_sbc (mrqs w q) = Some s \<longrightarrow> c_mrq (cmds w s) = q)"

definition tracked :: "world \<Rightarrow> mrqp set" where
  "tracked w = set (active w) \<union> set (finished w)"

definition req_inv :: "world \<Rightarrow> bool" where
  "req_inv w \<longleftrightarrow>
     wf_links w \<and> length (h_mrqs_done w) = SDHCI_MAX_MRQS
     \<and> distinct (finished w) \<and> set (active w) \<inter> set (finished w) = {}
     \<and> card (tracked w) \<le> SDHCI_MAX_MRQS"

definition evolves :: "world \<Rightarrow> world \<Rightarrow> bool" where
  "evolves w w' \<longleftrightarrow>
     links w' = links w \<and> (req_inv w \<longrightarrow> req_inv w' \<and> tracked w' \<subseteq> tracked w)
     \<and> (ier_ok w \<longrightarrow> ier_ok w') \<and> acked w' = acked w"

lemma evolves_refl [simp]: "evolves w w"
  by (simp add: evolves_def)

lemma evolves_trans [trans]: "evolves a b \<Longrightarrow> evolves b c \<Longrightarrow> evolves a c"
  by (auto simp: evolves_def)

text \<open>The same without the clause on acknowledged interrupts.\<close>

definition safe :: "world \<Rightarrow> world \<Rightarrow> bool" where
  "safe w w' \<longleftrightarrow>
     links w' = links w \<and> (req_inv w \<longrightarrow> req_inv w' \<and> tracked w' \<subseteq> tracked w)
     \<and> (ier_ok w \<longrightarrow> ier_ok w')"

lemma evolves_safe: "evolves w w' \<Longrightarrow> safe w w'"
  by (simp add: evolves_def safe_def)

lemma safe_refl [simp]: "safe w w"
  by (simp add: safe_def)

lemma safe_trans [trans]: "safe a b \<Longrightarrow> safe b c \<Longrightarrow> safe a c"
  by (auto simp: safe_def)

lemma links_wf: "links w' = links w \<Longrightarrow> wf_links w' \<longleftrightarrow> wf_links w"
  by (simp add: wf_links_def links_def fun_eq_iff)

lemma finite_tracked [simp]: "finite (tracked w)"
  by (simp add: tracked_def)

lemma rq_active:
  assumes "rq w' = rq w"
  shows "active w' = active w" "finished w' = finished w" "tracked w' = tracked w" "req_inv w' = req_inv w"
proof -
  show a: "active w' = active w"
    using rqD[OF assms] linksD[of w' w] by (simp add: active_def)
  show f: "finished w' = finished w" using rqD[OF assms] by (simp add: finished_def)
  show "tracked w' = tracked w" using a f by (simp add: tracked_def)
  then show "req_inv w' = req_inv w"
    using a f rqD[OF assms] links_wf[of w' w] by (simp add: req_inv_def)
qed

lemma tame_evolves: "tame w w' \<Longrightarrow> evolves w w'"
  using rq_active[of w' w] rqD(1)[of w' w] by (simp add: tame_def evolves_def)

lemma vw_evolves: "vw w' = vw w \<Longrightarrow> evolves w w'"
  by (intro tame_evolves vw_tame)

subsection \<open>Dropping pointers\<close>

text \<open>\<open>drops w w'\<close>: some pointers were cleared, nothing else happened to the bookkeeping.\<close>

definition drops :: "world \<Rightarrow> world \<Rightarrow> bool" where
  "drops w w' \<longleftrightarrow>
     links w' = links w \<and> h_mrqs_done w' = h_mrqs_done w \<and> set (active w') \<subseteq> set (active w)
     \<and> (ier_ok w \<longrightarrow> ier_ok w') \<and> acked w' = acked w"

lemma drops_trans [trans]: "drops a b \<Longrightarrow> drops b c \<Longrightarrow> drops a c"
  by (auto simp: drops_def)

lemma tame_drops: "tame w w' \<Longrightarrow> drops w w'"
  using rq_active[of w' w] rqD[of w' w] by (simp add: tame_def drops_def)

lemma vw_drops: "vw w' = vw w \<Longrightarrow> drops w w'"
  by (intro tame_drops vw_tame)

lemma drops_upd [simp]:
  "drops w (w\<lparr>h_cmd := None\<rparr>)" "drops w (w\<lparr>h_data_cmd := None\<rparr>)"
  "drops w (w\<lparr>h_data := None, h_data_cmd := None\<rparr>)" "drops w w"
  by (auto simp: drops_def active_def)

lemma drops_evolves: "drops w w' \<Longrightarrow> evolves w w'"
proof -
  assume d: "drops w w'"
  then have f: "finished w' = finished w" by (simp add: drops_def finished_def)
  have t: "tracked w' \<subseteq> tracked w" using d f by (auto simp: drops_def tracked_def)
  moreover have "req_inv w'" if "req_inv w"
    using that d f links_wf[of w' w] card_mono[OF finite_tracked t]
    by (auto simp: req_inv_def drops_def)
  ultimately show ?thesis using d by (simp add: evolves_def drops_def)
qed

subsection \<open>Finishing a request\<close>

lemma put_free_slot_Some:
  "put_free_slot q l = Some l' \<Longrightarrow>
   length l' = length l \<and> set (occupied l') = insert q (set (occupied l))
   \<and> (distinct (occupied l') \<longleftrightarrow> distinct (occupied l) \<and> q \<notin> set (occupied l))"
  by (induction q l arbitrary: l' rule: put_free_slot.induct) auto

lemma put_free_slot_None: "put_free_slot q l = None \<Longrightarrow> length (occupied l) = length l"
  by (induction q l rule: put_free_slot.induct) auto

lemma occupied_set: "x \<in> set (occupied l) \<longleftrightarrow> Some x \<in> set l"
  by (induction l rule: occupied.induct) auto

lemma finished_member: "q \<in> set (finished w) \<longleftrightarrow> Some q \<in> set (h_mrqs_done w)"
  by (simp add: finished_def occupied_set)

text \<open>A request that is not listed yet gets a slot as long as there is one.\<close>

lemma set_mrq_done_new:
  assumes "q \<notin> set (finished w)" "length (finished w) < length (h_mrqs_done w)"
  obtains l where "sdhci_set_mrq_done q w = w\<lparr>h_mrqs_done := l\<rparr>"
    "put_free_slot q (h_mrqs_done w) = Some l"
proof (cases "put_free_slot q (h_mrqs_done w)")
  case None
  then show ?thesis using put_free_slot_None[OF None] assms(2) by (simp add: finished_def)
next
  case (Some l)
  then show ?thesis using assms(1) that by (simp add: sdhci_set_mrq_done_def finished_member)
qed

lemma set_mrq_done_views [simp]:
  "links (sdhci_set_mrq_done q w) = links w" "ier_ok (sdhci_set_mrq_done q w) = ier_ok w"
  "acked (sdhci_set_mrq_done q w) = acked w" "h_cmd (sdhci_set_mrq_done q w) = h_cmd w"
  "h_data_cmd (sdhci_set_mrq_done q w) = h_data_cmd w"
  "h_deferred_cmd (sdhci_set_mrq_done q w) = h_deferred_cmd w"
  "h_data (sdhci_set_mrq_done q w) = h_data w"
  by (simp_all add: sdhci_set_mrq_done_def split: option.split)

text \<open>After the pointers of the request are cleared.\<close>

definition forget :: "mrqp \<Rightarrow> world \<Rightarrow> world" where
  "forget q w =
     (let w = w\<lparr>h_cmd := forget_cmd (h_cmd w) q w\<rparr>;
          w = w\<lparr>h_data_cmd := forget_cmd (h_data_cmd w) q w\<rparr>;
          w = w\<lparr>h_deferred_cmd := forget_cmd (h_deferred_cmd w) q w\<rparr>
      in w\<lparr>h_data := forget_data (h_data w) q w\<rparr>)"

lemma forget_pointer:
  "(\<lambda>c. c_mrq (cmds w c)) ` set (opt_list (forget_cmd p q w))
     = (\<lambda>c. c_mrq (cmds w c)) ` set (opt_list p) - {q}"
  "(\<lambda>d. d_mrq (datas w d)) ` set (opt_list (forget_data p' q w))
     = (\<lambda>d. d_mrq (datas w d)) ` set (opt_list p') - {q}"
  by (cases p; simp add: forget_cmd_def) (cases p'; simp add: forget_data_def)

lemma forget_cmd_upd [simp]:
  "forget_cmd p q (w\<lparr>h_cmd := a\<rparr>) = forget_cmd p q w"
  "forget_cmd p q (w\<lparr>h_data_cmd := a\<rparr>) = forget_cmd p q w"
  "forget_data p' q (w\<lparr>h_cmd := a\<rparr>) = forget_data p' q w"
  "forget_data p' q (w\<lparr>h_data_cmd := a\<rparr>) = forget_data p' q w"
  "forget_data p' q (w\<lparr>h_deferred_cmd := a\<rparr>) = forget_data p' q w"
  by (simp_all add: forget_cmd_def forget_data_def split: option.splits)

lemma forget_eq:
  "forget q w = w\<lparr>h_cmd := forget_cmd (h_cmd w) q w, h_data_cmd := forget_cmd (h_data_cmd w) q w,
     h_deferred_cmd := forget_cmd (h_deferred_cmd w) q w, h_data := forget_data (h_data w) q w\<rparr>"
  by (simp add: forget_def Let_def)

lemma active_forget: "set (active (forget q w)) = set (active w) - {q}"
  by (simp add: active_def forget_eq forget_pointer Un_Diff Un_assoc)

lemma drops_forget: "drops w (forget q w)"
  by (auto simp: drops_def active_forget) (simp_all add: forget_eq)

text \<open>Finishing is forgetting, then entering the request into the list; the rest is bookkeeping
  of timers, the LED and the pending reset.\<close>

lemma finish_mrq_eq:
  "\<exists>w1. vw w1 = vw (forget q w) \<and> vw (raw_sdhci_finish_mrq q w) = vw (sdhci_set_mrq_done q w1)"
proof -
  define w1 where "w1 = (if sdhci_needs_reset q (forget q w)
    then (forget q w)\<lparr>h_pending_reset := True\<rparr> else forget q w)"
  have "vw w1 = vw (forget q w)" by (simp add: w1_def)
  moreover have "raw_sdhci_finish_mrq q w =
      (let w = sdhci_del_timer q (sdhci_set_mrq_done q w1)
       in if \<not> sdhci_has_requests w then sdhci_led_deactivate w else w)"
    by (simp only: raw_sdhci_finish_mrq_def forget_def w1_def Let_def)
  then have "vw (raw_sdhci_finish_mrq q w) = vw (sdhci_set_mrq_done q w1)"
    by (simp add: Let_def)
  ultimately show ?thesis by blast
qed

lemma finish_mrq_facts:
  fixes q :: mrqp and w :: world
  defines "w' \<equiv> raw_sdhci_finish_mrq q w"
  shows "links w' = links w" "ier_ok w' = ier_ok w" "acked w' = acked w"
    "set (active w') = set (active w) - {q}"
    "q \<notin> set (finished w) \<Longrightarrow> length (finished w) < length (h_mrqs_done w) \<Longrightarrow>
       set (finished w') = insert q (set (finished w))
       \<and> (distinct (finished w) \<longrightarrow> distinct (finished w'))
       \<and> length (h_mrqs_done w') = length (h_mrqs_done w)"
    "q \<in> set (finished w) \<Longrightarrow> h_mrqs_done w' = h_mrqs_done w"
proof -
  obtain w1 where w1: "vw w1 = vw (forget q w)" "vw w' = vw (sdhci_set_mrq_done q w1)"
    using finish_mrq_eq[of q w] unfolding w'_def by blast
  have f: "drops w (forget q w)" by (rule drops_forget)
  note a1 = vw_all[OF w1(1)] and a2 = vw_all[OF w1(2)]
  show l: "links w' = links w" and "acked w' = acked w"
    using a1 a2 f by (simp_all add: drops_def)
  have "ier_ok (forget q w) = ier_ok w" by (simp add: forget_eq)
  then show "ier_ok w' = ier_ok w" using a1 a2 by simp
  have "set (active w') = set (active (forget q w))"
    using a1 a2 linksD(1,3)[of w' "forget q w"] l f by (simp add: active_def drops_def)
  then show "set (active w') = set (active w) - {q}" by (simp add: active_forget)
  show "set (finished w') = insert q (set (finished w))
       \<and> (distinct (finished w) \<longrightarrow> distinct (finished w'))
       \<and> length (h_mrqs_done w') = length (h_mrqs_done w)"
    if new: "q \<notin> set (finished w)" "length (finished w) < length (h_mrqs_done w)"
  proof -
    have eq: "h_mrqs_done w1 = h_mrqs_done w" using a1 f by (simp add: drops_def)
    then have fin: "finished w1 = finished w" by (simp add: finished_def)
    obtain l where l: "sdhci_set_mrq_done q w1 = w1\<lparr>h_mrqs_done := l\<rparr>"
      "put_free_slot q (h_mrqs_done w1) = Some l"
      by (rule set_mrq_done_new[of q w1]) (use new fin eq in simp_all)
    have "h_mrqs_done w' = h_mrqs_done (sdhci_set_mrq_done q w1)" using a2 by blast
    then have "h_mrqs_done w' = l" by (simp add: l(1))
    then show ?thesis
      using put_free_slot_Some[of q "h_mrqs_done w" l] l(2) new(1) eq by (simp add: finished_def)
  qed
  show "h_mrqs_done w' = h_mrqs_done w" if old: "q \<in> set (finished w)"
  proof -
    have eq: "h_mrqs_done w1 = h_mrqs_done w" using a1 f by (simp add: drops_def)
    have "h_mrqs_done w' = h_mrqs_done (sdhci_set_mrq_done q w1)" using a2 by blast
    then show ?thesis using old eq by (simp add: sdhci_set_mrq_done_def finished_member)
  qed
qed

text \<open>Finishing any request for which there is room keeps the invariant.\<close>

lemma finish_req_inv:
  assumes i: "req_inv w" and room: "card (insert q (tracked w)) \<le> SDHCI_MAX_MRQS"
  shows "req_inv (raw_sdhci_finish_mrq q w)"
    "tracked (raw_sdhci_finish_mrq q w) \<subseteq> insert q (tracked w)"
    "q \<in> set (finished (raw_sdhci_finish_mrq q w))"
    "q \<notin> set (active (raw_sdhci_finish_mrq q w))"
proof -
  define w' where "w' = raw_sdhci_finish_mrq q w"
  note facts = finish_mrq_facts[of q w, folded w'_def]
  have "set (finished w') = insert q (set (finished w)) \<and> distinct (finished w')
    \<and> length (h_mrqs_done w') = length (h_mrqs_done w)"
  proof (cases "q \<in> set (finished w)")
    case True
    then have "h_mrqs_done w' = h_mrqs_done w" by (rule facts(6))
    then show ?thesis using True i by (auto simp: req_inv_def finished_def)
  next
    case False
    have "card (insert q (set (finished w))) \<le> card (insert q (tracked w))"
      by (intro card_mono) (auto simp: tracked_def)
    then have "length (finished w) < length (h_mrqs_done w)"
      using False i room distinct_card[of "finished w"] by (simp add: req_inv_def)
    then show ?thesis using facts(5)[OF False] i by (simp add: req_inv_def)
  qed
  then have fin: "set (finished w') = insert q (set (finished w))" "distinct (finished w')"
    "length (h_mrqs_done w') = length (h_mrqs_done w)" by auto
  have t: "tracked w' \<subseteq> insert q (tracked w)" using fin facts(4) by (auto simp: tracked_def)
  moreover have "card (tracked w') \<le> SDHCI_MAX_MRQS"
    using card_mono[OF _ t] room by simp
  moreover have "wf_links w'" using i facts(1) links_wf[of w' w] by (simp add: req_inv_def)
  ultimately show "req_inv w'" using i fin facts(4) by (auto simp: req_inv_def)
  show "tracked w' \<subseteq> insert q (tracked w)" by (rule t)
  show "q \<in> set (finished w')" "q \<notin> set (active w')" using fin facts(4) by simp_all
qed

lemma finish_after_evolves:
  assumes e: "evolves w0 w" and q: "req_inv w0 \<Longrightarrow> q \<in> tracked w0"
  shows "evolves w0 (raw_sdhci_finish_mrq q w)"
proof -
  have "req_inv (raw_sdhci_finish_mrq q w) \<and> tracked (raw_sdhci_finish_mrq q w) \<subseteq> tracked w0"
    if i: "req_inv w0"
  proof -
    have w: "req_inv w" and t: "insert q (tracked w) \<subseteq> tracked w0"
      using e i q[OF i] by (auto simp: evolves_def)
    have "card (insert q (tracked w)) \<le> SDHCI_MAX_MRQS"
      using card_mono[OF finite_tracked t] i by (simp add: req_inv_def)
    then show ?thesis using finish_req_inv[OF w] t by blast
  qed
  then show ?thesis
    using e finish_mrq_facts(1-3)[of q w] by (simp add: evolves_def)
qed

lemma finish_evolves:
  "drops w0 w \<Longrightarrow> (req_inv w0 \<Longrightarrow> q \<in> set (active w0)) \<Longrightarrow>
   evolves w0 (raw_sdhci_finish_mrq q w)"
  by (rule finish_after_evolves[OF drops_evolves]) (auto simp: tracked_def)

lemma finish_mrq_evolves:
  "drops w0 w \<Longrightarrow> (req_inv w0 \<Longrightarrow> q \<in> set (active w0)) \<Longrightarrow> evolves w0 (sdhci_finish_mrq q w)"
  unfolding sdhci_finish_mrq_def
  by (rule evolves_trans[OF finish_evolves]) (assumption, blast, rule vw_evolves, simp)

subsection \<open>Sending a command of an active request\<close>

lemma claim_evolves:
  assumes d: "drops w0 w" and c: "claim_view cp w w'" 
    and q: "req_inv w0 \<Longrightarrow> c_mrq (cmds w0 cp) \<in> set (active w0)"
  shows "evolves w0 w'"
proof -
  have l: "links w' = links w0" "links w = links w0" using c d by (simp_all add: claim_view_def drops_def)
  note L = linksD[OF l(1)] linksD[OF l(2)]
  have "req_inv w' \<and> tracked w' \<subseteq> tracked w0" if i: "req_inv w0"
  proof -
    have wf: "\<forall>d. c_data (cmds w0 cp) = Some d \<longrightarrow> d_mrq (datas w0 d) = c_mrq (cmds w0 cp)"
      using i by (auto simp: req_inv_def wf_links_def)
    have "set (active w') \<subseteq> set (active w) \<union> {c_mrq (cmds w0 cp)}"
      using c wf by (auto simp: claim_view_def active_def L opt_list_def split: option.splits)
    then have act: "set (active w') \<subseteq> set (active w0)" using d q[OF i] by (auto simp: drops_def)
    have fin: "finished w' = finished w0" "h_mrqs_done w' = h_mrqs_done w0"
      using c d by (simp_all add: claim_view_def drops_def finished_def)
    have t: "tracked w' \<subseteq> tracked w0" using act fin by (auto simp: tracked_def)
    moreover have "wf_links w'" using i l(1) links_wf[of w' w0] by (simp add: req_inv_def)
    ultimately show ?thesis
      using i act fin card_mono[OF finite_tracked t] by (auto simp: req_inv_def)
  qed
  then show ?thesis using c d l by (simp add: evolves_def claim_view_def drops_def)
qed

lemma defer_evolves:
  assumes d: "drops w0 w" and q: "req_inv w0 \<Longrightarrow> c_mrq (cmds w0 cp) \<in> set (active w0)"
  shows "evolves w0 ((WARN_ON n b w)\<lparr>h_deferred_cmd := Some cp\<rparr>)"
proof -
  define w' where "w' = (WARN_ON n b w)\<lparr>h_deferred_cmd := Some cp\<rparr>"
  have l: "links w' = links w0" "links w = links w0" using d by (simp_all add: w'_def drops_def)
  note L = linksD[OF l(1)] linksD[OF l(2)]
  have "req_inv w' \<and> tracked w' \<subseteq> tracked w0" if i: "req_inv w0"
  proof -
    have ptr: "h_cmd w' = h_cmd w" "h_data_cmd w' = h_data_cmd w" "h_data w' = h_data w"
      "h_deferred_cmd w' = Some cp" by (simp_all add: w'_def)
    have "set (active w') \<subseteq> set (active w) \<union> {c_mrq (cmds w0 cp)}"
      by (auto simp: active_def L ptr)
    then have act: "set (active w') \<subseteq> set (active w0)" using d q[OF i] by (auto simp: drops_def)
    have fin: "finished w' = finished w0" "h_mrqs_done w' = h_mrqs_done w0"
      using d by (simp_all add: w'_def drops_def finished_def)
    have t: "tracked w' \<subseteq> tracked w0" using act fin by (auto simp: tracked_def)
    moreover have "wf_links w'" using i l(1) links_wf[of w' w0] by (simp add: req_inv_def)
    ultimately show ?thesis
      using i act fin card_mono[OF finite_tracked t] by (auto simp: req_inv_def)
  qed
  then show ?thesis using d l unfolding w'_def[symmetric]
    by (simp add: evolves_def drops_def) (simp add: w'_def)
qed

text \<open>Membership in \<open>active\<close> from a pointer.\<close>

lemma active_ptr:
  "h_cmd w = Some c \<Longrightarrow> c_mrq (cmds w c) \<in> set (active w)"
  "h_data_cmd w = Some c \<Longrightarrow> c_mrq (cmds w c) \<in> set (active w)"
  "h_deferred_cmd w = Some c \<Longrightarrow> c_mrq (cmds w c) \<in> set (active w)"
  "h_data w = Some d \<Longrightarrow> d_mrq (datas w d) \<in> set (active w)"
  by (simp_all add: active_def)

end
