(* ===== verification/Tuning.thy ===== *)
theory Tuning
  imports Irq Ios
begin

text \<open>
  Tuning (\<^verbatim>\<open>sdhci_prepare_hs400_tuning\<close> \<dots> \<^verbatim>\<open>sdhci_execute_tuning\<close> of \<^verbatim>\<open>sdhci.c\<close>).  The command
  and the request of \<^verbatim>\<open>sdhci_send_tuning\<close> are objects on its stack; their identities are the
  arguments \<open>cp\<close> and \<open>mrq\<close>.  \<^verbatim>\<open>wait_event_timeout\<close> is a stub of this port that returns at
  once, so whether the interrupt has set \<open>h_tuning_done\<close> is decided before: after the command
  was sent the flag is cleared, and only code that runs when the lock is released (the
  argument \<open>u\<close>) can set it again.
\<close>

definition sdhci_prepare_hs400_tuning :: "world \<Rightarrow> world" where
  "sdhci_prepare_hs400_tuning w = w\<lparr>h_flags := h_flags w OR SDHCI_HS400_TUNING\<rparr>"

definition sdhci_start_tuning :: "world \<Rightarrow> world" where
  "sdhci_start_tuning w =
     (let (ctrl, w) = sdhci_readw SDHCI_HOST_CONTROL2 w;
          ctrl = ctrl OR SDHCI_CTRL_EXEC_TUNING;
          ctrl = (if tst (h_quirks2 w) SDHCI_QUIRK2_TUNING_WORK_AROUND
                  then ctrl OR SDHCI_CTRL_TUNED_CLK else ctrl);
          w = sdhci_writew ctrl SDHCI_HOST_CONTROL2 w;
          w = sdhci_writel SDHCI_INT_DATA_AVAIL SDHCI_INT_ENABLE w
      in sdhci_writel SDHCI_INT_DATA_AVAIL SDHCI_SIGNAL_ENABLE w)"

definition sdhci_end_tuning :: "world \<Rightarrow> world" where
  "sdhci_end_tuning = write_ier"

definition sdhci_reset_tuning :: "world \<Rightarrow> world" where
  "sdhci_reset_tuning w =
     (let (ctrl, w) = sdhci_readw SDHCI_HOST_CONTROL2 w;
          ctrl = ctrl AND NOT SDHCI_CTRL_TUNED_CLK;
          ctrl = ctrl AND NOT SDHCI_CTRL_EXEC_TUNING
      in sdhci_writew ctrl SDHCI_HOST_CONTROL2 w)"

definition sdhci_abort_tuning :: "sdhci_ops \<Rightarrow> u32 \<Rightarrow> world \<Rightarrow> world option" where
  "sdhci_abort_tuning ops opcode w = do {
     let w = sdhci_reset_tuning w;
     w \<leftarrow> sdhci_do_reset ops SDHCI_RESET_CMD w;
     w \<leftarrow> sdhci_do_reset ops SDHCI_RESET_DATA w;
     Some (mmc_abort_tuning opcode (sdhci_end_tuning w))
   }"

text \<open>The two local objects of \<^verbatim>\<open>sdhci_send_tuning\<close>, all other fields zero.\<close>

definition tuning_cmd :: "u32 \<Rightarrow> u32 \<Rightarrow> mrqp \<Rightarrow> mmc_command" where
  "tuning_cmd adtc opcode mrq =
     \<lparr>c_opcode = opcode, c_arg = 0, c_resp = [0, 0, 0, 0], c_flags = MMC_RSP_R1 OR adtc,
      c_error = None, c_busy_timeout = 0, c_data = None, c_mrq = mrq\<rparr>"

definition tuning_mrq :: "cmdp \<Rightarrow> mmc_request" where
  "tuning_mrq cp = \<lparr>q_sbc = None, q_cmd = cp, q_data = None, q_cap_cmd_during_tfr = False\<rparr>"

definition sdhci_send_tuning ::
  "sdhci_ops \<Rightarrow> (world \<Rightarrow> world) \<Rightarrow> cmdp \<Rightarrow> mrqp \<Rightarrow> u32 \<Rightarrow> world \<Rightarrow> world option" where
  "sdhci_send_tuning ops u cp mrq opcode w = do {
     let b = h_sdma_boundary w;
     let w = w\<lparr>cmds := (cmds w)(cp := tuning_cmd (e_CMD_ADTC w) opcode mrq),
               mrqs := (mrqs w)(mrq := tuning_mrq cp)\<rparr>;
     let blksz = (if opcode = MMC_SEND_TUNING_BLOCK_HS200
                     \<and> i_bus_width (m_ios w) = MMC_BUS_WIDTH_8 then 128 else 64);
     let w = sdhci_writew (SDHCI_MAKE_BLKSZ b blksz) SDHCI_BLOCK_SIZE w;
     let w = sdhci_writew SDHCI_TRNS_READ SDHCI_TRANSFER_MODE w;
     (ok, w) \<leftarrow> sdhci_send_command_retry ops u cp w;
     if \<not> ok then Some ((u w)\<lparr>h_tuning_done := False\<rparr>)
     else
       (let w = sdhci_del_timer mrq (w\<lparr>h_cmd := None\<rparr>)
        in Some (u (w\<lparr>h_tuning_done := False\<rparr>)))
   }"

text \<open>The loop of \<^verbatim>\<open>__sdhci_execute_tuning\<close> with \<open>n\<close> iterations left.\<close>

fun tuning_loop ::
  "sdhci_ops \<Rightarrow> (world \<Rightarrow> world) \<Rightarrow> cmdp \<Rightarrow> mrqp \<Rightarrow> u32 \<Rightarrow> nat \<Rightarrow> world
    \<Rightarrow> (errno option \<times> world) option" where
  "tuning_loop ops u cp mrq opcode 0 w = Some (Some EAGAIN, sdhci_reset_tuning w)"
| "tuning_loop ops u cp mrq opcode (Suc n) w = do {
     w \<leftarrow> sdhci_send_tuning ops u cp mrq opcode w;
     if \<not> h_tuning_done w then do {
       w \<leftarrow> sdhci_abort_tuning ops opcode w;
       Some (Some ETIMEDOUT, w)
     }
     else
       (let w = (if h_tuning_delay w > 0 then mdelay (nat (h_tuning_delay w)) w else w);
            (ctrl, w) = sdhci_readw SDHCI_HOST_CONTROL2 w
        in if \<not> tst ctrl SDHCI_CTRL_EXEC_TUNING then
             (if tst ctrl SDHCI_CTRL_TUNED_CLK then Some (None, w)
              else Some (Some EAGAIN, sdhci_reset_tuning w))
           else tuning_loop ops u cp mrq opcode n w)
   }"

definition raw_sdhci_execute_tuning ::
  "sdhci_ops \<Rightarrow> (world \<Rightarrow> world) \<Rightarrow> cmdp \<Rightarrow> mrqp \<Rightarrow> u32 \<Rightarrow> world
    \<Rightarrow> (errno option \<times> world) option" where
  "raw_sdhci_execute_tuning ops u cp mrq opcode w =
     tuning_loop ops u cp mrq opcode (h_tuning_loop_count w) w"

text \<open>The \<^verbatim>\<open>switch\<close> on the timing: \<open>Inl\<close> leaves with a result, \<open>Inr\<close> goes on with a re-tuning
  count.\<close>

definition tuning_needed :: "world \<Rightarrow> errno option + u32" where
  "tuning_needed w =
     (let count = (if h_tuning_mode w = SDHCI_TUNING_MODE_1 then h_tuning_count w else 0)
      in case h_timing w of
        MMC_TIMING_MMC_HS400 \<Rightarrow> Inl (Some EINVAL)
      | MMC_TIMING_MMC_HS200 \<Rightarrow> Inr (if tst (h_flags w) SDHCI_HS400_TUNING then 0 else count)
      | MMC_TIMING_UHS_SDR104 \<Rightarrow> Inr count
      | MMC_TIMING_UHS_DDR50 \<Rightarrow> Inr count
      | MMC_TIMING_UHS_SDR50 \<Rightarrow>
          if tst (h_flags w) SDHCI_SDR50_NEEDS_TUNING then Inr count else Inl None
      | _ \<Rightarrow> Inl None)"

definition sdhci_execute_tuning ::
  "sdhci_ops \<Rightarrow> (world \<Rightarrow> world) \<Rightarrow> cmdp \<Rightarrow> mrqp \<Rightarrow> u32 \<Rightarrow> world
    \<Rightarrow> (errno option \<times> world) option" where
  "sdhci_execute_tuning ops u cp mrq opcode w = do {
     (err, w) \<leftarrow>
       (case tuning_needed w of
          Inl err \<Rightarrow> Some (err, w)
        | Inr count \<Rightarrow>
            (case o_platform_execute_tuning ops of
               Some f \<Rightarrow> f opcode w
             | None \<Rightarrow> do {
                 let w = w\<lparr>m_retune_period := count\<rparr>;
                 let w = (if h_tuning_delay w < 0
                          then w\<lparr>h_tuning_delay := if opcode = MMC_SEND_TUNING_BLOCK then 1
                                                    else 0\<rparr> else w);
                 let w = sdhci_start_tuning w;
                 (err, w) \<leftarrow> raw_sdhci_execute_tuning ops u cp mrq opcode w;
                 Some (None, sdhci_end_tuning (w\<lparr>h_tuning_err := err\<rparr>))
               }));
     Some (err, w\<lparr>h_flags := h_flags w AND NOT SDHCI_HS400_TUNING\<rparr>)
   }"

end
