(* ===== verification/Cqe.thy ===== *)
theory Cqe
  imports Irq
begin

text \<open>
  The command queue engine helpers (\<^verbatim>\<open>sdhci_cqe_enable\<close>, \<^verbatim>\<open>sdhci_cqe_disable\<close>,
  \<^verbatim>\<open>sdhci_cqe_irq\<close> of \<^verbatim>\<open>sdhci.c\<close>).  \<^verbatim>\<open>pr_debug\<close> expands to nothing, so the status reads among
  its arguments do not happen.
\<close>

definition cqe_dma_ctrl :: "world \<Rightarrow> u8 \<Rightarrow> u8" where
  "cqe_dma_ctrl w ctrl =
     (let ctrl = ctrl AND NOT SDHCI_CTRL_DMA_MASK
      in if h_v4_mode w \<and> tst (h_caps1 w) SDHCI_CAN_DO_ADMA3 then ctrl OR SDHCI_CTRL_ADMA3
         else if tst (h_flags w) SDHCI_USE_64_BIT_DMA then ctrl OR SDHCI_CTRL_ADMA64
         else ctrl OR SDHCI_CTRL_ADMA32)"

definition sdhci_cqe_enable :: "sdhci_ops \<Rightarrow> world \<Rightarrow> world option" where
  "sdhci_cqe_enable ops w = do {
     let (ctrl, w) = sdhci_readb SDHCI_HOST_CONTROL w;
     let w = sdhci_writeb (cqe_dma_ctrl w ctrl) SDHCI_HOST_CONTROL w;
     let w = sdhci_writew (SDHCI_MAKE_BLKSZ (h_sdma_boundary w) 512) SDHCI_BLOCK_SIZE w;
     w \<leftarrow> sdhci_set_timeout ops None w;
     let w = w\<lparr>h_ier := h_cqe_ier w\<rparr>;
     let w = write_ier w;
     Some (w\<lparr>h_cqe_on := True\<rparr>)
   }"

definition sdhci_cqe_disable :: "sdhci_ops \<Rightarrow> bool \<Rightarrow> world \<Rightarrow> world option" where
  "sdhci_cqe_disable ops recovery w = do {
     let w = sdhci_set_default_irqs w;
     let w = w\<lparr>h_cqe_on := False\<rparr>;
     if recovery then do {
       w \<leftarrow> sdhci_do_reset ops SDHCI_RESET_CMD w;
       sdhci_do_reset ops SDHCI_RESET_DATA w
     } else Some w
   }"

definition cqe_cmd_error :: "u32 \<Rightarrow> errno option" where
  "cqe_cmd_error intmask =
     (if tst intmask (SDHCI_INT_INDEX OR SDHCI_INT_END_BIT OR SDHCI_INT_CRC) then Some EILSEQ
      else if tst intmask SDHCI_INT_TIMEOUT then Some ETIMEDOUT else None)"

definition cqe_data_error :: "u32 \<Rightarrow> errno option" where
  "cqe_data_error intmask =
     (if tst intmask (SDHCI_INT_DATA_END_BIT OR SDHCI_INT_DATA_CRC) then Some EILSEQ
      else if tst intmask SDHCI_INT_DATA_TIMEOUT then Some ETIMEDOUT
      else if tst intmask SDHCI_INT_ADMA_ERROR then Some EIO else None)"

text \<open>\<open>None\<close> is \<^verbatim>\<open>false\<close>, \<open>Some\<close> carries the command and the data error.\<close>

definition sdhci_cqe_irq ::
  "sdhci_ops \<Rightarrow> u32 \<Rightarrow> world \<Rightarrow> (errno option \<times> errno option) option \<times> world" where
  "sdhci_cqe_irq ops intmask w =
     (if \<not> h_cqe_on w then (None, w)
      else
        (let errs = (cqe_cmd_error intmask, cqe_data_error intmask);
             msk = intmask AND h_cqe_ier w;
             w = sdhci_writel msk SDHCI_INT_STATUS w;
             rest = intmask AND NOT (h_cqe_ier w OR SDHCI_INT_ERROR);
             w = (if rest \<noteq> 0 then
                    sdhci_dumpregs (o_dump_vendor_regs ops) (sdhci_writel rest SDHCI_INT_STATUS w)
                  else w)
         in (Some errs, w)))"

end
