(* ===== verification/ReqSteps.thy ===== *)
theory ReqSteps
  imports ReqInv Tuning Cqe
begin

text \<open>
  Every operation of the request logic evolves the state (\<open>evolves\<close>, see \<open>ReqInv\<close>): one lemma
  per operation, in the order of the code, under the contract \<open>host_ops\<close> of the platform.
  What runs while the lock is released is held to \<open>safe\<close>, the same without the clause on
  acknowledged interrupts.
\<close>

context host_ops
begin

subsection \<open>Finishing a transfer\<close>

lemma finish_data_reset_tame: "finish_data_reset ops dc dp w = Some w' \<Longrightarrow> tame w w'"
  by (auto simp: finish_data_reset_def Option.bind_eq_Some_conv split: if_split_asm
      dest!: tame_do_reset intro: tame_trans)

lemma finish_data_stop_evolves:
  assumes "finish_data_stop ops sw st q w = Some w'" and d: "drops w0 w"
    and q: "req_inv w0 \<Longrightarrow> q \<in> set (active w0)"
    and st: "req_inv w0 \<Longrightarrow> c_mrq (cmds w0 st) = q"
  shows "evolves w0 w'"
proof (cases "q_cap_cmd_during_tfr (mrqs w q)")
  case True
  then show ?thesis using assms(1) finish_evolves[OF d q] by (simp add: finish_data_stop_def)
next
  case False
  define w1 where "w1 = w\<lparr>h_cmd := None\<rparr>"
  have d1: "drops w0 w1" unfolding w1_def using d drops_upd(1) by (rule drops_trans)
  from False assms(1) obtain sent w2 where
    s: "sdhci_send_command ops st w1 = Some (sent, w2)" and
    w': "w' = (if sent then w2
       else if sw then raw_sdhci_finish_mrq q (set_cmd_error st (Some EIO) w2)
       else (WARN_ON 1554 (h_deferred_cmd w2 \<noteq> None) w2)\<lparr>h_deferred_cmd := Some st\<rparr>)"
    by (auto simp: finish_data_stop_def Option.bind_eq_Some_conv Let_def w1_def)
  have act: "req_inv w0 \<Longrightarrow> c_mrq (cmds w0 st) \<in> set (active w0)" using q st by simp
  show ?thesis
  proof (cases sent)
    case True
    with s have "claim_view st w1 w2" by (auto dest: send_command_cases)
    then show ?thesis using claim_evolves[OF d1 _ act] w' True by simp
  next
    case False
    with s have v: "vw w2 = vw w1" by (auto dest: send_command_cases)
    have d2: "drops w0 w2" using d1 vw_drops[OF v] by (rule drops_trans)
    have "drops w0 (set_cmd_error st (Some EIO) w2)"
      using d2 by (rule drops_trans) (simp add: vw_drops)
    then show ?thesis
      using finish_evolves[OF _ q] defer_evolves[OF d2 act] w' False by simp
  qed
qed

lemma finish_data_evolves:
  assumes "raw_sdhci_finish_data ops sw w = Some w'"
  shows "evolves w w'"
proof -
  from assms obtain dp w2 w3 where
    dp: "h_data w = Some dp" and
    w2: "finish_data_reset ops (h_data_cmd w) dp (w\<lparr>h_data := None, h_data_cmd := None\<rparr>) = Some w2" and
    w3: "(if tst (h_flags w2) SDHCI_REQ_USE_DMA \<and> tst (h_flags w2) SDHCI_USE_ADMA
          then sdhci_adma_table_post dp w2 else Some w2) = Some w3" and
    fin: "(let w = finish_data_count dp w3; d = datas w dp
           in case d_stop d of
             Some st \<Rightarrow>
               if q_sbc (mrqs w (d_mrq d)) = None \<and> \<not> sdhci_auto_cmd12 (d_mrq d) w
                  \<or> d_error d \<noteq> None
               then finish_data_stop ops sw st (d_mrq d) w
               else Some (raw_sdhci_finish_mrq (d_mrq d) w)
           | None \<Rightarrow> Some (raw_sdhci_finish_mrq (d_mrq d) w)) = Some w'"
    by (auto simp: raw_sdhci_finish_data_def Option.bind_eq_Some_conv Let_def)
  define w4 where "w4 = finish_data_count dp w3"
  have "drops w w2"
    using drops_upd(3) tame_drops[OF finish_data_reset_tame[OF w2]] by (rule drops_trans)
  moreover have "drops w2 w3" using w3 by (auto simp: vw_drops split: if_split_asm dest: vw_table_post)
  moreover have "drops w3 w4"
    by (rule vw_drops) (simp add: w4_def finish_data_count_def upd_data_view)
  ultimately have d: "drops w w4" by (blast intro: drops_trans)
  then have l: "links w4 = links w" by (simp add: drops_def)
  define q where "q = d_mrq (datas w4 dp)"
  have q: "q \<in> set (active w)" using active_ptr(4)[OF dp] linksD(3)[OF l] by (simp add: q_def)
  have st: "c_mrq (cmds w st) = q" if "req_inv w" "d_stop (datas w4 dp) = Some st" for st
    using that linksD(3,4)[OF l] by (simp add: req_inv_def wf_links_def q_def)
  show ?thesis
    using fin unfolding w4_def[symmetric] Let_def q_def[symmetric]
    by (auto split: option.split_asm if_split_asm
        intro: finish_evolves[OF d q] finish_data_stop_evolves[OF _ d q st])
qed

subsection \<open>Finishing a command\<close>

lemma vw_set_resp [simp]: "vw (set_resp cp i v w) = vw w"
  by (simp add: set_resp_def upd_cmd_view)

lemma vw_read_rsp_regs [simp]: "vw (read_rsp_regs is cp w) = vw w"
  by (induction "is" arbitrary: w) simp_all

lemma vw_read_response [simp]: "vw (read_response cp w) = vw w"
  by (simp add: read_response_def sdhci_read_rsp_136_def Let_def upd_cmd_view)

lemma command_next_evolves:
  assumes "command_next ops cp w = Some w'" and d: "drops w0 w"
    and cp: "c_mrq (cmds w0 cp) \<in> set (active w0)"
  shows "evolves w0 w'"
proof -
  have l: "links w = links w0" using d by (simp add: drops_def)
  define q where "q = mrqs w (c_mrq (cmds w cp))"
  show ?thesis
  proof (cases "q_sbc q = Some cp")
    case True
    have act: "c_mrq (cmds w0 (q_cmd q)) \<in> set (active w0)" if "req_inv w0"
      using that cp linksD[OF l] by (simp add: req_inv_def wf_links_def q_def)
    from True assms(1) obtain sent w1 where
      s: "sdhci_send_command ops (q_cmd q) w = Some (sent, w1)" and
      w': "w' = (if sent then w1
        else (WARN_ON 1773 (h_deferred_cmd w1 \<noteq> None) w1)\<lparr>h_deferred_cmd := Some (q_cmd q)\<rparr>)"
      by (auto simp: command_next_def Option.bind_eq_Some_conv Let_def q_def)
    show ?thesis
    proof (cases sent)
      case True
      with s have "claim_view (q_cmd q) w w1" by (auto dest: send_command_cases)
      then show ?thesis using claim_evolves[OF d _ act] w' True by simp
    next
      case False
      with s have v: "vw w1 = vw w" by (auto dest: send_command_cases)
      have "drops w0 w1" using d vw_drops[OF v] by (rule drops_trans)
      then show ?thesis using defer_evolves[OF _ act] w' False by simp
    qed
  next
    case False
    from False assms(1) obtain w1 where
      w1: "(if h_data w \<noteq> None \<and> h_data_early w then sdhci_finish_data ops w else Some w) = Some w1"
      and w': "w' = (if c_data (cmds w1 cp) = None
        then raw_sdhci_finish_mrq (c_mrq (cmds w1 cp)) w1 else w1)"
      unfolding command_next_def Let_def q_def[symmetric] Option.bind_eq_Some_conv
      by (fastforce simp: Option.bind_eq_Some_conv)
    have e: "evolves w0 w1"
      using w1 drops_evolves[OF d] evolves_trans[OF drops_evolves[OF d] finish_data_evolves]
      by (auto simp: sdhci_finish_data_def split: if_split_asm)
    then have "c_mrq (cmds w1 cp) \<in> tracked w0"
      using cp linksD(1)[of w1 w0] by (simp add: evolves_def tracked_def)
    then show ?thesis using e w' finish_after_evolves by simp
  qed
qed

lemma finish_command_evolves:
  assumes "sdhci_finish_command ops w = Some w'"
  shows "evolves w w'"
proof -
  from assms obtain cp where cp: "h_cmd w = Some cp" 
    unfolding sdhci_finish_command_def by (cases "h_cmd w") auto
  define w1 where "w1 = read_response cp (w\<lparr>h_cmd := None\<rparr>)"
  define w2 where "w2 = (if q_cap_cmd_during_tfr (mrqs w1 (c_mrq (cmds w1 cp)))
      \<and> cp = q_cmd (mrqs w1 (c_mrq (cmds w1 cp)))
    then mmc_command_done (c_mrq (cmds w1 cp)) w1 else w1)"
  have "drops w w1" unfolding w1_def
    by (rule drops_trans[OF drops_upd(1)]) (simp add: vw_drops)
  moreover have "vw w2 = vw w1" by (simp add: w2_def)
  ultimately have d: "drops w w2" by (blast intro: drops_trans vw_drops)
  have "w' = w2 \<or> command_next ops cp w2 = Some w'"
    using assms unfolding sdhci_finish_command_def cp
    by (simp only: Let_def Option.bind.simps w1_def[symmetric] w2_def[symmetric])
       (metis option.inject)
  then show ?thesis
    using drops_evolves[OF d] command_next_evolves[OF _ d active_ptr(1)[OF cp]] by blast
qed

subsection \<open>Timers and card removal\<close>

lemma fail_evolves:
  assumes "q \<in> set (active w)" "vw w1 = vw w"
  shows "evolves w (sdhci_finish_mrq q (set_cmd_error cp e w1))"
  by (rule finish_mrq_evolves) (simp_all add: assms vw_drops)

lemma c_mrq_vw: "vw w1 = vw w \<Longrightarrow> c_mrq (cmds w1 cp) = c_mrq (cmds w cp)"
  using linksD(1)[OF vw_links] .

lemma timeout_timer_evolves: "evolves w (sdhci_timeout_timer ops w)"
proof (cases "h_cmd w")
  case None
  then show ?thesis by (simp add: sdhci_timeout_timer_def)
next
  case (Some cp)
  define w1 where "w1 = set_cmd_error cp (Some ETIMEDOUT) (sdhci_dumpregs (o_dump_vendor_regs ops) w)"
  have v: "vw w1 = vw w" by (simp add: w1_def)
  have "evolves w (sdhci_finish_mrq (c_mrq (cmds w1 cp)) w1)"
    using active_ptr(1)[OF Some] c_mrq_vw[OF v, of cp]
    by (intro finish_mrq_evolves vw_drops[OF v]) simp
  then show ?thesis using Some by (simp add: sdhci_timeout_timer_def Let_def w1_def)
qed

lemma timeout_fail_evolves:
  assumes "h_cmd w = Some cp \<or> h_data_cmd w = Some cp" "vw w1 = vw w"
  shows "evolves w (sdhci_finish_mrq (c_mrq (cmds w1 cp)) (set_cmd_error cp e w1))"
  using assms active_ptr(1,2)[of w cp] c_mrq_vw[OF assms(2), of cp]
  by (intro fail_evolves) auto

lemma timeout_data_timer_evolves:
  assumes "sdhci_timeout_data_timer ops w = Some w'"
  shows "evolves w w'"
proof -
  define w1 where "w1 = sdhci_dumpregs (o_dump_vendor_regs ops) w"
  have v: "vw w1 = vw w" by (simp add: w1_def)
  show ?thesis
  proof (cases "h_data w")
    case (Some dp)
    with assms obtain w2 where
      "raw_sdhci_finish_data ops True (set_data_error dp (Some ETIMEDOUT) w1) = Some w2"
      "w' = queue_work w2"
      by (auto simp: sdhci_timeout_data_timer_def Let_def w1_def Option.bind_eq_Some_conv)
    then have "evolves (set_data_error dp (Some ETIMEDOUT) w1) w2" "evolves w2 w'"
      by (auto intro: finish_data_evolves vw_evolves)
    moreover have "evolves w (set_data_error dp (Some ETIMEDOUT) w1)"
      by (rule vw_evolves) (simp add: v)
    ultimately show ?thesis by (blast intro: evolves_trans)
  next
    case None
    then show ?thesis
      using assms timeout_fail_evolves[OF _ v] unfolding sdhci_timeout_data_timer_def Let_def
      by (auto simp: w1_def[symmetric] split: option.split_asm if_split_asm)
  qed
qed

lemma fail_mrq_evolves:
  "p = h_cmd w \<or> p = h_data_cmd w \<Longrightarrow> evolves w (fail_mrq e p w)"
proof (cases p)
  case (Some cp)
  assume p: "p = h_cmd w \<or> p = h_data_cmd w"
  have v: "vw (set_cmd_error cp (Some e) w) = vw w" by simp
  show ?thesis
    using p Some active_ptr(1,2)[of w cp] c_mrq_vw[OF v, of cp]
    by (auto simp: fail_mrq_def intro!: finish_mrq_evolves vw_drops[OF v])
qed (simp add: fail_mrq_def)

lemma error_out_evolves: "evolves w (sdhci_error_out_mrqs e w)"
  unfolding sdhci_error_out_mrqs_def Let_def
  by (rule evolves_trans[OF fail_mrq_evolves fail_mrq_evolves]) simp_all

lemma card_event_evolves:
  assumes "sdhci_card_event ops w = Some w'"
  shows "evolves w w'"
proof -
  define w1 where "w1 = snd (sdhci_get_cd (call_opt (o_card_event ops) w))"
  have "tame w (call_opt (o_card_event ops) w)"
    by (auto simp: call_opt_def card_event split: option.split)
  then have e1: "evolves w w1" by (intro tame_evolves) (simp add: w1_def)
  from assms consider "w' = w1" | w2 w3 where "sdhci_do_reset ops SDHCI_RESET_CMD w1 = Some w2"
    "sdhci_do_reset ops SDHCI_RESET_DATA w2 = Some w3" "w' = sdhci_error_out_mrqs ENOMEDIUM w3"
    by (auto simp: sdhci_card_event_def Let_def split_beta w1_def Option.bind_eq_Some_conv
        split: if_split_asm)
  then show ?thesis
  proof cases
    case 2
    have "evolves w1 w3"
      using tame_do_reset[OF 2(1)] tame_do_reset[OF 2(2)] by (blast intro: tame_evolves tame_trans)
    then show ?thesis using e1 2(3) error_out_evolves by (blast intro: evolves_trans)
  qed (simp add: e1)
qed

subsection \<open>Command interrupts\<close>

lemma cmd_irq_error_evolves:
  assumes "h_cmd w0 = Some cp" "vw w = vw w0"
  shows "evolves w0 (snd (cmd_irq_error m mp cp w))"
proof -
  define w1 where "w1 = set_cmd_error cp
    (Some (if tst m SDHCI_INT_TIMEOUT then ETIMEDOUT else EILSEQ)) w"
  have v: "vw w1 = vw w0" by (simp add: w1_def assms)
  have "drops w0 (w1\<lparr>h_cmd := None\<rparr>)" by (rule drops_trans[OF vw_drops[OF v] drops_upd(1)])
  moreover have "evolves w0 (raw_sdhci_finish_mrq (c_mrq (cmds w1 cp)) w1)"
    using active_ptr(1)[OF assms(1)] c_mrq_vw[OF v, of cp]
    by (intro finish_evolves vw_drops[OF v]) simp
  ultimately show ?thesis
    by (simp add: cmd_irq_error_def Let_def w1_def[symmetric] drops_evolves)
qed

lemma auto_cmd12_vw [simp]: "vw (snd (auto_cmd12_error m mp w)) = vw w"
  by (auto simp: auto_cmd12_error_def Let_def split: option.split)

lemma auto_cmd23_evolves:
  assumes "h_cmd w0 = Some cp" "vw w = vw w0"
  shows "evolves w0 (snd (auto_cmd23_error m cp w))"
proof -
  define w1 where "w1 = emit (Rd16 SDHCI_AUTO_CMD_STATUS) w"
  have v: "vw w1 = vw w0" by (simp add: w1_def assms)
  have "evolves w0 (raw_sdhci_finish_mrq (c_mrq (cmds w cp)) (set_cmd_error sbc e w1))" for sbc e
    using active_ptr(1)[OF assms(1)] c_mrq_vw[OF assms(2), of cp]
    by (intro finish_evolves vw_drops) (simp_all add: v)
  then show ?thesis
    using vw_evolves[OF v] vw_evolves[OF assms(2)]
    by (auto simp: auto_cmd23_error_def Let_def w1_def split: option.split)
qed

lemma cmd_irq_evolves:
  assumes "sdhci_cmd_irq ops m mp w = Some (mp', w')"
  shows "evolves w w'"
proof -
  obtain ret w1 where r: "auto_cmd12_error m mp w = (ret, w1)" by (metis surj_pair)
  have v: "vw w1 = vw w" using auto_cmd12_vw[of m mp w] r by simp
  note W = vw_h_cmd[OF v]
  show ?thesis
  proof (cases "ret \<noteq> None \<or> h_cmd w = None")
    case True
    then show ?thesis
      using assms r v W by (auto simp: sdhci_cmd_irq_def vw_evolves split: option.split_asm)
  next
    case False
    then obtain cp where cp: "h_cmd w = Some cp" "ret = None" by auto
    obtain fin w2 where f: "auto_cmd23_error m cp w1 = (fin, w2)" by (metis surj_pair)
    have e2: "evolves w w2" using auto_cmd23_evolves[OF cp(1) v, of m] f by simp
    have e1: "evolves w (snd (cmd_irq_error m mp cp w1))" by (rule cmd_irq_error_evolves[OF cp(1) v])
    show ?thesis
      using assms r cp f W e1 e2 evolves_trans[OF e2 finish_command_evolves]
      by (auto simp: sdhci_cmd_irq_def split: if_split_asm)
  qed
qed

subsection \<open>Data interrupts\<close>

lemma tuning_irq_vw [simp]: "vw (snd (tuning_irq m w)) = vw w"
  by (simp add: tuning_irq_def Let_def)

lemma vw_show_error: "sdhci_adma_show_error ops w = Some w' \<Longrightarrow> vw w' = vw w"
  by (auto simp: sdhci_adma_show_error_def Let_def)

lemma finish_cleared:
  assumes "drops w w1" "c_mrq (cmds w cp) \<in> set (active w)"
  shows "evolves w (raw_sdhci_finish_mrq (c_mrq (cmds w1 cp)) w1)"
  using assms linksD(1)[of w1 w cp] by (intro finish_evolves[OF assms(1)]) (simp add: drops_def)

lemma data_irq_idle_evolves: "evolves w (data_irq_idle ops m w)"
proof (cases "h_data_cmd w")
  case None
  then show ?thesis by (simp add: data_irq_idle_def vw_evolves)
next
  case (Some cp)
  define w1 where "w1 = w\<lparr>h_data_cmd := None\<rparr>"
  have d: "drops w w1" by (simp add: w1_def)
  have d': "drops w (set_cmd_error cp e w1)" for e
    by (rule drops_trans[OF d]) (simp add: vw_drops)
  note finish_cleared[OF d active_ptr(2)[OF Some]] finish_cleared[OF d' active_ptr(2)[OF Some]]
  then show ?thesis
    using Some drops_evolves[OF d] by (auto simp: data_irq_idle_def Let_def w1_def vw_evolves)
qed

lemma data_irq_error_evolves:
  assumes "data_irq_error ops m dp w = Some w'"
  shows "evolves w w'"
proof -
  have tw: "evolves w (case o_adma_workaround ops of Some f \<Rightarrow> f m w1 | None \<Rightarrow> w1)"
    if "vw w1 = vw w" for w1
    using vw_evolves[OF that] evolves_trans[OF vw_evolves[OF that] tame_evolves[OF workaround]]
    by (auto split: option.split)
  show ?thesis
    using assms
    by (auto simp: data_irq_error_def Let_def Option.bind_eq_Some_conv split_beta
        vw_evolves split: if_split_asm dest!: vw_show_error intro!: tw)
qed

lemma vw_data_irq_dma: "data_irq_dma dp w = Some w' \<Longrightarrow> vw w' = vw w"
  by (auto simp: data_irq_dma_def Let_def Option.bind_eq_Some_conv upd_data_view)

lemma data_irq_progress_evolves:
  assumes "data_irq_progress ops m dp w = Some w'"
  shows "evolves w w'"
proof -
  from assms obtain w1 w2 where
    "(if tst m (SDHCI_INT_DATA_AVAIL OR SDHCI_INT_SPACE_AVAIL) then sdhci_transfer_pio w
      else Some w) = Some w1"
    "(if tst m SDHCI_INT_DMA_END then data_irq_dma dp w1 else Some w1) = Some w2" and
    w': "(if tst m SDHCI_INT_DATA_END then
           (if h_cmd w2 = h_data_cmd w2 then Some (w2\<lparr>h_data_early := True\<rparr>)
            else sdhci_finish_data ops w2) else Some w2) = Some w'"
    unfolding data_irq_progress_def Option.bind_eq_Some_conv by blast
  then have "vw w1 = vw w" "vw w2 = vw w1"
    by (auto split: if_split_asm dest: vw_transfer_pio vw_data_irq_dma)
  then have v: "vw w2 = vw w" by simp
  show ?thesis
    using w' vw_evolves[OF v] evolves_trans[OF vw_evolves[OF v] finish_data_evolves]
      vw_evolves[of "w2\<lparr>h_data_early := True\<rparr>" w] v
    by (auto simp: sdhci_finish_data_def split: if_split_asm)
qed

lemma data_irq_evolves:
  assumes "sdhci_data_irq ops m w = Some w'"
  shows "evolves w w'"
proof -
  obtain t w1 where t: "tuning_irq m w = (t, w1)" by (metis surj_pair)
  have v: "vw w1 = vw w" using tuning_irq_vw[of m w] t by simp
  note e1 = vw_evolves[OF v]
  show ?thesis
  proof (cases "t \<or> h_data w1 = None")
    case True
    then show ?thesis
      using assms t e1 evolves_trans[OF e1 data_irq_idle_evolves]
      by (auto simp: sdhci_data_irq_def split: option.split_asm if_split_asm)
  next
    case False
    then obtain dp where "h_data w1 = Some dp" "\<not> t" by auto
    with assms t obtain w2 where "data_irq_error ops m dp w1 = Some w2"
      "(if d_error (datas w2 dp) \<noteq> None then sdhci_finish_data ops w2
        else data_irq_progress ops m dp w2) = Some w'"
      by (auto simp: sdhci_data_irq_def Option.bind_eq_Some_conv)
    then show ?thesis
      using e1 data_irq_error_evolves data_irq_progress_evolves finish_data_evolves evolves_trans
      unfolding sdhci_finish_data_def by (metis (full_types))
  qed
qed

end

end
