(* ===== verification/Safety.thy ===== *)
theory Safety
  imports ReqSteps
begin

text \<open>
  The interrupt handler, the completion of requests and the request entry points keep the
  request invariant.  The locale \<open>host_run\<close> extends the contract of the platform operations by
  the code that runs while the driver has released its lock.
\<close>

subsection \<open>Acknowledging interrupts\<close>

text \<open>The status bits the handler clears: all but the error summary, the re-tuning request and
  the card interrupt, which the controller clears itself when their cause is gone.\<close>

definition IRQ_ACKED :: u32 where
  "IRQ_ACKED = NOT (SDHCI_INT_ERROR OR SDHCI_INT_RETUNE OR SDHCI_INT_CARD_INT)"

lemma and_or3: "(x AND a) OR (x AND b) OR (x AND NOT c) = x AND (a OR b OR NOT c)"
  for x :: "'a::len word"
  by (rule bit_word_eqI) (auto simp: bit_simps)

lemma ack_masks:
  "(x AND (SDHCI_INT_CMD_MASK OR SDHCI_INT_DATA_MASK OR SDHCI_INT_BUS_POWER))
   OR (x AND (SDHCI_INT_CARD_INSERT OR SDHCI_INT_CARD_REMOVE)) OR (x AND NOT IRQ_KNOWN)
   = x AND IRQ_ACKED" for x :: u32
  unfolding and_or3 IRQ_KNOWN_def IRQ_ACKED_def by simp

lemma known_data_bits:
  "(x OR SDHCI_INT_DATA_TIMEOUT) AND NOT IRQ_KNOWN = x AND NOT IRQ_KNOWN"
  "(x OR SDHCI_INT_DATA_CRC) AND NOT IRQ_KNOWN = x AND NOT IRQ_KNOWN" for x :: u32
proof -
  have "(x OR y) AND NOT IRQ_KNOWN = x AND NOT IRQ_KNOWN" if "y AND NOT IRQ_KNOWN = 0" for y
    using that by (simp add: bit.conj_disj_distrib2)
  then show
    "(x OR SDHCI_INT_DATA_TIMEOUT) AND NOT IRQ_KNOWN = x AND NOT IRQ_KNOWN"
    "(x OR SDHCI_INT_DATA_CRC) AND NOT IRQ_KNOWN = x AND NOT IRQ_KNOWN"
    by (simp_all add: IRQ_KNOWN_def)
qed

lemma irq_card_views:
  "safe w (irq_card m w)"
  "acked (irq_card m w) = (m AND (SDHCI_INT_CARD_INSERT OR SDHCI_INT_CARD_REMOVE)) OR acked w"
proof -
  have "rq (irq_card m w) = rq w" by (simp add: irq_card_def Let_def)
  moreover have "ier_ok (irq_card m w)" by (simp add: irq_card_def Let_def)
  ultimately show "safe w (irq_card m w)"
    using rq_active[of "irq_card m w" w] rqD(1)[of "irq_card m w" w] by (simp add: safe_def)
  show "acked (irq_card m w) = (m AND (SDHCI_INT_CARD_INSERT OR SDHCI_INT_CARD_REMOVE)) OR acked w"
    by (simp add: irq_card_def Let_def)
qed

lemma auto_cmd12_bits:
  "auto_cmd12_error m mp w = (Some mp', w') \<Longrightarrow> mp' AND NOT IRQ_KNOWN = mp AND NOT IRQ_KNOWN"
  by (auto simp: auto_cmd12_error_def Let_def known_data_bits
      split: option.split_asm if_split_asm)

subsection \<open>Which requests the handler completes itself\<close>

lemma irq_collect_partition:
  "irq_collect l r w = (now, keep, r') \<Longrightarrow>
   length keep = length l \<and> set (occupied l) = set now \<union> set (occupied keep)
   \<and> (distinct (occupied l) \<longrightarrow>
        distinct now \<and> distinct (occupied keep) \<and> set now \<inter> set (occupied keep) = {})"
proof (induction l arbitrary: r now keep r')
  case Nil
  then show ?case by simp
next
  case (Cons x l)
  define r0 where "r0 = (case x of Some q \<Rightarrow> if sdhci_defer_done q w then IRQ_WAKE_THREAD else r
    | None \<Rightarrow> r)"
  obtain now0 keep0 r1 where t: "irq_collect l r0 w = (now0, keep0, r1)" by (metis surj_pair)
  note IH = Cons.IH[OF t]
  show ?case
  proof (cases x)
    case None
    then have "now = now0" "keep = None # keep0" using Cons.prems t by (simp_all add: r0_def)
    then show ?thesis using IH None by simp
  next
    case (Some q)
    show ?thesis
    proof (cases "sdhci_defer_done q w")
      case True
      then have "now = now0" "keep = Some q # keep0"
        using Cons.prems t Some by (simp_all add: r0_def)
      then show ?thesis using IH Some by auto
    next
      case False
      then have "now = q # now0" "keep = None # keep0"
        using Cons.prems t Some by (simp_all add: r0_def)
      then show ?thesis using IH Some by auto
    qed
  qed
qed

text \<open>Taking requests out of the list, or replacing the list by a part of it.\<close>

lemma keep_safe:
  assumes "length keep = length (h_mrqs_done w)" "set (occupied keep) \<subseteq> set (finished w)"
    "distinct (finished w) \<longrightarrow> distinct (occupied keep)"
  shows "safe w (w\<lparr>h_mrqs_done := keep\<rparr>)"
proof -
  define w' where "w' = w\<lparr>h_mrqs_done := keep\<rparr>"
  have f: "finished w' = occupied keep" "active w' = active w" "links w' = links w"
    by (simp_all add: w'_def finished_def active_def)
  have t: "tracked w' \<subseteq> tracked w" using assms(2) f by (auto simp: tracked_def)
  have "req_inv w'" if "req_inv w"
    using that assms f links_wf[of w' w] card_mono[OF finite_tracked t]
    by (auto simp: req_inv_def w'_def)
  then show ?thesis using t f unfolding w'_def[symmetric] by (simp add: safe_def) (simp add: w'_def)
qed

context host_ops
begin

lemma cmd_irq_bits:
  assumes "sdhci_cmd_irq ops m mp w = Some (mp', w')"
  shows "mp' AND NOT IRQ_KNOWN = mp AND NOT IRQ_KNOWN"
proof -
  obtain ret w1 where r: "auto_cmd12_error m mp w = (ret, w1)" by (metis surj_pair)
  show ?thesis
  proof (cases "ret \<noteq> None \<or> h_cmd w1 = None")
    case True
    then show ?thesis
      using assms r auto_cmd12_bits by (auto simp: sdhci_cmd_irq_def split: option.split_asm)
  next
    case False
    then obtain cp where cp: "h_cmd w1 = Some cp" "ret = None" by auto
    have "fst (cmd_irq_error m mp cp w1) AND NOT IRQ_KNOWN = mp AND NOT IRQ_KNOWN"
      by (simp add: cmd_irq_error_def Let_def known_data_bits)
    moreover have "mp' = mp \<or> mp' = fst (cmd_irq_error m mp cp w1)"
      using assms r cp by (auto simp: sdhci_cmd_irq_def split_beta split: if_split_asm)
    ultimately show ?thesis by auto
  qed
qed

lemma irq_begin_step:
  "safe w (snd (irq_begin m r w))"
  "acked (snd (irq_begin m r w)) =
     (m AND (SDHCI_INT_CARD_INSERT OR SDHCI_INT_CARD_REMOVE))
     OR ((m AND (SDHCI_INT_CMD_MASK OR SDHCI_INT_DATA_MASK OR SDHCI_INT_BUS_POWER)) OR acked w)"
proof -
  define msk where "msk = m AND (SDHCI_INT_CMD_MASK OR SDHCI_INT_DATA_MASK OR SDHCI_INT_BUS_POWER)"
  define w1 where "w1 = emit (Wr32 SDHCI_INT_STATUS msk) w"
  have eq: "snd (irq_begin m r w) = (if tst m (SDHCI_INT_CARD_INSERT OR SDHCI_INT_CARD_REMOVE)
    then irq_card m w1 else w1)"
    unfolding irq_begin_def Let_def access_simps msk_def[symmetric] w1_def[symmetric] by simp
  have s1: "safe w w1"
    using rq_active[of w1 w] rqD(1)[of w1 w] by (simp add: safe_def w1_def)
  then show "safe w (snd (irq_begin m r w))"
    unfolding eq using safe_trans[OF s1 irq_card_views(1)] by simp
  show "acked (snd (irq_begin m r w)) =
     (m AND (SDHCI_INT_CARD_INSERT OR SDHCI_INT_CARD_REMOVE)) OR (msk OR acked w)"
    unfolding eq by (simp add: irq_card_views(2)) (simp add: w1_def not_tst)
qed

lemma irq_end_step:
  assumes "irq_end m un r w = (un', r', w')"
  shows "safe w w'" "acked w' = (m AND NOT IRQ_KNOWN) OR acked w"
proof -
  define w1 where "w1 = (if tst m SDHCI_INT_RETUNE then mmc_retune_needed w else w)"
  define w2 where "w2 = (if tst m SDHCI_INT_CARD_INT \<and> tst (h_ier w1) SDHCI_INT_CARD_INT
    then sdio_signal_irq (sdhci_enable_sdio_irq_nolock False w1) else w1)"
  have w': "w' = (if m AND NOT IRQ_KNOWN \<noteq> 0
    then emit (Wr32 SDHCI_INT_STATUS (m AND NOT IRQ_KNOWN)) w2 else w2)"
    using assms unfolding irq_end_def Let_def access_simps w1_def[symmetric] w2_def[symmetric]
    by (simp split: if_split_asm)
  have "tame w1 w2"
    using tame_ier(5)[of w1 False] by (simp add: w2_def)
  then have t: "tame w w2" by (simp add: w1_def split: if_split_asm)
  then have s: "safe w w2" by (intro evolves_safe tame_evolves)
  have e: "rq (emit ev w2) = rq w2" for ev by simp
  show "safe w w'"
    using s rq_active[OF e] rqD(1)[OF e] by (simp add: w' safe_def)
  show "acked w' = (m AND NOT IRQ_KNOWN) OR acked w"
    using tameD(2)[OF t] by (simp add: w')
qed

lemma irq_body_step:
  assumes "irq_body ops m un r w = Some (un', r', w')"
  shows "safe w w'" "acked w' = acked w OR (m AND IRQ_ACKED)"
proof -
  obtain r1 w1 where b: "irq_begin m r w = (r1, w1)" by (metis surj_pair)
  from assms b obtain m2 w2 w3 where
    c: "(if tst m SDHCI_INT_CMD_MASK then sdhci_cmd_irq ops (m AND SDHCI_INT_CMD_MASK) m w1
         else Some (m, w1)) = Some (m2, w2)" and
    d: "(if tst m2 SDHCI_INT_DATA_MASK then sdhci_data_irq ops (m2 AND SDHCI_INT_DATA_MASK) w2
         else Some w2) = Some w3" and
    fin: "irq_end m2 un r1 w3 = (un', r', w')"
    unfolding irq_body_def Option.bind_eq_Some_conv Let_def by (auto simp: Option.bind_eq_Some_conv)
  have e: "evolves w1 w2" "evolves w2 w3"
    using c d by (auto split: if_split_asm dest: cmd_irq_evolves data_irq_evolves)
  have bits: "m2 AND NOT IRQ_KNOWN = m AND NOT IRQ_KNOWN"
    using c by (auto split: if_split_asm dest: cmd_irq_bits)
  have s: "safe w w1" using irq_begin_step(1)[of w m r] b by simp
  show "safe w w'"
    using s e irq_end_step(1)[OF fin] by (blast intro: safe_trans evolves_safe)
  have "acked w' = (m AND NOT IRQ_KNOWN) OR acked w1"
    using irq_end_step(2)[OF fin] e bits by (simp add: evolves_def)
  also have "\<dots> = (m AND NOT IRQ_KNOWN) OR ((m AND (SDHCI_INT_CARD_INSERT OR SDHCI_INT_CARD_REMOVE))
     OR ((m AND (SDHCI_INT_CMD_MASK OR SDHCI_INT_DATA_MASK OR SDHCI_INT_BUS_POWER)) OR acked w))"
    using irq_begin_step(2)[of m r w] b by simp
  also have "\<dots> = acked w OR (m AND IRQ_ACKED)"
    unfolding ack_masks[symmetric] by (simp only: or.assoc or.commute or.left_commute)
  finally show "acked w' = acked w OR (m AND IRQ_ACKED)" .
qed

lemma tame_safe: "tame w w' \<Longrightarrow> safe w w'"
  by (intro evolves_safe tame_evolves)

lemma hand_back_tame: "tame w (hand_back ops q w)"
  by (auto simp: hand_back_def request_done intro: vw_tame split: option.split)

lemma fold_hand_back_tame: "tame w (fold (hand_back ops) qs w)"
  by (induction qs arbitrary: w) (auto intro: tame_trans hand_back_tame)

text \<open>One iteration keeps the state safe; then the loop is over or goes on with less fuel.\<close>

lemma irq_iteration:
  assumes "irq_loop ops n m un r w = Some (un', r', w')"
  shows "\<exists>w1. safe w w1 \<and>
    (w' = w1 \<or> (\<exists>k m1 un1 r1. n = Suc k \<and> irq_loop ops k m1 un1 r1 w1 = Some (un', r', w')))"
proof -
  obtain m0 w0 where f: "(case o_irq ops of Some f \<Rightarrow> f m w | None \<Rightarrow> (m, w)) = (m0, w0)"
    by (metis surj_pair)
  have s0: "safe w w0"
    using f irq[of _ w m] by (auto split: option.split_asm intro: tame_safe)
  from assms f obtain un1 r1 w1 where
    b: "(if m0 = 0 \<and> o_irq ops \<noteq> None then Some (un, r, w0)
         else irq_body ops m0 un r w0) = Some (un1, r1, w1)" and
    k: "(case n of
        Suc k \<Rightarrow> if e_rd w1 (hist w1) SDHCI_INT_STATUS \<noteq> 0
          then irq_loop ops k (e_rd w1 (hist w1) SDHCI_INT_STATUS) un1 (handled r1)
                 (emit (Rd32 SDHCI_INT_STATUS) w1)
          else Some (un1, handled r1, emit (Rd32 SDHCI_INT_STATUS) w1)
      | 0 \<Rightarrow> Some (un1, handled r1, emit (Rd32 SDHCI_INT_STATUS) w1)) = Some (un', r', w')"
    by (subst (asm) irq_loop.simps) (auto simp: Option.bind_eq_Some_conv Let_def)
  have s1: "safe w w1"
    using s0 b by (auto split: if_split_asm dest: irq_body_step(1) intro: safe_trans)
  have "safe w (emit (Rd32 SDHCI_INT_STATUS) w1)"
    by (rule safe_trans[OF s1 tame_safe]) (simp add: tame_def)
  then show ?thesis using k by (auto split: nat.split_asm if_split_asm)
qed

lemma irq_loop_safe: "irq_loop ops n m un r w = Some (un', r', w') \<Longrightarrow> safe w w'"
proof (induction n arbitrary: m un r w)
  case 0
  then show ?case using irq_iteration by blast
next
  case (Suc n)
  then show ?case using irq_iteration safe_trans by blast
qed

lemma irq_complete_safe:
  assumes "irq_complete ops (un, r, w) = (r', w')"
  shows "safe w w'"
proof -
  obtain now keep r2 where c: "irq_collect (h_mrqs_done w) r w = (now, keep, r2)"
    by (metis surj_pair)
  note p = irq_collect_partition[OF c]
  define w1 where "w1 = fold (hand_back ops) now (w\<lparr>h_mrqs_done := keep\<rparr>)"
  have "safe w (w\<lparr>h_mrqs_done := keep\<rparr>)"
    using p by (intro keep_safe) (auto simp: finished_def)
  also have "safe \<dots> w1" unfolding w1_def by (rule tame_safe[OF fold_hand_back_tame])
  also have "safe w1 w'"
    using assms c by (auto simp: irq_complete_def w1_def Let_def vw_tame intro!: tame_safe)
  finally show ?thesis .
qed

theorem irq_safe:
  assumes "sdhci_irq ops w = Some (r, w')"
  shows "safe w w'"
proof -
  define w0 where "w0 = emit (Rd32 SDHCI_INT_STATUS) w"
  have s0: "safe w w0" by (intro tame_safe) (simp add: w0_def tame_def)
  define im where "im = e_rd w (hist w) SDHCI_INT_STATUS"
  have eq: "sdhci_irq ops w =
    (if h_runtime_suspended w then Some (IRQ_NONE, w)
     else if im = 0 \<or> im = 0xffffffff
     then Some (if h_deferred_cmd w0 \<noteq> None then IRQ_WAKE_THREAD else IRQ_NONE, w0)
     else map_option (irq_complete ops) (irq_loop ops 15 im 0 IRQ_NONE w0))"
    unfolding sdhci_irq_def access_simps Let_def prod.case im_def w0_def ..
  show ?thesis
  proof (cases "h_runtime_suspended w \<or> im = 0 \<or> im = 0xffffffff")
    case True
    then have "w' = w \<or> w' = w0" using assms unfolding eq by (simp split: if_split_asm)
    then show ?thesis using s0 by auto
  next
    case False
    with assms have "map_option (irq_complete ops) (irq_loop ops 15 im 0 IRQ_NONE w0) = Some (r, w')"
      unfolding eq by argo
    then obtain x where "irq_loop ops 15 im 0 IRQ_NONE w0 = Some x" "irq_complete ops x = (r, w')"
      unfolding map_option_eq_Some by blast
    moreover obtain un r1 w1 where "x = (un, r1, w1)" by (metis surj_pair)
    ultimately show ?thesis
      using safe_trans[OF safe_trans[OF s0 irq_loop_safe] irq_complete_safe] by blast
  qed
qed

end

end
