(* ===== verification/Runs.thy ===== *)
theory Runs
  imports Safety
begin

text \<open>
  The parts of the driver that release the lock: handing requests back, sending with retries, the
  request entry points and the threaded half of the interrupt handler.  The locale \<open>host_run\<close>
  extends the contract of the platform by that of the code that runs meanwhile, \<open>u\<close>.
\<close>

text \<open>
  The command of a request that is not finished may be sent when there is room for the request:
  it is the deferred command, or its request is new.  \<open>joins\<close> is what sending does then: the
  request is taken on, no other request comes in.
\<close>

definition may_join :: "cmdp \<Rightarrow> cmdp option \<Rightarrow> world \<Rightarrow> bool" where
  "may_join cp deferred w \<longleftrightarrow>
     req_inv w \<and> card (insert (c_mrq (cmds w cp)) (tracked w)) \<le> SDHCI_MAX_MRQS
     \<and> (if deferred = Some cp then h_deferred_cmd w = Some cp
        else c_mrq (cmds w cp) \<notin> tracked w)"

definition joins :: "cmdp \<Rightarrow> cmdp option \<Rightarrow> world \<Rightarrow> bool \<Rightarrow> world \<Rightarrow> bool" where
  "joins cp deferred w ok w' \<longleftrightarrow>
     links w' = links w \<and> (ier_ok w \<longrightarrow> ier_ok w')
     \<and> (may_join cp deferred w \<longrightarrow>
          req_inv w' \<and> tracked w' \<subseteq> insert (c_mrq (cmds w cp)) (tracked w)
          \<and> (ok \<and> deferred \<noteq> Some cp \<longrightarrow> c_mrq (cmds w cp) \<in> set (active w')))"

lemma may_join_not_finished: "may_join cp df w \<Longrightarrow> c_mrq (cmds w cp) \<notin> set (finished w)"
  using active_ptr(3)[of w cp] by (auto simp: may_join_def req_inv_def tracked_def split: if_split_asm)

locale host_run = host_ops +
  fixes u :: "world \<Rightarrow> world"
  assumes u_safe: "safe w (u w)"
begin

subsection \<open>Handing requests back\<close>

lemma occupied_clear:
  "set (occupied (l[i := None])) \<subseteq> set (occupied l)"
  "distinct (occupied l) \<Longrightarrow> distinct (occupied (l[i := None]))"
  "distinct (occupied l) \<Longrightarrow> i < length l \<Longrightarrow> l ! i = Some q \<Longrightarrow> q \<notin> set (occupied (l[i := None]))"
proof (induction l arbitrary: i rule: occupied.induct)
  case (2 l)
  { case 1 show ?case using 2(1) by (cases i) auto }
  { case 2 then show ?case using "2.IH"(2) by (cases i) auto }
  { case 3 then show ?case using "2.IH"(3) by (cases i) auto }
next
  case (3 x l)
  { case 1 show ?case using 3(1) by (cases i) auto }
  { case 2 then show ?case using "3.IH"(1,2) by (cases i) auto }
  { case 3 then show ?case using "3.IH"(1,3) nth_mem[of "i - 1" l] by (cases i) (auto simp: occupied_set) }
qed auto

lemma clear_slot_safe: "safe w (clear_slot i w)"
  unfolding clear_slot_def by (rule keep_safe) (auto simp: finished_def occupied_clear)

lemma first_done_Some:
  "first_done k l = Some (i, q) \<Longrightarrow> k \<le> i \<and> i - k < length l \<and> l ! (i - k) = Some q"
proof (induction k l rule: first_done.induct)
  case (3 k l)
  then show ?case by (auto simp: nth_Cons' Suc_diff_le)
qed auto

lemma vw_unmap_bounce [simp]: "vw (unmap_bounce dp b w) = vw w"
  by (simp add: unmap_bounce_def Let_def sg_copy_from_buffer_def dma_sync_single_for_cpu_def)

lemma done_unmap_safe:
  assumes "done_unmap u dp w = Some w'"
  shows "safe w w'"
proof (cases "d_host_cookie (datas w dp) = COOKIE_MAPPED")
  case False
  with assms show ?thesis by (simp add: done_unmap_def)
next
  case True
  with assms obtain w1 where
    w1: "(case h_bounce_buffer w of
            Some bounce \<Rightarrow> Some (unmap_bounce dp bounce w)
          | None \<Rightarrow> map_option u (dma_unmap_sg (d_sg_len (datas w dp))
                      (mmc_get_dma_dir (datas w dp)) w)) = Some w1" and
    w': "w' = upd_data dp (\<lambda>d. d\<lparr>d_host_cookie := COOKIE_UNMAPPED\<rparr>) w1"
    by (auto simp: done_unmap_def Let_def Option.bind_eq_Some_conv)
  have "safe w w1"
    using w1 u_safe tame_safe[OF vw_tame] by (auto split: option.split_asm dest!: vw_dma_calls
        intro: safe_trans)
  also have "safe w1 w'"
    by (rule tame_safe[OF vw_tame]) (simp add: w' upd_data_view)
  finally show ?thesis .
qed

text \<open>Entering a request that is not tracked, when there is room.\<close>

lemma set_mrq_done_inv:
  assumes "req_inv w" "q \<notin> tracked w" "card (insert q (tracked w)) \<le> SDHCI_MAX_MRQS"
  shows "req_inv (sdhci_set_mrq_done q w)" "tracked (sdhci_set_mrq_done q w) = insert q (tracked w)"
proof -
  have "card (insert q (set (finished w))) \<le> card (insert q (tracked w))"
    by (intro card_mono) (auto simp: tracked_def)
  then have "length (finished w) < length (h_mrqs_done w)"
    using assms distinct_card[of "finished w"] by (auto simp: req_inv_def tracked_def)
  moreover have "q \<notin> set (finished w)" using assms(2) by (simp add: tracked_def)
  ultimately obtain l where l: "sdhci_set_mrq_done q w = w\<lparr>h_mrqs_done := l\<rparr>"
    "put_free_slot q (h_mrqs_done w) = Some l"
    using set_mrq_done_new[of q w] by metis
  note p = put_free_slot_Some[OF l(2)]
  have act: "active (w\<lparr>h_mrqs_done := l\<rparr>) = active w"
    and fin: "finished (w\<lparr>h_mrqs_done := l\<rparr>) = occupied l"
    and lnk: "links (w\<lparr>h_mrqs_done := l\<rparr>) = links w"
    by (simp_all add: active_def finished_def)
  have t: "tracked (w\<lparr>h_mrqs_done := l\<rparr>) = insert q (tracked w)"
    using p by (auto simp: tracked_def act fin finished_def)
  then show "tracked (sdhci_set_mrq_done q w) = insert q (tracked w)" by (simp add: l(1))
  show "req_inv (sdhci_set_mrq_done q w)"
    using assms p t links_wf[OF lnk] by (auto simp: req_inv_def l(1) act fin tracked_def finished_def)
qed

lemma requeue_safe:
  assumes i: "i < length (h_mrqs_done w)" "h_mrqs_done w ! i = Some q"
  shows "safe w (sdhci_set_mrq_done q (u (clear_slot i w)))"
proof -
  define w1 where "w1 = u (clear_slot i w)"
  have s: "safe w w1" unfolding w1_def by (rule safe_trans[OF clear_slot_safe u_safe])
  have "req_inv (sdhci_set_mrq_done q w1) \<and> tracked (sdhci_set_mrq_done q w1) \<subseteq> tracked w"
    if inv: "req_inv w"
  proof -
    have q: "q \<in> set (finished w)" using i nth_mem[OF i(1)] by (simp add: finished_member)
    have "q \<notin> set (occupied ((h_mrqs_done w)[i := None]))"
      using inv i by (intro occupied_clear(3)) (auto simp: req_inv_def finished_def)
    moreover have "active (clear_slot i w) = active w"
      "finished (clear_slot i w) = occupied ((h_mrqs_done w)[i := None])"
      by (simp_all add: clear_slot_def active_def finished_def)
    ultimately have "q \<notin> tracked (clear_slot i w)"
      using inv q by (auto simp: tracked_def req_inv_def)
    moreover have "tracked w1 \<subseteq> tracked (clear_slot i w)"
      using u_safe[of "clear_slot i w"] clear_slot_safe[of w i] inv by (simp add: safe_def w1_def)
    ultimately have new: "q \<notin> tracked w1" by blast
    have sub: "insert q (tracked w1) \<subseteq> tracked w" and inv1: "req_inv w1"
      using s inv q by (auto simp: safe_def tracked_def)
    have "card (insert q (tracked w1)) \<le> SDHCI_MAX_MRQS"
      using card_mono[OF finite_tracked sub] inv by (simp add: req_inv_def)
    then show ?thesis using set_mrq_done_inv[OF inv1 new] sub by simp
  qed
  then show ?thesis using s by (simp add: safe_def w1_def)
qed

lemma done_dma_safe:
  assumes "done_dma u i q w = Some w'" "i < length (h_mrqs_done w)" "h_mrqs_done w ! i = Some q"
  shows "safe w w'"
proof -
  have cases: "w' = w \<or> (\<exists>dp b.
    done_unmap u dp (if b then sdhci_set_mrq_done q (u (clear_slot i w)) else w) = Some w')"
  proof (cases "q_data (mrqs w q)")
    case None
    with assms(1) show ?thesis by (simp add: done_dma_def split: if_split_asm)
  next
    case (Some dp)
    with assms(1) show ?thesis unfolding done_dma_def Let_def by (metis option.inject option.simps(5))
  qed
  have "safe w (if b then sdhci_set_mrq_done q (u (clear_slot i w)) else w)" for b
    using requeue_safe[OF assms(2,3)] by simp
  with cases done_unmap_safe show ?thesis by (blast intro: safe_trans safe_refl)
qed

lemma done_reset_tame: "done_reset ops w = Some w' \<Longrightarrow> tame w w'"
proof -
  assume "done_reset ops w = Some w'"
  then obtain w1 w2 w3 where
    w1: "(if tst (h_quirks w) SDHCI_QUIRK_CLOCK_BEFORE_RESET
          then o_set_clock ops (h_clock w) w else Some w) = Some w1" and
    w2: "sdhci_do_reset ops SDHCI_RESET_CMD w1 = Some w2"
      "sdhci_do_reset ops SDHCI_RESET_DATA w2 = Some w3" and
    w': "w' = w3\<lparr>h_pending_reset := False\<rparr>"
    unfolding done_reset_def Option.bind_eq_Some_conv by auto
  have "tame w w1" using w1 set_clock by (auto split: if_split_asm)
  also have "tame w1 w2" by (rule tame_do_reset[OF w2(1)])
  also have "tame w2 w3" by (rule tame_do_reset[OF w2(2)])
  also have "tame w3 w'" by (simp add: w' tame_def)
  finally show ?thesis .
qed

theorem request_done_safe:
  assumes "sdhci_request_done ops u w = Some (stop, w')"
  shows "safe w w'"
proof (cases "first_done 0 (h_mrqs_done w)")
  case None
  with assms show ?thesis by (simp add: sdhci_request_done_def)
next
  case (Some p)
  obtain i q where p: "p = (i, q)" by (cases p)
  note fd = first_done_Some[OF Some[unfolded p]]
  from assms Some p obtain w1 where
    w1: "done_dma u i q w = Some w1" and
    w': "(if sdhci_needs_reset q w1 \<and> sdhci_has_requests w1 then Some (True, w1)
          else do {
            w \<leftarrow> (if sdhci_needs_reset q w1 then done_reset ops w1 else Some w1);
            Some (False, hand_back ops q (clear_slot i w))
          }) = Some (stop, w')"
    by (auto simp: sdhci_request_done_def Option.bind_eq_Some_conv)
  have s: "safe w w1" using w1 fd by (auto intro: done_dma_safe)
  moreover have "safe w1 w'"
    using w' safe_trans[OF clear_slot_safe tame_safe[OF hand_back_tame]]
      safe_trans[OF tame_safe[OF done_reset_tame] safe_trans[OF clear_slot_safe tame_safe[OF hand_back_tame]]]
    by (auto simp: Option.bind_eq_Some_conv split: if_split_asm)
  ultimately show ?thesis by (rule safe_trans)
qed

lemma request_done_loop_safe':
  "request_done_loop ops' u' w = Some w' \<Longrightarrow> ops' = ops \<longrightarrow> u' = u \<longrightarrow> safe w w'"
proof (induction rule: request_done_loop.raw_induct[rotated, consumes 1, case_names step])
  case (step loop ops' u' w w')
  from step(2) obtain stop w1 where w1: "sdhci_request_done ops' u' w = Some (stop, w1)"
    "(if stop then Some w1 else loop ops' u' (u' w1)) = Some w'"
    by (auto simp: Option.bind_eq_Some_conv)
  show ?case
  proof (intro impI)
    assume e: "ops' = ops" "u' = u"
    have s: "safe w w1" using w1(1) unfolding e by (rule request_done_safe)
    show "safe w w'"
    proof (cases stop)
      case True
      then show ?thesis using s w1(2) by simp
    next
      case False
      then have "safe (u w1) w'" using w1(2) step(1) e by simp
      with s u_safe[of w1] show ?thesis using safe_trans by blast
    qed
  qed
qed

theorem request_done_loop_safe: "request_done_loop ops u w = Some w' \<Longrightarrow> safe w w'"
  using request_done_loop_safe' by blast

subsection \<open>Sending with retries\<close>

lemma claim_joins:
  assumes i: "req_inv w" and c: "claim_view cp w w'"
    and q: "c_mrq (cmds w cp) \<notin> set (finished w)"
    and room: "card (insert (c_mrq (cmds w cp)) (tracked w)) \<le> SDHCI_MAX_MRQS"
  shows "req_inv w'" "tracked w' \<subseteq> insert (c_mrq (cmds w cp)) (tracked w)"
    "c_mrq (cmds w cp) \<in> set (active w')"
proof -
  have l: "links w' = links w" using c by (simp add: claim_view_def)
  note L = linksD[OF l]
  have wf: "\<forall>d. c_data (cmds w cp) = Some d \<longrightarrow> d_mrq (datas w d) = c_mrq (cmds w cp)"
    using i by (auto simp: req_inv_def wf_links_def)
  have act: "set (active w') \<subseteq> insert (c_mrq (cmds w cp)) (set (active w))"
    using c wf by (auto simp: claim_view_def active_def L opt_list_def split: option.splits)
  have fin: "finished w' = finished w" "h_mrqs_done w' = h_mrqs_done w"
    using c by (simp_all add: claim_view_def finished_def)
  show t: "tracked w' \<subseteq> insert (c_mrq (cmds w cp)) (tracked w)"
    using act fin by (auto simp: tracked_def)
  have "card (tracked w') \<le> SDHCI_MAX_MRQS" using card_mono[OF _ t] room by simp
  then show "req_inv w'"
    using i act fin q links_wf[OF l] by (auto simp: req_inv_def)
  show "c_mrq (cmds w cp) \<in> set (active w')"
    using active_ptr(1)[of w' cp] c by (simp add: claim_view_def L)
qed

lemma drop_deferred: "drops w (w\<lparr>h_deferred_cmd := None\<rparr>)"
  by (auto simp: drops_def active_def)

lemma sent_joins:
  assumes "claim_view cp w w1" "w' = (if b then w1\<lparr>h_deferred_cmd := None\<rparr> else w1)"
  shows "joins cp df w True w'"
proof -
  have d: "drops w1 w'" using assms(2) drop_deferred by simp
  note e = drops_evolves[OF d]
  have l: "links w' = links w" "ier_ok w \<longrightarrow> ier_ok w'"
    using assms(1) d by (auto simp: claim_view_def drops_def)
  have "req_inv w' \<and> tracked w' \<subseteq> insert (c_mrq (cmds w cp)) (tracked w)
      \<and> c_mrq (cmds w cp) \<in> set (active w')" if "may_join cp df w"
  proof -
    have i: "req_inv w" "card (insert (c_mrq (cmds w cp)) (tracked w)) \<le> SDHCI_MAX_MRQS"
      "c_mrq (cmds w cp) \<notin> set (finished w)"
      using that may_join_not_finished by (auto simp: may_join_def)
    note j = claim_joins[OF i(1) assms(1) i(3,2)]
    have "h_cmd w' = Some cp" using assms by (simp add: claim_view_def)
    then have "c_mrq (cmds w cp) \<in> set (active w')"
      using active_ptr(1)[of w' cp] linksD(1)[OF l(1)] by simp
    then show ?thesis using j e by (auto simp: evolves_def)
  qed
  then show ?thesis using l by (simp add: joins_def)
qed

lemma safe_joins: "safe w w1 \<Longrightarrow> (may_join cp df w \<Longrightarrow> may_join cp df w1) \<Longrightarrow>
   joins cp df w1 ok w' \<Longrightarrow> joins cp df w ok w'"
  using linksD(1)[of w1 w cp] by (auto simp: joins_def safe_def may_join_def)

lemma joins_refl: "\<not> ok \<or> df = Some cp \<Longrightarrow> joins cp df w ok w"
  by (auto simp: joins_def may_join_def)

lemma may_join_safe:
  assumes "may_join cp df w" "safe w w1" "df = Some cp \<Longrightarrow> h_deferred_cmd w1 = Some cp"
  shows "may_join cp df w1"
proof -
  have t: "tracked w1 \<subseteq> tracked w" "req_inv w1" and l: "c_mrq (cmds w1 cp) = c_mrq (cmds w cp)"
    using assms(1,2) linksD(1)[of w1 w cp] by (auto simp: may_join_def safe_def)
  have "card (insert (c_mrq (cmds w cp)) (tracked w1)) \<le> card (insert (c_mrq (cmds w cp)) (tracked w))"
    using t by (intro card_mono) auto
  then show ?thesis using assms t l by (auto simp: may_join_def)
qed

lemma send_retry_Suc:
  assumes "send_retry_loop ops u cp df (Suc n) w = Some (ok, w')"
    "sdhci_send_command ops cp w = Some (False, w1)"
  defines "p \<equiv> sdhci_get_cd (usleep_range 1000 1250 w1)"
  shows "(if Some cp = df \<and> Some cp \<noteq> h_deferred_cmd (u (snd p)) then Some (True, u (snd p))
     else (let (err, w) = sdhci_present_error cp (fst p) (u (snd p))
           in if err then Some (False, w) else send_retry_loop ops u cp df n w)) = Some (ok, w')"
  using assms(1)
  by (subst (asm) send_retry_loop.simps) (auto simp: assms(2) p_def split_beta Let_def split: if_split_asm)

lemma send_retry_sent:
  assumes "send_retry_loop ops u cp df n w = Some (ok, w')"
  obtains w1 where "sdhci_send_command ops cp w = Some (True, w1)" "ok"
      "w' = (if Some cp = h_deferred_cmd w1 then w1\<lparr>h_deferred_cmd := None\<rparr> else w1)"
  | w1 where "sdhci_send_command ops cp w = Some (False, w1)" "n = 0" "\<not> ok"
      "w' = set_cmd_error cp (Some EIO) (sdhci_dumpregs (o_dump_vendor_regs ops) w1)"
  | w1 k where "sdhci_send_command ops cp w = Some (False, w1)" "n = Suc k"
proof -
  from assms obtain sent w1 where s: "sdhci_send_command ops cp w = Some (sent, w1)"
    by (subst (asm) send_retry_loop.simps) (auto simp: Option.bind_eq_Some_conv)
  show ?thesis
  proof (cases sent)
    case True
    then show ?thesis
      using assms s that(1) by (subst (asm) send_retry_loop.simps) simp
  next
    case False
    show ?thesis
    proof (cases n)
      case 0
      then show ?thesis
        using assms s that(2) False by (subst (asm) send_retry_loop.simps) simp
    next
      case (Suc k)
      then show ?thesis using s that(3) False by simp
    qed
  qed
qed

lemma send_retry_joins:
  assumes "send_retry_loop ops u cp df n w = Some (ok, w')"
  shows "joins cp df w ok w'"
  using assms
proof (induction n arbitrary: w)
  case 0
  then show ?case
  proof (cases rule: send_retry_sent)
    case (1 w1)
    then show ?thesis using send_command_cases[OF 1(1)] sent_joins by simp
  next
    case (2 w1)
    then have v: "vw w' = vw w" "\<not> ok" using send_command_cases[OF 2(1)] by auto
    have "safe w w'" by (rule tame_safe[OF vw_tame[OF v(1)]])
    then show ?thesis using v(2) by (auto simp: joins_def safe_def may_join_def)
  qed simp
next
  case (Suc n)
  from Suc.prems show ?case
  proof (cases rule: send_retry_sent)
    case (1 w1)
    then show ?thesis using send_command_cases[OF 1(1)] sent_joins by simp
  next
    case (3 w1 k)
    define p where "p = sdhci_get_cd (usleep_range 1000 1250 w1)"
    define w3 where "w3 = u (snd p)"
    have "vw w1 = vw w" using send_command_cases[OF 3(1)] by simp
    then have "vw (snd p) = vw w" by (simp add: p_def)
    then have s3: "safe w w3"
      unfolding w3_def by (rule safe_trans[OF tame_safe[OF vw_tame] u_safe])
    note r = send_retry_Suc[OF Suc.prems 3(1), folded p_def w3_def]
    show ?thesis
    proof (cases "Some cp = df \<and> Some cp \<noteq> h_deferred_cmd w3")
      case True
      then have "joins cp df w3 True w3" by (intro joins_refl) simp
      with True r s3 show ?thesis by (auto simp: joins_def safe_def may_join_def)
    next
      case False
      define w4 where "w4 = snd (sdhci_present_error cp (fst p) w3)"
      have v4: "vw w4 = vw w3" by (simp add: w4_def)
      have s4: "safe w w4" by (rule safe_trans[OF s3 tame_safe[OF vw_tame[OF v4]]])
      have "may_join cp df w \<Longrightarrow> may_join cp df w4"
        using may_join_safe[OF _ s4] False vw_h_deferred[OF v4] by fastforce
      moreover have "joins cp df w4 ok w'"
      proof (cases "fst (sdhci_present_error cp (fst p) w3)")
        case True
        then have "w' = w4" "\<not> ok"
          using r \<open>\<not> (Some cp = df \<and> Some cp \<noteq> h_deferred_cmd w3)\<close>
          unfolding w4_def split_beta Let_def by auto
        then show ?thesis by (auto intro: joins_refl)
      next
        case False
        then have "send_retry_loop ops u cp df n w4 = Some (ok, w')"
          using r \<open>\<not> (Some cp = df \<and> Some cp \<noteq> h_deferred_cmd w3)\<close>
          unfolding w4_def split_beta Let_def by argo
        then show ?thesis by (rule Suc.IH)
      qed
      ultimately show ?thesis by (rule safe_joins[OF s4])
    qed
  qed simp
qed

subsection \<open>Request entry points\<close>

text \<open>A request joins: what \<open>joins\<close> says of a request that is refused or sent.\<close>

lemma finish_joins:
  assumes "req_inv w" "card (insert q (tracked w)) \<le> SDHCI_MAX_MRQS"
  shows "req_inv (sdhci_finish_mrq q w)" "tracked (sdhci_finish_mrq q w) \<subseteq> insert q (tracked w)"
    "q \<in> tracked (sdhci_finish_mrq q w)"
proof -
  have v: "vw (sdhci_finish_mrq q w) = vw (raw_sdhci_finish_mrq q w)"
    by (simp add: sdhci_finish_mrq_def)
  note f = finish_req_inv[OF assms] and r = rq_active[OF vw_rq[OF v]]
  show "req_inv (sdhci_finish_mrq q w)" "tracked (sdhci_finish_mrq q w) \<subseteq> insert q (tracked w)"
    "q \<in> tracked (sdhci_finish_mrq q w)"
    using f r by (auto simp: tracked_def)
qed

lemma finish_mrq_links: "links (sdhci_finish_mrq q w) = links w"
  "ier_ok (sdhci_finish_mrq q w) = ier_ok w"
  using finish_mrq_facts(1,2)[of q w] by (simp_all add: sdhci_finish_mrq_def)

lemma first_command_mrq:
  "wf_links w \<Longrightarrow> c_mrq (cmds w (first_command q w')) = q" if "links w' = links w"
  using linksD(5)[OF that] by (auto simp: first_command_def wf_links_def split: option.split)

lemma request_joins:
  assumes r: "sdhci_request ops u q w = Some w'"
    and i: "req_inv w" and new: "q \<notin> tracked w" and room: "card (tracked w) < SDHCI_MAX_MRQS"
  shows "req_inv w'" "tracked w' \<subseteq> insert q (tracked w)" "q \<in> tracked w'"
    "ier_ok w \<longrightarrow> ier_ok w'" "links w' = links w"
proof -
  define p where "p = sdhci_get_cd w"
  define w1 where "w1 = sdhci_led_activate (snd p)"
  define e where "e = sdhci_present_error (q_cmd (mrqs w1 q)) (fst p) w1"
  have v: "vw (snd e) = vw w" by (simp add: e_def w1_def p_def)
  note a = rq_active[OF vw_rq[OF v]] vw_links[OF v] vw_ier_ok[OF v]
  have room': "card (insert q (tracked w)) \<le> SDHCI_MAX_MRQS" using room new by simp
  have all: "req_inv w' \<and> tracked w' \<subseteq> insert q (tracked w) \<and> q \<in> tracked w'
    \<and> (ier_ok w \<longrightarrow> ier_ok w') \<and> links w' = links w"
  proof (cases "fst e")
    case True
    then have "w' = sdhci_finish_mrq q (snd e)"
      using r by (simp add: sdhci_request_def split_beta Let_def e_def w1_def p_def)
    then show ?thesis
      using finish_joins[of "snd e" q] finish_mrq_links[of q "snd e"] i room' a by simp
  next
    case False
    define cp where "cp = first_command q (snd e)"
    have q: "c_mrq (cmds (snd e) cp) = q"
      using first_command_mrq[of "snd e" "snd e" q] i a by (simp add: cp_def req_inv_def)
    from False r obtain ok w2 where
      s: "send_retry_loop ops u cp (h_deferred_cmd (snd e)) 10 (snd e) = Some (ok, w2)" and
      w': "w' = (if ok then w2 else sdhci_finish_mrq q w2)"
      by (auto simp: sdhci_request_def split_beta Let_def Option.bind_eq_Some_conv
          sdhci_send_command_retry_def e_def w1_def p_def cp_def)
    have df: "h_deferred_cmd (snd e) \<noteq> Some cp"
      using active_ptr(3)[of "snd e" cp] new q a by (auto simp: tracked_def)
    then have "may_join cp (h_deferred_cmd (snd e)) (snd e)"
      using i new room' q a by (simp add: may_join_def)
    then have j: "req_inv w2" "tracked w2 \<subseteq> insert q (tracked w)" "ok \<Longrightarrow> q \<in> tracked w2"
      "ier_ok w \<longrightarrow> ier_ok w2" "links w2 = links w"
      using send_retry_joins[OF s] df q a by (auto simp: joins_def tracked_def)
    have "card (insert q (tracked w2)) \<le> card (insert q (tracked w))"
      using j(2) by (intro card_mono) auto
    then show ?thesis
      using j finish_joins[OF j(1), of q] finish_mrq_links[of q w2] room' w' by auto
  qed
  then show "req_inv w'" "tracked w' \<subseteq> insert q (tracked w)" "q \<in> tracked w'"
    "ier_ok w \<longrightarrow> ier_ok w'" "links w' = links w" by auto
qed

text \<open>The atomic entry point either takes the request on or leaves everything as it is.\<close>

lemma request_atomic_joins:
  assumes r: "sdhci_request_atomic ops q w = Some (err, w')"
    and i: "req_inv w" and new: "q \<notin> tracked w" and room: "card (tracked w) < SDHCI_MAX_MRQS"
  shows "req_inv w'" "tracked w' \<subseteq> insert q (tracked w)" "err = None \<longleftrightarrow> q \<in> tracked w'"
    "ier_ok w \<longrightarrow> ier_ok w'" "links w' = links w"
proof -
  define e where "e = sdhci_present_error (q_cmd (mrqs w q)) True w"
  have v: "vw (snd e) = vw w" by (simp add: e_def)
  note a = rq_active[OF vw_rq[OF v]] vw_links[OF v] vw_ier_ok[OF v]
  have room': "card (insert q (tracked w)) \<le> SDHCI_MAX_MRQS" using room new by simp
  have all: "req_inv w' \<and> tracked w' \<subseteq> insert q (tracked w) \<and> (err = None \<longleftrightarrow> q \<in> tracked w')
    \<and> (ier_ok w \<longrightarrow> ier_ok w') \<and> links w' = links w"
  proof (cases "fst e")
    case True
    then have "w' = sdhci_finish_mrq q (snd e)" "err = None"
      using r by (simp_all add: sdhci_request_atomic_def split_beta Let_def e_def)
    then show ?thesis
      using finish_joins[of "snd e" q] finish_mrq_links[of q "snd e"] i room' a by simp
  next
    case False
    define cp where "cp = first_command q (snd e)"
    have q: "c_mrq (cmds (snd e) cp) = q"
      using first_command_mrq[of "snd e" "snd e" q] i a by (simp add: cp_def req_inv_def)
    from False r obtain ok w2 where s: "sdhci_send_command ops cp (snd e) = Some (ok, w2)" and
      e': "(if ok then err = None \<and> w' = sdhci_led_activate w2 else err = Some EBUSY \<and> w' = w2)"
      by (auto simp: sdhci_request_atomic_def split_beta Let_def Option.bind_eq_Some_conv
          e_def cp_def split: if_split_asm)
    then have w': "w' = (if ok then sdhci_led_activate w2 else w2)"
      "err = (if ok then None else Some EBUSY)"
      by (auto split: if_split_asm)
    have v': "vw w' = vw w2" by (simp add: w')
    note b = rq_active[OF vw_rq[OF v']] vw_links[OF v'] vw_ier_ok[OF v']
    show ?thesis
    proof (cases ok)
      case True
      then have c: "claim_view cp (snd e) w2" using send_command_cases[OF s] by simp
      have "q \<notin> set (finished (snd e))" using new a by (simp add: tracked_def)
      then show ?thesis
        using claim_joins[OF _ c] i room' a b c w' True q by (auto simp: tracked_def claim_view_def)
    next
      case False
      then have v2: "vw w2 = vw (snd e)" using send_command_cases[OF s] by simp
      show ?thesis
        using rq_active[OF vw_rq[OF v2]] vw_links[OF v2] vw_ier_ok[OF v2] a b i w' False new by auto
    qed
  qed
  then show "req_inv w'" "tracked w' \<subseteq> insert q (tracked w)" "err = None \<longleftrightarrow> q \<in> tracked w'"
    "ier_ok w \<longrightarrow> ier_ok w'" "links w' = links w" by auto
qed

subsection \<open>The threaded half of the interrupt handler\<close>

lemma retry_deferred_safe:
  assumes "sdhci_send_command_retry ops u cp w = Some (ok, w1)" "h_deferred_cmd w = Some cp"
  shows "safe w (if ok then w1 else sdhci_finish_mrq (c_mrq (cmds w1 cp)) w1)"
proof -
  have j: "joins cp (Some cp) w ok w1"
    using assms send_retry_joins by (simp add: sdhci_send_command_retry_def)
  then have l: "links w1 = links w" and ie: "ier_ok w \<longrightarrow> ier_ok w1" by (simp_all add: joins_def)
  define q where "q = c_mrq (cmds w cp)"
  have q1: "c_mrq (cmds w1 cp) = q" using linksD(1)[OF l] by (simp add: q_def)
  have t: "q \<in> tracked w" using active_ptr(3)[OF assms(2)] by (simp add: tracked_def q_def)
  have w1: "req_inv w1 \<and> tracked w1 \<subseteq> tracked w \<and> card (insert q (tracked w1)) \<le> SDHCI_MAX_MRQS"
    if "req_inv w"
  proof -
    have "may_join cp (Some cp) w"
      using that t assms(2) by (simp add: may_join_def req_inv_def q_def insert_absorb)
    then have r: "req_inv w1" "insert q (tracked w1) \<subseteq> tracked w"
      using j t by (auto simp: joins_def q_def)
    then show ?thesis
      using card_mono[OF _ r(2)] that by (auto simp: req_inv_def)
  qed
  show ?thesis
    using w1 l ie t finish_joins[of w1 q] finish_mrq_links[of q w1] q1 by (auto simp: safe_def)
qed

theorem thread_irq_safe:
  assumes "sdhci_thread_irq ops u w = Some w'"
  shows "safe w w'"
proof -
  from assms obtain w1 w2 w3 where
    w1: "request_done_loop ops u w = Some w1" and w2: "w2 = (u w1)\<lparr>h_thread_isr := 0\<rparr>" and
    w3: "(case h_deferred_cmd w2 of
            Some cp \<Rightarrow> do {
              (ok, w) \<leftarrow> sdhci_send_command_retry ops u cp w2;
              Some (if ok then w else sdhci_finish_mrq (c_mrq (cmds w cp)) w)
            }
          | None \<Rightarrow> Some w2) = Some w3" and
    w': "(if tst (h_thread_isr (u w1)) (SDHCI_INT_CARD_INSERT OR SDHCI_INT_CARD_REMOVE)
          then map_option mmc_detect_change (sdhci_card_event ops (u w3)) else Some w3) = Some w'"
    by (auto simp: sdhci_thread_irq_def Option.bind_eq_Some_conv Let_def)
  have "safe w w1" by (rule request_done_loop_safe[OF w1])
  also have "safe w1 (u w1)" by (rule u_safe)
  also have "safe (u w1) w2" by (rule tame_safe) (simp add: w2 tame_def)
  also have "safe w2 w3"
  proof (cases "h_deferred_cmd w2")
    case None
    with w3 show ?thesis by simp
  next
    case (Some cp)
    with w3 obtain ok w where "sdhci_send_command_retry ops u cp w2 = Some (ok, w)"
      "w3 = (if ok then w else sdhci_finish_mrq (c_mrq (cmds w cp)) w)"
      by (auto simp: Option.bind_eq_Some_conv)
    then show ?thesis using retry_deferred_safe Some by simp
  qed
  also have "safe w3 w'"
  proof -
    have "safe z (mmc_detect_change z)" for z by (rule tame_safe[OF vw_tame]) simp
    then show ?thesis
      using w' safe_trans[OF u_safe evolves_safe[OF card_event_evolves]] by (auto split: if_split_asm intro: safe_trans)
  qed
  finally show ?thesis .
qed

end

end
