(* ===== verification/Pltfm.thy ===== *)
theory Pltfm
  imports Runs
begin

text \<open>
  The default platform operations (\<^verbatim>\<open>sdhci_pltfm_ops\<close> of \<^verbatim>\<open>sdhci-pltfm.c\<close>), and that they keep
  the contract \<open>host_ops\<close> which the request logic relies on.  \<open>preempt\<close> is the code that may
  run while the driver has released its lock: any sequence of the driver's own handlers.
\<close>

definition sdhci_pltfm_ops :: sdhci_ops where
  "sdhci_pltfm_ops = \<lparr>
     o_set_clock = sdhci_set_clock None,
     o_set_power = None, o_irq = None, o_set_dma_mask = None, o_enable_dma = None,
     o_get_max_clock = None, o_get_min_clock = None, o_get_timeout_clock = None,
     o_get_max_timeout_count = None, o_set_timeout = None,
     o_set_bus_width = sdhci_set_bus_width,
     o_platform_send_init_74_clocks = None, o_get_ro = None,
     o_reset = sdhci_reset None,
     o_platform_execute_tuning = None,
     o_set_uhs_signaling = sdhci_set_uhs_signaling,
     o_hw_reset = None, o_adma_workaround = None, o_card_event = None, o_voltage_switch = None,
     o_adma_write_desc = None, o_copy_to_bounce_buffer = None, o_request_done = None,
     o_dump_vendor_regs = None\<rparr>"

lemma pltfm_ops_simps [simp]:
  "o_set_clock sdhci_pltfm_ops = sdhci_set_clock None" "o_reset sdhci_pltfm_ops = sdhci_reset None"
  "o_irq sdhci_pltfm_ops = None" "o_enable_dma sdhci_pltfm_ops = None"
  "o_set_timeout sdhci_pltfm_ops = None" "o_adma_workaround sdhci_pltfm_ops = None"
  "o_card_event sdhci_pltfm_ops = None" "o_adma_write_desc sdhci_pltfm_ops = None"
  "o_copy_to_bounce_buffer sdhci_pltfm_ops = None" "o_request_done sdhci_pltfm_ops = None"
  "o_dump_vendor_regs sdhci_pltfm_ops = None" "o_set_power sdhci_pltfm_ops = None"
  "o_set_bus_width sdhci_pltfm_ops = sdhci_set_bus_width"
  "o_set_uhs_signaling sdhci_pltfm_ops = sdhci_set_uhs_signaling"
  by (simp_all add: sdhci_pltfm_ops_def)

subsection \<open>Reset and clock leave the bookkeeping alone\<close>

lemma vw_dumpregs_plain [simp]: "vw (sdhci_dumpregs None w) = vw w"
  by (simp add: sdhci_dumpregs_def call_opt_def Let_def)

lemma vw_reset_wait': "reset_wait v m t w = Some w' \<Longrightarrow> v = None \<longrightarrow> vw w' = vw w"
proof (induction rule: reset_wait.raw_induct[rotated, consumes 1, case_names step])
  case (step loop v m t w w')
  show ?case
  proof
    assume v: "v = None"
    show "vw w' = vw w"
      using step(2) step(1) v by (auto simp: Let_def split_beta split: if_split_asm)
  qed
qed

lemma vw_reset: "sdhci_reset None m w = Some w' \<Longrightarrow> vw w' = vw w"
  by (auto simp: sdhci_reset_def Let_def split_beta dest!: vw_reset_wait' split: if_split_asm)

lemma vw_clk_wait': "clk_wait v t w = Some (r, w') \<Longrightarrow> v = None \<longrightarrow> vw w' = vw w"
proof (induction v t w "(r, w')" rule: clk_wait.raw_induct[rotated, consumes 1, case_names step])
  case (step loop v t w)
  show ?case
  proof
    assume v: "v = None"
    show "vw w' = vw w"
      using step(2) step(1) v by (auto simp: Let_def split_beta split: if_split_asm)
  qed
qed

lemma vw_clk_wait: "clk_wait_150 None w = Some (r, w') \<Longrightarrow> vw w' = vw w"
  by (auto simp: clk_wait_150_def Let_def split_beta dest!: vw_clk_wait')

lemma vw_enable_clk: "sdhci_enable_clk None c w = Some w' \<Longrightarrow> vw w' = vw w"
proof -
  assume "sdhci_enable_clk None c w = Some w'"
  then obtain c1 s1 w1 where
    w1: "clk_wait_150 None (emit (Wr16 SDHCI_CLOCK_CONTROL (c OR SDHCI_CLOCK_INT_EN)) w)
      = Some ((c1, s1), w1)" and
    w': "(if \<not> s1 then Some w1
     else do {
       ((clk, stable), w) \<leftarrow>
         (if h_version w1 \<ge> SDHCI_SPEC_410 \<and> h_v4_mode w1 then
            (let clk = c1 OR SDHCI_CLOCK_PLL_EN;
                 clk = clk AND NOT SDHCI_CLOCK_INT_STABLE;
                 w = sdhci_writew clk SDHCI_CLOCK_CONTROL w1
             in clk_wait_150 None w)
          else Some ((c1, True), w1));
       if \<not> stable then Some w
       else Some (sdhci_writew (clk OR SDHCI_CLOCK_CARD_EN) SDHCI_CLOCK_CONTROL w)
     }) = Some w'"
    unfolding sdhci_enable_clk_def Let_def access_simps Option.bind_eq_Some_conv by fastforce
  have v1: "vw w1 = vw w" using vw_clk_wait[OF w1] by simp
  show ?thesis
  proof (cases s1)
    case False
    then show ?thesis using v1 w' by simp
  next
    case True
    with w' obtain c2 s2 w2 where
      w2: "(if h_version w1 \<ge> SDHCI_SPEC_410 \<and> h_v4_mode w1 then
            clk_wait_150 None (emit (Wr16 SDHCI_CLOCK_CONTROL
              ((c1 OR SDHCI_CLOCK_PLL_EN) AND NOT SDHCI_CLOCK_INT_STABLE)) w1)
          else Some ((c1, True), w1)) = Some ((c2, s2), w2)" and
      w'': "w' = w2 \<or> w' = sdhci_writew (c2 OR SDHCI_CLOCK_CARD_EN) SDHCI_CLOCK_CONTROL w2"
      unfolding Let_def access_simps
      by (auto simp: Option.bind_eq_Some_conv split: if_split_asm)
    have "vw w2 = vw w1" using w2 by (auto dest: vw_clk_wait split: if_split_asm)
    then show ?thesis using v1 w'' by auto
  qed
qed

lemma vw_calc_clk [simp]: "vw (snd (sdhci_calc_clk c a w)) = vw w"
  by (simp add: sdhci_calc_clk_def calc_div_def sdhci_get_preset_value_def Let_def split_beta)

lemma vw_set_clock: "sdhci_set_clock None c w = Some w' \<Longrightarrow> vw w' = vw w"
  by (auto simp: sdhci_set_clock_def Let_def split_beta split: if_split_asm dest!: vw_enable_clk)

interpretation pltfm: host_ops sdhci_pltfm_ops
  by unfold_locales (auto intro: vw_tame dest: vw_reset vw_set_clock)

subsection \<open>Bus settings\<close>

text \<open>The contract of the operations behind \<^verbatim>\<open>set_ios\<close> and the voltage switch.\<close>

locale host_bus = host_ops +
  assumes set_power: "o_set_power ops = Some f1 \<Longrightarrow> f1 pm vdd w = Some w' \<Longrightarrow> tame w w'"
    and send_init: "o_platform_send_init_74_clocks ops = Some f2 \<Longrightarrow> tame w (f2 pm w)"
    and bus_width: "tame w (o_set_bus_width ops bw w)"
    and uhs: "tame w (o_set_uhs_signaling ops tm w)"
    and timeout_count: "o_get_max_timeout_count ops = Some f3 \<Longrightarrow> tame w (snd (f3 w))"
    and switch: "o_voltage_switch ops = Some f4 \<Longrightarrow> tame w (f4 w)"
    and get_ro: "o_get_ro ops = Some f5 \<Longrightarrow> tame w (snd (f5 w))"
    and hw_reset: "o_hw_reset ops = Some f6 \<Longrightarrow> tame w (f6 w)"
begin

lemma vw_power [simp]:
  "vw (sdhci_set_power pm vdd w) = vw w"
  by (simp add: sdhci_set_power_def sdhci_set_power_reg_def sdhci_set_power_noreg_def
      power_apply_def mmc_regulator_set_ocr_def Let_def split: option.split)

lemma vw_preset [simp]: "vw (sdhci_enable_preset_value b w) = vw w"
  "vw (snd (sdhci_get_preset_value w)) = vw w" "vw (stop_sd_clock w) = vw w"
  by (simp_all add: sdhci_enable_preset_value_def sdhci_get_preset_value_def stop_sd_clock_def Let_def)

lemma tame_ios_clock: "ios_clock ops c w = Some w' \<Longrightarrow> tame w w'"
proof -
  assume a: "ios_clock ops c w = Some w'"
  have t: "ios_timeout_clk ops w1 = Some w2 \<Longrightarrow> tame w1 w2" for w1 w2
    using timeout_count
    by (auto simp: ios_timeout_clk_def Let_def split_beta tame_def split: if_split_asm option.split_asm)
  show ?thesis
  proof (cases "c = 0 \<or> c \<noteq> h_clock w")
    case True
    with a obtain w1 where w1: "o_set_clock ops c w = Some w1"
      "ios_timeout_clk ops (w1\<lparr>h_clock := c\<rparr>) = Some w'"
      by (auto simp: ios_clock_def Option.bind_eq_Some_conv)
    have "tame w w1" by (rule set_clock[OF w1(1)])
    also have "tame w1 (w1\<lparr>h_clock := c\<rparr>)" by (simp add: tame_def)
    also have "tame \<dots> w'" by (rule t[OF w1(2)])
    finally show ?thesis .
  next
    case False
    then show ?thesis using a by (auto simp: ios_clock_def)
  qed
qed

lemma tame_ios_power:
  assumes "ios_power ops ios w = Some w'"
  shows "tame w w'"
proof -
  from assms obtain w1 where
    w1: "(case o_set_power ops of
            Some f \<Rightarrow> f (i_power_mode ios) (i_vdd ios) w
          | None \<Rightarrow> Some (sdhci_set_power (i_power_mode ios) (i_vdd ios) w)) = Some w1" and
    w': "w' = (case o_platform_send_init_74_clocks ops of
             Some f \<Rightarrow> f (i_power_mode ios) w1 | None \<Rightarrow> w1)"
    by (auto simp: ios_power_def Option.bind_eq_Some_conv)
  have "tame w w1"
  proof (cases "o_set_power ops")
    case None
    then show ?thesis using w1 by (auto intro: vw_tame)
  next
    case (Some f)
    then show ?thesis using w1 set_power by simp
  qed
  also have "tame w1 w'"
    using w' send_init by (cases "o_platform_send_init_74_clocks ops") simp_all
  finally show ?thesis .
qed

lemma tame_host_ctrl: "ios_host_ctrl ops ctrl ios w = Some w' \<Longrightarrow> tame w w'"
proof -
  assume a: "ios_host_ctrl ops ctrl ios w = Some w'"
  define wb where "wb = sdhci_writeb ctrl SDHCI_HOST_CONTROL (stop_sd_clock w)"
  have v: "vw wb = vw w" by (simp add: wb_def)
  show ?thesis
  proof (cases "h_preset_enabled w")
    case True
    then have "o_set_clock ops (h_clock wb) wb = Some w'"
      using a by (simp add: ios_host_ctrl_def Let_def wb_def)
    then show ?thesis using set_clock vw_tame_left[OF v] by blast
  next
    case False
    then show ?thesis using a by (auto simp: ios_host_ctrl_def Let_def intro!: vw_tame)
  qed
qed

lemma vw_select_preset [simp]: "vw (snd (ios_select_preset ios w)) = vw w"
  by (simp add: ios_select_preset_def Let_def split_beta)

lemma tame_v300:
  assumes "ios_v300 ops ctrl ios w = Some (ios', w')"
  shows "tame w w'"
proof -
  from assms obtain w1 where w1: "ios_host_ctrl ops ctrl ios w = Some w1"
    by (auto simp: ios_v300_def Option.bind_eq_Some_conv)
  define w2 where "w2 = o_set_uhs_signaling ops (i_timing ios) (stop_sd_clock w1)"
  define w3 where "w3 = snd (ios_select_preset ios (w2\<lparr>h_timing := i_timing ios\<rparr>))"
  have c: "o_set_clock ops (h_clock w3) w3 = Some w'"
    using assms w1
    by (auto simp: ios_v300_def Option.bind_eq_Some_conv split_beta Let_def w2_def w3_def)
  have v: "vw (stop_sd_clock w1) = vw w1" by simp
  have "tame w w1" by (rule tame_host_ctrl[OF w1])
  also have "tame w1 w2"
    using uhs[of "stop_sd_clock w1"] vw_tame_left[OF v] by (simp add: w2_def)
  also have "tame w2 w3" by (rule vw_tame) (simp add: w3_def)
  also have "tame w3 w'" by (rule set_clock[OF c])
  finally show ?thesis .
qed

lemma tame_signaling: "ios_signaling ops ios w = Some (ios', w') \<Longrightarrow> tame w w'"
  by (auto simp: ios_signaling_def Let_def vw_tame split: if_split_asm
      dest!: tame_v300)

lemma reinit_views:
  assumes "sdhci_reinit ops w = Some w'"
  shows "rq w' = rq w" "acked w' = acked w" "ier_ok w'"
proof -
  define id :: "mmc_ios \<Rightarrow> world \<Rightarrow> (mmc_ios \<times> world) option" where "id = (\<lambda>ios w. Some (ios, w))"
  from assms obtain w1 where w1: "sdhci_init ops id False w = Some w1" and
    w': "vw w' = vw (sdhci_set_card_detection True w1)"
    by (auto simp: sdhci_reinit_def Option.bind_eq_Some_conv Let_def sdhci_enable_card_detection_def
        id_def)
  from w1 obtain w2 where w2: "sdhci_do_reset ops SDHCI_RESET_ALL w = Some w2" and
    v: "w1 = (sdhci_set_default_irqs (if h_v4_mode w2 then sdhci_do_enable_v4_mode w2 else w2))
      \<lparr>h_cqe_on := False\<rparr>"
    by (auto simp: sdhci_init_def Option.bind_eq_Some_conv Let_def)
  define w3 where "w3 = (if h_v4_mode w2 then sdhci_do_enable_v4_mode w2 else w2)"
  have t: "tame w w3" using tame_do_reset[OF w2] by (simp add: w3_def)
  have i: "ier_ok (sdhci_set_default_irqs w3)" by (simp add: sdhci_set_default_irqs_def Let_def)
  have t1: "tame w3 w1" and i1: "ier_ok w1"
    using tame_ier(2)[of w3] i by (auto simp: v w3_def[symmetric] tame_def)
  have "tame w1 w'" using tame_ier(1)[of w1] vw_tame_right[OF w'] by simp
  then show "rq w' = rq w" "acked w' = acked w" "ier_ok w'"
    using t t1 i1 by (auto simp: tame_def)
qed

lemma tame_power_state:
  assumes "ios_power_state ops ios w = Some w'"
  shows "tame w w'"
proof -
  from assms obtain w1 where
    w1: "(if i_power_mode ios = MMC_POWER_OFF
          then sdhci_reinit ops (sdhci_writel 0 SDHCI_SIGNAL_ENABLE w) else Some w) = Some w1" and
    v: "vw w' = vw w1"
    by (auto simp: ios_power_state_def Option.bind_eq_Some_conv)
  have "tame w w1"
    using w1 reinit_views[of "emit (Wr32 SDHCI_SIGNAL_ENABLE 0) w" w1]
    by (auto simp: tame_def split: if_split_asm)
  then show ?thesis using vw_tame_right[OF v] by simp
qed

theorem set_ios_tame:
  assumes "sdhci_set_ios ops ios w = Some (ios', w')"
  shows "tame w w'"
proof (cases "i_power_mode ios = MMC_POWER_UNDEFINED \<or> tst (h_flags w) SDHCI_DEVICE_DEAD")
  case True
  then show ?thesis
    using assms by (auto simp: sdhci_set_ios_def mmc_regulator_set_ocr_def split: if_split_asm)
next
  case False
  with assms obtain w1 w2 w3 w4 where
    w: "ios_power_state ops ios w = Some w1" "ios_clock ops (i_clock ios) w1 = Some w2"
      "ios_power ops ios w2 = Some w3"
      "ios_signaling ops ios (o_set_bus_width ops (i_bus_width ios) w3) = Some (ios', w4)" and
    w': "(if tst (h_quirks w4) SDHCI_QUIRK_RESET_CMD_DATA_ON_IOS
      then sdhci_do_reset ops (SDHCI_RESET_CMD OR SDHCI_RESET_DATA) w4 else Some w4) = Some w'"
    unfolding sdhci_set_ios_def by (auto simp: Option.bind_eq_Some_conv Let_def)
  have "tame w w1" by (rule tame_power_state[OF w(1)])
  also have "tame w1 w2" by (rule tame_ios_clock[OF w(2)])
  also have "tame w2 w3" by (rule tame_ios_power[OF w(3)])
  also have "tame w3 (o_set_bus_width ops (i_bus_width ios) w3)" by (rule bus_width)
  also have "tame \<dots> w4" by (rule tame_signaling[OF w(4)])
  also have "tame w4 w'" using w' tame_do_reset by (auto split: if_split_asm)
  finally show ?thesis .
qed

text \<open>The voltage switch and the write protection test.\<close>

lemma vw_set_vqmmc [simp]: "vw (snd (set_vqmmc ios w)) = vw w"
  by (simp add: set_vqmmc_def mmc_regulator_set_vqmmc_def Let_def)

theorem voltage_switch_tame: "tame w (snd (sdhci_start_signal_voltage_switch ops ios w))"
proof -
  have s: "tame w1 (call_opt (o_voltage_switch ops) w1)" for w1
    using switch by (auto simp: call_opt_def split: option.split)
  have "tame w (snd (switch_330 ios c (emit (Rd16 SDHCI_HOST_CONTROL2) w)))" for c
    by (auto simp: switch_330_def Let_def split_beta intro!: vw_tame)
  moreover have "tame w (snd (switch_180 ops ios c (emit (Rd16 SDHCI_HOST_CONTROL2) w)))" for c
  proof -
    define w1 where "w1 = emit (Rd16 SDHCI_HOST_CONTROL2) w"
    define w2 where "w2 = emit (Wr16 SDHCI_HOST_CONTROL2 (c OR SDHCI_CTRL_VDD_180)) (snd (set_vqmmc ios w1))"
    have v: "vw w2 = vw w" by (simp add: w2_def w1_def)
    have "tame w (emit (Rd16 SDHCI_HOST_CONTROL2) (call_opt (o_voltage_switch ops) w2))"
      using s[of w2] by (simp add: vw_tame_left[OF v])
    then show ?thesis
      by (auto simp: switch_180_def Let_def split_beta w2_def w1_def vw_tame)
  qed
  ultimately show ?thesis
    by (auto simp: sdhci_start_signal_voltage_switch_def Let_def vw_tame
        split: mmc_signal_voltage.split)
qed

end

interpretation pltfm_bus: host_bus sdhci_pltfm_ops
  by unfold_locales
    (auto intro!: vw_tame simp: sdhci_set_bus_width_def sdhci_set_uhs_signaling_def Let_def
      sdhci_pltfm_ops_def)

end
