(* ===== verification/Of.thy ===== *)
theory Of
  imports World
begin

text \<open>
  Device properties (\<^verbatim>\<open>port/l-of.c\<close>): the port builds device tree nodes in C and reads them
  through the Linux functions.  A node is the list of its properties in the order of the linked
  list, a NULL node is \<open>None\<close>.  \<^verbatim>\<open>value\<close> and \<^verbatim>\<open>str\<close> share their storage, so reading a string
  property as a number gives its pointer; reading a number as a string dereferences the number,
  and the result is \<open>None\<close>.
\<close>

type_synonym device_node = "(string \<times> prop_val) list"

subsection \<open>Reading\<close>

definition find_property :: "device_node option \<Rightarrow> string \<Rightarrow> prop_val option" where
  "find_property np name = (case np of None \<Rightarrow> None | Some ps \<Rightarrow> map_of ps name)"

fun prop_value :: "prop_val \<Rightarrow> u64" where
  "prop_value (PropNum v) = v"
| "prop_value (PropStr p s) = p"

definition of_property_read_bool :: "device_node option \<Rightarrow> string \<Rightarrow> bool" where
  "of_property_read_bool np propname \<longleftrightarrow> find_property np propname \<noteq> None"

definition of_property_read_u32 :: "device_node option \<Rightarrow> string \<Rightarrow> errno + u32" where
  "of_property_read_u32 np propname =
     (case find_property np propname of
        None \<Rightarrow> Inl EINVAL | Some p \<Rightarrow> Inr (ucast (prop_value p)))"

definition of_property_read_u64 :: "device_node option \<Rightarrow> string \<Rightarrow> errno + u64" where
  "of_property_read_u64 np propname =
     (case find_property np propname of None \<Rightarrow> Inl EINVAL | Some p \<Rightarrow> Inr (prop_value p))"

definition device_property_present :: "world \<Rightarrow> string \<Rightarrow> bool" where
  "device_property_present w propname = of_property_read_bool (of_node w) propname"

definition device_property_read_bool :: "world \<Rightarrow> string \<Rightarrow> bool" where
  "device_property_read_bool w propname = of_property_read_bool (of_node w) propname"

definition device_property_read_u32 :: "world \<Rightarrow> string \<Rightarrow> errno + u32" where
  "device_property_read_u32 w propname = of_property_read_u32 (of_node w) propname"

text \<open>A variable read through a pointer keeps its value when the property is missing.\<close>

definition read_or :: "'a \<Rightarrow> errno + 'a \<Rightarrow> 'a" where
  "read_or old r = (case r of Inl _ \<Rightarrow> old | Inr v \<Rightarrow> v)"

text \<open>The match table: compatible strings with their data.\<close>

fun match_table :: "(string \<times> 'a) list \<Rightarrow> string \<Rightarrow> (string \<times> 'a) option" where
  "match_table [] s = None"
| "match_table (m # ms) s = (if fst m = s then Some m else match_table ms s)"

definition of_match_device ::
  "(string \<times> 'a) list \<Rightarrow> device_node option \<Rightarrow> (string \<times> 'a) option option" where
  "of_match_device matches np =
     (case find_property np ''compatible'' of
        None \<Rightarrow> Some None
      | Some (PropStr p s) \<Rightarrow> Some (match_table matches s)
      | Some (PropNum v) \<Rightarrow> if matches = [] then Some None else None)"

subsection \<open>Building a node\<close>

definition dn_pp_set_and_add_u32 :: "device_node \<Rightarrow> string \<Rightarrow> u32 \<Rightarrow> device_node" where
  "dn_pp_set_and_add_u32 dn name val = (name, PropNum (ucast val)) # dn"

definition dn_pp_set_and_add_bool :: "device_node \<Rightarrow> string \<Rightarrow> device_node" where
  "dn_pp_set_and_add_bool dn name = (name, PropNum 0) # dn"

definition dn_pp_set_and_add_string ::
  "device_node \<Rightarrow> string \<Rightarrow> u64 \<Rightarrow> string \<Rightarrow> device_node" where
  "dn_pp_set_and_add_string dn name p val = (name, PropStr p val) # dn"

subsection \<open>Reading what was built\<close>

lemma find_property_add [simp]:
  "find_property (Some ((name, v) # dn)) k = (if k = name then Some v else find_property (Some dn) k)"
  by (simp add: find_property_def)

lemma ucast_up_down: "ucast (ucast v :: u64) = (v :: u32)"
  by (rule bit_word_eqI) (auto simp: bit_simps)

lemma match_table_map_of: "match_table ms s = map_option (Pair s) (map_of ms s)"
  by (induction ms s rule: match_table.induct) auto

text \<open>A property that was added reads back: a number as its value, a flag as present, a string
  through the match table as the entry with that string; every other property reads as before,
  and of two properties with one name the last added counts.\<close>

theorem property_roundtrip:
  "of_property_read_u32 (Some (dn_pp_set_and_add_u32 dn name v)) k
     = (if k = name then Inr v else of_property_read_u32 (Some dn) k)
   \<and> (of_property_read_bool (Some (dn_pp_set_and_add_bool dn name)) k
     \<longleftrightarrow> k = name \<or> of_property_read_bool (Some dn) k)
   \<and> of_match_device ms (Some (dn_pp_set_and_add_string dn ''compatible'' p s))
     = Some (map_option (Pair s) (map_of ms s))"
  by (simp_all add: of_property_read_u32_def dn_pp_set_and_add_u32_def ucast_up_down
      of_property_read_bool_def dn_pp_set_and_add_bool_def of_match_device_def
      dn_pp_set_and_add_string_def match_table_map_of)

end
