(* ===== verification/Setup.thy ===== *)
theory Setup
  imports Ios Of
begin

text \<open>
  Setting a host up: \<^verbatim>\<open>sdhci_alloc_host\<close> \<dots> \<^verbatim>\<open>sdhci_setup_host\<close> of \<^verbatim>\<open>sdhci.c\<close>, with the
  allocation functions of \<^verbatim>\<open>port/l-dma.c\<close> and \<^verbatim>\<open>port/l-mem.c\<close> and the regulator stubs of
  \<^verbatim>\<open>port/l-regulator.c\<close>.  \<^verbatim>\<open>sdhci_setup_host\<close> is the composition of one definition per section
  of the function; \<^verbatim>\<open>ret\<close> is passed along where a later section reads it.  \<open>None\<close> is a division
  by zero or a reset that does not return.
\<close>

subsection \<open>Bit fields and flags\<close>

definition bf_shf :: "'a::len word \<Rightarrow> nat" where
  "bf_shf m = length (takeWhile (\<lambda>n. \<not> bit m n) [0..<LENGTH('a)])"

definition FIELD_GET :: "'a::len word \<Rightarrow> 'a word \<Rightarrow> 'a word" where
  "FIELD_GET m reg = drop_bit (bf_shf m) (reg AND m)"

definition FIELD_PREP :: "'a::len word \<Rightarrow> 'a word \<Rightarrow> 'a word" where
  "FIELD_PREP m v = push_bit (bf_shf m) v AND m"

definition set_flags :: "u32 \<Rightarrow> world \<Rightarrow> world" where
  "set_flags m w = w\<lparr>h_flags := h_flags w OR m\<rparr>"

definition clear_flags :: "u32 \<Rightarrow> world \<Rightarrow> world" where
  "clear_flags m w = w\<lparr>h_flags := h_flags w AND NOT m\<rparr>"

definition upd_mh :: "(mmc_host \<Rightarrow> mmc_host) \<Rightarrow> world \<Rightarrow> world" where
  "upd_mh f w = w\<lparr>mh := f (mh w)\<rparr>"

definition add_caps :: "u32 \<Rightarrow> world \<Rightarrow> world" where
  "add_caps m w = w\<lparr>m_caps := m_caps w OR m\<rparr>"

definition add_caps2 :: "u32 \<Rightarrow> world \<Rightarrow> world" where
  "add_caps2 m w = w\<lparr>m_caps2 := m_caps2 w OR m\<rparr>"

text \<open>Capabilities the port defines as 0, and those with a number of RT-Thread.\<close>

abbreviation (input) MMC_CAP_UHS_DDR50 :: u32 where "MMC_CAP_UHS_DDR50 \<equiv> 0"
abbreviation (input) MMC_CAP2_HS400 :: u32 where "MMC_CAP2_HS400 \<equiv> 0"
abbreviation (input) MMC_CAP_UHS_SDR50 :: u32 where "MMC_CAP_UHS_SDR50 \<equiv> 0"
abbreviation (input) MMC_CAP_UHS_SDR25 :: u32 where "MMC_CAP_UHS_SDR25 \<equiv> 0"
abbreviation (input) MMC_CAP_UHS_SDR12 :: u32 where "MMC_CAP_UHS_SDR12 \<equiv> 0"
abbreviation (input) MMC_CAP_UHS_SDR104 :: u32 where "MMC_CAP_UHS_SDR104 \<equiv> 0"
abbreviation (input) MMC_CAP_UHS :: u32 where "MMC_CAP_UHS \<equiv> 0"
abbreviation (input) MMC_CAP2_HSX00_1_8V :: u32 where "MMC_CAP2_HSX00_1_8V \<equiv> 0"
abbreviation (input) MMC_CAP2_HS400_ES :: u32 where "MMC_CAP2_HS400_ES \<equiv> 0"
abbreviation (input) MMC_CAP_NEEDS_POLL :: u32 where "MMC_CAP_NEEDS_POLL \<equiv> 0"
abbreviation (input) MMC_CAP2_HSX00_1_2V :: u32 where "MMC_CAP2_HSX00_1_2V \<equiv> 0"
abbreviation (input) MMC_CAP2_HS400_1_8V :: u32 where "MMC_CAP2_HS400_1_8V \<equiv> 0"
abbreviation (input) MMC_CAP_DRIVER_TYPE_A :: u32 where "MMC_CAP_DRIVER_TYPE_A \<equiv> 0"
abbreviation (input) MMC_CAP_DRIVER_TYPE_C :: u32 where "MMC_CAP_DRIVER_TYPE_C \<equiv> 0"
abbreviation (input) MMC_CAP_DRIVER_TYPE_D :: u32 where "MMC_CAP_DRIVER_TYPE_D \<equiv> 0"
abbreviation (input) MMC_CAP2_SDIO_IRQ_NOTHREAD :: u32 where "MMC_CAP2_SDIO_IRQ_NOTHREAD \<equiv> 0"
abbreviation (input) MMC_CAP_CMD23 :: u32 where "MMC_CAP_CMD23 \<equiv> 0"
abbreviation (input) MMC_CAP_SDIO_IRQ :: u32 where "MMC_CAP_SDIO_IRQ \<equiv> 0"
abbreviation (input) MMC_CAP2_CQE :: u32 where "MMC_CAP2_CQE \<equiv> 0x800000"

definition MMC_CAP_4_BIT_DATA :: "world \<Rightarrow> u32" where
  "MMC_CAP_4_BIT_DATA w = n_BUSWIDTH_4 (e_num w)"

definition MMC_CAP_SD_HIGHSPEED :: "world \<Rightarrow> u32" where
  "MMC_CAP_SD_HIGHSPEED w = n_SUP_HIGHSPEED (e_num w)"

definition MMC_CAP_MMC_HIGHSPEED :: "world \<Rightarrow> u32" where
  "MMC_CAP_MMC_HIGHSPEED w = n_SUP_HIGHSPEED (e_num w)"

definition MMC_CAP2_HS200_1_8V_SDR :: "world \<Rightarrow> u32" where
  "MMC_CAP2_HS200_1_8V_SDR w = n_SUP_HS200_1V8 (e_num w)"

definition MMC_CAP2_HS200 :: "world \<Rightarrow> u32" where
  "MMC_CAP2_HS200 w = n_SUP_HS200 (e_num w)"

definition MMC_CAP_1_8V_DDR :: "world \<Rightarrow> u32" where
  "MMC_CAP_1_8V_DDR w = n_SUP_DDR_1V8 (e_num w)"

definition MMC_CAP_3_3V_DDR :: "world \<Rightarrow> u32" where
  "MMC_CAP_3_3V_DDR w = n_SUP_DDR_3V3 (e_num w)"

definition MMC_CAP_1_2V_DDR :: "world \<Rightarrow> u32" where
  "MMC_CAP_1_2V_DDR w = n_SUP_DDR_1V2 (e_num w)"

subsection \<open>The operating system\<close>

definition dma_set_mask_and_coherent :: "u64 \<Rightarrow> world \<Rightarrow> errno option \<times> world" where
  "dma_set_mask_and_coherent m w = (None, w)"

definition DMA_BIT_MASK :: "nat \<Rightarrow> u64" where
  "DMA_BIT_MASK n = (if n = 64 then -1 else push_bit n 1 - 1)"

text \<open>Pointer 0 is NULL; the bus address is only set on success.\<close>

definition ioremap_wt :: "u64 \<Rightarrow> u64 \<Rightarrow> world \<Rightarrow> u64 \<times> world" where
  "ioremap_wt offset n w = (e_alloc w (hist w), emit (OsCall ''rt_ioremap_wt'') w)"

definition dma_alloc_coherent :: "u64 \<Rightarrow> world \<Rightarrow> (u64 \<times> u64) \<times> world" where
  "dma_alloc_coherent n w =
     (let v = e_alloc w (hist w);
          w = emit (PagesAlloc n) w
      in if v \<noteq> 0 then
           (let dma = e_v2p w v;
                (v, w) = ioremap_wt dma n w
            in ((v, dma), w))
         else ((0, 0), w))"

definition dma_free_coherent :: "u64 \<Rightarrow> u64 \<Rightarrow> u64 \<Rightarrow> world \<Rightarrow> world" where
  "dma_free_coherent n cpu_addr dma_handle = emit (FreeCoherent n cpu_addr dma_handle)"

definition devm_kmalloc :: "u64 \<Rightarrow> world \<Rightarrow> u64 \<times> world" where
  "devm_kmalloc n w = (e_alloc w (hist w), emit (Malloc n) w)"

definition dma_map_single :: "u64 \<Rightarrow> u64 \<Rightarrow> dma_data_direction \<Rightarrow> u64" where
  "dma_map_single p n dir = 0"

definition dma_mapping_error :: "u64 \<Rightarrow> errno option" where
  "dma_mapping_error addr = None"

definition swiotlb_max_segment :: u32 where
  "swiotlb_max_segment = 0"

definition regulator_is_supported_voltage :: "regulator \<Rightarrow> int \<Rightarrow> int \<Rightarrow> bool" where
  "regulator_is_supported_voltage r lo hi = False"

definition regulator_get_current_limit :: "regulator \<Rightarrow> int" where
  "regulator_get_current_limit r = 0"

definition regulator_enable :: "regulator \<Rightarrow> errno option" where
  "regulator_enable r = None"

subsection \<open>A new host\<close>

definition MAX_TUNING_LOOP :: nat where
  "MAX_TUNING_LOOP = 40"

definition SDHCI_DEFAULT_BOUNDARY_ARG :: u32 where
  "SDHCI_DEFAULT_BOUNDARY_ARG = word_of_int (sdhci_ilog2 SDHCI_DEFAULT_BOUNDARY_SIZE - 12)"

text \<open>The fields \<^verbatim>\<open>sdhci_alloc_host\<close> sets in the zeroed host.\<close>

definition sdhci_alloc_host :: "world \<Rightarrow> world" where
  "sdhci_alloc_host w =
     (let w = w\<lparr>h_flags := SDHCI_SIGNALING_330\<rparr>;
          w = w\<lparr>h_cqe_ier := SDHCI_CQE_INT_MASK, h_cqe_err_ier := SDHCI_CQE_INT_ERR_MASK\<rparr>;
          w = w\<lparr>h_tuning_delay := -1, h_tuning_loop_count := MAX_TUNING_LOOP\<rparr>;
          w = w\<lparr>h_sdma_boundary := SDHCI_DEFAULT_BOUNDARY_ARG\<rparr>
      in w\<lparr>h_adma_table_cnt := of_nat (SDHCI_MAX_SEGS * 2 + 1)\<rparr>)"

subsection \<open>Capabilities of the controller\<close>

definition sdhci_set_dma_mask :: "world \<Rightarrow> errno option \<times> world" where
  "sdhci_set_dma_mask w =
     (let ret = Some EINVAL;
          w = (if tst (h_quirks2 w) SDHCI_QUIRK2_BROKEN_64_BIT_DMA
               then clear_flags SDHCI_USE_64_BIT_DMA w else w);
          (ret, w) = (if tst (h_flags w) SDHCI_USE_64_BIT_DMA then
                        (let (ret, w) = dma_set_mask_and_coherent (DMA_BIT_MASK 64) w
                         in if ret \<noteq> None then (ret, clear_flags SDHCI_USE_64_BIT_DMA w)
                            else (ret, w))
                      else (ret, w))
      in if ret \<noteq> None then dma_set_mask_and_coherent (DMA_BIT_MASK 32) w else (ret, w))"

definition debug_quirks :: u32 where
  "debug_quirks = 0"

definition debug_quirks2 :: u32 where
  "debug_quirks2 = 0"

definition lower_32_bits :: "u64 \<Rightarrow> u32" where
  "lower_32_bits n = ucast (n AND 0xffffffff)"

definition upper_32_bits :: "u64 \<Rightarrow> u32" where
  "upper_32_bits n = ucast (drop_bit 16 (drop_bit 16 n))"

definition read_caps_begin :: "sdhci_ops \<Rightarrow> world \<Rightarrow> world option" where
  "read_caps_begin ops w = do {
     let w = w\<lparr>h_read_caps := True\<rparr>;
     let w = (if debug_quirks \<noteq> 0 then w\<lparr>h_quirks := debug_quirks\<rparr> else w);
     let w = (if debug_quirks2 \<noteq> 0 then w\<lparr>h_quirks2 := debug_quirks2\<rparr> else w);
     w \<leftarrow> sdhci_do_reset ops SDHCI_RESET_ALL w;
     Some (if h_v4_mode w then sdhci_do_enable_v4_mode w else w)
   }"

definition read_caps1 :: "u64 \<Rightarrow> u64 \<Rightarrow> u32 option \<Rightarrow> world \<Rightarrow> world" where
  "read_caps1 dt_caps_mask dt_caps caps1 w =
     (case caps1 of
        Some c \<Rightarrow> w\<lparr>h_caps1 := c\<rparr>
      | None \<Rightarrow>
          (let (c, w) = sdhci_readl SDHCI_CAPABILITIES_1 w
           in w\<lparr>h_caps1 := c AND NOT (upper_32_bits dt_caps_mask) OR upper_32_bits dt_caps\<rparr>))"

definition read_caps0 :: "u64 \<Rightarrow> u64 \<Rightarrow> u32 option \<Rightarrow> world \<Rightarrow> world" where
  "read_caps0 dt_caps_mask dt_caps caps w =
     (case caps of
        Some c \<Rightarrow> w\<lparr>h_caps := c\<rparr>
      | None \<Rightarrow>
          (let (c, w) = sdhci_readl SDHCI_CAPABILITIES w
           in w\<lparr>h_caps := c AND NOT (lower_32_bits dt_caps_mask) OR lower_32_bits dt_caps\<rparr>))"

definition raw_sdhci_read_caps ::
  "sdhci_ops \<Rightarrow> u16 option \<Rightarrow> u32 option \<Rightarrow> u32 option \<Rightarrow> world \<Rightarrow> world option" where
  "raw_sdhci_read_caps ops ver caps caps1 w =
     (if h_read_caps w then Some w
      else do {
        w \<leftarrow> read_caps_begin ops w;
        let dt_caps_mask = read_or 0 (of_property_read_u64 (of_node w) ''sdhci-caps-mask'');
        let dt_caps = read_or 0 (of_property_read_u64 (of_node w) ''sdhci-caps'');
        let (v, w) = (case ver of Some v \<Rightarrow> (v, w) | None \<Rightarrow> sdhci_readw SDHCI_HOST_VERSION w);
        let w = w\<lparr>h_version := ucast (drop_bit SDHCI_SPEC_VER_SHIFT (v AND SDHCI_SPEC_VER_MASK))\<rparr>;
        Some (if tst (h_quirks w) SDHCI_QUIRK_MISSING_CAPS then w
              else
                (let w = read_caps0 dt_caps_mask dt_caps caps w
                 in if h_version w < SDHCI_SPEC_300 then w
                    else read_caps1 dt_caps_mask dt_caps caps1 w))
      })"

definition sdhci_read_caps :: "sdhci_ops \<Rightarrow> world \<Rightarrow> world option" where
  "sdhci_read_caps ops = raw_sdhci_read_caps ops None None None"

definition sdhci_can_64bit_dma :: "world \<Rightarrow> bool" where
  "sdhci_can_64bit_dma w \<longleftrightarrow>
     (if h_version w \<ge> SDHCI_SPEC_410 \<and> h_v4_mode w
      then tst (h_caps w) SDHCI_CAN_64BIT_V4 else tst (h_caps w) SDHCI_CAN_64BIT)"

definition sdhci_allocate_bounce_buffer :: "world \<Rightarrow> world" where
  "sdhci_allocate_bounce_buffer w =
     (let bounce_size = (if max_req_size (mh w) < 65536 then max_req_size (mh w) else 65536);
          max_blocks = bounce_size div 512;
          (p, w) = devm_kmalloc (ucast bounce_size) w;
          w = w\<lparr>h_bounce_buffer := (if p = 0 then None else Some p)\<rparr>
      in if p = 0 then w
         else
           (let w = w\<lparr>h_bounce_addr := dma_map_single p (ucast bounce_size) DMA_BIDIRECTIONAL\<rparr>
            in if dma_mapping_error (h_bounce_addr w) \<noteq> None then w
               else
                 (let w = w\<lparr>h_bounce_buffer_size := bounce_size\<rparr>
                  in upd_mh (\<lambda>m. m\<lparr>max_segs := max_blocks, max_seg_size := bounce_size,
                                   max_req_size := bounce_size\<rparr>) w)))"

subsection \<open>Setting up: DMA\<close>

definition setup_supply :: "world \<Rightarrow> (errno option \<times> bool) \<times> world" where
  "setup_supply w =
     (if m_vqmmc w = NoSupply then
        (let (ret, w) = mmc_regulator_get_supply w in ((ret, True), w))
      else ((None, False), w))"

definition setup_dma_caps :: "world \<Rightarrow> world" where
  "setup_dma_caps w =
     (let w = (if tst (h_quirks w) SDHCI_QUIRK_FORCE_DMA then set_flags SDHCI_USE_SDMA w
               else if \<not> tst (h_caps w) SDHCI_CAN_DO_SDMA then w
               else set_flags SDHCI_USE_SDMA w);
          w = (if tst (h_quirks w) SDHCI_QUIRK_BROKEN_DMA \<and> tst (h_flags w) SDHCI_USE_SDMA
               then clear_flags SDHCI_USE_SDMA w else w);
          w = (if h_version w \<ge> SDHCI_SPEC_200 \<and> tst (h_caps w) SDHCI_CAN_DO_ADMA2
               then set_flags SDHCI_USE_ADMA w else w);
          w = (if tst (h_quirks w) SDHCI_QUIRK_BROKEN_ADMA \<and> tst (h_flags w) SDHCI_USE_ADMA
               then clear_flags SDHCI_USE_ADMA w else w)
      in if sdhci_can_64bit_dma w then set_flags SDHCI_USE_64_BIT_DMA w else w)"

definition sdhci_external_dma_init :: "errno option" where
  "sdhci_external_dma_init = Some EOPNOTSUPP"

definition sdhci_switch_external_dma :: "bool \<Rightarrow> world \<Rightarrow> world" where
  "sdhci_switch_external_dma en w = w\<lparr>h_use_external_dma := en\<rparr>"

text \<open>The value of \<^verbatim>\<open>ret\<close>; \<open>Some EPROBE_DEFER\<close> makes the caller give up.\<close>

definition setup_external_dma :: "errno option \<Rightarrow> world \<Rightarrow> errno option \<times> world" where
  "setup_external_dma ret w =
     (if h_use_external_dma w then
        (let ret = sdhci_external_dma_init
         in if ret = Some EPROBE_DEFER then (ret, w)
            else if ret \<noteq> None then (ret, sdhci_switch_external_dma False w)
            else (ret, clear_flags (SDHCI_USE_SDMA OR SDHCI_USE_ADMA) w))
      else (ret, w))"

definition setup_dma_mask :: "sdhci_ops \<Rightarrow> errno option \<Rightarrow> world \<Rightarrow> errno option \<times> world" where
  "setup_dma_mask ops ret w =
     (if tst (h_flags w) (SDHCI_USE_SDMA OR SDHCI_USE_ADMA) then
        (let (ret, w) = (case o_set_dma_mask ops of
                           Some f \<Rightarrow> f w | None \<Rightarrow> sdhci_set_dma_mask w);
             (ret, w) = (case (ret, o_enable_dma ops) of
                           (None, Some f) \<Rightarrow> f w | _ \<Rightarrow> (ret, w))
         in if ret \<noteq> None then (None, clear_flags (SDHCI_USE_SDMA OR SDHCI_USE_ADMA) w)
            else (ret, w))
      else (ret, w))"

definition setup_adma_buffers :: "world \<Rightarrow> world" where
  "setup_adma_buffers w =
     (if tst (h_flags w) SDHCI_USE_ADMA then
        (let w = (if \<not> tst (h_flags w) SDHCI_USE_64_BIT_DMA
                  then w\<lparr>h_alloc_desc_sz := SDHCI_ADMA2_32_DESC_SZ\<rparr>
                  else if h_alloc_desc_sz w = 0
                  then w\<lparr>h_alloc_desc_sz := (if h_v4_mode w then 16 else 12)\<rparr> else w);
             w = w\<lparr>h_desc_sz := h_alloc_desc_sz w\<rparr>;
             w = w\<lparr>h_adma_table_sz := ucast (h_adma_table_cnt w * h_desc_sz w)\<rparr>;
             w = w\<lparr>h_align_buffer_sz := of_nat SDHCI_MAX_SEGS * SDHCI_ADMA2_ALIGN\<rparr>;
             ((buf, dma), w) = dma_alloc_coherent (h_align_buffer_sz w + h_adma_table_sz w) w
         in if buf = 0 then clear_flags SDHCI_USE_ADMA w
            else if tst (dma + h_align_buffer_sz w) (SDHCI_ADMA2_DESC_ALIGN - 1) then
              (let w = clear_flags SDHCI_USE_ADMA w
               in dma_free_coherent (h_align_buffer_sz w + h_adma_table_sz w) buf dma w)
            else
              w\<lparr>h_align_buffer := Some buf, h_align_addr := dma,
                 h_adma_table := buf + h_align_buffer_sz w,
                 h_adma_addr := dma + h_align_buffer_sz w\<rparr>)
      else w)"

definition setup_dma :: "sdhci_ops \<Rightarrow> errno option \<Rightarrow> world \<Rightarrow> errno option \<times> world" where
  "setup_dma ops ret w =
     (let (ret, w) = setup_dma_mask ops ret w;
          w = (if tst (h_flags w) SDHCI_USE_64_BIT_DMA \<and> \<not> h_v4_mode w
               then clear_flags SDHCI_USE_SDMA w else w);
          w = setup_adma_buffers w
      in (ret, if tst (h_flags w) (SDHCI_USE_SDMA OR SDHCI_USE_ADMA) then w
               else w\<lparr>h_dma_mask := DMA_BIT_MASK 64\<rparr>))"

subsection \<open>Setting up: clocks\<close>

definition setup_max_clk :: "sdhci_ops \<Rightarrow> world \<Rightarrow> errno option \<times> world" where
  "setup_max_clk ops w =
     (let m = (if h_version w \<ge> SDHCI_SPEC_300 then FIELD_GET SDHCI_CLOCK_V3_BASE_MASK (h_caps w)
               else FIELD_GET SDHCI_CLOCK_BASE_MASK (h_caps w));
          w = w\<lparr>h_max_clk := m * 1000000\<rparr>
      in if h_max_clk w = 0 \<or> tst (h_quirks w) SDHCI_QUIRK_CAP_CLOCK_BASE_BROKEN then
           (case o_get_max_clock ops of
              None \<Rightarrow> (Some ENODEV, w)
            | Some f \<Rightarrow> (let (c, w) = f w in (None, w\<lparr>h_max_clk := c\<rparr>)))
         else (None, w))"

definition setup_clk_mul :: "world \<Rightarrow> world" where
  "setup_clk_mul w =
     (let m = FIELD_GET SDHCI_CLOCK_MUL_MASK (h_caps1 w)
      in w\<lparr>h_clk_mul := (if m \<noteq> 0 then m + 1 else m)\<rparr>)"

definition setup_freq :: "sdhci_ops \<Rightarrow> world \<Rightarrow> world" where
  "setup_freq ops w =
     (let max_clk = h_max_clk w;
          (max_clk, w) =
            (case o_get_min_clock ops of
               Some f \<Rightarrow> (let (c, w) = f w in (max_clk, upd_mh (\<lambda>m. m\<lparr>f_min := c\<rparr>) w))
             | None \<Rightarrow>
                 if h_version w \<ge> SDHCI_SPEC_300 then
                   ((if h_clk_mul w \<noteq> 0 then h_max_clk w * h_clk_mul w else max_clk),
                    upd_mh (\<lambda>m. m\<lparr>f_min := h_max_clk w div of_nat SDHCI_MAX_DIV_SPEC_300\<rparr>) w)
                 else
                   (max_clk,
                    upd_mh (\<lambda>m. m\<lparr>f_min := h_max_clk w div of_nat SDHCI_MAX_DIV_SPEC_200\<rparr>) w))
      in if f_max (mh w) = 0 \<or> f_max (mh w) > max_clk
         then upd_mh (\<lambda>m. m\<lparr>f_max := max_clk\<rparr>) w else w)"

definition setup_timeout_clk :: "sdhci_ops \<Rightarrow> world \<Rightarrow> errno option \<times> world" where
  "setup_timeout_clk ops w =
     (let w = w\<lparr>h_timeout_clk := FIELD_GET SDHCI_TIMEOUT_CLK_MASK (h_caps w)\<rparr>;
          w = (if tst (h_caps w) SDHCI_TIMEOUT_CLK_UNIT
               then w\<lparr>h_timeout_clk := h_timeout_clk w * 1000\<rparr> else w)
      in if h_timeout_clk w = 0 then
           (case o_get_timeout_clock ops of
              None \<Rightarrow> (Some ENODEV, w)
            | Some f \<Rightarrow>
                (let (c, w) = f w in (None, w\<lparr>h_timeout_clk := (c + 1000 - 1) div 1000\<rparr>)))
         else (None, w))"

text \<open>\<open>override\<close> is the value \<^verbatim>\<open>timeout_clk\<close> had before.\<close>

definition setup_timeout :: "sdhci_ops \<Rightarrow> u32 \<Rightarrow> world \<Rightarrow> (errno option \<times> world) option" where
  "setup_timeout ops override w =
     (let no_count = (o_get_max_timeout_count ops = None)
      in do {
        (e, w) \<leftarrow>
          (if tst (h_quirks w) SDHCI_QUIRK_DATA_TIMEOUT_USES_SDCLK then Some (None, w)
           else
             (let (e, w) = setup_timeout_clk ops w
              in if e \<noteq> None then Some (e, w)
                 else
                   (let w = (if override \<noteq> 0 then w\<lparr>h_timeout_clk := override\<rparr> else w);
                        (n, w) = (case o_get_max_timeout_count ops of
                                    Some f \<Rightarrow> f w | None \<Rightarrow> (push_bit 27 1, w))
                    in if h_timeout_clk w = 0 then None
                       else Some (None, w\<lparr>m_max_busy_timeout := n div h_timeout_clk w\<rparr>))));
        if e \<noteq> None then Some (e, w)
        else if tst (h_quirks2 w) SDHCI_QUIRK2_DISABLE_HW_TIMEOUT \<and> no_count
        then Some (None, w\<lparr>m_max_busy_timeout := 0\<rparr>)
        else Some (None, w)
      })"

subsection \<open>Setting up: capabilities of the host\<close>

definition setup_caps :: "world \<Rightarrow> world" where
  "setup_caps w =
     (let w = add_caps (MMC_CAP_SDIO_IRQ OR MMC_CAP_CMD23) w;
          w = add_caps2 MMC_CAP2_SDIO_IRQ_NOTHREAD w;
          w = (if tst (h_quirks w) SDHCI_QUIRK_MULTIBLOCK_READ_ACMD12
               then set_flags SDHCI_AUTO_CMD12 w else w);
          w = (if h_version w \<ge> SDHCI_SPEC_300
                  \<and> (tst (h_flags w) SDHCI_USE_ADMA \<or> \<not> tst (h_flags w) SDHCI_USE_SDMA \<or> h_v4_mode w)
                  \<and> \<not> tst (h_quirks2 w) SDHCI_QUIRK2_ACMD23_BROKEN
               then set_flags SDHCI_AUTO_CMD23 w else w);
          w = (if \<not> tst (h_quirks w) SDHCI_QUIRK_FORCE_1_BIT_DATA
               then add_caps (MMC_CAP_4_BIT_DATA w) w else w);
          w = (if tst (h_quirks2 w) SDHCI_QUIRK2_HOST_NO_CMD23
               then w\<lparr>m_caps := m_caps w AND NOT MMC_CAP_CMD23\<rparr> else w);
          w = (if tst (h_caps w) SDHCI_CAN_DO_HISPD
               then add_caps (MMC_CAP_SD_HIGHSPEED w OR MMC_CAP_MMC_HIGHSPEED w) w else w)
      in if tst (h_quirks w) SDHCI_QUIRK_BROKEN_CARD_DETECTION \<and> mmc_card_is_removable w
            \<and> (case mmc_gpio_get_cd of Inl _ \<Rightarrow> True | Inr _ \<Rightarrow> False)
         then add_caps MMC_CAP_NEEDS_POLL w else w)"

definition UHS_SUPPORT :: u32 where
  "UHS_SUPPORT = SDHCI_SUPPORT_SDR104 OR SDHCI_SUPPORT_SDR50 OR SDHCI_SUPPORT_DDR50"

definition setup_vqmmc :: "bool \<Rightarrow> errno option \<Rightarrow> world \<Rightarrow> errno option \<times> world" where
  "setup_vqmmc enable_vqmmc ret w =
     (if IS_ERR_supply (m_vqmmc w) then (ret, w)
      else
        (let (ret, w) =
               (if enable_vqmmc then
                  (let ret = regulator_enable (m_vqmmc w)
                   in (ret, w\<lparr>h_sdhci_core_to_disable_vqmmc := (ret = None)\<rparr>))
                else (ret, w));
             w = (if \<not> regulator_is_supported_voltage (m_vqmmc w) 1700000 1950000
                  then w\<lparr>h_caps1 := h_caps1 w AND NOT UHS_SUPPORT\<rparr> else w);
             w = (if \<not> regulator_is_supported_voltage (m_vqmmc w) 2700000 3600000
                  then clear_flags SDHCI_SIGNALING_330 w else w)
         in (ret, if ret \<noteq> None then w\<lparr>m_vqmmc := ErrSupply EINVAL\<rparr> else w)))"

definition setup_no_1_8_v :: "world \<Rightarrow> world" where
  "setup_no_1_8_v w =
     (if tst (h_quirks2 w) SDHCI_QUIRK2_NO_1_8_V then
        (let w = w\<lparr>h_caps1 := h_caps1 w AND NOT UHS_SUPPORT\<rparr>;
             w = w\<lparr>m_caps2 := m_caps2 w AND NOT (MMC_CAP2_HSX00_1_8V OR MMC_CAP2_HS400_ES)\<rparr>
         in w\<lparr>m_caps := m_caps w AND NOT (MMC_CAP_1_8V_DDR w OR MMC_CAP_UHS)\<rparr>)
      else w)"

definition setup_uhs :: "world \<Rightarrow> world" where
  "setup_uhs w =
     (let w = (if tst (h_caps1 w) UHS_SUPPORT
               then add_caps (MMC_CAP_UHS_SDR12 OR MMC_CAP_UHS_SDR25) w else w);
          w = (if tst (h_caps1 w) SDHCI_SUPPORT_SDR104 then
                 (let w = add_caps (MMC_CAP_UHS_SDR104 OR MMC_CAP_UHS_SDR50) w
                  in if \<not> tst (h_quirks2 w) SDHCI_QUIRK2_BROKEN_HS200
                     then add_caps2 (MMC_CAP2_HS200 w) w else w)
               else if tst (h_caps1 w) SDHCI_SUPPORT_SDR50
               then add_caps MMC_CAP_UHS_SDR50 w else w);
          w = (if tst (h_quirks2 w) SDHCI_QUIRK2_CAPS_BIT63_FOR_HS400
                  \<and> tst (h_caps1 w) SDHCI_SUPPORT_HS400
               then add_caps2 MMC_CAP2_HS400 w else w);
          w = (if tst (m_caps2 w) MMC_CAP2_HSX00_1_2V
                  \<and> (IS_ERR_supply (m_vqmmc w)
                     \<or> \<not> regulator_is_supported_voltage (m_vqmmc w) 1100000 1300000)
               then w\<lparr>m_caps2 := m_caps2 w AND NOT MMC_CAP2_HSX00_1_2V\<rparr> else w);
          w = (if tst (h_caps1 w) SDHCI_SUPPORT_DDR50
                  \<and> \<not> tst (h_quirks2 w) SDHCI_QUIRK2_BROKEN_DDR50
               then add_caps MMC_CAP_UHS_DDR50 w else w)
      in if tst (h_caps1 w) SDHCI_USE_SDR50_TUNING
         then set_flags SDHCI_SDR50_NEEDS_TUNING w else w)"

definition setup_drivers_tuning :: "world \<Rightarrow> world" where
  "setup_drivers_tuning w =
     (let w = (if tst (h_caps1 w) SDHCI_DRIVER_TYPE_A then add_caps MMC_CAP_DRIVER_TYPE_A w else w);
          w = (if tst (h_caps1 w) SDHCI_DRIVER_TYPE_C then add_caps MMC_CAP_DRIVER_TYPE_C w else w);
          w = (if tst (h_caps1 w) SDHCI_DRIVER_TYPE_D then add_caps MMC_CAP_DRIVER_TYPE_D w else w);
          c = FIELD_GET SDHCI_RETUNING_TIMER_COUNT_MASK (h_caps1 w);
          w = w\<lparr>h_tuning_count := (if c \<noteq> 0 then push_bit (unat (c - 1)) 1 else c)\<rparr>
      in w\<lparr>h_tuning_mode := FIELD_GET SDHCI_RETUNING_MODE_MASK (h_caps1 w)\<rparr>)"

subsection \<open>Setting up: voltage and current\<close>

definition max_current :: "world \<Rightarrow> u32 \<times> world" where
  "max_current w =
     (let (max_current_caps, w) = sdhci_readl SDHCI_MAX_CURRENT w
      in if max_current_caps = 0 \<and> \<not> IS_ERR_supply (m_vmmc w) then
           (let curr = regulator_get_current_limit (m_vmmc w)
            in if curr > 0 then
                 (let curr = curr div 1000;
                      curr = curr div uint (SDHCI_MAX_CURRENT_MULTIPLIER :: u32);
                      curr = min (word_of_int curr) (SDHCI_MAX_CURRENT_LIMIT :: u32)
                  in (FIELD_PREP SDHCI_MAX_CURRENT_330_MASK curr
                      OR FIELD_PREP SDHCI_MAX_CURRENT_300_MASK curr
                      OR FIELD_PREP SDHCI_MAX_CURRENT_180_MASK curr, w))
               else (max_current_caps, w))
         else (max_current_caps, w))"

definition setup_vdd :: "u32 \<Rightarrow> world \<Rightarrow> u32 \<times> world" where
  "setup_vdd cur w =
     (let ocr = 0;
          (ocr, w) = (if tst (h_caps w) SDHCI_CAN_VDD_330
             then (ocr OR MMC_VDD_32_33 OR MMC_VDD_33_34,
                   upd_mh (\<lambda>m. m\<lparr>max_current_330 :=
                     FIELD_GET SDHCI_MAX_CURRENT_330_MASK cur * SDHCI_MAX_CURRENT_MULTIPLIER\<rparr>) w)
             else (ocr, w));
          (ocr, w) = (if tst (h_caps w) SDHCI_CAN_VDD_300
             then (ocr OR MMC_VDD_29_30 OR MMC_VDD_30_31,
                   upd_mh (\<lambda>m. m\<lparr>max_current_300 :=
                     FIELD_GET SDHCI_MAX_CURRENT_300_MASK cur * SDHCI_MAX_CURRENT_MULTIPLIER\<rparr>) w)
             else (ocr, w))
      in if tst (h_caps w) SDHCI_CAN_VDD_180
         then (ocr OR MMC_VDD_165_195,
               upd_mh (\<lambda>m. m\<lparr>max_current_180 :=
                 FIELD_GET SDHCI_MAX_CURRENT_180_MASK cur * SDHCI_MAX_CURRENT_MULTIPLIER\<rparr>) w)
         else (ocr, w))"

definition setup_ocr :: "world \<Rightarrow> errno option \<times> world" where
  "setup_ocr w =
     (let (cur, w) = max_current w;
          (ocr, w) = setup_vdd cur w;
          ocr = (if h_ocr_mask w \<noteq> 0 then h_ocr_mask w else ocr);
          ocr = (if ocr_avail (mh w) \<noteq> 0 then ocr_avail (mh w) else ocr);
          w = upd_mh (\<lambda>m. m\<lparr>
                ocr_avail := ocr,
                ocr_avail_sdio := (if h_ocr_avail_sdio w \<noteq> 0 then ocr AND h_ocr_avail_sdio w else ocr),
                ocr_avail_sd := (if h_ocr_avail_sd w \<noteq> 0 then ocr AND h_ocr_avail_sd w
                                 else ocr AND NOT MMC_VDD_165_195),
                ocr_avail_mmc := (if h_ocr_avail_mmc w \<noteq> 0 then ocr AND h_ocr_avail_mmc w else ocr)\<rparr>) w
      in (if ocr = 0 then Some ENODEV else None, w))"

definition setup_signaling :: "world \<Rightarrow> world" where
  "setup_signaling w =
     (let w = (if tst (m_caps w) (MMC_CAP_UHS_SDR12 OR MMC_CAP_UHS_SDR25 OR MMC_CAP_UHS_SDR50
                       OR MMC_CAP_UHS_SDR104 OR MMC_CAP_UHS_DDR50 OR MMC_CAP_1_8V_DDR w)
                  \<or> tst (m_caps2 w) (MMC_CAP2_HS200_1_8V_SDR w OR MMC_CAP2_HS400_1_8V)
               then set_flags SDHCI_SIGNALING_180 w else w)
      in if tst (m_caps2 w) MMC_CAP2_HSX00_1_2V then set_flags SDHCI_SIGNALING_120 w else w)"

subsection \<open>Setting up: sizes\<close>

definition IO_TLB_SHIFT :: nat where
  "IO_TLB_SHIFT = 11"

definition IO_TLB_SEGSIZE :: u32 where
  "IO_TLB_SEGSIZE = 128"

definition setup_segs :: "world \<Rightarrow> world" where
  "setup_segs w =
     (let w = upd_mh (\<lambda>m. m\<lparr>max_req_size := 524288\<rparr>) w
      in if tst (h_flags w) SDHCI_USE_ADMA
         then upd_mh (\<lambda>m. m\<lparr>max_segs := of_nat SDHCI_MAX_SEGS\<rparr>) w
         else if tst (h_flags w) SDHCI_USE_SDMA then
           (let w = upd_mh (\<lambda>m. m\<lparr>max_segs := 1\<rparr>) w
            in if swiotlb_max_segment \<noteq> 0
               then upd_mh (\<lambda>m. m\<lparr>max_req_size :=
                      min (max_req_size m) (push_bit IO_TLB_SHIFT 1 * IO_TLB_SEGSIZE)\<rparr>) w
               else w)
         else upd_mh (\<lambda>m. m\<lparr>max_segs := of_nat SDHCI_MAX_SEGS\<rparr>) w)"

definition setup_sizes :: "world \<Rightarrow> world" where
  "setup_sizes w =
     (let w = upd_mh (\<lambda>m. m\<lparr>max_seg_size :=
                (if tst (h_flags w) SDHCI_USE_ADMA then
                   (if tst (h_quirks w) SDHCI_QUIRK_BROKEN_ADMA_ZEROLEN_DESC then 65535 else 65536)
                 else max_req_size m)\<rparr>) w;
          blk = (if tst (h_quirks w) SDHCI_QUIRK_FORCE_BLK_SZ_2048 then 2
                 else (let b = drop_bit SDHCI_MAX_BLOCK_SHIFT (h_caps w AND SDHCI_MAX_BLOCK_MASK)
                       in if b \<ge> 3 then 0 else b));
          w = w\<lparr>m_max_blk_size := push_bit (unat blk) 512\<rparr>;
          w = upd_mh (\<lambda>m. m\<lparr>max_blk_count :=
                (if tst (h_quirks w) SDHCI_QUIRK_NO_MULTIBLOCK then 1 else 65535)\<rparr>) w
      in if max_segs (mh w) = 1 then sdhci_allocate_bounce_buffer w else w)"

subsection \<open>The whole set-up, and taking it back\<close>

definition regulator_disable :: "world \<Rightarrow> world" where
  "regulator_disable w = w"

definition free_adma_buffers :: "world \<Rightarrow> world" where
  "free_adma_buffers w =
     (case h_align_buffer w of
        Some buf \<Rightarrow>
          dma_free_coherent (h_align_buffer_sz w + h_adma_table_sz w) buf (h_align_addr w) w
      | None \<Rightarrow> w)"

definition setup_undma :: "world \<Rightarrow> world" where
  "setup_undma w = (free_adma_buffers w)\<lparr>h_adma_table := 0, h_align_buffer := None\<rparr>"

definition setup_unreg :: "world \<Rightarrow> world" where
  "setup_unreg w =
     setup_undma (if h_sdhci_core_to_disable_vqmmc w then regulator_disable w else w)"

definition setup_finish :: "world \<Rightarrow> errno option \<times> world" where
  "setup_finish w =
     (let w = setup_drivers_tuning (setup_uhs (setup_no_1_8_v w));
          (e, w) = setup_ocr w
      in if e \<noteq> None then (e, setup_unreg w)
         else (None, setup_sizes (setup_segs (setup_signaling w))))"

definition setup_host_dma :: "sdhci_ops \<Rightarrow> bool \<Rightarrow> errno option \<Rightarrow> u32 \<Rightarrow> world
    \<Rightarrow> (errno option \<times> world) option" where
  "setup_host_dma ops enable_vqmmc ret override w =
     (let (ret, w) = setup_dma ops ret w;
          (e, w) = setup_max_clk ops w
      in if e \<noteq> None then Some (e, setup_undma w)
         else
           (let w = setup_freq ops (setup_clk_mul w)
            in do {
              (e, w) \<leftarrow> setup_timeout ops override w;
              if e \<noteq> None then Some (e, setup_undma w)
              else
                (let w = setup_caps w;
                     (ret, w) = setup_vqmmc enable_vqmmc ret w
                 in Some (setup_finish w))
            }))"

definition sdhci_setup_host :: "sdhci_ops \<Rightarrow> world \<Rightarrow> (errno option \<times> world) option" where
  "sdhci_setup_host ops w =
     (let ((ret, enable_vqmmc), w) = setup_supply w
      in if ret \<noteq> None then Some (ret, w)
         else do {
           w \<leftarrow> sdhci_read_caps ops w;
           let override = h_timeout_clk w;
           let w = setup_dma_caps w;
           let (ret, w) = setup_external_dma ret w;
           if ret = Some EPROBE_DEFER then Some (ret, setup_unreg w)
           else setup_host_dma ops enable_vqmmc ret override w
         })"

definition sdhci_external_dma_release :: "world \<Rightarrow> world" where
  "sdhci_external_dma_release w = w"

definition sdhci_cleanup_host :: "world \<Rightarrow> world" where
  "sdhci_cleanup_host w =
     (let w = (if h_sdhci_core_to_disable_vqmmc w then regulator_disable w else w);
          w = free_adma_buffers w;
          w = (if h_use_external_dma w then sdhci_external_dma_release w else w)
      in w\<lparr>h_adma_table := 0, h_align_buffer := None\<rparr>)"

end
