(* ===== verification/MmcPort.thy ===== *)
theory MmcPort
  imports Complete Setup
begin

text \<open>
  The port's MMC layer (\<^verbatim>\<open>port/l-mmc.c\<close>): it turns RT-Thread requests into the requests of the
  driver, makes the scatter list of their buffer, reads the capabilities of a board and sends
  the tuning block.  What RT-Thread does with a request (\<^verbatim>\<open>mmcsd_send_request\<close>) and the numbers
  of its response types are parameters.
\<close>

subsection \<open>The scatter list of a buffer\<close>

definition SZ_64K :: u32 where
  "SZ_64K = 0x10000"

definition SDHCI_CPU_CACHELINE_SIZE :: "'a::len word" where
  "SDHCI_CPU_CACHELINE_SIZE = 64"

text \<open>\<open>n\<close> rounds from entry \<open>i\<close> on.\<close>

fun sg_fill :: "nat \<Rightarrow> nat \<Rightarrow> u64 \<Rightarrow> u32 \<Rightarrow> scatterlist list \<Rightarrow> scatterlist list" where
  "sg_fill i 0 buf len sgl = sgl"
| "sg_fill i (Suc n) buf len sgl =
     (let l = (if len > SZ_64K then SZ_64K else len)
      in sg_fill (Suc i) n (buf + ucast l) (len - l) (sgl[i := sg_set_buf buf l (sgl ! i)]))"

definition needs_copy :: "scatterlist \<Rightarrow> bool" where
  "needs_copy s \<longleftrightarrow> sg_length s < SDHCI_CPU_CACHELINE_SIZE
     \<or> tst (sg_virt s) (SDHCI_CPU_CACHELINE_SIZE - 1)"

definition rt_malloc_align :: "u64 \<Rightarrow> u64 \<Rightarrow> world \<Rightarrow> u64 \<times> world" where
  "rt_malloc_align n align w = (e_alloc w (hist w), emit (MallocAlign n align) w)"

text \<open>The entry gets a buffer of its own; \<open>None\<close> when there is no memory.\<close>

definition copy_size :: "u32 \<Rightarrow> u32" where
  "copy_size len =
     (len + SDHCI_CPU_CACHELINE_SIZE - 1) div SDHCI_CPU_CACHELINE_SIZE * SDHCI_CPU_CACHELINE_SIZE"

definition sg_take_copy :: "scatterlist \<Rightarrow> world \<Rightarrow> scatterlist option \<times> world" where
  "sg_take_copy s w =
     (let (ptr, w) = rt_malloc_align (ucast (copy_size (sg_length s))) SDHCI_CPU_CACHELINE_SIZE w
      in if ptr = 0 then (None, w)
         else
           (let s' = sg_set_buf ptr (sg_length s) s
            in (Some (s'\<lparr>sg_old_addr := sg_virt s, sg_flags := sg_flags s' OR SG_REA\<rparr>), w)))"

text \<open>The loop from entry \<open>i\<close> on; the result tells whether every allocation succeeded.\<close>

fun map_sg_loop :: "nat \<Rightarrow> nat \<Rightarrow> world \<Rightarrow> (bool \<times> world) option" where
  "map_sg_loop i 0 w = Some (True, w)"
| "map_sg_loop i (Suc n) w =
     (if i < length (m_sg w) then
        (if needs_copy (m_sg w ! i) then
           (let (s, w) = sg_take_copy (m_sg w ! i) w
            in case s of
                 None \<Rightarrow> Some (False, w)
               | Some s \<Rightarrow> map_sg_loop (Suc i) n (w\<lparr>m_sg := (m_sg w)[i := s]\<rparr>))
         else map_sg_loop (Suc i) n w)
      else None)"

fun unmap_sg_loop :: "nat \<Rightarrow> nat \<Rightarrow> world \<Rightarrow> world option" where
  "unmap_sg_loop i 0 w = Some w"
| "unmap_sg_loop i (Suc n) w =
     (if i < length (m_sg w) then
        unmap_sg_loop (Suc i) n
          (if tst (sg_flags (m_sg w ! i)) SG_REA then rt_free_align (sg_virt (m_sg w ! i)) w else w)
      else None)"

definition map_sg :: "nat \<Rightarrow> bool \<Rightarrow> world \<Rightarrow> (errno option \<times> world) option" where
  "map_sg nents read w =
     (if read then do {
        (ok, w) \<leftarrow> map_sg_loop 0 nents w;
        if ok then Some (None, w)
        else do { w \<leftarrow> unmap_sg_loop 0 nents w; Some (Some ENOMEM, w) }
      } else Some (None, w))"

definition sg_init :: "datap \<Rightarrow> world \<Rightarrow> (errno option \<times> world) option" where
  "sg_init dp w =
     (let len = d_blocks (datas w dp) * d_blksz (datas w dp);
          w = upd_data dp (\<lambda>d. d\<lparr>d_sg_len := (len + (SZ_64K - 1)) div SZ_64K\<rparr>) w;
          n = unat (d_sg_len (datas w dp))
      in do {
        w \<leftarrow> BUG_ON (n > 8) w;
        sgl \<leftarrow> sg_init_table n (m_sg w);
        map_sg n (d_read (datas w dp))
          (w\<lparr>m_sg := sg_fill 0 n (d_buf (datas w dp)) len sgl\<rparr>)
      })"

subsection \<open>Requests\<close>

text \<open>The response types of RT-Thread: a mask of the command flags and its values.\<close>

record resp_numbers =
  RESP_MASK :: u32
  RESP_NONE :: u32
  RESP_R1 :: u32
  RESP_R1B :: u32
  RESP_R2 :: u32
  RESP_R3 :: u32
  RESP_R4 :: u32
  RESP_R5 :: u32
  RESP_R6 :: u32
  RESP_R7 :: u32

definition response_flags :: "resp_numbers \<Rightarrow> u32 \<Rightarrow> u32" where
  "response_flags n flags =
     (let r = flags AND RESP_MASK n
      in if r = RESP_NONE n then flags OR MMC_RSP_NONE
         else if r = RESP_R1 n then flags OR MMC_RSP_R1
         else if r = RESP_R1B n then flags OR MMC_RSP_R1B
         else if r = RESP_R2 n then flags OR MMC_RSP_R2
         else if r = RESP_R3 n then flags OR MMC_RSP_R3
         else if r = RESP_R4 n then flags OR MMC_RSP_R4
         else if r = RESP_R5 n then flags OR MMC_RSP_R5
         else if r = RESP_R6 n then flags OR MMC_RSP_R6
         else if r = RESP_R7 n then flags OR MMC_RSP_R7
         else flags)"

text \<open>\<open>request\<close> is \<^verbatim>\<open>mmc->ops->request\<close>, which is \<^verbatim>\<open>sdhci_request\<close>.\<close>

definition port_mmc_request ::
  "resp_numbers \<Rightarrow> (mrqp \<Rightarrow> world \<Rightarrow> world option) \<Rightarrow> mrqp \<Rightarrow> world \<Rightarrow> world option" where
  "port_mmc_request n request mrq w =
     (let cp = q_cmd (mrqs w mrq);
          flags = response_flags n (c_flags (cmds w cp))
      in do {
        (e, w) \<leftarrow> (case q_data (mrqs w mrq) of
                     None \<Rightarrow> Some (None, w)
                   | Some dp \<Rightarrow> do {
                       (e, w) \<leftarrow> sg_init dp w;
                       Some (e, upd_data dp (\<lambda>d. d\<lparr>d_error := e\<rparr>) w)
                     });
        if e \<noteq> None then Some (mmc_request_done mrq w)
        else request mrq (upd_cmd cp (\<lambda>c. c\<lparr>c_flags := c_flags c OR flags\<rparr>) w)
      })"

definition port_set_iocfg :: "sdhci_ops \<Rightarrow> mmc_ios \<Rightarrow> world \<Rightarrow> (mmc_ios \<times> world) option" where
  "port_set_iocfg ops iocfg w = sdhci_set_ios ops iocfg w"

subsection \<open>Hosts\<close>

text \<open>Everything but the device and the environment is zeroed.\<close>

definition zeroed_host :: "world \<Rightarrow> world" where
  "zeroed_host w =
     blank_world\<lparr>of_node := of_node w, m_dev_name := m_dev_name w, cmds := cmds w,
       datas := datas w, mrqs := mrqs w, mem := mem w, hist := hist w, e_rd := e_rd w,
       e_tick := e_tick w, e_alloc := e_alloc w, e_v2p := e_v2p w, e_HZ := e_HZ w,
       e_CAP_NONREMOVABLE := e_CAP_NONREMOVABLE w, e_CAP_8_BIT_DATA := e_CAP_8_BIT_DATA w,
       e_CMD_ADTC := e_CMD_ADTC w, e_num := e_num w, e_io := e_io w\<rparr>"

definition mmc_alloc_host :: "world \<Rightarrow> bool \<times> world" where
  "mmc_alloc_host w =
     (let p = e_alloc w (hist w);
          w = emit (OsCall ''rt_malloc'') w
      in if p \<noteq> 0 then (True, emit (OsCall ''mmcsd_host_init'') (zeroed_host w)) else (False, w))"

definition mmc_add_host :: "world \<Rightarrow> errno option \<times> world" where
  "mmc_add_host w =
     (let w = upd_mh (\<lambda>m. m\<lparr>rmh_flags := m_caps w,
                rmh_valid_ocr := MMC_VDD_165_195 OR MMC_VDD_30_31 OR MMC_VDD_32_33,
                f_min := 400000\<rparr>) w;
          w = (if device_property_present w ''no-1-8-v''
               then upd_mh (\<lambda>m. m\<lparr>rmh_valid_ocr := rmh_valid_ocr m AND NOT MMC_VDD_165_195\<rparr>) w
               else w);
          w = upd_mh (\<lambda>m. m\<lparr>rmh_name :=
                take (n_NAME_LEN (e_num w))
                  (if length (m_dev_name w) > 0 then m_dev_name w else ''mmc'')\<rparr>) w;
          w = upd_mh (\<lambda>m. m\<lparr>max_seg_size := SZ_64K, max_segs := 8\<rparr>) w
      in (None, emit (OsCall ''mmcsd_change'') w))"

text \<open>\<open>cap_prop name m w\<close>: set the bits when the board has the property.\<close>

definition cap_prop :: "string \<Rightarrow> u32 \<Rightarrow> world \<Rightarrow> world" where
  "cap_prop name m w = (if device_property_read_bool w name then add_caps m w else w)"

definition cap2_prop :: "string \<Rightarrow> u32 \<Rightarrow> world \<Rightarrow> world" where
  "cap2_prop name m w = (if device_property_read_bool w name then add_caps2 m w else w)"

abbreviation (input) MMC_CAP2_NO_SDIO :: u32 where "MMC_CAP2_NO_SDIO \<equiv> 0x80000"
abbreviation (input) MMC_CAP2_NO_SD :: u32 where "MMC_CAP2_NO_SD \<equiv> 0x200000"

definition parse_caps :: "world \<Rightarrow> world" where
  "parse_caps w =
     (let w = upd_mh (\<lambda>m. m\<lparr>f_max := read_or (f_max m) (device_property_read_u32 w ''max-frequency'')\<rparr>) w;
          w = cap_prop ''cap-sd-highspeed'' (MMC_CAP_SD_HIGHSPEED w) w;
          w = cap_prop ''cap-mmc-highspeed'' (MMC_CAP_MMC_HIGHSPEED w) w;
          w = cap_prop ''mmc-hs200-1_8v'' (MMC_CAP2_HS200_1_8V_SDR w) w;
          w = cap_prop ''sd-uhs-sdr50'' MMC_CAP_UHS_SDR50 w;
          w = cap_prop ''non-removable'' (e_CAP_NONREMOVABLE w) w;
          w = cap2_prop ''no-sdio'' MMC_CAP2_NO_SDIO w;
          w = cap2_prop ''no-sd'' MMC_CAP2_NO_SD w;
          w = cap_prop ''mmc-ddr-3_3v'' (MMC_CAP_3_3V_DDR w) w;
          w = cap_prop ''mmc-ddr-1_8v'' (MMC_CAP_1_8V_DDR w) w
      in cap_prop ''mmc-ddr-1_2v'' (MMC_CAP_1_2V_DDR w) w)"

definition mmc_of_parse :: "world \<Rightarrow> errno option \<times> world" where
  "mmc_of_parse w =
     (if of_node w = None then (None, w)
      else
        (let bus_width = read_or 1 (device_property_read_u32 w ''bus-width'')
         in if bus_width = 8
            then (None, parse_caps (add_caps (MMC_CAP_4_BIT_DATA w)
                                      (add_caps (e_CAP_8_BIT_DATA w) w)))
            else if bus_width = 4 then (None, parse_caps (add_caps (MMC_CAP_4_BIT_DATA w) w))
            else if bus_width = 1 then (None, parse_caps w)
            else (Some EINVAL, w)))"

subsection \<open>The tuning block\<close>

definition tuning_blk_pattern_4bit :: "u8 list" where
  "tuning_blk_pattern_4bit =
    [0xff, 0x0f, 0xff, 0x00, 0xff, 0xcc, 0xc3, 0xcc, 0xc3, 0x3c, 0xcc, 0xff,
     0xfe, 0xff, 0xfe, 0xef, 0xff, 0xdf, 0xff, 0xdd, 0xff, 0xfb, 0xff, 0xfb,
     0xbf, 0xff, 0x7f, 0xff, 0x77, 0xf7, 0xbd, 0xef, 0xff, 0xf0, 0xff, 0xf0,
     0x0f, 0xfc, 0xcc, 0x3c, 0xcc, 0x33, 0xcc, 0xcf, 0xff, 0xef, 0xff, 0xee,
     0xff, 0xfd, 0xff, 0xfd, 0xdf, 0xff, 0xbf, 0xff, 0xbb, 0xff, 0xf7, 0xff,
     0xf7, 0x7f, 0x7b, 0xde]"

definition tuning_blk_pattern_8bit :: "u8 list" where
  "tuning_blk_pattern_8bit =
    [0xff, 0xff, 0x00, 0xff, 0xff, 0xff, 0x00, 0x00, 0xff, 0xff, 0xcc, 0xcc,
     0xcc, 0x33, 0xcc, 0xcc, 0xcc, 0x33, 0x33, 0xcc, 0xcc, 0xcc, 0xff, 0xff,
     0xff, 0xee, 0xff, 0xff, 0xff, 0xee, 0xee, 0xff, 0xff, 0xff, 0xdd, 0xff,
     0xff, 0xff, 0xdd, 0xdd, 0xff, 0xff, 0xff, 0xbb, 0xff, 0xff, 0xff, 0xbb,
     0xbb, 0xff, 0xff, 0xff, 0x77, 0xff, 0xff, 0xff, 0x77, 0x77, 0xff, 0x77,
     0xbb, 0xdd, 0xee, 0xff, 0xff, 0xff, 0xff, 0x00, 0xff, 0xff, 0xff, 0x00,
     0x00, 0xff, 0xff, 0xcc, 0xcc, 0xcc, 0x33, 0xcc, 0xcc, 0xcc, 0x33, 0x33,
     0xcc, 0xcc, 0xcc, 0xff, 0xff, 0xff, 0xee, 0xff, 0xff, 0xff, 0xee, 0xee,
     0xff, 0xff, 0xff, 0xdd, 0xff, 0xff, 0xff, 0xdd, 0xdd, 0xff, 0xff, 0xff,
     0xbb, 0xff, 0xff, 0xff, 0xbb, 0xbb, 0xff, 0xff, 0xff, 0x77, 0xff, 0xff,
     0xff, 0x77, 0x77, 0xff, 0x77, 0xbb, 0xdd, 0xee]"

text \<open>What RT-Thread is asked to send, and what comes back: the errors of command and data and
  the contents of the zeroed buffer.\<close>

record tuning_request =
  t_opcode :: u32
  t_flags :: u32
  t_blksz :: u32
  t_blocks :: u32
  t_buf :: u64
  t_timeout_ns :: u32

record tuning_reply =
  r_cmd_error :: "errno option"
  r_data_error :: "errno option"
  r_data :: "u8 list"

definition tuning_pattern :: "mmc_bus_width \<Rightarrow> u8 list option" where
  "tuning_pattern width =
     (case width of
        MMC_BUS_WIDTH_8 \<Rightarrow> Some tuning_blk_pattern_8bit
      | MMC_BUS_WIDTH_4 \<Rightarrow> Some tuning_blk_pattern_4bit
      | MMC_BUS_WIDTH_1 \<Rightarrow> None)"

definition tuning_error :: "u8 list \<Rightarrow> tuning_reply \<Rightarrow> errno option" where
  "tuning_error pattern r =
     (case r_cmd_error r of
        Some e \<Rightarrow> Some e
      | None \<Rightarrow>
          (case r_data_error r of
             Some e \<Rightarrow> Some e
           | None \<Rightarrow> if r_data r \<noteq> pattern then Some EIO else None))"

text \<open>\<open>width\<close> is the bus width in RT-Thread's \<^verbatim>\<open>io_cfg\<close>; the result also has the error for
  \<^verbatim>\<open>*cmd_error\<close>, \<open>None\<close> when it is not written.\<close>

definition mmc_send_tuning ::
  "(tuning_request \<Rightarrow> world \<Rightarrow> (tuning_reply \<times> world) option) \<Rightarrow> mmc_bus_width \<Rightarrow> u32 \<Rightarrow> world
    \<Rightarrow> ((errno option \<times> errno option option) \<times> world) option" where
  "mmc_send_tuning send width opcode w =
     (case tuning_pattern width of
        None \<Rightarrow> Some ((Some EINVAL, None), w)
      | Some pattern \<Rightarrow>
          (let n = length pattern;
               p = e_alloc w (hist w);
               w = emit (Malloc (of_nat n)) w
           in if p = 0 then Some ((Some ENOMEM, None), w)
              else do {
                (r, w) \<leftarrow> send \<lparr>t_opcode = opcode, t_flags = MMC_RSP_R1 OR e_CMD_ADTC w,
                  t_blksz = of_nat n, t_blocks = 1, t_buf = p,
                  t_timeout_ns = ucast (150 * NSEC_PER_MSEC)\<rparr> w;
                Some ((tuning_error pattern r, Some (r_cmd_error r)), emit (Free p) w)
              }))"

end
