(* ===== verification/Host.thy ===== *)
theory Host
  imports MmcPort Irq
begin

text \<open>
  Adding and removing a host (\<^verbatim>\<open>__sdhci_add_host\<close>, \<^verbatim>\<open>sdhci_add_host\<close>, \<^verbatim>\<open>sdhci_remove_host\<close> of
  \<^verbatim>\<open>sdhci.c\<close>), the platform glue of \<^verbatim>\<open>sdhci-pltfm.c\<close> and the interrupt port
  \<^verbatim>\<open>port/l-irq.c\<close>.  Installing the interrupt in the hardware (\<^verbatim>\<open>__sdhci_irq_hw_register\<close>) is the
  board's code and a parameter of \<open>request_threaded_irq\<close>; \<open>irq_hw_register\<close> is that of the
  example (\<^verbatim>\<open>example/cvitek-drvinit.c\<close>), \<open>irq_hw_register_weak\<close> the default.
\<close>

subsection \<open>Work queue, interrupt and timers\<close>

definition alloc_workqueue :: "world \<Rightarrow> u64 \<times> world" where
  "alloc_workqueue w = (e_alloc w (hist w), emit (OsCall ''rt_workqueue_create'') w)"

definition destroy_workqueue :: "world \<Rightarrow> world" where
  "destroy_workqueue = emit (OsCall ''rt_workqueue_destroy'')"

definition timer_setup :: "bool \<Rightarrow> world \<Rightarrow> world" where
  "timer_setup dt w =
     (let w = emit (OsCall ''rt_timer_init'') w
      in if dt then w\<lparr>h_data_timer := None\<rparr> else w\<lparr>h_timer := None\<rparr>)"

definition init_waitqueue_head :: "world \<Rightarrow> world" where
  "init_waitqueue_head = emit (OsCall ''rt_wqueue_init'')"

definition wake_up :: "world \<Rightarrow> world" where
  "wake_up = emit (OsCall ''rt_wqueue_wakeup'')"

definition request_threaded_irq ::
  "(world \<Rightarrow> errno option \<times> world) \<Rightarrow> bool \<Rightarrow> bool \<Rightarrow> world \<Rightarrow> errno option \<times> world" where
  "request_threaded_irq hw_register handler thread_fn w =
     (if \<not> handler \<and> \<not> thread_fn then (Some EINVAL, w)
      else
        (let desc = e_alloc w (hist w);
             w = emit (OsCall ''rt_calloc'') w
         in if desc = 0 then (Some ENOMEM, w)
            else
              (let (ret, w) = hw_register w;
                   (ret, w) =
                     (if ret = None then
                        (let w = init_waitqueue_head w;
                             thd = e_alloc w (hist w);
                             w = emit (OsCall ''rt_thread_create'') w
                         in if thd \<noteq> 0 then (None, emit (OsCall ''rt_thread_startup'') w)
                            else (Some ENOMEM, w))
                      else (ret, w))
               in (ret, if ret \<noteq> None then emit (Free desc) w else w))))"

text \<open>The handler the hardware calls: the driver's handler, then the thread if it asks for it.\<close>

definition irq_hander ::
  "(world \<Rightarrow> (irqreturn \<times> world) option) option \<Rightarrow> world \<Rightarrow> (irqreturn \<times> world) option" where
  "irq_hander handler w =
     (case handler of
        Some h \<Rightarrow> do {
          (ret, w) \<leftarrow> h w;
          Some (ret, if ret = IRQ_WAKE_THREAD then wake_up w else w)
        }
      | None \<Rightarrow> Some (IRQ_NONE, wake_up w))"

text \<open>The loop of the interrupt thread never ends; \<open>n\<close> is the number of times it is woken.\<close>

fun irq_thread :: "(world \<Rightarrow> world option) \<Rightarrow> nat \<Rightarrow> world \<Rightarrow> world option" where
  "irq_thread thread_fn 0 w = Some w"
| "irq_thread thread_fn (Suc n) w = do {
     w \<leftarrow> thread_fn w;
     irq_thread thread_fn n w
   }"

text \<open>Installing the interrupt: the version of the example board, and the one that is linked where
  a board has none.\<close>

definition irq_hw_register :: "world \<Rightarrow> errno option \<times> world" where
  "irq_hw_register w =
     (None, emit (OsCall ''rt_hw_interrupt_umask'') (emit (OsCall ''rt_hw_interrupt_install'') w))"

definition irq_hw_register_weak :: "world \<Rightarrow> errno option \<times> world" where
  "irq_hw_register_weak w = (Some (EOTHER 1), w)"

definition free_irq :: "world \<Rightarrow> world" where
  "free_irq w = w"

subsection \<open>Adding a host\<close>

definition sdhci_led_register :: "errno option" where
  "sdhci_led_register = None"

definition sdhci_led_unregister :: "world \<Rightarrow> world" where
  "sdhci_led_unregister w = w"

definition add_host_unirq :: "sdhci_ops \<Rightarrow> world \<Rightarrow> world option" where
  "add_host_unirq ops w = do {
     w \<leftarrow> sdhci_do_reset ops SDHCI_RESET_ALL w;
     let w = sdhci_writel 0 SDHCI_INT_ENABLE w;
     let w = sdhci_writel 0 SDHCI_SIGNAL_ENABLE w;
     Some (destroy_workqueue (free_irq w))
   }"

definition add_host_last ::
  "sdhci_ops \<Rightarrow> world \<Rightarrow> (errno option \<times> world) option" where
  "add_host_last ops w =
     (let ret = sdhci_led_register
      in if ret \<noteq> None then do { w \<leftarrow> add_host_unirq ops w; Some (ret, w) }
         else
           (let (ret, w) = mmc_add_host w
            in if ret \<noteq> None then do {
                 w \<leftarrow> add_host_unirq ops (sdhci_led_unregister w); Some (ret, w)
               } else Some (None, sdhci_enable_card_detection w)))"

definition raw_sdhci_add_host ::
  "sdhci_ops \<Rightarrow> (world \<Rightarrow> errno option \<times> world) \<Rightarrow> world \<Rightarrow> (errno option \<times> world) option" where
  "raw_sdhci_add_host ops hw_register w =
     (let w = (if tst (m_caps2 w) MMC_CAP2_CQE \<and> tst (h_quirks w) SDHCI_QUIRK_BROKEN_CQE
               then w\<lparr>m_caps2 := m_caps2 w AND NOT MMC_CAP2_CQE\<rparr> else w);
          (wq, w) = alloc_workqueue w
      in if wq = 0 then Some (Some ENOMEM, w)
         else do {
           let w = emit (OsCall ''rt_work_init'') w;
           let w = timer_setup True (timer_setup False w);
           let w = init_waitqueue_head w;
           w \<leftarrow> sdhci_init ops (sdhci_set_ios ops) False w;
           let (ret, w) = request_threaded_irq hw_register True True w;
           if ret \<noteq> None then Some (ret, destroy_workqueue w) else add_host_last ops w
         })"

definition sdhci_add_host ::
  "sdhci_ops \<Rightarrow> (world \<Rightarrow> errno option \<times> world) \<Rightarrow> world \<Rightarrow> (errno option \<times> world) option" where
  "sdhci_add_host ops hw_register w = do {
     (ret, w) \<leftarrow> sdhci_setup_host ops w;
     if ret \<noteq> None then Some (ret, w)
     else do {
       (ret, w) \<leftarrow> raw_sdhci_add_host ops hw_register w;
       Some (ret, if ret \<noteq> None then sdhci_cleanup_host w else w)
     }
   }"

subsection \<open>Removing a host\<close>

definition mmc_remove_host :: "world \<Rightarrow> world" where
  "mmc_remove_host w = w"

definition mmc_free_host :: "world \<Rightarrow> world" where
  "mmc_free_host w = w"

definition sdhci_free_host :: "world \<Rightarrow> world" where
  "sdhci_free_host = mmc_free_host"

definition remove_dead :: "bool \<Rightarrow> world \<Rightarrow> world" where
  "remove_dead dead w =
     (if dead then
        (let w = set_flags SDHCI_DEVICE_DEAD w
         in if sdhci_has_requests w then sdhci_error_out_mrqs ENOMEDIUM w else w)
      else w)"

definition sdhci_remove_host :: "sdhci_ops \<Rightarrow> bool \<Rightarrow> world \<Rightarrow> world option" where
  "sdhci_remove_host ops dead w = do {
     let w = remove_dead dead w;
     let w = sdhci_disable_card_detection w;
     let w = sdhci_led_unregister (mmc_remove_host w);
     w \<leftarrow> (if \<not> dead then sdhci_do_reset ops SDHCI_RESET_ALL w else Some w);
     let w = sdhci_writel 0 SDHCI_INT_ENABLE w;
     let w = sdhci_writel 0 SDHCI_SIGNAL_ENABLE w;
     let w = free_irq w;
     let w = del_timer True (del_timer False w);
     let w = destroy_workqueue w;
     let w = (if h_sdhci_core_to_disable_vqmmc w then regulator_disable w else w);
     let w = free_adma_buffers w;
     let w = (if h_use_external_dma w then sdhci_external_dma_release w else w);
     Some (w\<lparr>h_adma_table := 0, h_align_buffer := None\<rparr>)
   }"

subsection \<open>Platform glue\<close>

abbreviation (input) MMC_PM_KEEP_POWER :: u32 where "MMC_PM_KEEP_POWER \<equiv> 1"
abbreviation (input) MMC_PM_WAKE_SDIO_IRQ :: u32 where "MMC_PM_WAKE_SDIO_IRQ \<equiv> 2"

definition sdhci_wp_inverted :: "world \<Rightarrow> bool" where
  "sdhci_wp_inverted w \<longleftrightarrow>
     device_property_present w ''sdhci,wp-inverted'' \<or> device_property_present w ''wp-inverted''"

definition quirk_if :: "bool \<Rightarrow> u32 \<Rightarrow> world \<Rightarrow> world" where
  "quirk_if b q w = (if b then w\<lparr>h_quirks := h_quirks w OR q\<rparr> else w)"

definition sdhci_get_property :: "world \<Rightarrow> world" where
  "sdhci_get_property w =
     (let w = quirk_if (device_property_present w ''sdhci,auto-cmd12'')
                SDHCI_QUIRK_MULTIBLOCK_READ_ACMD12 w;
          w = quirk_if (device_property_present w ''sdhci,1-bit-only''
                  \<or> device_property_read_u32 w ''bus-width'' = Inr 1)
                SDHCI_QUIRK_FORCE_1_BIT_DATA w;
          w = quirk_if (sdhci_wp_inverted w) SDHCI_QUIRK_INVERTED_WRITE_PROTECT w;
          w = quirk_if (device_property_present w ''broken-cd'') SDHCI_QUIRK_BROKEN_CARD_DETECTION w;
          w = (if device_property_present w ''no-1-8-v''
               then w\<lparr>h_quirks2 := h_quirks2 w OR SDHCI_QUIRK2_NO_1_8_V\<rparr> else w);
          w = w\<lparr>pltfm_clock := read_or (pltfm_clock w)
                  (device_property_read_u32 w ''clock-frequency'')\<rparr>;
          w = (if device_property_present w ''keep-power-in-suspend''
               then upd_mh (\<lambda>m. m\<lparr>pm_caps := pm_caps m OR MMC_PM_KEEP_POWER\<rparr>) w else w)
      in if device_property_read_bool w ''wakeup-source''
            \<or> device_property_read_bool w ''enable-sdio-wakeup''
         then upd_mh (\<lambda>m. m\<lparr>pm_caps := pm_caps m OR MMC_PM_WAKE_SDIO_IRQ\<rparr>) w else w)"

text \<open>\<^verbatim>\<open>struct sdhci_pltfm_data\<close>.\<close>

record sdhci_pltfm_data =
  pd_ops :: "sdhci_ops option"
  pd_quirks :: u32
  pd_quirks2 :: u32

text \<open>The result is the operations table of the new host.  \<open>base\<close> is the mapped register block, or
  the error \<^verbatim>\<open>IS_ERR\<close> recognises in the pointer; \<open>irq\<close> is the interrupt of the device.\<close>

definition sdhci_pltfm_init ::
  "sdhci_ops \<Rightarrow> sdhci_pltfm_data option \<Rightarrow> errno + u64 \<Rightarrow> int \<Rightarrow> world
    \<Rightarrow> (errno + sdhci_ops) \<times> world" where
  "sdhci_pltfm_init default_ops pdata base irq w =
     (case base of
        Inl e \<Rightarrow> (Inl e, w)
      | Inr _ \<Rightarrow>
          if irq < 0 then (Inl (EOTHER (nat (- irq))), w)
          else
            (let (ok, w) = mmc_alloc_host w
             in if \<not> ok then (Inl ENOMEM, w)
                else
                  (let w = sdhci_alloc_host w;
                       ops = (case pdata of
                                Some p \<Rightarrow> (case pd_ops p of Some f \<Rightarrow> f | None \<Rightarrow> default_ops)
                              | None \<Rightarrow> default_ops);
                       w = (case pdata of
                              Some p \<Rightarrow> w\<lparr>h_quirks := pd_quirks p, h_quirks2 := pd_quirks2 p\<rparr>
                            | None \<Rightarrow> w)
                   in (Inr ops, w))))"

definition sdhci_pltfm_free :: "world \<Rightarrow> world" where
  "sdhci_pltfm_free = sdhci_free_host"

end
