(* ===== verification/Suspend.thy ===== *)
theory Suspend
  imports Host
begin

text \<open>
  Suspend and resume (\<^verbatim>\<open>sdhci_cd_irq_can_wakeup\<close> \<dots> \<^verbatim>\<open>sdhci_runtime_resume_host\<close> of
  \<^verbatim>\<open>sdhci.c\<close>), the part of the driver compiled with \<^verbatim>\<open>CONFIG_PM\<close>.  The port does not define
  that symbol, so what these functions ask of the kernel around them has no code in the
  repository: it is the record \<open>pm_env\<close>.  Calls whose only effect is outside the driver are
  events; locking has no effect of its own.
\<close>

record pm_env =
  may_wakeup :: bool
  card_wakes :: bool
  keep_power :: bool
  wake_fails :: bool
  sdio_claimed :: bool
  hs400_strobe :: "(mmc_ios \<Rightarrow> world \<Rightarrow> world) option"

abbreviation (input) WAKE_MASK :: u8 where
  "WAKE_MASK \<equiv> SDHCI_WAKE_ON_INSERT OR SDHCI_WAKE_ON_REMOVE OR SDHCI_WAKE_ON_INT"

subsection \<open>Wake-up interrupts\<close>

definition sdhci_cd_irq_can_wakeup :: "world \<Rightarrow> bool" where
  "sdhci_cd_irq_can_wakeup w \<longleftrightarrow> mmc_card_is_removable w
     \<and> \<not> tst (h_quirks w) SDHCI_QUIRK_BROKEN_CARD_DETECTION \<and> \<not> mmc_can_gpio_cd"

definition sdhci_enable_irq_wakeups :: "pm_env \<Rightarrow> world \<Rightarrow> bool \<times> world" where
  "sdhci_enable_irq_wakeups pm w =
     (let irq_val = 0; wake_val = 0;
          (wake_val, irq_val) =
            (if sdhci_cd_irq_can_wakeup w
             then (wake_val OR SDHCI_WAKE_ON_INSERT OR SDHCI_WAKE_ON_REMOVE,
                   irq_val OR SDHCI_INT_CARD_INSERT OR SDHCI_INT_CARD_REMOVE)
             else (wake_val, irq_val));
          (wake_val, irq_val) =
            (if card_wakes pm then (wake_val OR SDHCI_WAKE_ON_INT, irq_val OR SDHCI_INT_CARD_INT)
             else (wake_val, irq_val))
      in if irq_val = 0 then (False, w)
         else
           (let (val, w) = sdhci_readb SDHCI_WAKE_UP_CONTROL w;
                val = val AND NOT WAKE_MASK;
                val = val OR wake_val;
                w = sdhci_writeb val SDHCI_WAKE_UP_CONTROL w;
                w = sdhci_writel irq_val SDHCI_INT_ENABLE w;
                w = emit (OsCall ''enable_irq_wake'') w;
                w = w\<lparr>h_irq_wake_enabled := \<not> wake_fails pm\<rparr>
            in (h_irq_wake_enabled w, w)))"

definition sdhci_disable_irq_wakeups :: "world \<Rightarrow> world" where
  "sdhci_disable_irq_wakeups w =
     (let (val, w) = sdhci_readb SDHCI_WAKE_UP_CONTROL w;
          val = val AND NOT WAKE_MASK;
          w = sdhci_writeb val SDHCI_WAKE_UP_CONTROL w;
          w = emit (OsCall ''disable_irq_wake'') w
      in w\<lparr>h_irq_wake_enabled := False\<rparr>)"

subsection \<open>System suspend\<close>

definition mmc_retune_timer_stop :: "world \<Rightarrow> world" where
  "mmc_retune_timer_stop = emit (OsCall ''mmc_retune_timer_stop'')"

definition sdhci_suspend_host :: "pm_env \<Rightarrow> world \<Rightarrow> world" where
  "sdhci_suspend_host pm w =
     (let w = sdhci_disable_card_detection w;
          w = mmc_retune_timer_stop w;
          (wakes, w) = (if may_wakeup pm then sdhci_enable_irq_wakeups pm w else (False, w))
      in if \<not> wakes then
           (let w = w\<lparr>h_ier := 0\<rparr>;
                w = sdhci_writel 0 SDHCI_INT_ENABLE w;
                w = sdhci_writel 0 SDHCI_SIGNAL_ENABLE w
            in free_irq w)
         else w)"

text \<open>\<^verbatim>\<open>mmc->ops->set_ios(mmc, &mmc->ios)\<close>.\<close>

definition set_own_ios :: "sdhci_ops \<Rightarrow> world \<Rightarrow> world option" where
  "set_own_ios ops w = do {
     (ios, w) \<leftarrow> sdhci_set_ios ops (m_ios w) w;
     Some (w\<lparr>m_ios := ios\<rparr>)
   }"

definition resume_dma :: "sdhci_ops \<Rightarrow> u32 \<Rightarrow> world \<Rightarrow> world" where
  "resume_dma ops flags w =
     (if tst flags (SDHCI_USE_SDMA OR SDHCI_USE_ADMA) then
        (case o_enable_dma ops of Some f \<Rightarrow> snd (f w) | None \<Rightarrow> w)
      else w)"

definition sdhci_resume_host ::
  "pm_env \<Rightarrow> (world \<Rightarrow> errno option \<times> world) \<Rightarrow> sdhci_ops \<Rightarrow> world
    \<Rightarrow> (errno option \<times> world) option" where
  "sdhci_resume_host pm hw_register ops w = do {
     let w = resume_dma ops (h_flags w) w;
     w \<leftarrow> (if keep_power pm \<and> tst (h_quirks2 w) SDHCI_QUIRK2_HOST_OFF_CARD_ON then do {
            w \<leftarrow> sdhci_init ops (sdhci_set_ios ops) False w;
            set_own_ios ops (w\<lparr>h_pwr := 0, h_clock := 0\<rparr>)
          } else sdhci_init ops (sdhci_set_ios ops) (keep_power pm) w);
     let (ret, w) =
       (if h_irq_wake_enabled w then (None, sdhci_disable_irq_wakeups w)
        else request_threaded_irq hw_register True True w);
     if ret \<noteq> None then Some (ret, w) else Some (ret, sdhci_enable_card_detection w)
   }"

subsection \<open>Runtime suspend\<close>

definition synchronize_hardirq :: "world \<Rightarrow> world" where
  "synchronize_hardirq = emit (OsCall ''synchronize_hardirq'')"

text \<open>\<open>u\<close> is what runs while the lock is free between the two sections.\<close>

definition sdhci_runtime_suspend_host :: "(world \<Rightarrow> world) \<Rightarrow> world \<Rightarrow> world" where
  "sdhci_runtime_suspend_host u w =
     (let w = mmc_retune_timer_stop w;
          w = w\<lparr>h_ier := h_ier w AND SDHCI_INT_CARD_INT\<rparr>;
          w = sdhci_writel (h_ier w) SDHCI_INT_ENABLE w;
          w = sdhci_writel (h_ier w) SDHCI_SIGNAL_ENABLE w;
          w = synchronize_hardirq (u w)
      in w\<lparr>h_runtime_suspended := True\<rparr>)"

definition resume_ios :: "pm_env \<Rightarrow> sdhci_ops \<Rightarrow> u32 \<Rightarrow> world \<Rightarrow> world option" where
  "resume_ios pm ops host_flags w =
     (if i_power_mode (m_ios w) \<noteq> MMC_POWER_UNDEFINED \<and> i_power_mode (m_ios w) \<noteq> MMC_POWER_OFF
      then do {
        let w = w\<lparr>h_pwr := 0, h_clock := 0\<rparr>;
        let w = snd (sdhci_start_signal_voltage_switch ops (m_ios w) w);
        w \<leftarrow> set_own_ios ops w;
        let w = (if tst host_flags SDHCI_PV_ENABLED
                    \<and> \<not> tst (h_quirks2 w) SDHCI_QUIRK2_PRESET_VALUE_BROKEN
                 then sdhci_enable_preset_value True w else w);
        Some (case hs400_strobe pm of
                Some f \<Rightarrow> if tst (m_caps2 w) MMC_CAP2_HS400_ES then f (m_ios w) w else w
              | None \<Rightarrow> w)
      } else Some w)"

definition sdhci_runtime_resume_host ::
  "pm_env \<Rightarrow> sdhci_ops \<Rightarrow> bool \<Rightarrow> world \<Rightarrow> world option" where
  "sdhci_runtime_resume_host pm ops soft_reset w = do {
     let host_flags = h_flags w;
     let w = resume_dma ops host_flags w;
     w \<leftarrow> sdhci_init ops (sdhci_set_ios ops) soft_reset w;
     w \<leftarrow> resume_ios pm ops host_flags w;
     let w = w\<lparr>h_runtime_suspended := False\<rparr>;
     let w = (if sdio_claimed pm then sdhci_enable_sdio_irq_nolock True w else w);
     Some (sdhci_enable_card_detection w)
   }"

end
