(* ===== verification/PowerInv.thy ===== *)
theory PowerInv
  imports Pltfm Suspend Cqe
begin

text \<open>
  Suspending and resuming keep the bookkeeping of the requests and bring the driver's interrupt
  mask back into the controller; so do switching the command queue engine on and off.
\<close>

text \<open>\<open>recovers w w'\<close>: the bookkeeping of the requests is the same and the controller holds the
  driver's interrupt mask, whatever it held before.\<close>

definition recovers :: "world \<Rightarrow> world \<Rightarrow> bool" where
  "recovers w w' \<longleftrightarrow> rq w' = rq w \<and> ier_ok w'"

lemma recovers_tame: "recovers w w1 \<Longrightarrow> tame w1 w2 \<Longrightarrow> recovers w w2"
  by (simp add: recovers_def tame_def)

lemma recovers_rq: "rq w1 = rq w \<Longrightarrow> recovers w1 w2 \<Longrightarrow> recovers w w2"
  by (simp add: recovers_def)

lemma rq_resume_fields:
  "vw (w\<lparr>h_pwr := a, h_clock := b\<rparr>) = vw w" "vw (w\<lparr>h_runtime_suspended := s\<rparr>) = vw w"
  "vw (w\<lparr>m_ios := i\<rparr>) = vw w" "vw (w\<lparr>h_irq_wake_enabled := k\<rparr>) = vw w"
  by simp_all

lemma vw_disable_wakeups [simp]: "vw (sdhci_disable_irq_wakeups w) = vw w"
  by (simp add: sdhci_disable_irq_wakeups_def Let_def)

lemma vw_request_irq:
  assumes "\<And>x. vw (snd (hw x)) = vw x"
  shows "vw (snd (request_threaded_irq hw a b w)) = vw w"
  by (simp add: request_threaded_irq_def Let_def split_beta assms init_waitqueue_head_def)

context host_bus
begin

lemma tame_resume_dma: "tame w (resume_dma ops f w)"
  by (auto simp: resume_dma_def enable_dma split: option.split)

lemma tame_own_ios: "set_own_ios ops w = Some w' \<Longrightarrow> tame w w'"
  by (auto simp: set_own_ios_def Option.bind_eq_Some_conv
      intro: tame_trans[OF set_ios_tame vw_tame[OF rq_resume_fields(3)]])

lemma init_recovers:
  assumes "sdhci_init ops (sdhci_set_ios ops) soft w = Some w'"
  shows "recovers w w'"
proof -
  obtain w1 where w1: "tame w w1"
    and rest: "(let w = (if h_v4_mode w1 then sdhci_do_enable_v4_mode w1 else w1);
        w = (sdhci_set_default_irqs w)\<lparr>h_cqe_on := False\<rparr>
      in if soft then do {
           (ios, w) \<leftarrow> sdhci_set_ios ops (m_ios w) (w\<lparr>h_clock := 0\<rparr>);
           Some (w\<lparr>m_ios := ios\<rparr>)
         } else Some w) = Some w'"
    using assms
    by (cases soft) (auto simp: sdhci_init_def Option.bind_eq_Some_conv Let_def dest!: tame_do_reset)
  define w2 where "w2 = (if h_v4_mode w1 then sdhci_do_enable_v4_mode w1 else w1)"
  define w3 where "w3 = (sdhci_set_default_irqs w2)\<lparr>h_cqe_on := False\<rparr>"
  have "tame w w2" using w1 by (simp add: w2_def)
  moreover have "ier_ok w3" by (simp add: w3_def sdhci_set_default_irqs_def Let_def)
  moreover have "tame w2 w3" using tame_ier(2)[of w2] by (auto simp: w3_def tame_def)
  ultimately have r: "recovers w w3" by (simp add: recovers_def tame_def)
  show ?thesis
  proof (cases soft)
    case True
    then obtain ios w4 where s: "sdhci_set_ios ops (m_ios w3) (w3\<lparr>h_clock := 0\<rparr>) = Some (ios, w4)"
      and w': "w' = w4\<lparr>m_ios := ios\<rparr>"
      using rest by (auto simp: w2_def[symmetric] w3_def Let_def Option.bind_eq_Some_conv)
    have "tame w3 (w3\<lparr>h_clock := 0\<rparr>)" by (rule vw_tame) simp
    also have "tame \<dots> w4" by (rule set_ios_tame[OF s])
    also have "tame w4 w'" by (rule vw_tame) (simp add: w')
    finally show ?thesis using r recovers_tame by blast
  next
    case False
    then show ?thesis using rest r by (simp add: w2_def[symmetric] w3_def)
  qed
qed

lemma resume_ios_tame:
  assumes "resume_ios pm ops f w = Some w'" "hs400_strobe pm = None"
  shows "tame w w'"
proof (cases "i_power_mode (m_ios w) \<noteq> MMC_POWER_UNDEFINED \<and> i_power_mode (m_ios w) \<noteq> MMC_POWER_OFF")
  case True
  define w1 where "w1 = w\<lparr>h_pwr := 0, h_clock := 0\<rparr>"
  define w2 where "w2 = snd (sdhci_start_signal_voltage_switch ops (m_ios w1) w1)"
  obtain w3 where w3: "set_own_ios ops w2 = Some w3" and w': "vw w' = vw w3"
    using assms True
    by (auto simp: resume_ios_def Let_def Option.bind_eq_Some_conv w1_def w2_def
        sdhci_enable_preset_value_def split: if_split_asm)
  have "tame w w1" by (rule vw_tame) (simp add: w1_def)
  also have "tame w1 w2" unfolding w2_def by (rule voltage_switch_tame)
  also have "tame w2 w3" by (rule tame_own_ios[OF w3])
  also have "tame w3 w'" by (rule vw_tame[OF w'])
  finally show ?thesis .
qed (use assms in \<open>auto simp: resume_ios_def\<close>)

lemma runtime_resume_recovers:
  assumes "sdhci_runtime_resume_host pm ops soft w = Some w'" "hs400_strobe pm = None"
  shows "recovers w w' \<and> \<not> h_runtime_suspended w'"
proof -
  define w1 where "w1 = resume_dma ops (h_flags w) w"
  obtain w2 w3 where 2: "sdhci_init ops (sdhci_set_ios ops) soft w1 = Some w2"
    and 3: "resume_ios pm ops (h_flags w) w2 = Some w3"
    and w': "w' = (let w = w3\<lparr>h_runtime_suspended := False\<rparr>;
        w = (if sdio_claimed pm then sdhci_enable_sdio_irq_nolock True w else w)
      in sdhci_enable_card_detection w)"
    using assms(1)
    by (auto simp: sdhci_runtime_resume_host_def Let_def Option.bind_eq_Some_conv w1_def)
  define w4 where "w4 = w3\<lparr>h_runtime_suspended := False\<rparr>"
  define w5 where "w5 = (if sdio_claimed pm then sdhci_enable_sdio_irq_nolock True w4 else w4)"
  have "recovers w1 w2" by (rule init_recovers[OF 2])
  then have "recovers w w2" using tame_resume_dma[of w "h_flags w"] by (simp add: recovers_def tame_def w1_def)
  moreover have "tame w2 w3" by (rule resume_ios_tame[OF 3 assms(2)])
  moreover have "tame w3 w4" by (rule vw_tame) (simp add: w4_def)
  moreover have "tame w4 w5" using tame_ier(5)[of w4] by (simp add: w5_def)
  moreover have "tame w5 w'"
    using tame_ier(1)[of w5 True] by (simp add: w' Let_def w4_def[symmetric] w5_def[symmetric]
        sdhci_enable_card_detection_def)
  ultimately have "recovers w w'" using recovers_tame by blast
  moreover have "\<not> h_runtime_suspended w'"
    by (simp add: w' Let_def sdhci_enable_card_detection_def sdhci_set_card_detection_def
        sdhci_enable_sdio_irq_nolock_def write_ier_def)
  ultimately show ?thesis ..
qed

lemma resume_recovers:
  assumes "sdhci_resume_host pm hw ops w = Some (e, w')" "\<And>x. vw (snd (hw x)) = vw x"
  shows "recovers w w'"
proof -
  define w1 where "w1 = resume_dma ops (h_flags w) w"
  obtain w2 where 2: "(if keep_power pm \<and> tst (h_quirks2 w1) SDHCI_QUIRK2_HOST_OFF_CARD_ON then do {
            w \<leftarrow> sdhci_init ops (sdhci_set_ios ops) False w1;
            set_own_ios ops (w\<lparr>h_pwr := 0, h_clock := 0\<rparr>)
          } else sdhci_init ops (sdhci_set_ios ops) (keep_power pm) w1) = Some w2"
    and rest: "(let (ret, w) =
       (if h_irq_wake_enabled w2 then (None, sdhci_disable_irq_wakeups w2)
        else request_threaded_irq hw True True w2)
     in if ret \<noteq> None then Some (ret, w) else Some (ret, sdhci_enable_card_detection w)) = Some (e, w')"
    using assms(1) unfolding sdhci_resume_host_def Let_def w1_def by (rule bind_eq_SomeD)
  have "recovers w1 w2"
  proof (cases "keep_power pm \<and> tst (h_quirks2 w1) SDHCI_QUIRK2_HOST_OFF_CARD_ON")
    case True
    then obtain w3 where w3: "sdhci_init ops (sdhci_set_ios ops) False w1 = Some w3"
      "set_own_ios ops (w3\<lparr>h_pwr := 0, h_clock := 0\<rparr>) = Some w2"
      using 2 by (auto simp: Option.bind_eq_Some_conv)
    have "tame w3 (w3\<lparr>h_pwr := 0, h_clock := 0\<rparr>)" by (rule vw_tame) simp
    then show ?thesis
      using init_recovers[OF w3(1)] tame_own_ios[OF w3(2)] recovers_tame by blast
  next
    case False
    have "sdhci_init ops (sdhci_set_ios ops) (keep_power pm) w1 = Some w2"
      using 2 unfolding if_not_P[OF False] .
    then show ?thesis by (rule init_recovers)
  qed
  then have r2: "recovers w w2"
    using tame_resume_dma[of w "h_flags w"] by (simp add: recovers_def tame_def w1_def)
  define w3 where "w3 = snd (if h_irq_wake_enabled w2 then (None, sdhci_disable_irq_wakeups w2)
        else request_threaded_irq hw True True w2)"
  have "tame w2 w3"
    by (rule vw_tame) (simp add: w3_def vw_request_irq assms(2))
  moreover have "tame w3 w'"
    using rest tame_ier(1)[of w3 True]
    by (auto simp: w3_def[symmetric] split_beta sdhci_enable_card_detection_def split: if_split_asm)
  ultimately show ?thesis using r2 recovers_tame by blast
qed

lemma cqe_enable_recovers:
  assumes "sdhci_cqe_enable ops w = Some w'"
  shows "recovers w w'"
proof -
  define w1 where "w1 = sdhci_writew (SDHCI_MAKE_BLKSZ (h_sdma_boundary w) 512) SDHCI_BLOCK_SIZE
    (sdhci_writeb (cqe_dma_ctrl (snd (sdhci_readb SDHCI_HOST_CONTROL w)) (fst (sdhci_readb SDHCI_HOST_CONTROL w)))
      SDHCI_HOST_CONTROL (snd (sdhci_readb SDHCI_HOST_CONTROL w)))"
  obtain w2 where w2: "sdhci_set_timeout ops None w1 = Some w2"
    and w': "w' = (write_ier (w2\<lparr>h_ier := h_cqe_ier w2\<rparr>))\<lparr>h_cqe_on := True\<rparr>"
    using assms by (auto simp: sdhci_cqe_enable_def w1_def Let_def Option.bind_eq_Some_conv)
  have "rq w1 = rq w" by (simp add: w1_def)
  then show ?thesis using tame_set_timeout[OF w2] w'
    by (simp add: recovers_def tame_def write_ier_def) (simp add: ier_ok_def sdhci_writel_def emit_def)
qed

lemma cqe_disable_recovers:
  assumes "sdhci_cqe_disable ops r w = Some w'"
  shows "recovers w w'"
proof -
  define w1 where "w1 = (sdhci_set_default_irqs w)\<lparr>h_cqe_on := False\<rparr>"
  have r: "recovers w w1" by (simp add: recovers_def w1_def) (simp add: sdhci_set_default_irqs_def Let_def)
  have "tame w1 w'"
    using assms tame_trans[OF tame_do_reset tame_do_reset]
    by (auto simp: sdhci_cqe_disable_def Let_def w1_def[symmetric] Option.bind_eq_Some_conv split: if_split_asm)
  then show ?thesis by (rule recovers_tame[OF r])
qed

end

text \<open>Before the lock is released for the interrupt to end, the mask is written.\<close>

lemma runtime_suspend_parts:
  obtains w1 where "recovers w w1" "vw (sdhci_runtime_suspend_host u w) = vw (u w1)"
proof
  define w1 where "w1 = sdhci_writel (h_ier w AND SDHCI_INT_CARD_INT) SDHCI_SIGNAL_ENABLE
    (sdhci_writel (h_ier w AND SDHCI_INT_CARD_INT) SDHCI_INT_ENABLE
      ((mmc_retune_timer_stop w)\<lparr>h_ier := h_ier w AND SDHCI_INT_CARD_INT\<rparr>))"
  have h: "h_ier (mmc_retune_timer_stop w) = h_ier w" "rq (mmc_retune_timer_stop w) = rq w"
    by (simp_all add: mmc_retune_timer_stop_def)
  show "recovers w w1"
    by (simp add: recovers_def w1_def h) (simp add: ier_ok_def sdhci_writel_def emit_def)
  show "vw (sdhci_runtime_suspend_host u w) = vw (u w1)"
    by (simp add: sdhci_runtime_suspend_host_def Let_def h w1_def synchronize_hardirq_def)
qed

end
