(* ===== verification/TuningInv.thy ===== *)
theory TuningInv
  imports Runs
begin

text \<open>
  Tuning keeps the request invariant.  The command and the request of \<^verbatim>\<open>sdhci_send_tuning\<close> are
  local objects the driver forgets as soon as the command is sent, whatever interrupts the
  retries before; the interrupt mask, switched off meanwhile, is back at the end.
\<close>

subsection \<open>A command for the command line only\<close>

definition plain_cmd :: "mmc_command \<Rightarrow> bool" where
  "plain_cmd c \<longleftrightarrow>
     c_data c = None \<and> c_opcode c \<noteq> MMC_STOP_TRANSMISSION \<and> \<not> tst (c_flags c) MMC_RSP_136
     \<and> \<not> tst (c_flags c) MMC_RSP_BUSY"

lemma plain_links:
  assumes "links w' = links w"
  shows "plain_cmd (cmds w' cp) = plain_cmd (cmds w cp)"
proof -
  have l: "line_of (cmds w' cp) = line_of (cmds w cp)" by (rule linksD(6)[OF assms])
  have m: "tst f MMC_RSP_136 = tst (f AND NOT MMC_RSP_BUSY) MMC_RSP_136" for f :: u32
    by (rule tst_clear_other[symmetric]) simp
  have "tst (c_flags (cmds w' cp)) MMC_RSP_136 = tst (c_flags (cmds w cp)) MMC_RSP_136"
    unfolding m[of "c_flags (cmds w' cp)"] m[of "c_flags (cmds w cp)"]
    using l by (simp only: line_of_def prod.inject)
  then show ?thesis using l linksD(2)[OF assms] by (auto simp: plain_cmd_def line_of_def)
qed

context host_run
begin

lemma send_plain:
  assumes "sdhci_send_command ops cp w = Some (True, w')" "plain_cmd (cmds w cp)"
  shows "h_data_cmd w' = h_data_cmd w" "h_data w' = h_data w"
proof -
  define w0 where "w0 = emit (Rd32 SDHCI_PRESENT_STATE) (send_prologue cp w)"
  have v0: "vw w0 = vw w" by (simp add: w0_def)
  then have p: "plain_cmd (cmds w0 cp)" using plain_links[of w0 w] vwD(3) assms(2) by blast
  then have d: "\<not> sdhci_data_line_cmd (cmds w0 cp)" by (simp add: plain_cmd_def sdhci_data_line_cmd_def)
  obtain w1 w2 where w: "send_claim ops cp w0 = Some w1" "send_data ops cp w1 = Some w2" "w' = send_issue cp w2"
    using assms(1) by (auto simp: sdhci_send_command_def Let_def Option.bind_eq_Some_conv w0_def
        split: if_split_asm)
  have w1: "w1 = w0\<lparr>h_cmd := Some cp, h_data_timeout := 0\<rparr>"
    using w(1) d by (simp add: send_claim_def Let_def)
  moreover have "c_data (cmds w1 cp) = None" using p by (simp add: w1 plain_cmd_def)
  then have "w2 = w1" using w(2) by (simp add: send_data_def)
  ultimately show "h_data_cmd w' = h_data_cmd w" "h_data w' = h_data w"
    using w(3) vwD(6,8)[OF v0] by simp_all
qed

text \<open>Sending such a command and forgetting it: no request comes in.\<close>

lemma sent_forgotten:
  assumes "sdhci_send_command ops cp w = Some (True, w')" "plain_cmd (cmds w cp)"
  shows "drops w (w'\<lparr>h_cmd := None\<rparr>)"
proof -
  have c: "claim_view cp w w'" using send_command_cases[OF assms(1)] by simp
  note l = linksD[of w' w]
  show ?thesis
    using c send_plain[OF assms] by (auto simp: drops_def claim_view_def active_def l)
qed

lemma forgotten_evolves:
  assumes "send_retry_loop ops u cp df n w = Some (ok, w')" "df \<noteq> Some cp"
    and "plain_cmd (cmds w cp)" "req_inv w" "c_mrq (cmds w cp) \<notin> tracked w"
  shows "links w' = links w \<and> req_inv (if ok then w'\<lparr>h_cmd := None\<rparr> else w')
    \<and> tracked (if ok then w'\<lparr>h_cmd := None\<rparr> else w') \<subseteq> tracked w"
  using assms(1,3,4,5)
proof (induction n arbitrary: w rule: less_induct)
  case (less n w)
  note r = less.prems(1) and p = less.prems(2-4)
  show ?case
    using r
  proof (cases rule: send_retry_sent)
    case (1 w1)
    note e = drops_evolves[OF sent_forgotten[OF 1(1) p(1)]]
    have "h_deferred_cmd w1 = h_deferred_cmd w"
      using send_command_cases[OF 1(1)] by (simp add: claim_view_def)
    then have "h_deferred_cmd w1 \<noteq> Some cp"
      using p(3) active_ptr(3)[of w cp] by (auto simp: tracked_def)
    then have "w' = w1" using 1(3) by auto
    then show ?thesis using e 1(2) p(2) by (auto simp: evolves_def)
  next
    case (2 w1)
    then have "vw w' = vw w" using send_command_cases[OF 2(1)] by auto
    from vw_evolves[OF this] show ?thesis using 2(3) p(2) by (auto simp: evolves_def)
  next
    case (3 w1 k)
    define q where "q = sdhci_get_cd (usleep_range 1000 1250 w1)"
    define w3 where "w3 = u (snd q)"
    define w4 where "w4 = snd (sdhci_present_error cp (fst q) w3)"
    have "vw w1 = vw w" using send_command_cases[OF 3(1)] by simp
    then have "vw (snd q) = vw w" by (simp add: q_def)
    then have "safe w w3"
      unfolding w3_def by (rule safe_trans[OF tame_safe[OF vw_tame] u_safe])
    then have s: "safe w w4"
      by (rule safe_trans) (simp add: w4_def tame_safe vw_tame)
    then have w4: "links w4 = links w" "req_inv w4" "tracked w4 \<subseteq> tracked w"
      using p(2) by (simp_all add: safe_def)
    have r': "(if fst (sdhci_present_error cp (fst q) w3) then Some (False, w4)
        else send_retry_loop ops u cp df k w4) = Some (ok, w')"
      using send_retry_Suc[OF r[unfolded 3(2)] 3(1), folded q_def w3_def] assms(2)
      unfolding w4_def split_beta Let_def by auto
    show ?thesis
    proof (cases "fst (sdhci_present_error cp (fst q) w3)")
      case True
      then show ?thesis using r' w4 by auto
    next
      case False
      then have "send_retry_loop ops u cp df k w4 = Some (ok, w')" using r' by simp
      moreover have "plain_cmd (cmds w4 cp)" "c_mrq (cmds w4 cp) \<notin> tracked w4"
        using p plain_links[OF w4(1)] linksD(1)[OF w4(1), of cp] w4 by auto
      ultimately show ?thesis using less.IH[of k w4] 3(2) w4 by auto
    qed
  qed
qed

end

subsection \<open>The objects on the stack\<close>

definition tuning_objs :: "cmdp \<Rightarrow> mrqp \<Rightarrow> u32 \<Rightarrow> world \<Rightarrow> world" where
  "tuning_objs cp q opcode w =
     w\<lparr>cmds := (cmds w)(cp := tuning_cmd (e_CMD_ADTC w) opcode q), mrqs := (mrqs w)(q := tuning_mrq cp)\<rparr>"

text \<open>The two addresses are used by no request the host knows, nor by another object; the flag that
  RT-Thread adds for a tuning command asks for no busy signal and no long response.\<close>

definition fresh_tuning :: "cmdp \<Rightarrow> mrqp \<Rightarrow> u32 \<Rightarrow> world \<Rightarrow> bool" where
  "fresh_tuning cp q opcode w \<longleftrightarrow>
     wf_links (tuning_objs cp q opcode w) \<and> q \<notin> tracked w \<and> c_mrq (cmds w cp) \<notin> tracked w
     \<and> opcode \<noteq> MMC_STOP_TRANSMISSION
     \<and> \<not> tst (e_CMD_ADTC w) MMC_RSP_136 \<and> \<not> tst (e_CMD_ADTC w) MMC_RSP_BUSY"

lemma tuning_objs_tracks:
  assumes "req_inv w" "fresh_tuning cp q opcode w"
  shows "req_inv (tuning_objs cp q opcode w)" "tracked (tuning_objs cp q opcode w) = tracked w"
    "plain_cmd (cmds (tuning_objs cp q opcode w) cp)" "c_mrq (cmds (tuning_objs cp q opcode w) cp) = q"
proof -
  have "c \<noteq> cp" if "h_cmd w = Some c \<or> h_data_cmd w = Some c \<or> h_deferred_cmd w = Some c" for c
    using that assms(2) active_ptr(1-3)[of w c] by (auto simp: fresh_tuning_def tracked_def)
  then have a: "active (tuning_objs cp q opcode w) = active w"
    by (auto simp: active_def tuning_objs_def opt_list_def split: option.split)
  moreover have f: "finished (tuning_objs cp q opcode w) = finished w"
    by (simp add: finished_def tuning_objs_def)
  ultimately show t: "tracked (tuning_objs cp q opcode w) = tracked w" by (simp add: tracked_def)
  show "req_inv (tuning_objs cp q opcode w)"
    using assms a f t by (simp add: req_inv_def fresh_tuning_def) (simp add: tuning_objs_def)
  show "plain_cmd (cmds (tuning_objs cp q opcode w) cp)"
    using assms(2) by (simp add: plain_cmd_def tuning_objs_def tuning_cmd_def fresh_tuning_def)
  show "c_mrq (cmds (tuning_objs cp q opcode w) cp) = q"
    by (simp add: tuning_objs_def tuning_cmd_def)
qed

text \<open>Once the objects are there, writing them again changes no link.\<close>

lemma tuning_objs_again:
  assumes "links w' = links (tuning_objs cp q opcode w)"
  shows "links (tuning_objs cp q opcode w') = links (tuning_objs cp q opcode w)"
  using linksD[OF assms]
  by (auto simp: links_def tuning_objs_def fun_eq_iff)

lemma fresh_again:
  assumes "fresh_tuning cp q opcode w" "links w' = links (tuning_objs cp q opcode w)"
    "tracked w' \<subseteq> tracked w"
  shows "fresh_tuning cp q opcode w'"
proof -
  have "wf_links (tuning_objs cp q opcode w')"
    using links_wf[OF tuning_objs_again[OF assms(2)]] assms(1) by (simp add: fresh_tuning_def)
  moreover have "c_mrq (cmds w' cp) = q" "e_CMD_ADTC w' = e_CMD_ADTC w"
    using linksD(1,7)[OF assms(2)] by (simp_all add: tuning_objs_def tuning_cmd_def)
  ultimately show ?thesis using assms(1,3) by (auto simp: fresh_tuning_def)
qed

text \<open>What tuning keeps from one block to the next.\<close>

definition tuning_inv :: "cmdp \<Rightarrow> mrqp \<Rightarrow> u32 \<Rightarrow> world \<Rightarrow> world \<Rightarrow> bool" where
  "tuning_inv cp q opcode w w' \<longleftrightarrow>
     (req_inv w \<and> fresh_tuning cp q opcode w \<longrightarrow>
        req_inv w' \<and> fresh_tuning cp q opcode w' \<and> tracked w' \<subseteq> tracked w)"

lemma tuning_inv_trans [trans]:
  "tuning_inv cp q opcode a b \<Longrightarrow> tuning_inv cp q opcode b c \<Longrightarrow> tuning_inv cp q opcode a c"
  by (auto simp: tuning_inv_def)

lemma rq_tuning_inv:
  assumes "rq w' = rq w"
  shows "tuning_inv cp q opcode w w'"
proof -
  have l: "links w' = links w" using rqD(1)[OF assms] .
  have "links (tuning_objs cp q opcode w') = links (tuning_objs cp q opcode w)"
    using linksD[OF l] by (auto simp: links_def tuning_objs_def fun_eq_iff)
  then have "fresh_tuning cp q opcode w' = fresh_tuning cp q opcode w"
    using links_wf linksD(7)[OF l] unfolding fresh_tuning_def linksD(1)[OF l, of cp] rq_active(3)[OF assms]
    by metis
  then show ?thesis
    using rq_active(3,4)[OF assms] by (simp add: tuning_inv_def)
qed

lemma tame_tuning_inv: "tame w w' \<Longrightarrow> tuning_inv cp q opcode w w'"
  by (rule rq_tuning_inv) (simp add: tame_def)

context host_run
begin

lemma send_tuning_inv:
  assumes "sdhci_send_tuning ops u cp q opcode w = Some w'"
  shows "tuning_inv cp q opcode w w'"
proof -
  define w0 where "w0 = tuning_objs cp q opcode w"
  define w1 where "w1 = sdhci_writew SDHCI_TRNS_READ SDHCI_TRANSFER_MODE (sdhci_writew
    (SDHCI_MAKE_BLKSZ (h_sdma_boundary w)
      (if opcode = MMC_SEND_TUNING_BLOCK_HS200 \<and> i_bus_width (m_ios w0) = MMC_BUS_WIDTH_8 then 128
       else 64)) SDHCI_BLOCK_SIZE w0)"
  have v1: "vw w1 = vw w0" by (simp add: w1_def)
  obtain ok w2 where s: "sdhci_send_command_retry ops u cp w1 = Some (ok, w2)"
    and w': "w' = (if ok then u ((sdhci_del_timer q (w2\<lparr>h_cmd := None\<rparr>))\<lparr>h_tuning_done := False\<rparr>)
        else (u w2)\<lparr>h_tuning_done := False\<rparr>)"
    using assms unfolding sdhci_send_tuning_def Let_def tuning_objs_def[symmetric] w0_def[symmetric]
      w1_def[symmetric]
    by (elim bind_eq_SomeD) (auto split: if_split_asm)
  have "req_inv w' \<and> fresh_tuning cp q opcode w' \<and> tracked w' \<subseteq> tracked w"
    if i: "req_inv w" "fresh_tuning cp q opcode w"
  proof -
    note t = tuning_objs_tracks[OF i, folded w0_def]
    have l1: "links w1 = links w0" "rq w1 = rq w0" using vwD(3,1)[OF v1] .
    have c: "c_mrq (cmds w1 cp) = q" "plain_cmd (cmds w1 cp)" "req_inv w1" "tracked w1 = tracked w"
      using linksD(1)[OF l1(1)] plain_links[OF l1(1)] rq_active(3,4)[OF l1(2)] t by simp_all
    have q: "c_mrq (cmds w1 cp) \<notin> tracked w1" using c i(2) by (simp add: fresh_tuning_def)
    then have "h_deferred_cmd w1 \<noteq> Some cp" using active_ptr(3)[of w1 cp] by (auto simp: tracked_def)
    note f = forgotten_evolves[OF s[unfolded sdhci_send_command_retry_def] this c(2,3) q]
    define w3 where "w3 = (if ok then w2\<lparr>h_cmd := None\<rparr> else w2)"
    have w3: "links w3 = links w0" "req_inv w3" "tracked w3 \<subseteq> tracked w"
      using f l1(1) c(4) by (auto simp: w3_def)
    have "safe w3 w'"
    proof (cases ok)
      case True
      then have "vw ((sdhci_del_timer q w3)\<lparr>h_tuning_done := False\<rparr>) = vw w3" by simp
      then show ?thesis
        using True w' safe_trans[OF tame_safe[OF vw_tame] u_safe] by (simp add: w3_def)
    next
      case False
      then have "vw w' = vw (u w2)" "w3 = w2" using w' by (simp_all add: w3_def)
      then show ?thesis using safe_trans[OF u_safe tame_safe[OF vw_tame]] by metis
    qed
    then have "links w' = links w0" "req_inv w'" "tracked w' \<subseteq> tracked w"
      using w3 by (auto simp: safe_def)
    then show ?thesis using fresh_again[OF i(2)] by (simp add: w0_def)
  qed
  then show ?thesis by (simp add: tuning_inv_def)
qed

lemma abort_tuning_inv:
  assumes "sdhci_abort_tuning ops opcode w = Some w'"
  shows "tuning_inv cp q opcode w w'"
proof -
  obtain w1 w2 where w: "sdhci_do_reset ops SDHCI_RESET_CMD (sdhci_reset_tuning w) = Some w1"
    "sdhci_do_reset ops SDHCI_RESET_DATA w1 = Some w2" "w' = mmc_abort_tuning opcode (sdhci_end_tuning w2)"
    using assms by (auto simp: sdhci_abort_tuning_def Option.bind_eq_Some_conv)
  have "rq (sdhci_reset_tuning w) = rq w" by (simp add: sdhci_reset_tuning_def Let_def)
  moreover have "rq w' = rq w2"
    by (simp add: w(3) mmc_abort_tuning_def sdhci_end_tuning_def write_ier_def)
  ultimately have "rq w' = rq w"
    using tame_do_reset[OF w(1)] tame_do_reset[OF w(2)] by (simp add: tame_def)
  then show ?thesis by (rule rq_tuning_inv)
qed

lemma tuning_loop_inv:
  assumes "tuning_loop ops u cp q opcode n w = Some (err, w')"
  shows "tuning_inv cp q opcode w w'"
  using assms
proof (induction n arbitrary: w)
  case 0
  then have "rq w' = rq w" by (auto simp: sdhci_reset_tuning_def Let_def)
  then show ?case by (rule rq_tuning_inv)
next
  case (Suc n)
  then obtain w1 where w1: "sdhci_send_tuning ops u cp q opcode w = Some w1"
    by (auto elim: bind_eq_SomeD)
  have i: "tuning_inv cp q opcode w w1" by (rule send_tuning_inv[OF w1])
  define w2 where "w2 = (if h_tuning_delay w1 > 0 then mdelay (nat (h_tuning_delay w1)) w1 else w1)"
  define w3 where "w3 = emit (Rd16 SDHCI_HOST_CONTROL2) w2"
  have rq3: "rq w3 = rq w1" by (simp add: w3_def w2_def mdelay_def)
  have "tuning_inv cp q opcode w1 w'"
  proof (cases "h_tuning_done w1")
    case False
    then show ?thesis using Suc.prems w1 abort_tuning_inv by (auto simp: Option.bind_eq_Some_conv)
  next
    case True
    have "w' = w3 \<or> w' = sdhci_reset_tuning w3 \<or> tuning_loop ops u cp q opcode n w3 = Some (err, w')"
      using Suc.prems w1 True
      by (auto simp: w2_def[symmetric] w3_def sdhci_readw_def Let_def split: if_split_asm)
    moreover have "rq (sdhci_reset_tuning w3) = rq w3" by (simp add: sdhci_reset_tuning_def Let_def)
    ultimately show ?thesis
      using rq_tuning_inv[OF rq3] rq_tuning_inv[of "sdhci_reset_tuning w3" w1] rq3 Suc.IH[of w3]
        tuning_inv_trans by metis
  qed
  with i show ?case by (rule tuning_inv_trans)
qed

text \<open>The whole procedure, for a platform that uses it.\<close>

theorem execute_tuning_host:
  assumes "sdhci_execute_tuning ops u cp q opcode w = Some (err, w')"
    and "o_platform_execute_tuning ops = None"
    and "fresh_tuning cp q opcode w" "req_inv w" "ier_ok w"
  shows "req_inv w'" "tracked w' \<subseteq> tracked w" "ier_ok w'"
proof -
  have "req_inv w' \<and> tracked w' \<subseteq> tracked w \<and> ier_ok w'"
  proof (cases "tuning_needed w")
    case (Inl e)
    then have "w' = w\<lparr>h_flags := h_flags w AND NOT SDHCI_HS400_TUNING\<rparr>"
      using assms(1) by (simp add: sdhci_execute_tuning_def)
    then have "vw w' = vw w" by simp
    then show ?thesis using vw_evolves[of w' w] assms(4,5) by (auto simp: evolves_def)
  next
    case (Inr c)
    define w1 where "w1 = (let w = w\<lparr>m_retune_period := c\<rparr>
      in if h_tuning_delay w < 0
         then w\<lparr>h_tuning_delay := if opcode = MMC_SEND_TUNING_BLOCK then 1 else 0\<rparr> else w)"
    have "rq (sdhci_start_tuning w1) = rq w"
      by (simp add: sdhci_start_tuning_def w1_def Let_def)
    moreover obtain e w2 where
      l: "tuning_loop ops u cp q opcode (h_tuning_loop_count (sdhci_start_tuning w1))
            (sdhci_start_tuning w1) = Some (e, w2)"
      and w': "w' = (let w = sdhci_end_tuning (w2\<lparr>h_tuning_err := e\<rparr>)
        in w\<lparr>h_flags := h_flags w AND NOT SDHCI_HS400_TUNING\<rparr>)"
      using assms(1,2) Inr
      by (auto simp: sdhci_execute_tuning_def raw_sdhci_execute_tuning_def Let_def w1_def
          Option.bind_eq_Some_conv split: if_split_asm)
    ultimately have "tuning_inv cp q opcode w w2"
      using tuning_inv_trans rq_tuning_inv tuning_loop_inv by blast
    then have w2: "req_inv w2" "tracked w2 \<subseteq> tracked w" using assms(3,4) by (auto simp: tuning_inv_def)
    have "rq w' = rq w2" by (simp add: w' Let_def sdhci_end_tuning_def write_ier_def)
    moreover have "ier_ok w'"
      by (simp add: w' Let_def sdhci_end_tuning_def write_ier_def ier_ok_def sdhci_writel_def emit_def)
    ultimately show ?thesis using w2 rq_active(3,4)[of w' w2] by simp
  qed
  then show "req_inv w'" "tracked w' \<subseteq> tracked w" "ier_ok w'" by simp_all
qed

end

end
