(* ===== verification/Machine.thy ===== *)
theory Machine
  imports PowerInv TuningInv
begin

text \<open>
  The driver as a state machine.  \<open>run_handler\<close> are the handlers that may interrupt it,
  \<open>preempt\<close> a schedule of them; \<open>step\<close> is one operation of the driver, of the MMC core or of a
  timer, with any handlers run wherever the operation releases its lock; \<open>reachable\<close> its
  reflexive transitive closure.  The default platform operations satisfy the contracts, so
  the invariant holds in every reachable state.
\<close>

subsection \<open>Handlers that interrupt the driver\<close>

text \<open>
  What may run while the lock is free: the interrupt handler, the timers, the removal of the card,
  the SDIO switches, and the interrupt thread and the completion work, which release the lock in
  their turn.  A schedule says which handlers run at a release.  It depends on the history, so that
  each release may be followed by handlers of its own: between two releases the driver always
  accesses a register or hands a request back.  What the MMC core starts is not among them, since
  RT-Thread holds the host while a request or a bus setting is under way.
\<close>

datatype handler =
    H_Irq | H_Timer | H_DataTimer | H_CardEvent | H_SdioIrq bool | H_AckSdio
  | H_Thread "event list \<Rightarrow> handler list" | H_Work "event list \<Rightarrow> handler list"

type_synonym schedule = "event list \<Rightarrow> handler list"

text \<open>A handler that does not return never gives the processor back; it has no place here.\<close>

definition run_scheduled :: "(event list \<Rightarrow> (world \<Rightarrow> world option) list) \<Rightarrow> world \<Rightarrow> world" where
  "run_scheduled fs w =
     fold (\<lambda>f w. case f w of Some w' \<Rightarrow> w' | None \<Rightarrow> w) (fs (hist w)) w"

primrec run_handler :: "sdhci_ops \<Rightarrow> handler \<Rightarrow> world \<Rightarrow> world option" where
  "run_handler ops H_Irq = (\<lambda>w. map_option snd (sdhci_irq ops w))"
| "run_handler ops H_Timer = (\<lambda>w. Some (sdhci_timeout_timer ops w))"
| "run_handler ops H_DataTimer = sdhci_timeout_data_timer ops"
| "run_handler ops H_CardEvent = sdhci_card_event ops"
| "run_handler ops (H_SdioIrq b) = (\<lambda>w. Some (sdhci_enable_sdio_irq b w))"
| "run_handler ops H_AckSdio = (\<lambda>w. Some (sdhci_ack_sdio_irq w))"
| "run_handler ops (H_Thread hs) =
     sdhci_thread_irq ops (run_scheduled (\<lambda>es. map (run_handler ops) (hs es)))"
| "run_handler ops (H_Work hs) =
     sdhci_complete_work ops (run_scheduled (\<lambda>es. map (run_handler ops) (hs es)))"

definition preempt :: "sdhci_ops \<Rightarrow> schedule \<Rightarrow> world \<Rightarrow> world" where
  "preempt ops hs = run_scheduled (\<lambda>es. map (run_handler ops) (hs es))"

lemma run_scheduled_safe:
  assumes "\<And>f w w'. f \<in> set (fs (hist w0)) \<Longrightarrow> f w = Some w' \<Longrightarrow> safe w w'"
  shows "safe w0 (run_scheduled fs w0)"
proof -
  have "safe w (fold (\<lambda>f w. case f w of Some w' \<Rightarrow> w' | None \<Rightarrow> w) l w)"
    if "set l \<subseteq> set (fs (hist w0))" for l w
    using that
  proof (induction l arbitrary: w)
    case (Cons f l)
    have "safe w (case f w of Some w' \<Rightarrow> w' | None \<Rightarrow> w)"
      using assms Cons.prems by (auto split: option.split)
    also have "safe \<dots> (fold (\<lambda>f w. case f w of Some w' \<Rightarrow> w' | None \<Rightarrow> w) l \<dots>)"
      using Cons by simp
    finally show ?case by simp
  qed simp
  then show ?thesis by (simp add: run_scheduled_def)
qed

context host_ops
begin

lemma run_handler_safe: "run_handler ops h w = Some w' \<Longrightarrow> safe w w'"
proof (induction h arbitrary: w w')
  case H_Irq
  then obtain r where "sdhci_irq ops w = Some (r, w')" by auto
  then show ?case by (rule irq_safe)
next
  case H_DataTimer
  then show ?case by (auto intro: evolves_safe timeout_data_timer_evolves)
next
  case H_CardEvent
  then show ?case by (auto intro: evolves_safe card_event_evolves)
next
  case (H_Thread hs)
  have "safe x y" if "k \<in> set (hs es)" "run_handler ops k x = Some y" for k es x y
    using H_Thread.IH[of "hs es" k] that by simp
  then have "host_run ops (run_scheduled (\<lambda>es. map (run_handler ops) (hs es)))"
    by unfold_locales (rule run_scheduled_safe, auto)
  then show ?case using H_Thread.prems by (auto dest: host_run.thread_irq_safe)
next
  case (H_Work hs)
  have "safe x y" if "k \<in> set (hs es)" "run_handler ops k x = Some y" for k es x y
    using H_Work.IH[of "hs es" k] that by simp
  then have "host_run ops (run_scheduled (\<lambda>es. map (run_handler ops) (hs es)))"
    by unfold_locales (rule run_scheduled_safe, auto)
  then show ?case
    using H_Work.prems by (auto simp: sdhci_complete_work_def dest: host_run.request_done_loop_safe)
qed (auto simp: sdhci_enable_sdio_irq_def sdhci_ack_sdio_irq_def
      intro: evolves_safe timeout_timer_evolves tame_safe tame_ier)

lemma preempt_safe: "safe w (preempt ops hs w)"
  unfolding preempt_def by (rule run_scheduled_safe) (auto dest: run_handler_safe)

end

interpretation pltfm_run: host_run sdhci_pltfm_ops "preempt sdhci_pltfm_ops hs" for hs
  by unfold_locales (rule pltfm.preempt_safe)

sublocale host_ops \<subseteq> preempted: host_run ops "preempt ops hs" for hs
  by unfold_locales (rule preempt_safe)

subsection \<open>Steps\<close>

text \<open>
  The MMC core may rebuild any objects but those of requests the host tracks, and what it
  builds is well linked.
\<close>

definition core_prepares :: "world \<Rightarrow> world \<Rightarrow> bool" where
  "core_prepares w w' \<longleftrightarrow>
     (\<exists>cs ds qs. w' = w\<lparr>cmds := cs, datas := ds, mrqs := qs\<rparr>
        \<and> (\<forall>c. c_mrq (cmds w c) \<in> tracked w \<longrightarrow> cs c = cmds w c)
        \<and> (\<forall>d. d_mrq (datas w d) \<in> tracked w \<longrightarrow> ds d = datas w d)
        \<and> (\<forall>q \<in> tracked w. qs q = mrqs w q))
     \<and> wf_links w'"

text \<open>
  One step.  A new request comes only when the host has room for it, as the MMC core sees to;
  \<open>hs\<close> is the schedule of the handlers that interrupt the operation.  Tuning is a step where the platform
  leaves it to the core; the stack of the caller is not in use by others.
\<close>

inductive step :: "sdhci_ops \<Rightarrow> world \<Rightarrow> world \<Rightarrow> bool" for ops where
  handler: "run_handler ops h w = Some w' \<Longrightarrow> step ops w w'"
| thread: "sdhci_thread_irq ops (preempt ops hs) w = Some w' \<Longrightarrow> step ops w w'"
| work: "sdhci_complete_work ops (preempt ops hs) w = Some w' \<Longrightarrow> step ops w w'"
| request: "sdhci_request ops (preempt ops hs) q w = Some w' \<Longrightarrow>
    q \<notin> tracked w \<Longrightarrow> card (tracked w) < SDHCI_MAX_MRQS \<Longrightarrow> step ops w w'"
| atomic: "sdhci_request_atomic ops q w = Some (err, w') \<Longrightarrow>
    q \<notin> tracked w \<Longrightarrow> card (tracked w) < SDHCI_MAX_MRQS \<Longrightarrow> step ops w w'"
| pre_req: "sdhci_pre_req ops q w = Some w' \<Longrightarrow> step ops w w'"
| post_req: "sdhci_post_req q w = Some w' \<Longrightarrow> step ops w w'"
| set_ios: "sdhci_set_ios ops ios w = Some (ios', w') \<Longrightarrow> step ops w w'"
| voltage: "sdhci_start_signal_voltage_switch ops ios w = (err, w') \<Longrightarrow> step ops w w'"
| get_cd: "sdhci_get_cd w = (b, w') \<Longrightarrow> step ops w w'"
| get_ro: "sdhci_get_ro ops w = (b, w') \<Longrightarrow> step ops w w'"
| card_busy: "sdhci_card_busy w = (b, w') \<Longrightarrow> step ops w w'"
| hw_reset: "step ops w (sdhci_hw_reset ops w)"
| hs400: "step ops w (sdhci_prepare_hs400_tuning w)"
| tuning: "sdhci_execute_tuning ops (preempt ops hs) cp q opcode w = Some (err, w') \<Longrightarrow>
    o_platform_execute_tuning ops = None \<Longrightarrow> fresh_tuning cp q opcode w \<Longrightarrow> step ops w w'"
| cqe_enable: "sdhci_cqe_enable ops w = Some w' \<Longrightarrow> step ops w w'"
| cqe_disable: "sdhci_cqe_disable ops recovery w = Some w' \<Longrightarrow> step ops w w'"
| runtime_suspend: "step ops w (sdhci_runtime_suspend_host (preempt ops hs) w)"
| runtime_resume: "sdhci_runtime_resume_host pm ops soft w = Some w' \<Longrightarrow> hs400_strobe pm = None \<Longrightarrow>
    step ops w w'"
| prepare: "core_prepares w w' \<Longrightarrow> step ops w w'"

definition reachable :: "sdhci_ops \<Rightarrow> world \<Rightarrow> world \<Rightarrow> bool" where
  "reachable ops = (step ops)\<^sup>*\<^sup>*"

text \<open>What holds of every reachable state.\<close>

definition host_inv :: "world \<Rightarrow> bool" where
  "host_inv w \<longleftrightarrow> req_inv w \<and> ier_ok w"

lemma safe_host_inv: "safe w w' \<Longrightarrow> host_inv w \<Longrightarrow> host_inv w'"
  by (simp add: safe_def host_inv_def)

lemma recovers_host_inv: "recovers w w' \<Longrightarrow> host_inv w \<Longrightarrow> host_inv w'"
  using rq_active(4)[of w' w] by (simp add: recovers_def host_inv_def)

lemma prepare_host_inv:
  assumes "core_prepares w w'" "host_inv w"
  shows "host_inv w'"
proof -
  obtain cs ds qs where w': "w' = w\<lparr>cmds := cs, datas := ds, mrqs := qs\<rparr>"
    and c: "\<And>c. c_mrq (cmds w c) \<in> tracked w \<Longrightarrow> cs c = cmds w c"
    and d: "\<And>d. d_mrq (datas w d) \<in> tracked w \<Longrightarrow> ds d = datas w d"
    using assms(1) by (auto simp: core_prepares_def)
  have "set (active w) \<subseteq> tracked w" by (simp add: tracked_def)
  then have "active w' = active w"
    using active_ptr[of w] c d
    by (auto simp: active_def w' opt_list_def subset_iff split: option.split)
  moreover have "finished w' = finished w" "h_mrqs_done w' = h_mrqs_done w" "ier_ok w' = ier_ok w"
    by (simp_all add: w' finished_def)
  moreover have "wf_links w'" using assms(1) by (simp add: core_prepares_def)
  ultimately show ?thesis using assms(2) by (simp add: host_inv_def req_inv_def tracked_def)
qed

context host_ops
begin

lemma vw_pre_post:
  "sdhci_pre_req ops q w = Some w' \<Longrightarrow> vw w' = vw w"
  "sdhci_post_req q w = Some w' \<Longrightarrow> vw w' = vw w"
proof -
  assume "sdhci_post_req q w = Some w'"
  then show "vw w' = vw w"
    by (auto simp: sdhci_post_req_def Option.bind_eq_Some_conv upd_data_view
        dest!: vw_dma_calls split: if_split_asm)
next
  assume a: "sdhci_pre_req ops q w = Some w'"
  then obtain dp where dp: "q_data (mrqs w q) = Some dp"
    by (auto simp: sdhci_pre_req_def Option.bind_eq_Some_conv)
  define w1 where "w1 = upd_data dp (\<lambda>d. d\<lparr>d_host_cookie := COOKIE_UNMAPPED\<rparr>) w"
  have "w' = w1 \<or> (\<exists>r. sdhci_pre_dma_transfer ops dp COOKIE_PRE_MAPPED w1 = Some (r, w'))"
    using a dp unfolding sdhci_pre_req_def
    by (auto simp: w1_def[symmetric] Let_def split: if_split_asm)
  moreover have "vw w1 = vw w" by (simp add: w1_def upd_data_view)
  ultimately show "vw w' = vw w" using vw_pre_dma by metis
qed

end

context host_bus
begin

lemma tame_check_ro: "tame w (snd (sdhci_check_ro ops w))"
  using get_ro by (auto simp: sdhci_check_ro_def Let_def split_beta vw_tame split: option.split)

lemma tame_ro_loop: "tame w (snd (ro_loop ops n k w))"
proof (induction n arbitrary: k w)
  case (Suc n)
  have m: "tame w (msleep 30 (snd (sdhci_check_ro ops w)))"
    by (rule tame_trans[OF tame_check_ro vw_tame]) (simp add: msleep_def)
  show ?case using tame_check_ro tame_trans[OF m Suc.IH]
    by (simp add: Let_def split_beta)
qed simp

lemma tame_get_ro: "tame w (snd (sdhci_get_ro ops w))"
  using tame_check_ro tame_ro_loop by (simp add: sdhci_get_ro_def)

lemma tame_hw_reset: "tame w (sdhci_hw_reset ops w)"
  using hw_reset by (auto simp: sdhci_hw_reset_def call_opt_def split: option.split)

lemma step_host_inv: "step ops w w' \<Longrightarrow> host_inv w \<Longrightarrow> host_inv w'"
proof (induction rule: step.induct)
  case (request hs q w w')
  then show ?case
    using preempted.request_joins[OF request(1)] by (simp add: host_inv_def)
next
  case (atomic q w err w')
  then show ?case
    using preempted.request_atomic_joins[OF atomic(1)] by (simp add: host_inv_def)
next
  case (handler h w w')
  then show ?case using run_handler_safe safe_host_inv by blast
next
  case (thread hs w w')
  then show ?case using preempted.thread_irq_safe safe_host_inv by blast
next
  case (work hs w w')
  then show ?case
    using preempted.request_done_loop_safe safe_host_inv unfolding sdhci_complete_work_def by blast
next
  case (pre_req q w w')
  then show ?case using vw_pre_post(1) vw_tame tame_safe safe_host_inv by blast
next
  case (post_req q w w')
  then show ?case using vw_pre_post(2) vw_tame tame_safe safe_host_inv by blast
next
  case (set_ios ios w ios' w')
  then show ?case using set_ios_tame tame_safe safe_host_inv by blast
next
  case (voltage ios w err w')
  then show ?case using voltage_switch_tame[of w ios] tame_safe safe_host_inv by (metis snd_conv)
next
  case (get_cd w b w')
  then show ?case using vw_get_cd[of w] vw_tame tame_safe safe_host_inv by (metis snd_conv)
next
  case (get_ro w b w')
  then show ?case using tame_get_ro[of w] tame_safe safe_host_inv by (metis snd_conv)
next
  case (card_busy w b w')
  then have "vw w' = vw w" by (auto simp: sdhci_card_busy_def Let_def)
  then show ?case using card_busy(2) vw_tame tame_safe safe_host_inv by blast
next
  case (hw_reset w)
  then show ?case using tame_hw_reset tame_safe safe_host_inv by blast
next
  case (hs400 w)
  have "vw (sdhci_prepare_hs400_tuning w) = vw w" by (simp add: sdhci_prepare_hs400_tuning_def)
  then show ?case using hs400 vw_tame tame_safe safe_host_inv by blast
next
  case (tuning hs cp q opcode w err w')
  then show ?case
    using preempted.execute_tuning_host[OF tuning(1-3)] by (simp add: host_inv_def)
next
  case (cqe_enable w w')
  then show ?case using cqe_enable_recovers recovers_host_inv by blast
next
  case (cqe_disable r w w')
  then show ?case using cqe_disable_recovers recovers_host_inv by blast
next
  case (runtime_suspend w hs)
  obtain w1 where w1: "recovers w w1"
    "vw (sdhci_runtime_suspend_host (preempt ops hs) w) = vw (preempt ops hs w1)"
    by (rule runtime_suspend_parts)
  have "host_inv w1" by (rule recovers_host_inv[OF w1(1) runtime_suspend])
  then have "host_inv (preempt ops hs w1)" by (rule safe_host_inv[OF preempt_safe])
  then show ?case by (rule safe_host_inv[OF tame_safe[OF vw_tame[OF w1(2)]]])
next
  case (runtime_resume pm soft w w')
  then show ?case using runtime_resume_recovers recovers_host_inv by blast
next
  case (prepare w w')
  then show ?case by (rule prepare_host_inv)
qed

lemma reachable_host_inv: "reachable ops w w' \<Longrightarrow> host_inv w \<Longrightarrow> host_inv w'"
  unfolding reachable_def by (induction rule: rtranclp_induct) (auto intro: step_host_inv)

end

subsection \<open>An idle host\<close>

text \<open>Command \<open>n\<close> belongs to request \<open>n\<close>; a card is present and every line is free.\<close>

definition idle_world :: world where
  "idle_world = blank_world\<lparr>
     cmds := \<lambda>c. blank_cmd\<lparr>c_mrq := c\<rparr>,
     datas := \<lambda>d. blank_data\<lparr>d_mrq := d\<rparr>,
     mrqs := \<lambda>q. \<lparr>q_sbc = None, q_cmd = q, q_data = None, q_cap_cmd_during_tfr = False\<rparr>,
     hist := [Wr32 SDHCI_SIGNAL_ENABLE 0, Wr32 SDHCI_INT_ENABLE 0],
     e_rd := \<lambda>_ _. SDHCI_CARD_PRESENT\<rparr>"

lemma idle_world_simps [simp]:
  "h_quirks idle_world = 0"
  "h_quirks2 idle_world = 0"
  "h_bounce_buffer idle_world = None"
  "h_bounce_addr idle_world = 0"
  "h_bounce_buffer_size idle_world = 0"
  "h_flags idle_world = 0"
  "h_version idle_world = 0"
  "h_max_clk idle_world = 0"
  "h_timeout_clk idle_world = 0"
  "h_clk_mul idle_world = 0"
  "h_clock idle_world = 0"
  "h_pwr idle_world = 0"
  "h_runtime_suspended idle_world = False"
  "h_bus_on idle_world = False"
  "h_preset_enabled idle_world = False"
  "h_pending_reset idle_world = False"
  "h_irq_wake_enabled idle_world = False"
  "h_v4_mode idle_world = False"
  "h_use_external_dma idle_world = False"
  "h_always_defer_done idle_world = False"
  "h_mrqs_done idle_world = [None, None]"
  "h_cmd idle_world = None"
  "h_data_cmd idle_world = None"
  "h_deferred_cmd idle_world = None"
  "h_data idle_world = None"
  "h_data_early idle_world = False"
  "h_sg_miter idle_world = \<lparr>mi_length = 0, mi_consumed = 0, mi_addr = 0\<rparr>"
  "h_blocks idle_world = 0"
  "h_sg_count idle_world = 0"
  "h_adma_table idle_world = 0"
  "h_align_buffer idle_world = None"
  "h_adma_table_sz idle_world = 0"
  "h_align_buffer_sz idle_world = 0"
  "h_adma_addr idle_world = 0"
  "h_align_addr idle_world = 0"
  "h_desc_sz idle_world = 0"
  "h_alloc_desc_sz idle_world = 0"
  "h_timer idle_world = None"
  "h_data_timer idle_world = None"
  "h_caps idle_world = 0"
  "h_caps1 idle_world = 0"
  "h_read_caps idle_world = False"
  "h_timing idle_world = MMC_TIMING_OTHER 0"
  "h_thread_isr idle_world = 0"
  "h_ier idle_world = 0"
  "h_cqe_on idle_world = False"
  "h_cqe_ier idle_world = 0"
  "h_cqe_err_ier idle_world = 0"
  "h_tuning_done idle_world = False"
  "h_tuning_count idle_world = 0"
  "h_tuning_mode idle_world = 0"
  "h_tuning_err idle_world = None"
  "h_tuning_delay idle_world = 0"
  "h_tuning_loop_count idle_world = 0"
  "h_sdma_boundary idle_world = 0"
  "h_adma_table_cnt idle_world = 0"
  "h_data_timeout idle_world = 0"
  "m_actual_clock idle_world = 0"
  "m_caps idle_world = 0"
  "m_caps2 idle_world = 0"
  "m_ios idle_world = \<lparr>i_clock = 0, i_vdd = 0, i_power_mode = MMC_POWER_OFF,
    i_bus_width = MMC_BUS_WIDTH_1,
    i_timing = MMC_TIMING_OTHER 0, i_signal_voltage = MMC_SIGNAL_VOLTAGE_330, i_drv_type = 0\<rparr>"
  "m_max_blk_size idle_world = 0"
  "m_max_busy_timeout idle_world = 0"
  "m_retune_period idle_world = 0"
  "m_vmmc idle_world = NoSupply"
  "m_vqmmc idle_world = NoSupply"
  "m_sg idle_world = []"
  "mem idle_world = (\<lambda>_. 0)"
  "e_tick idle_world = (\<lambda>_. 0)"
  "e_alloc idle_world = (\<lambda>_. 0)"
  "e_v2p idle_world = (\<lambda>a. a)"
  "e_HZ idle_world = 1000"
  "e_CAP_NONREMOVABLE idle_world = 0"
  "e_CAP_8_BIT_DATA idle_world = 0"
  "e_CMD_ADTC idle_world = 0"
  "cmds idle_world = (\<lambda>c. blank_cmd\<lparr>c_mrq := c\<rparr>)"
  "datas idle_world = (\<lambda>d. blank_data\<lparr>d_mrq := d\<rparr>)"
  "mrqs idle_world = (\<lambda>q. \<lparr>q_sbc = None, q_cmd = q, q_data = None, q_cap_cmd_during_tfr = False\<rparr>)"
  "hist idle_world = [Wr32 SDHCI_SIGNAL_ENABLE 0, Wr32 SDHCI_INT_ENABLE 0]"
  "e_rd idle_world = (\<lambda>_ _. SDHCI_CARD_PRESENT)"
  by (simp_all add: idle_world_def)

lemma idle_host_inv: "host_inv idle_world" "tracked idle_world = {}"
  by (simp_all add: host_inv_def req_inv_def wf_links_def ier_ok_def tracked_def
      active_def finished_def blank_cmd_def blank_data_def SDHCI_MAX_MRQS_def)

text \<open>Tuning may start on it, with any address for the local objects.\<close>

lemma idle_fresh: "fresh_tuning n n MMC_SEND_TUNING_BLOCK idle_world"
  by (simp add: fresh_tuning_def idle_host_inv wf_links_def tuning_objs_def tuning_cmd_def
      tuning_mrq_def blank_cmd_def blank_data_def)

text \<open>A request on the idle host is sent at once, whatever the platform: the run the examples of
  the request life cycle start from.\<close>

lemma idle_send:
  "\<exists>w'. sdhci_request ops (preempt ops (\<lambda>_. [])) 7 idle_world = Some w' \<and> active w' = [7]"
  by (simp add: sdhci_request_def sdhci_get_cd_def Let_def mmc_card_is_removable_def
      mmc_gpio_get_cd_def sdhci_led_activate_def sdhci_present_error_def first_command_def
      sdhci_send_command_retry_def send_retry_loop.simps sdhci_send_command_def
      send_prologue_def set_cmd_error_def upd_cmd_def inhibit_mask_def sdhci_data_line_cmd_def
      tst_def send_claim_def send_data_def blank_cmd_def blank_data_def active_def
      send_issue_def sdhci_set_transfer_mode_def request_timeout_def jiffies_def
      rt_tick_get_def sdhci_mod_timer_def mod_timer_def command_flags_def)

lemma idle_reachable:
  obtains w where "sdhci_request ops (preempt ops (\<lambda>_. [])) 7 idle_world = Some w"
    "reachable ops idle_world w" "active w = [7]"
proof -
  obtain w where w: "sdhci_request ops (preempt ops (\<lambda>_. [])) 7 idle_world = Some w" "active w = [7]"
    using idle_send by blast
  have "step ops idle_world w"
    by (rule step.request[OF w(1)]) (simp_all add: idle_host_inv SDHCI_MAX_MRQS_def)
  then show ?thesis using that w by (simp add: reachable_def r_into_rtranclp)
qed

end
