(* ===== verification/TimeoutFacts.thy ===== *)
theory TimeoutFacts
  imports Timeout Complex_Main
begin

text \<open>
  The data timeout the driver programs against the time that was asked for, both in real
  nanoseconds: the hardware counts \<open>2 ^ (13 + count)\<close> cycles of the timeout clock, which is in kHz.
  The driver computes in 32-bit microseconds; the facts below say where that loses nothing.
\<close>

subsection \<open>The chosen count is long enough and, when nothing wraps, the least one\<close>

lemma push_bit_le: "unat (push_bit 1 (c :: u32)) \<le> 2 * unat c"
  by (simp add: unat_mult_lem push_bit_double unat_word_ariths)

lemma timeout_loop_sound:
  assumes "unat cur \<le> base * 2 ^ count" "count < 15"
  shows "timeout_loop count cur target < 15 \<Longrightarrow>
    unat target \<le> base * 2 ^ timeout_loop count cur target"
  using assms
proof (induction count cur target rule: timeout_loop.induct)
  case (1 count cur target)
  show ?case
  proof (cases "cur < target")
    case False
    then show ?thesis using "1.prems" by (subst timeout_loop.simps) (simp add: word_less_nat_alt)
  next
    case True
    have step: "unat (push_bit 1 cur) \<le> base * 2 ^ (count + 1)"
      using push_bit_le[of cur] "1.prems"(2) by simp
    show ?thesis
    proof (cases "count + 1 \<ge> 15")
      case True
      then show ?thesis using "1.prems" \<open>cur < target\<close> by (subst (asm) timeout_loop.simps) simp
    next
      case False
      then have eq: "timeout_loop count cur target = timeout_loop (count + 1) (push_bit 1 cur) target"
        using True by (subst timeout_loop.simps) simp
      show ?thesis
        unfolding eq using True False step "1.prems"(1)[unfolded eq]
        by (intro "1.IH"[OF True refl refl]) simp_all
    qed
  qed
qed

lemma timeout_loop_least:
  assumes "unat cur = base * 2 ^ count" "base * 2 ^ 15 < 2 ^ 32" "count < 15"
    "\<forall>k < count. base * 2 ^ k < unat target"
  shows "\<forall>k < timeout_loop count cur target. base * 2 ^ k < unat target"
  using assms
proof (induction count cur target rule: timeout_loop.induct)
  case (1 count cur target)
  show ?case
  proof (cases "cur < target")
    case False
    then show ?thesis using "1.prems" by (subst timeout_loop.simps) simp
  next
    case True
    then have here: "\<forall>k < count + 1. base * 2 ^ k < unat target"
      using "1.prems" by (auto simp: less_Suc_eq word_less_nat_alt)
    have "base * 2 ^ (count + 1) \<le> base * 2 ^ 15"
      using "1.prems"(3) by (intro mult_left_mono power_increasing) auto
    moreover have "unat cur * 2 = base * 2 ^ (count + 1)" using "1.prems"(1) by simp
    ultimately have "unat cur * 2 < 2 ^ 32" using "1.prems"(2) by linarith
    then have step: "unat (push_bit 1 cur) = base * 2 ^ (count + 1)"
      using "1.prems"(1) by (simp add: push_bit_double unat_word_ariths mult.assoc)
    show ?thesis
    proof (cases "count + 1 \<ge> 15")
      case True
      then show ?thesis
        using here \<open>cur < target\<close> by (subst timeout_loop.simps) simp
    next
      case False
      then have eq: "timeout_loop count cur target = timeout_loop (count + 1) (push_bit 1 cur) target"
        using True by (subst timeout_loop.simps) simp
      show ?thesis
        unfolding eq using True False step here "1.prems"(2)
        by (intro "1.IH"[OF True refl refl]) simp_all
    qed
  qed
qed

subsection \<open>The time asked for\<close>

text \<open>The busy time of a command is in milliseconds; the timeout of a data transfer is a time and a
  number of cycles of the card clock.\<close>

definition asked_ns :: "mmc_command \<Rightarrow> mmc_data option \<Rightarrow> u32 \<Rightarrow> real" where
  "asked_ns c data clk =
     (case data of
        None \<Rightarrow> real (unat (c_busy_timeout c)) * 10 ^ 6
      | Some d \<Rightarrow> real (unat (d_timeout_ns d))
          + (if clk = 0 then 0 else real (unat (d_timeout_clks d)) * 10 ^ 9 / real (unat clk)))"

definition hw_timeout_ns :: "u32 \<Rightarrow> u8 \<Rightarrow> real" where
  "hw_timeout_ns clk count = 2 ^ (13 + unat count) * 10 ^ 6 / real (unat clk)"

definition ceil_div :: "nat \<Rightarrow> nat \<Rightarrow> nat" where
  "ceil_div a b = a div b + (if a mod b \<noteq> 0 then 1 else 0)"

lemma real_div_split:
  fixes a b :: nat
  assumes "0 < b"
  shows "real a / real b = real (a div b) + real (a mod b) / real b"
proof -
  have "real a = real b * real (a div b) + real (a mod b)"
    by (metis mult_div_mod_eq of_nat_add of_nat_mult)
  then show ?thesis using assms by (simp add: add_divide_distrib)
qed

lemma ceil_div_bounds:
  assumes "0 < b"
  shows "real a / real b \<le> real (ceil_div a b)" "real (ceil_div a b) < real a / real b + 1"
proof -
  have e: "real a / real b = real (a div b) + real (a mod b) / real b"
    using assms by (rule real_div_split)
  have "real (a mod b) / real b < 1" using assms by simp
  then show "real a / real b \<le> real (ceil_div a b)" "real (ceil_div a b) < real a / real b + 1"
    using assms unfolding e by (auto simp: ceil_div_def)
qed

lemma ceil_div_1000: "(n + 999) div 1000 = ceil_div n 1000"
proof -
  define q where "q = n div 1000"
  define r where "r = n mod 1000"
  have n: "n = 1000 * q + r" "r < 1000" by (simp_all add: q_def r_def)
  have "(n + 999) div 1000 = q + (r + 999) div 1000" unfolding n(1) by simp
  also have "(r + 999) div 1000 = (if r \<noteq> 0 then 1 else 0)"
    using n(2) div_nat_eqI[of 1000 1 "r + 999"] by simp
  finally show ?thesis by (simp add: ceil_div_def flip: q_def r_def)
qed

lemma div_round_up_unat:
  assumes "unat n + 999 < 2 ^ 32"
  shows "unat (div_round_up n 1000) = ceil_div (unat n) 1000"
proof -
  have "unat (n + 999) = unat n + 999" using assms by (simp add: unat_word_ariths)
  then have "unat (div_round_up n 1000) = (unat n + 999) div 1000"
    by (simp add: div_round_up_def unat_div add_diff_eq[symmetric])
  also have "\<dots> = ceil_div (unat n) 1000" by (rule ceil_div_1000)
  finally show ?thesis .
qed

text \<open>Cycles of the card clock in microseconds, in the code's 64-bit arithmetic.\<close>

lemma clks_us_unat:
  fixes k clk :: u32
  assumes "clk \<noteq> 0"
  defines "v \<equiv> 1000000 * ucast k :: u64"
  shows "unat (v div ucast clk) + (if v mod ucast clk \<noteq> 0 then 1 else 0)
    = ceil_div (10 ^ 6 * unat k) (unat clk)"
proof -
  have "10 ^ 6 * unat k < 2 ^ 64" using unsigned_less[of k, where ?'a = nat] by simp
  then have v: "unat v = 10 ^ 6 * unat k"
    by (simp add: v_def unat_word_ariths unsigned_ucast_eq take_bit_nat_eq_self)
  have c: "unat (ucast clk :: u64) = unat clk"
    using unsigned_less[of clk, where ?'a = nat]
    by (simp add: unsigned_ucast_eq take_bit_nat_eq_self)
  have "v mod ucast clk \<noteq> 0 \<longleftrightarrow> unat v mod unat clk \<noteq> 0"
    by (simp add: c[symmetric] unat_mod[symmetric] unat_eq_0)
  then show ?thesis by (simp add: ceil_div_def unat_div v c)
qed

text \<open>Below 4294 seconds the driver's 32-bit microseconds are the time asked for, each part rounded
  up.\<close>

lemma target_timeout_bound:
  assumes "asked_ns c data (h_clock w) < 4294 * 10 ^ 9"
    and "\<And>d. data = Some d \<Longrightarrow> unat (d_timeout_ns d) \<le> 4294966296"
  shows "asked_ns c data (h_clock w) \<le> real (unat (sdhci_target_timeout c data w)) * 1000"
proof (cases data)
  case None
  then have "real (unat (c_busy_timeout c)) < real 4294000"
    using assms(1) by (simp add: asked_ns_def)
  then have "unat (c_busy_timeout c) < 4294000" by (simp only: of_nat_less_iff)
  then show ?thesis
    using None by (simp add: asked_ns_def sdhci_target_timeout_def unat_word_ariths)
next
  case (Some d)
  define a where "a = ceil_div (unat (d_timeout_ns d)) 1000"
  define b where "b = (if h_clock w = 0 then 0
    else ceil_div (10 ^ 6 * unat (d_timeout_clks d)) (unat (h_clock w)))"
  have t: "unat (div_round_up (d_timeout_ns d) 1000) = a"
    unfolding a_def using assms(2)[OF Some] by (intro div_round_up_unat) simp
  have ab: "asked_ns c data (h_clock w) \<le> real (a + b) * 1000"
    "real (a + b) * 1000 < asked_ns c data (h_clock w) + 2000"
  proof -
    define x where "x = real (unat (d_timeout_ns d)) / 1000"
    define y where "y = (if h_clock w = 0 then 0
      else real (10 ^ 6 * unat (d_timeout_clks d)) / real (unat (h_clock w)))"
    have "x \<le> real a" "real a < x + 1"
      using ceil_div_bounds[of 1000 "unat (d_timeout_ns d)"] by (simp_all add: x_def a_def)
    moreover have "y \<le> real b" "real b < y + 1"
      using ceil_div_bounds[of "unat (h_clock w)" "10 ^ 6 * unat (d_timeout_clks d)"]
      by (auto simp: y_def b_def unat_gt_0)
    moreover have "asked_ns c data (h_clock w) = (x + y) * 1000"
      by (simp add: asked_ns_def Some x_def y_def)
    ultimately show "asked_ns c data (h_clock w) \<le> real (a + b) * 1000"
      "real (a + b) * 1000 < asked_ns c data (h_clock w) + 2000" by simp_all
  qed
  have small: "a + b < 2 ^ 32"
  proof -
    have "real (a + b) < real (2 ^ 32)" using ab(2) assms(1) by simp
    then show ?thesis by (simp only: of_nat_less_iff)
  qed
  have "unat (sdhci_target_timeout c data w) = a + b"
  proof (cases "h_clock w \<noteq> 0 \<and> d_timeout_clks d \<noteq> 0")
    case True
    define v where "v = (1000000 * ucast (d_timeout_clks d) :: u64)"
    define q where "q = v div ucast (h_clock w)"
    define e where "e = (if v mod ucast (h_clock w) \<noteq> 0 then 1 else 0 :: u32)"
    have b: "b = unat q + unat e"
      using clks_us_unat[of "h_clock w" "d_timeout_clks d"] True
      by (simp add: b_def q_def e_def v_def split: if_split_asm)
    have "sdhci_target_timeout c data w = div_round_up (d_timeout_ns d) 1000 + e + ucast q"
      using True by (simp add: sdhci_target_timeout_def Some Let_def v_def e_def q_def)
    moreover have "unat (ucast q :: u32) = unat q"
      using small b by (simp add: unsigned_ucast_eq take_bit_nat_eq_self)
    ultimately show ?thesis using small t by (simp add: unat_word_ariths b)
  next
    case False
    then have "b = 0" by (auto simp: b_def ceil_div_def)
    then show ?thesis using False t by (auto simp: sdhci_target_timeout_def Some Let_def)
  qed
  then show ?thesis using ab(1) by simp
qed

text \<open>The count, against the driver's own 32-bit target.\<close>

lemma calc_timeout_target:
  assumes "sdhci_calc_timeout (Some cp) w = Some (count, False)"
  shows "unat (sdhci_target_timeout (cmds w cp) (map_option (datas w) (c_data (cmds w cp))) w)
      \<le> (8192000 div unat (h_timeout_clk w)) * 2 ^ unat count"
    "count \<le> 0xE" "h_timeout_clk w \<noteq> 0"
proof -
  define t where "t = sdhci_target_timeout (cmds w cp) (map_option (datas w) (c_data (cmds w cp))) w"
  define n where "n = timeout_loop 0 (8192000 div h_timeout_clk w) t"
  from assms have n: "n < 15" "count = of_nat n"
    by (auto simp: sdhci_calc_timeout_def n_def t_def Let_def split: if_splits)
  have base: "unat ((8192000 :: u32) div h_timeout_clk w) = 8192000 div unat (h_timeout_clk w)"
    by (simp add: unat_div)
  have "unat t \<le> unat ((8192000 :: u32) div h_timeout_clk w) * 2 ^ n"
    unfolding n_def using n by (intro timeout_loop_sound) (simp_all add: n_def)
  moreover have "unat count = n" using n by (simp add: unat_of_nat)
  ultimately show "unat t \<le> (8192000 div unat (h_timeout_clk w)) * 2 ^ unat count"
    unfolding base by simp
  show "count \<le> 0xE" using n by (simp add: word_le_nat_alt unat_of_nat)
  show "h_timeout_clk w \<noteq> 0"
    using assms by (auto simp: sdhci_calc_timeout_def Let_def split: if_splits)
qed

text \<open>C5. The data timeout the driver programs is never too short: when the computed count is reported
  as not too big, the controller's timeout of \<open>2 ^ (13 + count)\<close> timeout clocks is at least the time
  asked for, the busy time of the command or the time and the card clocks of the data transfer,
  although the loop shifts a 32-bit value that may wrap.  The time asked for has to be below 4294
  seconds, and its part in nanoseconds at most 4294966296: beyond that the driver's 32-bit target
  itself wraps.\<close>

theorem calc_timeout_long_enough:
  assumes "sdhci_calc_timeout (Some cp) w = Some (count, False)"
    and "asked_ns (cmds w cp) (map_option (datas w) (c_data (cmds w cp))) (h_clock w) < 4294 * 10 ^ 9"
    and "\<And>dp. c_data (cmds w cp) = Some dp \<Longrightarrow> unat (d_timeout_ns (datas w dp)) \<le> 4294966296"
  shows "asked_ns (cmds w cp) (map_option (datas w) (c_data (cmds w cp))) (h_clock w)
      \<le> hw_timeout_ns (h_timeout_clk w) count \<and> count \<le> 0xE"
proof -
  note t = calc_timeout_target[OF assms(1)]
  define d where "d = unat (h_timeout_clk w)"
  have "0 < d" using t(3) by (simp add: d_def unat_gt_0)
  then have "real (8192000 div d) \<le> 8192000 / real d" using real_div_split[of d 8192000] by simp
  then have "real (8192000 div d * 2 ^ unat count) * 1000
      \<le> 8192000 / real d * 2 ^ unat count * 1000"
    unfolding of_nat_mult of_nat_power of_nat_numeral by (intro mult_right_mono) simp_all
  also have "\<dots> = hw_timeout_ns (h_timeout_clk w) count"
    by (simp add: hw_timeout_ns_def d_def power_add)
  finally have hw: "real (8192000 div d * 2 ^ unat count) * 1000
      \<le> hw_timeout_ns (h_timeout_clk w) count" .
  have "asked_ns (cmds w cp) (map_option (datas w) (c_data (cmds w cp))) (h_clock w)
      \<le> real (unat (sdhci_target_timeout (cmds w cp)
            (map_option (datas w) (c_data (cmds w cp))) w)) * 1000"
    using assms(2,3) by (intro target_timeout_bound) auto
  also have "\<dots> \<le> real (8192000 div d * 2 ^ unat count) * 1000"
    using t(1) unfolding d_def by (intro mult_right_mono) (simp_all only: of_nat_le_iff)
  finally show ?thesis using hw t(2) by simp
qed

theorem calc_timeout_long_enough_witness:
  "let w = blank_world\<lparr>h_timeout_clk := 50000, cmds := (\<lambda>_. blank_cmd\<lparr>c_busy_timeout := 500\<rparr>)\<rparr>
   in sdhci_calc_timeout (Some 0) w = Some (12, False)
      \<and> (500 :: real) * 10 ^ 6 \<le> hw_timeout_ns 50000 12"
proof -
  define w where
    "w = blank_world\<lparr>h_timeout_clk := 50000, cmds := (\<lambda>_. blank_cmd\<lparr>c_busy_timeout := 500\<rparr>)\<rparr>"
  have eval: "sdhci_calc_timeout (Some 0) w = Some (12, False)"
    by (simp add: w_def sdhci_calc_timeout_def blank_cmd_def
        sdhci_target_timeout_def timeout_loop.simps Let_def)
  then show ?thesis
    using calc_timeout_long_enough[OF eval]
    unfolding w_def[symmetric] Let_def by (simp add: w_def asked_ns_def blank_cmd_def)
qed

end
