(* ===== verification/ClockFacts.thy ===== *)
theory ClockFacts
  imports Clock
begin

text \<open>
  What the divider computation achieves: which clock the card gets from the register value
  (\<open>hw_clock\<close>, the meaning of the clock control register in the SD host specification), that
  it is the clock the driver reports, and that it does not exceed the requested one.
\<close>

subsection \<open>The register's meaning\<close>

definition clk_divider :: "u16 \<Rightarrow> nat" where
  "clk_divider clk = unat (drop_bit 8 clk AND 0xff) + 256 * unat (drop_bit 6 clk AND 3)"

definition hw_clock :: "u32 \<Rightarrow> u32 \<Rightarrow> u16 \<Rightarrow> u32" where
  "hw_clock base mul clk =
     (let n = clk_divider clk
      in if tst clk SDHCI_PROG_CLOCK_MODE then base * mul div of_nat (n + 1)
         else if n = 0 then base else base div of_nat (2 * n))"

subsection \<open>The searches\<close>

lemma prog_div_result:
  fixes base clock d
  defines "r \<equiv> prog_div base clock d"
  assumes "d \<le> 1025"
  shows "d \<le> r \<and> r \<le> 1025 \<and> (r \<le> 1024 \<longrightarrow> fits base clock r)
    \<and> (\<forall>e. d \<le> e \<and> e < r \<longrightarrow> \<not> fits base clock e)"
  using assms(2) unfolding r_def
proof (induction "1025 - d" arbitrary: d)
  case 0
  then have "d = 1025" by simp
  then have "prog_div base clock d = d" by (subst prog_div.simps) simp
  then show ?case using \<open>d = 1025\<close> by auto
next
  case (Suc n)
  show ?case
  proof (cases "fits base clock d")
    case True
    then have "prog_div base clock d = d" by (subst prog_div.simps) simp
    then show ?thesis using True Suc(3) by auto
  next
    case False
    then have eq: "prog_div base clock d = prog_div base clock (d + 1)"
      using Suc(2) by (subst prog_div.simps) auto
    have "n = 1025 - (d + 1)" "d + 1 \<le> 1025" using Suc(2) by simp_all
    note IH = Suc(1)[OF this]
    have "\<not> fits base clock e" if "d \<le> e" "e < prog_div base clock (d + 1)" for e
      using that IH False by (cases "e = d") auto
    then show ?thesis using IH unfolding eq by auto
  qed
qed

lemma div_300_result:
  fixes base clock d
  defines "r \<equiv> div_300 base clock d"
  assumes "even d" "d \<le> 2046"
  shows "d \<le> r \<and> r \<le> 2046 \<and> even r \<and> (r < 2046 \<longrightarrow> fits base clock r)
    \<and> (\<forall>e. d \<le> e \<and> even e \<and> e < r \<longrightarrow> \<not> fits base clock e)"
  using assms(2,3) unfolding r_def
proof (induction base clock d rule: div_300.induct)
  case (1 base clock d)
  show ?case
  proof (cases "d < 2046 \<and> \<not> fits base clock d")
    case True
    then have eq: "div_300 base clock d = div_300 base clock (d + 2)"
      by (subst div_300.simps) simp
    obtain k where k: "d = 2 * k" using 1(2) by (elim evenE)
    then have "d + 2 \<le> 2046" using True by simp
    note IH = "1.IH"[OF _ _ _ this]
    have "\<not> fits base clock e" if "d \<le> e" "even e" "e < div_300 base clock (d + 2)" for e
    proof (cases "e = d")
      case True
      then show ?thesis using \<open>d < 2046 \<and> \<not> fits base clock d\<close> by simp
    next
      case False
      then have "d + 2 \<le> e" using that 1(2) by presburger
      then show ?thesis using IH True that 1(2) by auto
    qed
    then show ?thesis using IH True 1(2) unfolding eq by auto
  next
    case False
    then have "div_300 base clock d = d" using 1(3) by (subst div_300.simps) auto
    then show ?thesis using False 1(2,3) by auto
  qed
qed

lemma div_200_result:
  fixes base clock k
  defines "r \<equiv> div_200 base clock (2 ^ k)"
  assumes "k \<le> 8"
  shows "\<exists>j \<le> 8. k \<le> j \<and> r = 2 ^ j \<and> (j < 8 \<longrightarrow> fits base clock r)
    \<and> (\<forall>i. k \<le> i \<and> i < j \<longrightarrow> \<not> fits base clock (2 ^ i))"
  using assms(2) unfolding r_def
proof (induction "8 - k" arbitrary: k)
  case 0
  then have "k = 8" by simp
  then have "div_200 base clock (2 ^ k) = 2 ^ k" by (subst div_200.simps) simp
  then show ?case using \<open>k = 8\<close> by auto
next
  case (Suc n)
  have lt: "(2::nat) ^ k < 256" 
    using Suc(2) power_strict_increasing[of k 8 "2::nat"] by simp
  show ?case
  proof (cases "fits base clock (2 ^ k)")
    case True
    then have "div_200 base clock (2 ^ k) = 2 ^ k" using lt by (subst div_200.simps) simp
    then show ?thesis using True Suc(3) by (intro exI[of _ k]) auto
  next
    case False
    then have eq: "div_200 base clock (2 ^ k) = div_200 base clock (2 ^ Suc k)"
      using lt by (subst div_200.simps) (simp add: mult.commute)
    have n: "n = 8 - Suc k" "Suc k \<le> 8" using Suc(2) by simp_all
    from Suc(1)[OF n] obtain j where j: "j \<le> 8 \<and> Suc k \<le> j
      \<and> div_200 base clock (2 ^ Suc k) = 2 ^ j
      \<and> (j < 8 \<longrightarrow> fits base clock (div_200 base clock (2 ^ Suc k)))
      \<and> (\<forall>i. Suc k \<le> i \<and> i < j \<longrightarrow> \<not> fits base clock (2 ^ i))"
      by (rule exE)
    have "\<not> fits base clock (2 ^ i)" if "k \<le> i" "i < j" for i
      using that False j by (cases "i = k") auto
    then show ?thesis using j unfolding eq by (intro exI[of _ j]) auto
  qed
qed

subsection \<open>The divider field\<close>

lemma unat_low_bits:
  fixes x :: u16
  shows "unat (x AND 0xff) = unat x mod 256" "unat (drop_bit 8 x AND 3) = unat x div 256 mod 4"
proof -
  have "x AND 0xff = take_bit 8 x" by (simp add: take_bit_eq_mask mask_eq_exp_minus_1)
  then have "unat (x AND 0xff) = take_bit 8 (unat x)" by (simp only: unsigned_take_bit_eq)
  then show "unat (x AND 0xff) = unat x mod 256" by (simp add: take_bit_eq_mod)
  have "drop_bit 8 x AND 3 = take_bit 2 (drop_bit 8 x)"
    by (simp add: take_bit_eq_mask mask_eq_exp_minus_1)
  then have "unat (drop_bit 8 x AND 3) = take_bit 2 (drop_bit 8 (unat x))"
    using unsigned_less[of x, where ?'a = nat]
    by (simp add: unsigned_take_bit_eq unsigned_drop_bit_eq take_bit_nat_eq_self
        del: take_bit_eq_mask)
  then show "unat (drop_bit 8 x AND 3) = unat x div 256 mod 4"
    by (simp add: take_bit_eq_mod drop_bit_eq_div)
qed

lemma field_masks:
  "(0xff :: u16) = mask 8" "(0x300 :: u16) = push_bit 8 (mask 2)" "(3 :: u16) = mask 2"
  by (simp_all add: mask_eq_exp_minus_1 push_bit_eq_mult)

lemma bit_5: "bit (0x20 :: u16) n \<longleftrightarrow> n = 5"
proof -
  have "(0x20 :: u16) = 2 ^ 5" by simp
  then show ?thesis by (auto simp only: bit_exp_iff) simp
qed

lemma clk_field_bits:
  fixes m :: u16
  assumes "m = 0 \<or> m = SDHCI_PROG_CLOCK_MODE"
  shows "drop_bit 8 (m OR clk_field d) AND 0xff = of_nat d AND 0xff"
    "drop_bit 6 (m OR clk_field d) AND 3 = drop_bit 8 (of_nat d) AND 3"
    "(m OR clk_field d) AND 0x20 = m"
proof -
  have m: "bit m n \<Longrightarrow> n = 5" for n
    using assms by (elim disjE) (simp, simp only: bit_5)
  show "drop_bit 8 (m OR clk_field d) AND 0xff = of_nat d AND 0xff"
    unfolding clk_field_def field_masks
    by (rule bit_word_eqI) (auto simp: bit_simps dest: m)
  show "drop_bit 6 (m OR clk_field d) AND 3 = drop_bit 8 (of_nat d) AND 3"
    unfolding clk_field_def field_masks
    by (rule bit_word_eqI) (auto simp: bit_simps dest: m)
  have "\<not> bit (clk_field d) 5" by (simp add: clk_field_def bit_simps)
  then have "clk_field d AND 0x20 = 0"
    by (intro bit_word_eqI) (simp only: bit_and_iff bit_5, auto)
  then show "(m OR clk_field d) AND 0x20 = m"
    using assms by (auto simp: bit.conj_disj_distrib2)
qed

lemma clk_field_divider:
  fixes m :: u16
  assumes "d < 65536" "m = 0 \<or> m = SDHCI_PROG_CLOCK_MODE"
  shows "clk_divider (m OR clk_field d) = d mod 1024"
proof -
  have "unat (of_nat d :: u16) = d" using assms(1) by (simp add: unat_of_nat)
  then have "clk_divider (m OR clk_field d) = d mod 256 + 256 * (d div 256 mod 4)"
    unfolding clk_divider_def clk_field_bits[OF assms(2)] by (simp add: unat_low_bits)
  also have "\<dots> = d mod (256 * 4)" by (simp only: mod_mult2_eq)
  finally show ?thesis by simp
qed



subsection \<open>What is programmed without preset values\<close>

text \<open>The divider search that is used: the divided clock, up to 2046, 256 or 1024.\<close>

definition prog_used :: "u32 \<Rightarrow> world \<Rightarrow> bool" where
  "prog_used clock w \<longleftrightarrow> h_version w \<ge> SDHCI_SPEC_300 \<and> h_clk_mul w \<noteq> 0
     \<and> fits (h_max_clk w * h_clk_mul w) clock (prog_div (h_max_clk w * h_clk_mul w) clock 1)"

lemma calc_div_prog:
  fixes clock w
  assumes "\<not> h_preset_enabled w" "prog_used clock w"
  defines "d \<equiv> prog_div (h_max_clk w * h_clk_mul w) clock 1"
  shows "calc_div clock w = ((SDHCI_PROG_CLOCK_MODE, d - 1, d, h_clk_mul w), w)"
  using assms(1,2) unfolding calc_div_def prog_used_def Let_def d_def by simp

lemma calc_div_base:
  fixes clock w
  assumes "\<not> h_preset_enabled w" "\<not> prog_used clock w" "h_version w \<ge> SDHCI_SPEC_300"
    "\<not> tst (h_quirks2 w) SDHCI_QUIRK2_CLOCK_DIV_ZERO_BROKEN"
  defines "d \<equiv> (if h_max_clk w \<le> clock then 1 else div_300 (h_max_clk w) clock 2)"
  shows "calc_div clock w = ((0, d div 2, d, 1), w)"
proof -
  have "base_div_300 clock w = (d div 2, d)"
    using assms(4) unfolding base_div_300_def Let_def d_def by simp
  then show ?thesis
    using assms(1-3) unfolding calc_div_def prog_used_def Let_def split_beta by simp
qed

lemma calc_div_old:
  fixes clock w
  assumes "\<not> h_version w \<ge> SDHCI_SPEC_300"
  defines "d \<equiv> div_200 (h_max_clk w) clock 1"
  shows "calc_div clock w = ((0, d div 2, d, 1), w)"
  using assms(1) unfolding calc_div_def Let_def d_def by simp

lemma calc_clk_eq:
  assumes "calc_div clock w = ((m, n, d, mul), w)" "1 \<le> d"
  shows "sdhci_calc_clk clock old w = ((m OR clk_field n, h_max_clk w * mul div of_nat d), w)"
  using assms by (simp add: sdhci_calc_clk_def)

lemma calc_clk_cases:
  assumes "sdhci_calc_clk clock old w = ((clk, actual), w')"
    and "\<not> h_preset_enabled w" "\<not> tst (h_quirks2 w) SDHCI_QUIRK2_CLOCK_DIV_ZERO_BROKEN"
  obtains (prog) d where "prog_used clock w" "1 \<le> d" "d \<le> 1025"
      "d = prog_div (h_max_clk w * h_clk_mul w) clock 1"
      "clk = SDHCI_PROG_CLOCK_MODE OR clk_field (d - 1)"
      "actual = h_max_clk w * h_clk_mul w div of_nat d" "w' = w"
  | (base) d where "\<not> prog_used clock w" "1 \<le> d" "d \<le> 2046" "even d \<or> d = 1"
      "clk = clk_field (d div 2)" "actual = h_max_clk w div of_nat d" "w' = w"
      "fits (h_max_clk w) clock d \<or> d = (if h_version w \<ge> SDHCI_SPEC_300 then 2046 else 256)"
      "\<forall>e < d. (if h_version w \<ge> SDHCI_SPEC_300 then even e \<and> e \<noteq> 0 \<or> e = 1 else \<exists>i. e = 2 ^ i)
         \<longrightarrow> \<not> fits (h_max_clk w) clock e"
proof (cases "prog_used clock w")
  case True
  define d where "d = prog_div (h_max_clk w * h_clk_mul w) clock 1"
  have d: "1 \<le> d" "d \<le> 1025" using prog_div_result[of 1] by (simp_all add: d_def)
  note eq = calc_clk_eq[OF calc_div_prog[OF assms(2) True], folded d_def, OF d(1)]
  have "((SDHCI_PROG_CLOCK_MODE OR clk_field (d - 1), h_max_clk w * h_clk_mul w div of_nat d), w)
      = ((clk, actual), w')"
    using eq assms(1) by (rule trans[OF sym])
  then show ?thesis using prog[OF True d d_def] unfolding prod.inject by blast
next
  case False
  show ?thesis
  proof (cases "h_version w \<ge> SDHCI_SPEC_300")
    case True
    define d where "d = (if h_max_clk w \<le> clock then 1 else div_300 (h_max_clk w) clock 2)"
    note res = div_300_result[of 2 "h_max_clk w" clock, simplified]
    have one: "fits (h_max_clk w) clock 1 \<longleftrightarrow> h_max_clk w \<le> clock" by (simp add: fits_def)
    have d: "1 \<le> d" "d \<le> 2046" "even d \<or> d = 1" "fits (h_max_clk w) clock d \<or> d = 2046"
      using res one by (auto simp: d_def)
    have min: "\<not> fits (h_max_clk w) clock e" if "e < d" "even e \<and> e \<noteq> 0 \<or> e = 1" for e
    proof (cases "e = 1")
      case True
      then show ?thesis using that(1) one by (auto simp: d_def split: if_split_asm)
    next
      case False
      then have "even e" "2 \<le> e" using that(2) by auto
      then show ?thesis using that(1) res by (auto simp: d_def split: if_split_asm)
    qed
    note eq = calc_clk_eq[OF calc_div_base[OF assms(2) False True assms(3)], folded d_def, OF d(1)]
    have "((0 OR clk_field (d div 2), h_max_clk w * 1 div of_nat d), w) = ((clk, actual), w')"
      using eq assms(1) by (rule trans[OF sym])
    then have out: "clk = clk_field (d div 2)" "actual = h_max_clk w div of_nat d" "w' = w"
      by auto
    have "fits (h_max_clk w) clock d \<or> d = (if h_version w \<ge> SDHCI_SPEC_300 then 2046 else 256)"
      using d(4) True by simp
    then show ?thesis using base[OF False d(1,2,3) out] min True by simp
  next
    case old: False
    define d where "d = div_200 (h_max_clk w) clock 1"
    obtain j where j: "j \<le> 8" "d = 2 ^ j" "j < 8 \<longrightarrow> fits (h_max_clk w) clock d"
      "\<forall>i < j. \<not> fits (h_max_clk w) clock (2 ^ i)"
      using div_200_result[of 0 "h_max_clk w" clock] by (auto simp: d_def)
    have min: "\<not> fits (h_max_clk w) clock e" if "e < d" "\<exists>i. e = 2 ^ i" for e
      using that j(2,4) by (auto simp: power_strict_increasing_iff)
    have le: "d \<le> 2 ^ 8" unfolding j(2) by (rule power_increasing) (use j(1) in auto)
    have d: "1 \<le> d" "d \<le> 2046" "even d \<or> d = 1" using j(2) le by (cases j; simp)+
    have f: "fits (h_max_clk w) clock d \<or> d = 256" using j by (cases "j = 8") auto
    note eq = calc_clk_eq[OF calc_div_old[OF old, of clock], folded d_def, OF d(1)]
    have "((0 OR clk_field (d div 2), h_max_clk w * 1 div of_nat d), w) = ((clk, actual), w')"
      using eq assms(1) by (rule trans[OF sym])
    then have out: "clk = clk_field (d div 2)" "actual = h_max_clk w div of_nat d" "w' = w"
      by auto
    have "fits (h_max_clk w) clock d \<or> d = (if h_version w \<ge> SDHCI_SPEC_300 then 2046 else 256)"
      using f old by simp
    then show ?thesis using base[OF False d out] old min by simp
  qed
qed

text \<open>The divider 1025 is out of the range of the register; it is found when it is slow enough and
  1024 is not.\<close>

lemma fits_mono:
  assumes "fits base clock d" "d \<le> e" "e < 2 ^ 32" "1 \<le> d"
  shows "fits base clock e"
proof -
  have "unat (base div of_nat k) = unat base div k" if "k < 2 ^ 32" for k
    using that by (simp add: unat_div unat_of_nat)
  moreover have "unat base div e \<le> unat base div d" using assms(2,4) by (intro div_le_mono2) simp_all
  ultimately show ?thesis using assms(1-3) by (simp add: fits_def word_le_nat_alt)
qed








text \<open>C12. When only the divider 1025 is slow enough, the search for the programmable clock ends
  behind its last divider 1024 and still counts as successful: the register gets divider 1
  (field 0), so the card runs at the undivided clock although 1/1025 of it is reported.\<close>

theorem calc_clk_lost_divider:
  assumes "sdhci_calc_clk clock old w = ((clk, actual), w')"
    and "\<not> h_preset_enabled w" "\<not> tst (h_quirks2 w) SDHCI_QUIRK2_CLOCK_DIV_ZERO_BROKEN"
    and "prog_used clock w" "prog_div (h_max_clk w * h_clk_mul w) clock 1 = 1025"
  shows "hw_clock (h_max_clk w) (h_clk_mul w) clk = h_max_clk w * h_clk_mul w
    \<and> actual = h_max_clk w * h_clk_mul w div 1025"
  using assms(1-3)
proof (cases rule: calc_clk_cases)
  case (prog d)
  have "clk_divider clk = 0" "clk AND 0x20 = 0x20"
    using prog assms(5) clk_field_divider[of 1024 SDHCI_PROG_CLOCK_MODE]
      clk_field_bits(3)[of SDHCI_PROG_CLOCK_MODE 1024] by simp_all
  then show ?thesis using prog assms(5) by (simp add: hw_clock_def tst_def)
next
  case (base d)
  then show ?thesis using assms(4) by simp
qed

theorem calc_clk_lost_divider_witness:
  "\<exists>clk. sdhci_calc_clk 1024 0
      (blank_world\<lparr>h_version := SDHCI_SPEC_300, h_max_clk := 1049600, h_clk_mul := 1\<rparr>)
    = ((clk, 1024),
       blank_world\<lparr>h_version := SDHCI_SPEC_300, h_max_clk := 1049600, h_clk_mul := 1\<rparr>)
    \<and> hw_clock 1049600 1 clk = 1049600"
proof -
  define w where "w = blank_world\<lparr>h_version := SDHCI_SPEC_300, h_max_clk := 1049600, h_clk_mul := 1\<rparr>"
  have slow: "\<not> fits 1049600 1024 e" if "1 \<le> e" "e \<le> 1024" for e
  proof -
    have "unat (1049600 div of_nat e :: u32) = 1049600 div e"
      using that by (simp add: unat_div unat_of_nat)
    moreover have "1049600 div e \<ge> 1049600 div 1024" using that by (intro div_le_mono2) simp_all
    ultimately show ?thesis by (simp add: fits_def word_le_nat_alt)
  qed
  define r where "r = prog_div 1049600 1024 1"
  have "1 \<le> r" "r \<le> 1025" "r \<le> 1024 \<longrightarrow> fits 1049600 1024 r"
    using prog_div_result[of 1 1049600 1024] by (simp_all add: r_def)
  then have d: "prog_div 1049600 1024 1 = 1025" using slow[of r] unfolding r_def by linarith
  have used: "prog_used 1024 w" by (simp add: prog_used_def w_def d[simplified] fits_def)
  obtain clk actual w' where e: "sdhci_calc_clk 1024 0 w = ((clk, actual), w')"
    by (metis surj_pair)
  have "w' = w" using calc_clk_eq[OF calc_div_prog[OF _ used]] e d[simplified] by (simp add: w_def)
  then show ?thesis
    using calc_clk_lost_divider[OF e _ _ used] e d[simplified] by (simp add: w_def tst_def)
qed

end
