(* ===== verification/Cvitek.thy ===== *)
theory Cvitek
  imports Host Adma
begin

text \<open>
  The CVITEK CV181x platform driver (\<^verbatim>\<open>platform/cvitek/sdhci-cv181x.c\<close>): resets that restore the
  sampling delay, power and pad control of the SD slot, the descriptor writer that splits at
  128 MiB, tuning by a search for the widest window of working delays, and the probe function.
  The other blocks of the chip are reached by their physical address (\<open>e_io\<close> answers reads).
\<close>

subsection \<open>Constants and other blocks of the chip\<close>

abbreviation (input) SZ_128M :: "'a::len word" where "SZ_128M \<equiv> 0x08000000"
abbreviation (input) MAX_TUNING_CMD_RETRY_COUNT :: nat where "MAX_TUNING_CMD_RETRY_COUNT \<equiv> 50"
abbreviation (input) TUNE_MAX_PHCODE :: nat where "TUNE_MAX_PHCODE \<equiv> 128"
abbreviation (input) TAP_WINDOW_THLD :: nat where "TAP_WINDOW_THLD \<equiv> 20"
abbreviation (input) TOP_BASE :: u64 where "TOP_BASE \<equiv> 0x03000000"
abbreviation (input) OFFSET_SD_PWRSW_CTRL :: u64 where "OFFSET_SD_PWRSW_CTRL \<equiv> 0x1F4"
abbreviation (input) PINMUX_BASE :: u64 where "PINMUX_BASE \<equiv> 0x03001000"
abbreviation (input) CVI_CV181X_SDHCI_VENDOR_MSHC_CTRL_R :: nat where
  "CVI_CV181X_SDHCI_VENDOR_MSHC_CTRL_R \<equiv> 0x200"
abbreviation (input) CVI_CV181X_SDHCI_PHY_TX_RX_DLY :: nat where
  "CVI_CV181X_SDHCI_PHY_TX_RX_DLY \<equiv> 0x240"
abbreviation (input) CVI_CV181X_SDHCI_PHY_DLY_STS :: nat where
  "CVI_CV181X_SDHCI_PHY_DLY_STS \<equiv> 0x248"
abbreviation (input) CVI_CV181X_SDHCI_PHY_CONFIG :: nat where
  "CVI_CV181X_SDHCI_PHY_CONFIG \<equiv> 0x24C"

definition io_readl :: "u64 \<Rightarrow> world \<Rightarrow> u32 \<times> world" where
  "io_readl a w = (e_io w (hist w) a, emit (IoRd32 a) w)"

definition io_readb :: "u64 \<Rightarrow> world \<Rightarrow> u8 \<times> world" where
  "io_readb a w = (ucast (e_io w (hist w) a), emit (IoRd8 a) w)"

definition io_writel :: "u32 \<Rightarrow> u64 \<Rightarrow> world \<Rightarrow> world" where
  "io_writel v a = emit (IoWr32 a v)"

definition io_writeb :: "u8 \<Rightarrow> u64 \<Rightarrow> world \<Rightarrow> world" where
  "io_writeb v a = emit (IoWr8 a v)"

text \<open>Read, change, write back.\<close>

definition modl :: "(u32 \<Rightarrow> u32) \<Rightarrow> nat \<Rightarrow> world \<Rightarrow> world" where
  "modl f reg w = (let (v, w) = sdhci_readl reg w in sdhci_writel (f v) reg w)"

definition modw :: "(u16 \<Rightarrow> u16) \<Rightarrow> nat \<Rightarrow> world \<Rightarrow> world" where
  "modw f reg w = (let (v, w) = sdhci_readw reg w in sdhci_writew (f v) reg w)"

definition modb :: "(u8 \<Rightarrow> u8) \<Rightarrow> nat \<Rightarrow> world \<Rightarrow> world" where
  "modb f reg w = (let (v, w) = sdhci_readb reg w in sdhci_writeb (f v) reg w)"

definition io_modb :: "(u8 \<Rightarrow> u8) \<Rightarrow> u64 \<Rightarrow> world \<Rightarrow> world" where
  "io_modb f a w = (let (v, w) = io_readb a w in io_writeb (f v) a w)"

definition io_modl :: "(u32 \<Rightarrow> u32) \<Rightarrow> u64 \<Rightarrow> world \<Rightarrow> world" where
  "io_modl f a w = (let (v, w) = io_readl a w in io_writel (f v) a w)"

subsection \<open>Reset\<close>

definition sdhci_cvi_reset_helper :: "u8 \<Rightarrow> world \<Rightarrow> world option" where
  "sdhci_cvi_reset_helper msk w = do {
     let w = sdhci_writel 0 SDHCI_INT_ENABLE w;
     let w = sdhci_writel 0 SDHCI_SIGNAL_ENABLE w;
     w \<leftarrow> sdhci_reset None msk w;
     let w = sdhci_writel (h_ier w) SDHCI_INT_ENABLE w;
     Some (sdhci_writel (h_ier w) SDHCI_SIGNAL_ENABLE w)
   }"

text \<open>The delay line after a reset: the tuned tap in SDR104, the DS/HS setting otherwise.\<close>

definition cvi_phy_setup :: "world \<Rightarrow> world" where
  "cvi_phy_setup w =
     (let (ctrl_2, w) = sdhci_readw SDHCI_HOST_CONTROL2 w
      in if ctrl_2 AND SDHCI_CTRL_UHS_MASK = SDHCI_CTRL_UHS_SDR104 then
           (let w = modl (\<lambda>v. v AND NOT 2) CVI_CV181X_SDHCI_VENDOR_MSHC_CTRL_R w;
                w = modl (\<lambda>v. v AND NOT 1) CVI_CV181X_SDHCI_PHY_CONFIG w
            in sdhci_writel (0x100 OR push_bit 16 (ucast (final_tap (cvi w)) AND 0x7F))
                 CVI_CV181X_SDHCI_PHY_TX_RX_DLY w)
         else
           (let w = modl (\<lambda>v. v OR 2) CVI_CV181X_SDHCI_VENDOR_MSHC_CTRL_R w;
                w = modl (\<lambda>v. v OR 1) CVI_CV181X_SDHCI_PHY_CONFIG w
            in sdhci_writel 0x1000100 CVI_CV181X_SDHCI_PHY_TX_RX_DLY w))"

definition sdhci_cv181x_emmc_reset :: "u8 \<Rightarrow> world \<Rightarrow> world option" where
  "sdhci_cv181x_emmc_reset msk w = do {
     w \<leftarrow> sdhci_cvi_reset_helper msk w;
     Some (cvi_phy_setup (modl (\<lambda>v. v OR 1) CVI_CV181X_SDHCI_VENDOR_MSHC_CTRL_R w))
   }"

definition sdhci_cv181x_sd_reset :: "u8 \<Rightarrow> world \<Rightarrow> world option" where
  "sdhci_cv181x_sd_reset msk w = do {
     w \<leftarrow> sdhci_cvi_reset_helper msk w;
     Some (cvi_phy_setup w)
   }"

subsection \<open>Clock and timing\<close>

definition sdhci_cvi_general_get_max_clock :: "world \<Rightarrow> u32 \<times> world" where
  "sdhci_cvi_general_get_max_clock w = (375000000, w)"

definition sdhci_cvi_emmc_voltage_switch :: "world \<Rightarrow> world" where
  "sdhci_cvi_emmc_voltage_switch w = w"

definition cvi_uhs_bits :: "mmc_timing \<Rightarrow> u16" where
  "cvi_uhs_bits uhs =
     (case uhs of
        MMC_TIMING_UHS_SDR12 \<Rightarrow> SDHCI_CTRL_UHS_SDR12
      | MMC_TIMING_UHS_SDR25 \<Rightarrow> SDHCI_CTRL_UHS_SDR25
      | MMC_TIMING_UHS_SDR50 \<Rightarrow> SDHCI_CTRL_UHS_SDR50
      | MMC_TIMING_MMC_HS200 \<Rightarrow> SDHCI_CTRL_UHS_SDR104
      | MMC_TIMING_UHS_SDR104 \<Rightarrow> SDHCI_CTRL_UHS_SDR104
      | MMC_TIMING_UHS_DDR50 \<Rightarrow> SDHCI_CTRL_UHS_DDR50
      | MMC_TIMING_MMC_DDR52 \<Rightarrow> SDHCI_CTRL_UHS_DDR50
      | _ \<Rightarrow> 0)"

definition sdhci_cvi_general_set_uhs_signaling :: "mmc_timing \<Rightarrow> world \<Rightarrow> world" where
  "sdhci_cvi_general_set_uhs_signaling uhs w =
     (let (ctrl_2, w) = sdhci_readw SDHCI_HOST_CONTROL2 w;
          ctrl_2 = ctrl_2 AND NOT SDHCI_CTRL_UHS_MASK OR cvi_uhs_bits uhs;
          ctrl_2 = (if h_clock w \<le> 100000000
                       \<and> (uhs = MMC_TIMING_MMC_HS400 \<or> uhs = MMC_TIMING_MMC_HS200
                          \<or> uhs = MMC_TIMING_UHS_SDR104)
                    then ctrl_2 AND NOT SDHCI_CTRL_UHS_MASK else ctrl_2)
      in sdhci_writew ctrl_2 SDHCI_HOST_CONTROL2 w)"

subsection \<open>Descriptors do not cross 128 MiB\<close>

definition BOUNDARY_OK :: "u64 \<Rightarrow> int \<Rightarrow> bool" where
  "BOUNDARY_OK addr len \<longleftrightarrow>
     addr OR (SZ_128M - 1) = (addr + word_of_int len - 1) OR (SZ_128M - 1)"

definition cvi_adma_write_desc :: "u64 \<Rightarrow> u64 \<Rightarrow> int \<Rightarrow> u32 \<Rightarrow> world \<Rightarrow> u64 \<times> world" where
  "cvi_adma_write_desc desc addr len cmd w =
     (if len = 0 \<or> BOUNDARY_OK addr len then sdhci_adma_write_desc desc addr len cmd w
      else
        (let offset = sint (ucast (addr AND (SZ_128M - 1)) :: u32);
             tmplen = 0x08000000 - offset;
             (desc, w) = sdhci_adma_write_desc desc addr tmplen cmd w;
             addr = addr + word_of_int tmplen;
             len = len - tmplen
         in sdhci_adma_write_desc desc addr len cmd w))"

subsection \<open>Tuning\<close>

text \<open>The result masks are 16 bytes; \<^verbatim>\<open>uint32_t\<close> arrays are accessed as bytes.\<close>

definition CHECK_MASK_BIT :: "u8 list \<Rightarrow> nat \<Rightarrow> bool" where
  "CHECK_MASK_BIT m b \<longleftrightarrow> tst (m ! (b div 8)) (push_bit (b mod 8) 1)"

definition SET_MASK_BIT :: "u8 list \<Rightarrow> nat \<Rightarrow> u8 list" where
  "SET_MASK_BIT m b = m[b div 8 := m ! (b div 8) OR push_bit (b mod 8) 1]"

partial_function (option) tuning_reset_wait :: "world \<Rightarrow> world option" where
  "tuning_reset_wait w =
     (let (v, w) = sdhci_readb SDHCI_SOFTWARE_RESET w
      in if tst v 3 then tuning_reset_wait w else Some w)"

definition reset_after_tuning_pass :: "world \<Rightarrow> world option" where
  "reset_after_tuning_pass w =
     (let w = modw (\<lambda>v. v AND NOT 0x20) SDHCI_INT_STATUS w;
          w = modb (\<lambda>v. v OR 4) SDHCI_SOFTWARE_RESET w;
          w = modb (\<lambda>v. v OR 2) SDHCI_SOFTWARE_RESET w
      in tuning_reset_wait w)"

definition sdhci_cvi_cv181x_set_tap :: "u32 \<Rightarrow> world \<Rightarrow> world" where
  "sdhci_cvi_cv181x_set_tap tap w =
     (let w = modw (\<lambda>v. v AND NOT 4) SDHCI_CLOCK_CONTROL w;
          w = modl (\<lambda>v. v AND NOT 2) CVI_CV181X_SDHCI_VENDOR_MSHC_CTRL_R w;
          w = sdhci_writel (0x100 OR push_bit 16 tap) CVI_CV181X_SDHCI_PHY_TX_RX_DLY w;
          w = sdhci_writel 0 CVI_CV181X_SDHCI_PHY_CONFIG w;
          w = modw (\<lambda>v. v OR 4) SDHCI_CLOCK_CONTROL w
      in mdelay 1 w)"

text \<open>\<open>send\<close> is \<^verbatim>\<open>mmc_send_tuning(host->mmc, opcode, NULL)\<close>; \<open>k\<close> retries are left.\<close>

fun tune_tries ::
  "(world \<Rightarrow> (errno option \<times> world) option) \<Rightarrow> nat \<Rightarrow> world \<Rightarrow> (errno option \<times> world) option" where
  "tune_tries send 0 w = send w"
| "tune_tries send (Suc k) w = do {
     (ret, w) \<leftarrow> send w;
     if ret = None then tune_tries send k w else Some (ret, w)
   }"

text \<open>The loop over the taps from \<open>t\<close> on, \<open>n\<close> of them: \<^verbatim>\<open>tuning_result\<close> and
  \<^verbatim>\<open>rx_lead_lag_result\<close>.\<close>

fun tune_taps ::
  "(world \<Rightarrow> (errno option \<times> world) option) \<Rightarrow> nat \<Rightarrow> nat \<Rightarrow> u8 list \<times> u8 list \<Rightarrow> world
    \<Rightarrow> ((u8 list \<times> u8 list) \<times> world) option" where
  "tune_taps send t 0 r w = Some (r, w)"
| "tune_taps send t (Suc n) (tuning, lead_lag) w = do {
     let w = sdhci_cvi_cv181x_set_tap (of_nat t) w;
     let (sts, w) = sdhci_readw CVI_CV181X_SDHCI_PHY_DLY_STS w;
     (ret, w) \<leftarrow> tune_tries send MAX_TUNING_CMD_RETRY_COUNT w;
     let tuning = (if ret \<noteq> None then SET_MASK_BIT tuning t else tuning);
     let lead_lag = (if tst sts 2 then SET_MASK_BIT lead_lag t else lead_lag);
     tune_taps send (Suc t) n (tuning, lead_lag) w
   }"

text \<open>The search for the widest window: \<open>cur_idx\<close>, \<open>cur_size\<close>, \<open>max_idx\<close>, \<open>max_size\<close> and
  \<open>final_tap\<close> are the C variables.  A size is at most 128, so a \<^verbatim>\<open>u16\<close> does not wrap.\<close>

record window =
  cur_idx :: int
  cur_size :: nat
  max_idx :: int
  max_size :: nat
  tap :: int

definition window_step :: "bool \<Rightarrow> nat \<Rightarrow> window \<Rightarrow> window" where
  "window_step ok k v =
     (if ok then
        (let v = (if cur_idx v = -1 then v\<lparr>cur_idx := int k\<rparr> else v);
             v = v\<lparr>cur_size := cur_size v + 1\<rparr>
         in if cur_size v > max_size v then
              (let v = v\<lparr>max_size := cur_size v, max_idx := cur_idx v\<rparr>
               in if max_size v \<ge> TAP_WINDOW_THLD
                  then v\<lparr>tap := cur_idx v + int (max_size v div 2)\<rparr> else v)
            else v)
      else v\<lparr>cur_idx := -1, cur_size := 0\<rparr>)"

fun find_window :: "(nat \<Rightarrow> bool) \<Rightarrow> nat \<Rightarrow> window" where
  "find_window ok 0 = \<lparr>cur_idx = -1, cur_size = 0, max_idx = -1, max_size = 0, tap = -1\<rparr>"
| "find_window ok (Suc k) = window_step (ok k) k (find_window ok k)"

text \<open>The lead-lag window: \<open>n\<close> taps from \<open>k\<close> on; the result is \<^verbatim>\<open>max_lead_lag_size\<close>.\<close>

fun lead_lag_size :: "(nat \<Rightarrow> bool) \<Rightarrow> nat \<Rightarrow> nat \<Rightarrow> int \<times> int \<times> nat \<times> nat \<Rightarrow> nat" where
  "lead_lag_size one k 0 (phase, idx, cur, mx) = mx"
| "lead_lag_size one k (Suc n) (phase, idx, cur, mx) =
     (if \<not> one k then
        (if phase = 1 \<and> cur > 0 then cur
         else lead_lag_size one (Suc k) n
                (0, if idx = -1 then int k else idx, cur + 1, mx))
      else if idx \<noteq> -1 \<and> cur > 0
      then lead_lag_size one (Suc k) n (1, idx, cur + 1, cur + 1)
      else lead_lag_size one (Suc k) n (1, idx, 0, mx))"

text \<open>The procedure.  It divides by \<^verbatim>\<open>max_lead_lag_size\<close> for a message, which C leaves undefined when
  this is 0: then there is no result.\<close>

definition sdhci_cv181x_general_execute_tuning ::
  "(u32 \<Rightarrow> world \<Rightarrow> (errno option \<times> world) option) \<Rightarrow> u32 \<Rightarrow> world
    \<Rightarrow> (errno option \<times> world) option" where
  "sdhci_cv181x_general_execute_tuning send opcode w = do {
     let w = snd (sdhci_readw SDHCI_HOST_CONTROL2 w);
     let w = modw (\<lambda>v. v AND NOT 0x80) SDHCI_HOST_CONTROL2 w;
     let w = modw (\<lambda>v. v AND NOT 0x30) SDHCI_HOST_CONTROL2 w;
     let w = snd (sdhci_readw SDHCI_HOST_CONTROL2 w);
     ((tuning, lead_lag), w) \<leftarrow>
       tune_taps (send opcode) 0 TUNE_MAX_PHCODE (replicate 16 0, replicate 16 0) w;
     w \<leftarrow> reset_after_tuning_pass w;
     let v = find_window (\<lambda>k. \<not> CHECK_MASK_BIT tuning k) TUNE_MAX_PHCODE;
     let ll = lead_lag_size (CHECK_MASK_BIT lead_lag) 0 TUNE_MAX_PHCODE (-1, -1, 0, 0);
     if ll = 0 then None
     else do {
       let w = sdhci_cvi_cv181x_set_tap (word_of_int (tap v)) w;
       let w = w\<lparr>cvi := (cvi w)\<lparr>final_tap := word_of_int (tap v)\<rparr>\<rparr>;
       send opcode w
     }
   }"

subsection \<open>Power and pads\<close>

definition sdhci_cv181x_sd_voltage_restore :: "bool \<Rightarrow> world \<Rightarrow> world" where
  "sdhci_cv181x_sd_voltage_restore bunplug w =
     (let w = (if bunplug then
                 (let w = io_modl (\<lambda>v. 0xE OR (v AND 0xFFFFFFF0)) (TOP_BASE + OFFSET_SD_PWRSW_CTRL) w
                  in w\<lparr>cvi := (cvi w)\<lparr>sdio0_voltage_1_8_v := 0\<rparr>\<rparr>)
               else if sdio0_voltage_1_8_v (cvi w) = 0
               then io_modl (\<lambda>v. 0x9 OR (v AND 0xFFFFFFF0)) (TOP_BASE + OFFSET_SD_PWRSW_CTRL) w
               else w);
          w = mdelay 1 w;
          w = modl (\<lambda>v. v OR 2 OR 0x100 OR 0x200) CVI_CV181X_SDHCI_VENDOR_MSHC_CTRL_R w;
          w = sdhci_writel 0x1000100 CVI_CV181X_SDHCI_PHY_TX_RX_DLY w;
          w = sdhci_writel 1 CVI_CV181X_SDHCI_PHY_CONFIG w
      in mdelay 1 w)"

definition sdhci_cv181x_emmc_setup_pad :: "world \<Rightarrow> world" where
  "sdhci_cv181x_emmc_setup_pad =
     fold (\<lambda>a. io_writeb 0 (PINMUX_BASE + a)) [0x48, 0x50, 0x5C, 0x54, 0x60, 0x4C, 0x58]"

definition sdhci_cv181x_sd_setup_pad :: "bool \<Rightarrow> world \<Rightarrow> world" where
  "sdhci_cv181x_sd_setup_pad bunplug w =
     (let val = (if bunplug then 3 else 0);
          w = fold (\<lambda>a. io_writeb 0 (PINMUX_BASE + a)) [0x34, 0x38] w
      in fold (\<lambda>a. io_writeb val (PINMUX_BASE + a)) [0x1C, 0x20, 0x24, 0x28, 0x2C, 0x30] w)"

definition sdhci_cv181x_sd_setup_io :: "bool \<Rightarrow> world \<Rightarrow> world" where
  "sdhci_cv181x_sd_setup_io reset w =
     (let raise_bit = (if reset then 8 else 4);
          down_bit = (if reset then 4 else 8);
          w = io_modb (\<lambda>v. (v OR 4) AND NOT 8) (PINMUX_BASE + 0x900) w;
          w = io_modb (\<lambda>v. (v OR 8) AND NOT 4) (PINMUX_BASE + 0x904) w;
          w = io_modb (\<lambda>v. (v OR 8) AND NOT 4) (PINMUX_BASE + 0xA00) w
      in fold (\<lambda>a. io_modb (\<lambda>v. (v OR raise_bit) AND NOT down_bit) (PINMUX_BASE + a))
           [0xA04, 0xA08, 0xA0C, 0xA10, 0xA14] w)"

definition sdhci_cv181x_sd_set_power :: "mmc_power_mode \<Rightarrow> u16 \<Rightarrow> world \<Rightarrow> world" where
  "sdhci_cv181x_sd_set_power mode vdd w =
     (let (present, w) = (if mode = MMC_POWER_ON then sdhci_get_cd w else (False, w))
      in if mode = MMC_POWER_ON \<and> present then
           (let w = sdhci_set_power_noreg mode vdd w;
                w = sdhci_cv181x_sd_voltage_restore False w;
                w = sdhci_cv181x_sd_setup_pad False w;
                w = sdhci_cv181x_sd_setup_io False w
            in mdelay 5 w)
         else if mode = MMC_POWER_OFF then
           (let w = sdhci_cv181x_sd_setup_pad True w;
                w = sdhci_cv181x_sd_setup_io True w;
                w = sdhci_cv181x_sd_voltage_restore True w;
                w = sdhci_set_power_noreg mode vdd w
            in mdelay 30 w)
         else w)"

definition sdhci_cv181x_sd_voltage_switch :: "world \<Rightarrow> world" where
  "sdhci_cv181x_sd_voltage_switch w =
     (let w = io_modb (\<lambda>v. v OR 0x80 OR 0x40 OR 0x20) (PINMUX_BASE + 0xA00) w;
          w = io_modl (\<lambda>v. 0xB OR (v AND 0xFFFFFFF0)) (TOP_BASE + OFFSET_SD_PWRSW_CTRL) w;
          w = w\<lparr>cvi := (cvi w)\<lparr>sdio0_voltage_1_8_v := 1\<rparr>\<rparr>
      in mdelay 1 w)"

subsection \<open>The operations tables and the probe function\<close>

definition sdhci_cv181x_emmc_ops ::
  "(u32 \<Rightarrow> world \<Rightarrow> (errno option \<times> world) option) \<Rightarrow> sdhci_ops" where
  "sdhci_cv181x_emmc_ops send = \<lparr>
     o_set_clock = sdhci_set_clock None,
     o_set_power = None, o_irq = None, o_set_dma_mask = None, o_enable_dma = None,
     o_get_max_clock = Some sdhci_cvi_general_get_max_clock, o_get_min_clock = None,
     o_get_timeout_clock = None, o_get_max_timeout_count = None, o_set_timeout = None,
     o_set_bus_width = sdhci_set_bus_width,
     o_platform_send_init_74_clocks = None, o_get_ro = None,
     o_reset = sdhci_cv181x_emmc_reset,
     o_platform_execute_tuning = Some (sdhci_cv181x_general_execute_tuning send),
     o_set_uhs_signaling = sdhci_cvi_general_set_uhs_signaling,
     o_hw_reset = None, o_adma_workaround = None, o_card_event = None,
     o_voltage_switch = Some sdhci_cvi_emmc_voltage_switch,
     o_adma_write_desc = Some cvi_adma_write_desc, o_copy_to_bounce_buffer = None,
     o_request_done = None, o_dump_vendor_regs = None\<rparr>"

definition sdhci_cv181x_sd_ops ::
  "(u32 \<Rightarrow> world \<Rightarrow> (errno option \<times> world) option) \<Rightarrow> sdhci_ops" where
  "sdhci_cv181x_sd_ops send = \<lparr>
     o_set_clock = sdhci_set_clock None,
     o_set_power = Some (\<lambda>mode vdd w. Some (sdhci_cv181x_sd_set_power mode vdd w)),
     o_irq = None, o_set_dma_mask = None, o_enable_dma = None,
     o_get_max_clock = Some sdhci_cvi_general_get_max_clock, o_get_min_clock = None,
     o_get_timeout_clock = None, o_get_max_timeout_count = None, o_set_timeout = None,
     o_set_bus_width = sdhci_set_bus_width,
     o_platform_send_init_74_clocks = None, o_get_ro = None,
     o_reset = sdhci_cv181x_sd_reset,
     o_platform_execute_tuning = Some (sdhci_cv181x_general_execute_tuning send),
     o_set_uhs_signaling = sdhci_cvi_general_set_uhs_signaling,
     o_hw_reset = None, o_adma_workaround = None, o_card_event = None,
     o_voltage_switch = Some sdhci_cv181x_sd_voltage_switch,
     o_adma_write_desc = Some cvi_adma_write_desc, o_copy_to_bounce_buffer = None,
     o_request_done = None, o_dump_vendor_regs = None\<rparr>"

definition cvi_quirks :: u32 where
  "cvi_quirks = SDHCI_QUIRK_INVERTED_WRITE_PROTECT OR SDHCI_QUIRK_CAP_CLOCK_BASE_BROKEN"

definition sdhci_cv181x_emmc_pdata ::
  "(u32 \<Rightarrow> world \<Rightarrow> (errno option \<times> world) option) \<Rightarrow> sdhci_pltfm_data" where
  "sdhci_cv181x_emmc_pdata send = \<lparr>pd_ops = Some (sdhci_cv181x_emmc_ops send),
     pd_quirks = cvi_quirks, pd_quirks2 = SDHCI_QUIRK2_PRESET_VALUE_BROKEN\<rparr>"

definition sdhci_cv181x_sd_pdata ::
  "(u32 \<Rightarrow> world \<Rightarrow> (errno option \<times> world) option) \<Rightarrow> sdhci_pltfm_data" where
  "sdhci_cv181x_sd_pdata send = \<lparr>pd_ops = Some (sdhci_cv181x_sd_ops send),
     pd_quirks = cvi_quirks, pd_quirks2 = SDHCI_QUIRK2_PRESET_VALUE_BROKEN\<rparr>"

definition sdhci_cvi_dt_match ::
  "(u32 \<Rightarrow> world \<Rightarrow> (errno option \<times> world) option) \<Rightarrow> (string \<times> sdhci_pltfm_data) list" where
  "sdhci_cvi_dt_match send =
     [(''cvitek,cv181x-emmc'', sdhci_cv181x_emmc_pdata send),
      (''cvitek,cv181x-sd'', sdhci_cv181x_sd_pdata send)]"

definition strstr :: "string \<Rightarrow> string \<Rightarrow> bool" where
  "strstr s p \<longleftrightarrow> (\<exists>i \<in> set [0..<Suc (length s)]. take (length p) (drop i s) = p)"

definition cvi_probe_host ::
  "sdhci_ops \<Rightarrow> (world \<Rightarrow> errno option \<times> world) \<Rightarrow> world \<Rightarrow> (errno option \<times> world) option" where
  "cvi_probe_host ops hw_register w =
     (let w = sdhci_cv181x_sd_voltage_restore False w;
          (ret, w) = mmc_of_parse w
      in if ret \<noteq> None then Some (ret, sdhci_pltfm_free w)
         else do {
           (ret, w) \<leftarrow> sdhci_add_host ops hw_register (sdhci_get_property w);
           Some (if ret \<noteq> None then (ret, sdhci_pltfm_free w)
                 else (None, if strstr (m_dev_name w) ''cv-emmc''
                             then sdhci_cv181x_emmc_setup_pad w else w))
         })"

definition sdhci_cvi_probe ::
  "(u32 \<Rightarrow> world \<Rightarrow> (errno option \<times> world) option) \<Rightarrow> sdhci_ops \<Rightarrow> errno + u64 \<Rightarrow> int
    \<Rightarrow> (world \<Rightarrow> errno option \<times> world) \<Rightarrow> world \<Rightarrow> (errno option \<times> world) option" where
  "sdhci_cvi_probe send default_ops base irq hw_register w = do {
     m \<leftarrow> of_match_device (sdhci_cvi_dt_match send) (of_node w);
     case m of
       None \<Rightarrow> Some (Some EINVAL, w)
     | Some (_, pdata) \<Rightarrow>
         (let (r, w) = sdhci_pltfm_init default_ops (Some pdata) base irq w
          in case r of
               Inl e \<Rightarrow> Some (Some e, w)
             | Inr ops \<Rightarrow>
                 let w = emit (OsCall ''ioremap'') (emit (OsCall ''ioremap'') (emit (OsCall ''ioremap'') w))
                 in cvi_probe_host ops hw_register w)
   }"

end
