(* ===== verification/AdmaFacts.thy ===== *)
theory AdmaFacts
  imports Pltfm
begin

text \<open>
  The ADMA2 table as the controller reads it.  \<open>adma_walk\<close> is the controller's walk of the
  table in memory (SD host specification, ADMA2): it fails on an invalid descriptor and stops
  after the one with the end mark.  The locale \<open>adma_writer\<close> is the interface
  \<^verbatim>\<open>host->ops->adma_write_desc\<close>: a writer may split a transfer into up to \<open>c\<close> descriptors, but
  writes them one after the other, covers exactly the bytes it was given and leaves the rest of
  the table alone.  The table builder is proved correct against the interface.
\<close>

subsection \<open>Reading descriptors\<close>

definition desc_cmd :: "memory \<Rightarrow> u64 \<Rightarrow> u16" where
  "desc_cmd m a = load16 m a"

definition desc_len :: "memory \<Rightarrow> u64 \<Rightarrow> nat" where
  "desc_len m a = (let l = load16 m (a + 2) in if l = 0 then 65536 else unat l)"

definition desc_addr :: "bool \<Rightarrow> memory \<Rightarrow> u64 \<Rightarrow> u64" where
  "desc_addr f64 m a =
     ucast (load32 m (a + 4)) OR (if f64 then push_bit 32 (ucast (load32 m (a + 8))) else 0)"

fun adma_walk :: "nat \<Rightarrow> bool \<Rightarrow> nat \<Rightarrow> memory \<Rightarrow> u64 \<Rightarrow> (u64 \<times> nat) list option" where
  "adma_walk 0 f64 sz m a = None"
| "adma_walk (Suc n) f64 sz m a =
     (let cmd = desc_cmd m a;
          ps = (if cmd AND 0x30 = 0x20 then [(desc_addr f64 m a, desc_len m a)] else [])
      in if \<not> tst cmd 1 then None
         else if tst cmd ADMA2_END then Some ps
         else map_option ((@) ps) (adma_walk n f64 sz m (a + of_nat sz)))"

text \<open>The bus addresses of a piece, in the order of the transfer.\<close>

definition dma_bytes :: "u64 \<times> nat \<Rightarrow> u64 list" where
  "dma_bytes p = map (\<lambda>i. fst p + of_nat i) [0..<snd p]"

lemma dma_bytes_empty [simp]: "dma_bytes (a, 0) = []"
  by (simp add: dma_bytes_def)

lemma dma_bytes_append: "dma_bytes (a, n) @ dma_bytes (a + of_nat n, k) = dma_bytes (a, n + k)"
  by (induction k) (simp_all add: dma_bytes_def add.assoc)

text \<open>A byte of a descriptor depends on the descriptor's own memory only.\<close>

definition dsize :: "bool \<Rightarrow> nat" where
  "dsize f64 = (if f64 then 12 else 8)"

lemma desc_cong:
  assumes "\<And>i. i < dsize f64 \<Longrightarrow> m (a + of_nat i) = m' (a + of_nat i)"
  shows "desc_cmd m a = desc_cmd m' a" "desc_len m a = desc_len m' a"
    "desc_addr f64 m a = desc_addr f64 m' a"
proof -
  have b: "m (a + of_nat i) = m' (a + of_nat i)" if "i < 8" for i
    using assms[of i] that by (simp add: dsize_def split: if_split_asm)
  have c: "m (a + of_nat i) = m' (a + of_nat i)" if "f64" "i < 12" for i
    using assms[of i] that by (simp add: dsize_def)
  show "desc_cmd m a = desc_cmd m' a"
    using b[of 0] b[of 1] by (simp add: desc_cmd_def load16_def)
  show "desc_len m a = desc_len m' a"
    using b[of 2] b[of 3] by (simp add: desc_len_def load16_def add.assoc)
  show "desc_addr f64 m a = desc_addr f64 m' a"
    using b[of 4] b[of 5] b[of 6] b[of 7] c[of 8] c[of 9] c[of 10] c[of 11]
    by (simp add: desc_addr_def load32_def add.assoc)
qed

subsection \<open>A run of transfer descriptors\<close>

text \<open>\<open>holds f64 sz m a ps\<close>: from \<open>a\<close> on the memory has one transfer descriptor for each piece
  of \<open>ps\<close>.  \<open>within a n x\<close>: the address \<open>x\<close> is one of the \<open>n\<close> bytes from \<open>a\<close> on.\<close>

definition within :: "u64 \<Rightarrow> nat \<Rightarrow> u64 \<Rightarrow> bool" where
  "within a n x \<longleftrightarrow> unat (x - a) < n"

fun holds :: "bool \<Rightarrow> nat \<Rightarrow> memory \<Rightarrow> u64 \<Rightarrow> (u64 \<times> nat) list \<Rightarrow> bool" where
  "holds f64 sz m a [] = True"
| "holds f64 sz m a (p # ps) =
     (desc_cmd m a = ADMA2_TRAN_VALID \<and> (desc_addr f64 m a, desc_len m a) = p
      \<and> holds f64 sz m (a + of_nat sz) ps)"

lemma within_at: "i < n \<Longrightarrow> i < 2 ^ 64 \<Longrightarrow> within a n (a + of_nat i)"
  by (simp add: within_def unat_of_nat)

lemma within_mono: "within a n x \<Longrightarrow> n \<le> k \<Longrightarrow> within a k x"
  by (simp add: within_def)

lemma within_shift:
  assumes "within (a + of_nat n) k x" "n + k \<le> 2 ^ 64"
  shows "within a (n + k) x \<and> \<not> within a n x"
proof (cases "k = 0")
  case True
  then show ?thesis using assms by (simp add: within_def)
next
  case False
  define y where "y = x - (a + of_nat n)"
  have y: "x - a = of_nat n + y" by (simp add: y_def)
  have "unat y < k" using assms(1) by (simp add: within_def y_def)
  then have "x - a = of_nat (n + unat y)" "n + unat y < 2 ^ 64" using y assms(2) by simp_all
  moreover have "unat (of_nat (n + unat y) :: u64) = n + unat y"
    using calculation(2) unfolding unat_of_nat by (simp add: take_bit_nat_eq_self)
  ultimately have "unat (x - a) = n + unat y" by (simp del: of_nat_add)
  then show ?thesis using \<open>unat y < k\<close> by (simp add: within_def)
qed

lemma holds_cong:
  assumes "\<And>x. within a (length ps * sz) x \<Longrightarrow> m x = m' x" "length ps * sz \<le> 2 ^ 64"
    "dsize f64 \<le> sz"
  shows "holds f64 sz m a ps = holds f64 sz m' a ps"
  using assms
proof (induction ps arbitrary: a)
  case (Cons p ps)
  have d: "dsize f64 < 2 ^ 64" by (simp add: dsize_def)
  have "m (a + of_nat i) = m' (a + of_nat i)" if "i < dsize f64" for i
    using that Cons.prems d by (intro Cons.prems(1) within_at) simp_all
  note c = desc_cong[of f64 m a m', OF this]
  have "m x = m' x" if "within (a + of_nat sz) (length ps * sz) x" for x
    using within_shift[OF that] Cons.prems(1)[of x] Cons.prems(2) by simp
  then show ?case using Cons.IH[of "a + of_nat sz"] Cons.prems(2,3) c by simp
qed simp

lemma holds_append:
  "holds f64 sz m a (ps @ qs)
   \<longleftrightarrow> holds f64 sz m a ps \<and> holds f64 sz m (a + of_nat (length ps * sz)) qs"
  by (induction ps arbitrary: a) (auto simp: add.assoc)

text \<open>The controller passes over the run and goes on behind it.\<close>

lemma walk_holds:
  "holds f64 sz m a ps \<Longrightarrow>
   adma_walk (length ps + n) f64 sz m a
   = map_option ((@) ps) (adma_walk n f64 sz m (a + of_nat (length ps * sz)))"
proof (induction ps arbitrary: a)
  case (Cons p ps)
  then show ?case
    by (auto simp: Let_def tst_def add.assoc option.map_comp comp_def)
next
  case Nil
  show ?case by (cases "adma_walk n f64 sz m a") simp_all
qed

subsection \<open>The default writer\<close>

text \<open>The geometry of the table: 12-byte descriptors with 64-bit addresses, 8-byte ones
  otherwise, at most 16 bytes apart.\<close>

definition geom :: "world \<Rightarrow> bool \<Rightarrow> nat \<Rightarrow> bool" where
  "geom w f64 sz \<longleftrightarrow> tst (h_flags w) SDHCI_USE_64_BIT_DMA = f64 \<and> h_desc_sz w = of_nat sz
     \<and> dsize f64 \<le> sz \<and> sz \<le> 16"

lemma geom_mem [simp]: "geom (w\<lparr>mem := m\<rparr>) f64 sz = geom w f64 sz"
  by (simp add: geom_def)

definition desc_bytes :: "bool \<Rightarrow> u64 \<Rightarrow> int \<Rightarrow> u32 \<Rightarrow> u8 list" where
  "desc_bytes f64 addr len cmd =
     le16 (ucast cmd) @ le16 (word_of_int len) @ le32 (ucast addr)
     @ (if f64 then le32 (ucast (drop_bit 32 addr)) else [])"

lemma length_desc_bytes [simp]: "length (desc_bytes f64 addr len cmd) = dsize f64"
  by (simp add: desc_bytes_def dsize_def)

lemma write_desc_eq:
  assumes "geom w f64 sz"
  shows "sdhci_adma_write_desc desc addr len cmd w =
    (desc + of_nat sz, w\<lparr>mem := store_bytes (mem w) desc (desc_bytes f64 addr len cmd)\<rparr>)"
proof -
  have "ucast (of_nat sz :: u32) = (of_nat sz :: u64)"
    using assms by (simp add: geom_def unsigned_of_nat take_bit_nat_eq_self)
  then show ?thesis
    using assms
    by (simp add: sdhci_adma_write_desc_def geom_def desc_bytes_def Let_def store16_def
        store32_def store_bytes_append add.assoc)
qed

lemma store_bytes_within:
  assumes "\<not> within a n x" "length bs \<le> n"
  shows "store_bytes m a bs x = m x"
proof (rule store_bytes_outside, intro allI impI notI)
  fix i assume i: "i < length bs" "x = a + of_nat i"
  have "unat (of_nat i :: u64) \<le> i" by (simp add: unsigned_of_nat)
  then show False using i assms by (simp add: within_def)
qed

lemma store_bytes_nth:
  assumes "i < length bs" "length bs < 2 ^ 64"
  shows "store_bytes m a bs (a + of_nat i) = bs ! i"
  using store_bytes_rel[of 0 bs i m a] assms by simp

lemma desc_bytes_read:
  assumes m: "m = store_bytes m0 a (desc_bytes f64 addr len cmd)"
  shows "desc_cmd m a = ucast cmd"
    and "0 < len \<Longrightarrow> len \<le> 65536 \<Longrightarrow> desc_len m a = nat len"
    and "f64 \<or> addr < 2 ^ 32 \<Longrightarrow> desc_addr f64 m a = addr"
    and "load16 m (a + 2) = word_of_int len"
proof -
  have at: "m (a + of_nat i) = desc_bytes f64 addr len cmd ! i" if "i < dsize f64" for i
    using store_bytes_nth[of i "desc_bytes f64 addr len cmd" m0 a] that by (simp add: m dsize_def)
  have s: "0 < dsize f64" "1 < dsize f64" "2 < dsize f64" "3 < dsize f64" "4 < dsize f64"
    "5 < dsize f64" "6 < dsize f64" "7 < dsize f64" by (simp_all add: dsize_def)
  note b = s[THEN at]
  show "desc_cmd m a = ucast cmd"
    using b(1,2) by (simp add: desc_cmd_def load16_def desc_bytes_def le16_def of_le16_le16)
  show l: "load16 m (a + 2) = word_of_int len"
    using b(3,4) by (simp add: load16_def desc_bytes_def le16_def of_le16_le16 add.assoc)
  show "desc_len m a = nat len" if "0 < len" "len \<le> 65536"
  proof (cases "len = 65536")
    case True
    then show ?thesis by (simp add: desc_len_def l)
  next
    case False
    then have "uint (word_of_int len :: u16) = len"
      using that by (simp add: uint_word_of_int)
    then have "unat (word_of_int len :: u16) = nat len" "(word_of_int len :: u16) \<noteq> 0"
      using that by (auto simp flip: nat_uint_eq)
    then show ?thesis by (simp add: desc_len_def l Let_def)
  qed
  have lo: "load32 m (a + 4) = ucast addr"
    using b(5-8) by (simp add: load32_def desc_bytes_def le16_def le32_def of_le32_le32 add.assoc)
  show "desc_addr f64 m a = addr" if f: "f64 \<or> addr < 2 ^ 32"
  proof (cases f64)
    case True
    have hi: "load32 m (a + 8) = ucast (drop_bit 32 addr)"
      using at[of 8] at[of 9] at[of 10] at[of 11] True
      by (simp add: load32_def desc_bytes_def le16_def le32_def of_le32_le32 add.assoc dsize_def)
    show ?thesis unfolding desc_addr_def lo hi
      using True by (intro bit_word_eqI) (auto simp: bit_simps)
  next
    case False
    then have "take_bit 32 addr = addr" using f
      by (simp add: word_unat_eq_iff unsigned_take_bit_eq word_less_nat_alt take_bit_nat_eq_self)
    moreover have "ucast (ucast addr :: u32) = take_bit 32 addr"
      by (intro bit_word_eqI) (auto simp: bit_simps)
    ultimately show ?thesis using False lo by (simp add: desc_addr_def)
  qed
qed

subsection \<open>The interface of the writers\<close>

text \<open>The bus addresses a table has to cover: of a segment that does not start on a multiple of
  \<open>SDHCI_ADMA2_ALIGN\<close> the first bytes go through the next slot of the align buffer.\<close>

fun bus_bytes :: "u64 \<Rightarrow> scatterlist list \<Rightarrow> u64 list" where
  "bus_bytes al [] = []"
| "bus_bytes al (s # l) =
     (let addr = sg_dma_address s;
          off = adma_offset addr
      in dma_bytes (al, unat off)
         @ dma_bytes (addr + off, unat (sg_length s) - unat off)
         @ bus_bytes (if off = 0 then al else al + SDHCI_ADMA2_ALIGN) l)"

lemma adma_offset_small: "uint (adma_offset a) \<le> 3"
proof -
  have "adma_offset a AND 3 = adma_offset a" by (simp add: adma_offset_def and.assoc)
  then have "adma_offset a \<le> 3" by (metis word_and_le1)
  then show ?thesis by (simp add: word_le_def)
qed

lemma adma_offset_small_nat: "unat (adma_offset a) \<le> 3"
  using adma_offset_small[of a] by (simp only: unat_eq_nat_uint)

text \<open>What the align buffer from \<open>al\<close> on has to hold: in the slot of every segment that does not
  start on a multiple of \<open>SDHCI_ADMA2_ALIGN\<close> the first bytes of the segment, as the memory \<open>m0\<close>
  has them.\<close>

fun heads_in :: "memory \<Rightarrow> memory \<Rightarrow> u64 \<Rightarrow> scatterlist list \<Rightarrow> bool" where
  "heads_in m0 m al [] = True"
| "heads_in m0 m al (s # l) =
     (let off = adma_offset (sg_dma_address s)
      in (\<forall>i < unat off. m (al + of_nat i) = m0 (sg_virt s + of_nat i))
         \<and> heads_in m0 m (if off = 0 then al else al + SDHCI_ADMA2_ALIGN) l)"

lemma heads_in_cong:
  "(\<And>s i. s \<in> set l \<Longrightarrow> i < unat (adma_offset (sg_dma_address s)) \<Longrightarrow>
      m0 (sg_virt s + of_nat i) = m1 (sg_virt s + of_nat i)) \<Longrightarrow>
   heads_in m0 m al l = heads_in m1 m al l"
  by (induction l arbitrary: al) (simp_all add: Let_def)

lemma within_step:
  assumes "within (al + 4) (4 * n) x" "4 * Suc n \<le> (2 :: nat) ^ 64"
  shows "within al (4 * Suc n) x"
  using within_shift[of al 4 "4 * n" x] assms by simp

lemma heads_in_table:
  "(\<And>x. within al (4 * length l) x \<Longrightarrow> m x = m' x) \<Longrightarrow> 4 * length l \<le> (2 :: nat) ^ 64 \<Longrightarrow>
   heads_in m0 m al l = heads_in m0 m' al l"
proof (induction l arbitrary: al)
  case (Cons s l)
  define off where "off = adma_offset (sg_dma_address s)"
  define al1 where "al1 = (if off = 0 then al else al + 4)"
  have "m x = m' x" if "within al1 (4 * length l) x" for x
    using that within_step[of al "length l" x] within_mono[of al "4 * length l" x "4 * Suc (length l)"]
      Cons.prems by (auto simp: al1_def split: if_split_asm)
  then have "heads_in m0 m al1 l = heads_in m0 m' al1 l" using Cons by simp
  moreover have "m (al + of_nat i) = m' (al + of_nat i)" if "i < unat off" for i
    using that adma_offset_small[of "sg_dma_address s"] within_at[of i "4 * length (s # l)" al]
      Cons.prems by (simp add: off_def nat_le_iff flip: nat_uint_eq)
  ultimately show ?case by (simp add: Let_def al1_def flip: off_def)
qed simp

text \<open>The contents of a scatter list as the processor sees it: the bytes of each segment.\<close>

definition seg_bytes :: "memory \<Rightarrow> scatterlist \<Rightarrow> u8 list" where
  "seg_bytes m s = map (\<lambda>i. m (sg_virt s + of_nat i)) [0..<unat (sg_length s)]"

lemma mark_end_desc:
  fixes m :: memory and a :: u64
  defines "m' \<equiv> store16 m a (load16 m a OR ADMA2_END)"
  shows "desc_cmd m' a = desc_cmd m a OR ADMA2_END" "desc_len m' a = desc_len m a"
    "desc_addr f64 m' a = desc_addr f64 m a" "\<not> within a 2 x \<Longrightarrow> m' x = m x"
proof -
  show out: "m' x = m x" if "\<not> within a 2 x" for x
    using that by (simp add: m'_def store16_def store_bytes_within)
  have "\<not> within a 2 (a + of_nat i)" if "2 \<le> i" "i < 12" for i
    using that by (simp add: within_def unsigned_of_nat take_bit_nat_eq_self)
  then have b: "m' (a + of_nat i) = m (a + of_nat i)" if "2 \<le> i" "i < 12" for i
    using out that by blast
  show "desc_cmd m' a = desc_cmd m a OR ADMA2_END" by (simp add: m'_def desc_cmd_def)
  show "desc_len m' a = desc_len m a"
    using b[of 2] b[of 3] by (simp add: desc_len_def load16_def add.assoc)
  show "desc_addr f64 m' a = desc_addr f64 m a"
    using b[of 4] b[of 5] b[of 6] b[of 7] b[of 8] b[of 9] b[of 10] b[of 11]
    by (simp add: desc_addr_def load32_def add.assoc)
qed

text \<open>What a segment must satisfy: not shorter than the part that is copied, and below 4 GB when
  the descriptors have 32-bit addresses.\<close>

definition seg_ok :: "bool \<Rightarrow> scatterlist \<Rightarrow> bool" where
  "seg_ok f64 s \<longleftrightarrow> uint (adma_offset (sg_dma_address s)) \<le> sint (sg_length s)
     \<and> (f64 \<or> uint (sg_dma_address s) + sint (sg_length s) \<le> 2 ^ 32)"

lemma sint_nonneg: "0 \<le> sint x \<Longrightarrow> sint x = uint x" for x :: u32
proof -
  assume a: "0 \<le> sint x"
  have e: "sint x = signed_take_bit 31 (uint x)" by (simp add: sint_uint)
  have b: "\<not> bit (uint x) 31" using a by (simp only: e signed_take_bit_nonnegative_iff) simp
  have "take_bit 32 (uint x) = uint x"
    using unsigned_less[of x, where ?'a = int] by (simp add: take_bit_int_eq_self_iff)
  then show ?thesis using b by (simp add: e signed_take_bit_eq_take_bit_minus)
qed

lemma seg_ok_head:
  assumes "seg_ok f64 s"
  shows "unat (adma_offset (sg_dma_address s)) \<le> unat (sg_length s)"
proof -
  have "uint (adma_offset (sg_dma_address s)) \<le> sint (sg_length s)"
    using assms by (simp add: seg_ok_def)
  moreover from this have "sint (sg_length s) = uint (sg_length s)"
    using uint_ge_0[of "adma_offset (sg_dma_address s)"] by (intro sint_nonneg) linarith
  ultimately show ?thesis by (simp only: unat_eq_nat_uint nat_mono)
qed

text \<open>\<open>cpu\<close> is the processor's address of a bus address.  When it takes the align buffer to the
  align buffer and every segment to its segment, the bytes the controller fetches are those of the
  list.\<close>

lemma seg_fetch:
  fixes s :: scatterlist
  defines "off \<equiv> adma_offset (sg_dma_address s)"
  assumes len: "unat off \<le> unat (sg_length s)"
    and head: "\<And>i. i < unat off \<Longrightarrow> m (cpu (ala + of_nat i)) = m0 (sg_virt s + of_nat i)"
    and rest: "\<And>i. i < unat (sg_length s) \<Longrightarrow>
      m (cpu (sg_dma_address s + of_nat i)) = m0 (sg_virt s + of_nat i)"
  shows "map (m \<circ> cpu) (dma_bytes (ala, unat off)
      @ dma_bytes (sg_dma_address s + off, unat (sg_length s) - unat off)) = seg_bytes m0 s"
proof (rule nth_equalityI)
  show "length (map (m \<circ> cpu) (dma_bytes (ala, unat off)
      @ dma_bytes (sg_dma_address s + off, unat (sg_length s) - unat off)))
    = length (seg_bytes m0 s)"
    using len by (simp add: dma_bytes_def seg_bytes_def)
  fix i assume "i < length (map (m \<circ> cpu) (dma_bytes (ala, unat off)
      @ dma_bytes (sg_dma_address s + off, unat (sg_length s) - unat off)))"
  then have i: "i < unat (sg_length s)" using len by (simp add: dma_bytes_def)
  show "map (m \<circ> cpu) (dma_bytes (ala, unat off)
      @ dma_bytes (sg_dma_address s + off, unat (sg_length s) - unat off)) ! i = seg_bytes m0 s ! i"
  proof (cases "i < unat off")
    case True
    then show ?thesis using head i by (simp add: dma_bytes_def seg_bytes_def nth_append)
  next
    case False
    then have "off + (of_nat (i - unat off) :: u64) = of_nat i" by (simp add: of_nat_diff)
    then have "sg_dma_address s + off + of_nat (i - unat off) = sg_dma_address s + of_nat i"
      by (metis add.assoc)
    then show ?thesis using False rest[OF i] i
      by (simp add: dma_bytes_def seg_bytes_def nth_append)
  qed
qed

lemma heads_fetch:
  assumes "heads_in m0 m al ss" "\<forall>s \<in> set ss. seg_ok f64 s"
    and "\<forall>i < 4 * length ss. cpu (ala + of_nat i) = al + of_nat i"
    and "\<forall>s \<in> set ss. \<forall>i < unat (sg_length s).
      m (cpu (sg_dma_address s + of_nat i)) = m0 (sg_virt s + of_nat i)"
  shows "map (m \<circ> cpu) (bus_bytes ala ss) = concat (map (seg_bytes m0) ss)"
  using assms
proof (induction ss arbitrary: al ala)
  case (Cons s ss)
  define off where "off = adma_offset (sg_dma_address s)"
  define ala1 where "ala1 = (if off = 0 then ala else ala + 4)"
  define al1 where "al1 = (if off = 0 then al else al + 4)"
  have off: "unat off \<le> 3" unfolding off_def by (rule adma_offset_small_nat)
  have "seg_ok f64 s" using Cons.prems(2) by simp
  then have len: "unat off \<le> unat (sg_length s)" unfolding off_def by (rule seg_ok_head)
  have small: "i < 4 * length (s # ss)" if "i < unat off" for i
    using that off by simp
  have "m (cpu (ala + of_nat i)) = m0 (sg_virt s + of_nat i)" if "i < unat off" for i
    using Cons.prems(1,3) small[OF that] that by (simp add: Let_def off_def)
  then have one: "map (m \<circ> cpu) (dma_bytes (ala, unat off)
      @ dma_bytes (sg_dma_address s + off, unat (sg_length s) - unat off)) = seg_bytes m0 s"
    using seg_fetch[of s m cpu ala m0] len Cons.prems(4) by (simp add: off_def)
  have "cpu (ala1 + of_nat i) = al1 + of_nat i" if "i < 4 * length ss" for i
  proof (cases "off = 0")
    case True
    then show ?thesis using Cons.prems(3) that by (simp add: ala1_def al1_def)
  next
    case False
    then show ?thesis using Cons.prems(3)[rule_format, of "4 + i"] that
      by (simp add: ala1_def al1_def add.assoc)
  qed
  then have "map (m \<circ> cpu) (bus_bytes ala1 ss) = concat (map (seg_bytes m0) ss)"
    using Cons.prems by (intro Cons.IH[of al1]) (simp_all add: Let_def al1_def off_def)
  moreover have "bus_bytes ala (s # ss) = (dma_bytes (ala, unat off)
      @ dma_bytes (sg_dma_address s + off, unat (sg_length s) - unat off)) @ bus_bytes ala1 ss"
    by (simp add: Let_def ala1_def flip: off_def)
  ultimately show ?case using one by (simp only: map_append list.map concat.simps)
qed simp

locale adma_writer =
  fixes ops :: sdhci_ops and c :: nat
  assumes writes: "geom w f64 sz \<Longrightarrow> 0 < len \<Longrightarrow> len \<le> 65536 \<Longrightarrow>
      f64 \<or> uint addr + len \<le> 2 ^ 32 \<Longrightarrow>
      \<exists>ps m. raw_sdhci_adma_write_desc ops desc addr len ADMA2_TRAN_VALID w
          = (desc + of_nat (length ps * sz), w\<lparr>mem := m\<rparr>)
        \<and> ps \<noteq> [] \<and> length ps \<le> c \<and> holds f64 sz m desc ps
        \<and> concat (map dma_bytes ps) = dma_bytes (addr, nat len)
        \<and> (\<forall>x. \<not> within desc (length ps * sz) x \<longrightarrow> m x = mem w x)"
    and writes_end: "geom w f64 sz \<Longrightarrow>
      \<exists>m. raw_sdhci_adma_write_desc ops desc 0 0 ADMA2_NOP_END_VALID w
          = (desc + of_nat sz, w\<lparr>mem := m\<rparr>)
        \<and> desc_cmd m desc = ADMA2_NOP_END_VALID
        \<and> (\<forall>x. \<not> within desc sz x \<longrightarrow> m x = mem w x)"
begin

text \<open>Writing a piece, or nothing when it is empty, behind a run of descriptors.\<close>

lemma write_next:
  assumes "geom w f64 sz" "holds f64 sz (mem w) base ps0" "(length ps0 + c) * sz \<le> T" "T \<le> 2 ^ 64"
    and "0 \<le> len" "len \<le> 65536" "f64 \<or> uint addr + len \<le> 2 ^ 32"
  obtains ps m where
    "(if len \<noteq> 0 then raw_sdhci_adma_write_desc ops (base + of_nat (length ps0 * sz)) addr len
        ADMA2_TRAN_VALID w else (base + of_nat (length ps0 * sz), w))
      = (base + of_nat (length (ps0 @ ps) * sz), w\<lparr>mem := m\<rparr>)"
    "length ps \<le> c" "ps = [] \<longrightarrow> len = 0" "holds f64 sz m base (ps0 @ ps)"
    "concat (map dma_bytes ps) = dma_bytes (addr, nat len)"
    "\<And>x. \<not> within base T x \<Longrightarrow> m x = mem w x"
proof (cases "len = 0")
  case True
  then show ?thesis using that[of "[]" "mem w"] assms(2) by simp
next
  case False
  define desc where "desc = base + of_nat (length ps0 * sz)"
  have "0 < len" using assms(5) False by simp
  then obtain ps m where w: "raw_sdhci_adma_write_desc ops desc addr len ADMA2_TRAN_VALID w
        = (desc + of_nat (length ps * sz), w\<lparr>mem := m\<rparr>)"
    "ps \<noteq> []" "length ps \<le> c" "holds f64 sz m desc ps"
    "concat (map dma_bytes ps) = dma_bytes (addr, nat len)"
    "\<And>x. \<not> within desc (length ps * sz) x \<Longrightarrow> m x = mem w x"
    using writes[OF assms(1) _ assms(6,7), of desc] by auto
  have room: "length ps0 * sz + length ps * sz \<le> T"
  proof -
    have "length ps * sz \<le> c * sz" using w(3) by (rule mult_le_mono1)
    then show ?thesis using assms(3) unfolding distrib_right by linarith
  qed
  have out: "\<not> within desc (length ps * sz) x" if "within base (length ps0 * sz) x \<or> \<not> within base T x" for x
    using within_shift[of base "length ps0 * sz" "length ps * sz" x] that room assms(4)
      within_mono[of base _ x T] by (auto simp: desc_def)
  have "holds f64 sz m base ps0 = holds f64 sz (mem w) base ps0"
    using out w(6) room assms(1,4) by (intro holds_cong) (auto simp: geom_def)
  then have "holds f64 sz m base (ps0 @ ps)"
    using assms(2) w(4) by (simp add: holds_append desc_def)
  then show ?thesis
    using that[of ps m] w out False by (simp add: desc_def distrib_right add.assoc)
qed

text \<open>One segment: at most \<open>c + 1\<close> descriptors, and at most one slot of the align buffer.\<close>

lemma adma_seg_ok:
  assumes run: "adma_seg ops d s (base + of_nat (length ps0 * sz), al, ala) w
      = Some ((desc, al', ala'), w')"
    and g: "geom w f64 sz" and hold: "holds f64 sz (mem w) base ps0"
    and room: "(length ps0 + 2 * c) * sz \<le> T" "T \<le> 2 ^ 64"
    and s: "seg_ok f64 s" "f64 \<or> uint ala + 4 \<le> 2 ^ 32"
    and apart: "\<forall>x. within al 4 x \<longrightarrow> \<not> within base T x"
  obtains ps m h where
    "desc = base + of_nat (length (ps0 @ ps) * sz)" "length ps \<le> 2 * c"
    "holds f64 sz m base (ps0 @ ps)" "w' = w\<lparr>mem := m, hist := h\<rparr>"
    "al' = (if adma_offset (sg_dma_address s) = 0 then al else al + 4)"
    "ala' = (if adma_offset (sg_dma_address s) = 0 then ala else ala + 4)"
    "concat (map dma_bytes ps)
      = dma_bytes (ala, unat (adma_offset (sg_dma_address s)))
        @ dma_bytes (sg_dma_address s + adma_offset (sg_dma_address s),
            unat (sg_length s) - unat (adma_offset (sg_dma_address s)))"
    "ps = [] \<longrightarrow> sg_length s = 0"
    "\<And>x. \<not> within base T x \<Longrightarrow> \<not> within al 4 x \<Longrightarrow> m x = mem w x"
    "\<And>i. d_write d \<Longrightarrow> i < unat (adma_offset (sg_dma_address s)) \<Longrightarrow>
        m (al + of_nat i) = mem w (sg_virt s + of_nat i)"
proof -
  define addr where "addr = sg_dma_address s"
  define off where "off = adma_offset addr"
  define w1 where "w1 = (if off \<noteq> 0 \<and> d_write d
     then w\<lparr>mem := memcpy (mem w) al (sg_virt s) off\<rparr> else w)"
  have off3: "uint off \<le> 3" by (simp add: off_def adma_offset_small)
  have w1: "w1 = w\<lparr>mem := mem w1\<rparr>" "geom w1 f64 sz" using g by (simp_all add: w1_def)
  have w1_out: "mem w1 x = mem w x" if "\<not> within al 4 x" for x
    using that off3 by (auto simp: w1_def memcpy_def within_def word_less_nat_alt nat_le_iff
        simp flip: nat_uint_eq) 
  have hold1: "holds f64 sz (mem w1) base ps0"
  proof -
    have "length ps0 * sz \<le> T" using room(1) by (simp add: distrib_right)
    then have "holds f64 sz (mem w1) base ps0 = holds f64 sz (mem w) base ps0"
      using w1_out apart within_mono[of base _ _ T] room(2) g
      by (intro holds_cong) (auto simp: geom_def)
    then show ?thesis using hold by simp
  qed
  define len where "len = sint (sg_length s) - uint off"
  have len0: "0 \<le> len" "uint off \<le> sint (sg_length s)"
    using s(1) by (simp_all add: len_def off_def addr_def seg_ok_def)
  have r1: "(length ps0 + c) * sz \<le> T" using room(1) by (simp add: distrib_right)
  obtain ps1 m1 where p1:
    "(if uint off \<noteq> 0 then raw_sdhci_adma_write_desc ops (base + of_nat (length ps0 * sz)) ala (uint off)
        ADMA2_TRAN_VALID w1 else (base + of_nat (length ps0 * sz), w1))
      = (base + of_nat (length (ps0 @ ps1) * sz), w1\<lparr>mem := m1\<rparr>)"
    "length ps1 \<le> c" "ps1 = [] \<longrightarrow> uint off = 0" "holds f64 sz m1 base (ps0 @ ps1)"
    "concat (map dma_bytes ps1) = dma_bytes (ala, nat (uint off))"
    "\<And>x. \<not> within base T x \<Longrightarrow> m1 x = mem w1 x"
    by (rule write_next[OF w1(2) hold1 r1 room(2), of "uint off" ala]) (use off3 s(2) in auto)
  have r2: "(length (ps0 @ ps1) + c) * sz \<le> T"
  proof -
    have "(length (ps0 @ ps1) + c) * sz \<le> (length ps0 + 2 * c) * sz"
      using p1(2) by (intro mult_le_mono1) simp
    then show ?thesis using room(1) by (rule order_trans)
  qed
  have top: "f64 \<or> uint (addr + off) + len \<le> 2 ^ 32"
    using s(1) uint_add_le[of addr off] by (auto simp: seg_ok_def len_def addr_def)
  define w2 where "w2 = w1\<lparr>mem := m1\<rparr>"
  have w2: "geom w2 f64 sz" "holds f64 sz (mem w2) base (ps0 @ ps1)"
    using w1(2) p1(4) by (simp_all add: w2_def)
  have off_zero: "uint off = 0 \<longleftrightarrow> off = 0" by (simp add: uint_0_iff)
  define A where "A = base + of_nat (length ps0 * sz)"
  define B where "B = base + of_nat (length (ps0 @ ps1) * sz)"
  have mid: "adma_seg ops d s (A, al, ala) w =
    (if len \<le> 65536 then
       let (desc, w) = (if len \<noteq> 0 then raw_sdhci_adma_write_desc ops B (addr + off) len
             ADMA2_TRAN_VALID w2 else (B, w2));
           w = WARN_ON 762 (desc - h_adma_table w \<ge> h_adma_table_sz w) w
       in Some ((desc, if off = 0 then al else al + 4, if off = 0 then ala else ala + 4), w)
     else None)"
  proof (cases "off = 0")
    case True
    then have "B = A" "w2 = w" using p1(1) by (simp_all add: A_def B_def w2_def w1_def)
    then show ?thesis using True
      by (simp add: adma_seg_def Let_def BUG_ON_def len_def flip: addr_def off_def)
  next
    case False
    then have "raw_sdhci_adma_write_desc ops A ala (uint off) ADMA2_TRAN_VALID
        (if d_write d then w\<lparr>mem := memcpy (mem w) al (sg_virt s) off\<rparr> else w) = (B, w2)"
      using p1(1) by (simp only: off_zero w1_def w2_def A_def B_def simp_thms if_True if_False)
    then show ?thesis using False off3
      by (cases "d_write d")
        (simp_all add: adma_seg_def Let_def BUG_ON_def len_def flip: addr_def off_def)
  qed
  then have small: "len \<le> 65536" using run[folded A_def] by (simp split: if_splits)
  obtain ps2 m2 where p2:
    "(if len \<noteq> 0 then raw_sdhci_adma_write_desc ops (base + of_nat (length (ps0 @ ps1) * sz))
        (addr + off) len ADMA2_TRAN_VALID w2 else (base + of_nat (length (ps0 @ ps1) * sz), w2))
      = (base + of_nat (length ((ps0 @ ps1) @ ps2) * sz), w2\<lparr>mem := m2\<rparr>)"
    "length ps2 \<le> c" "ps2 = [] \<longrightarrow> len = 0" "holds f64 sz m2 base ((ps0 @ ps1) @ ps2)"
    "concat (map dma_bytes ps2) = dma_bytes (addr + off, nat len)"
    "\<And>x. \<not> within base T x \<Longrightarrow> m2 x = mem w2 x"
    by (rule write_next[OF w2 r2 room(2) len0(1) small top], rule that)
  have "sint (sg_length s) = uint (sg_length s)"
    using len0(2) uint_ge_0[of off] by (intro sint_nonneg) linarith
  then have len_nat: "nat len = unat (sg_length s) - unat off"
    by (simp add: len_def nat_diff_distrib' flip: nat_uint_eq)
  have empty: "sg_length s = 0" if "ps1 @ ps2 = []"
    using that p1(3) p2(3) \<open>sint (sg_length s) = uint (sg_length s)\<close>
    by (simp add: len_def uint_0_iff)
  have res: "desc = base + of_nat (length ((ps0 @ ps1) @ ps2) * sz)"
    "al' = (if off = 0 then al else al + 4)" "ala' = (if off = 0 then ala else ala + 4)"
    "w' = w\<lparr>mem := m2, hist := hist w'\<rparr>"
    using run[folded A_def] mid small p2(1)[folded B_def] w1(1)
    by (auto simp: WARN_ON_def emit_def w2_def w1_def simp del: length_append)
  have bytes: "concat (map dma_bytes (ps1 @ ps2))
      = dma_bytes (ala, unat off) @ dma_bytes (addr + off, unat (sg_length s) - unat off)"
    using p1(5) p2(5) len_nat by (simp flip: nat_uint_eq)
  have out: "m2 x = mem w x" if "\<not> within base T x" "\<not> within al 4 x" for x
    using that p1(6) p2(6) w1_out by (simp add: w2_def)
  have copied: "m2 (al + of_nat i) = mem w (sg_virt s + of_nat i)"
    if "d_write d" "i < unat off" for i
  proof -
    have "i < 4" using that(2) off3 by (simp add: nat_less_iff nat_le_iff flip: nat_uint_eq)
    then have "\<not> within base T (al + of_nat i)" using apart within_at[of i 4 al] by simp
    then have "m2 (al + of_nat i) = mem w1 (al + of_nat i)" using p1(6) p2(6) by (simp add: w2_def)
    moreover have "(of_nat i :: u64) < off"
      using that(2) \<open>i < 4\<close> by (simp add: word_less_nat_alt unat_of_nat)
    moreover from this have "off \<noteq> 0" by auto
    ultimately show ?thesis using that(1) by (simp add: w1_def memcpy_at)
  qed
  show ?thesis
    by (rule that[of "ps1 @ ps2" m2 "hist w'"])
      (use res p1(2) p2(2,4) bytes empty out copied in \<open>simp_all add: off_def addr_def\<close>)
qed

text \<open>All segments.\<close>

lemma adma_segs_ok:
  assumes "adma_segs ops d n l (base + of_nat (length ps0 * sz), al, ala) w
      = Some ((desc, al', ala'), w')" "sg_walk n l = Some ss"
    and "geom w f64 sz" "holds f64 sz (mem w) base ps0"
    and "(length ps0 + 2 * c * n) * sz \<le> T" "T \<le> 2 ^ 64" "4 * n \<le> 2 ^ 64"
    and "\<forall>s \<in> set ss. seg_ok f64 s" "f64 \<or> uint ala + 4 * int n \<le> 2 ^ 32"
    and "\<forall>x. within al (4 * n) x \<longrightarrow> \<not> within base T x"
    and "\<forall>s \<in> set ss. \<forall>i < unat (adma_offset (sg_dma_address s)).
      \<not> within base T (sg_virt s + of_nat i) \<and> \<not> within al (4 * n) (sg_virt s + of_nat i)"
  shows "\<exists>ps m h. desc = base + of_nat (length (ps0 @ ps) * sz) \<and> length ps \<le> 2 * c * n
    \<and> holds f64 sz m base (ps0 @ ps) \<and> w' = w\<lparr>mem := m, hist := h\<rparr>
    \<and> concat (map dma_bytes ps) = bus_bytes ala ss
    \<and> (ps = [] \<longrightarrow> (\<forall>s \<in> set ss. sg_length s = 0))
    \<and> (\<forall>x. \<not> within base T x \<longrightarrow> \<not> within al (4 * n) x \<longrightarrow> m x = mem w x)
    \<and> (d_write d \<longrightarrow> heads_in (mem w) m al ss)"
  using assms
proof (induction n arbitrary: l ps0 al ala w ss)
  case 0
  then have "ss = []" "desc = base + of_nat (length ps0 * sz)" "w' = w" by simp_all
  then show ?case using "0.prems"(4)
    by (intro exI[of _ "[]"] exI[of _ "mem w"] exI[of _ "hist w"]) simp
next
  case (Suc n)
  obtain s l' where l: "l = s # l'" using Suc.prems(1) by (cases l) simp_all
  obtain q where q: "adma_seg ops d s (base + of_nat (length ps0 * sz), al, ala) w = Some q"
    "(case q of (p, w) \<Rightarrow> adma_segs ops d n (sg_next l) p w) = Some ((desc, al', ala'), w')"
    using Suc.prems(1) unfolding l adma_segs.simps by (rule bind_eq_SomeD)
  obtain p w1 where "q = (p, w1)" by (cases q)
  note seg = q[unfolded this prod.case]
  obtain ss' where ss: "ss = s # ss'" "sg_walk n (sg_next l) = Some ss'"
    using Suc.prems(2) by (auto simp: l)
  obtain desc1 al1 ala1 where p: "p = (desc1, al1, ala1)" by (cases p)
  define off where "off = adma_offset (sg_dma_address s)"
  have room: "(length ps0 + 2 * c) * sz \<le> T"
    using Suc.prems(5) by (simp add: distrib_right distrib_left)
  have apart: "\<forall>x. within al 4 x \<longrightarrow> \<not> within base T x"
    using within_mono[of al 4 _ "4 * Suc n"] Suc.prems(10) by simp
  have fit: "f64 \<or> uint ala + 4 \<le> 2 ^ 32" using Suc.prems(9) by auto
  have ok: "seg_ok f64 s" using Suc.prems(8) ss(1) by simp
  obtain ps m h where one: "desc1 = base + of_nat (length (ps0 @ ps) * sz)" "length ps \<le> 2 * c"
    "holds f64 sz m base (ps0 @ ps)" "w1 = w\<lparr>mem := m, hist := h\<rparr>"
    "al1 = (if off = 0 then al else al + 4)" "ala1 = (if off = 0 then ala else ala + 4)"
    "concat (map dma_bytes ps) = dma_bytes (ala, unat off)
        @ dma_bytes (sg_dma_address s + off, unat (sg_length s) - unat off)"
    "ps = [] \<longrightarrow> sg_length s = 0"
    "\<And>x. \<not> within base T x \<Longrightarrow> \<not> within al 4 x \<Longrightarrow> m x = mem w x"
    "\<And>i. d_write d \<Longrightarrow> i < unat off \<Longrightarrow> m (al + of_nat i) = mem w (sg_virt s + of_nat i)"
    by (rule adma_seg_ok[OF seg(1)[unfolded p] Suc.prems(3,4) room Suc.prems(6) ok fit apart],
        rule that[unfolded off_def])
  have inner: "within al (4 * Suc n) x" if "within al1 (4 * n) x" for x
    using that within_mono[of al "4 * n" x "4 * Suc n"]
      within_shift[of al 4 "4 * n" x] Suc.prems(7) by (simp add: one(5) split: if_split_asm)
  have room': "(length (ps0 @ ps) + 2 * c * n) * sz \<le> T"
  proof -
    have "(length (ps0 @ ps) + 2 * c * n) * sz \<le> (length ps0 + 2 * c * Suc n) * sz"
      using one(2) by (intro mult_le_mono1) simp
    then show ?thesis using Suc.prems(5) by (rule order_trans)
  qed
  have fit': "f64 \<or> uint ala1 + 4 * int n \<le> 2 ^ 32"
    using Suc.prems(9) uint_add_le[of ala 4] by (auto simp: one(6))
  have g1: "geom w1 f64 sz" "holds f64 sz (mem w1) base (ps0 @ ps)" "4 * n \<le> 2 ^ 64"
    "\<forall>s \<in> set ss'. seg_ok f64 s"
    using Suc.prems(3,7,8) one(3,4) ss(1) by (simp_all add: geom_def)
  have apart': "\<forall>x. within al1 (4 * n) x \<longrightarrow> \<not> within base T x"
    using Suc.prems(10) inner by blast
  have clear: "\<not> within base T (sg_virt t + of_nat i)"
      "\<not> within al (4 * Suc n) (sg_virt t + of_nat i)"
    if "t \<in> set ss'" "i < unat (adma_offset (sg_dma_address t))" for t i
    using Suc.prems(11) that ss(1) by auto
  have clear': "\<forall>t \<in> set ss'. \<forall>i < unat (adma_offset (sg_dma_address t)).
      \<not> within base T (sg_virt t + of_nat i) \<and> \<not> within al1 (4 * n) (sg_virt t + of_nat i)"
    using clear inner by blast
  obtain ps' m' h' where rest: "desc = base + of_nat (length ((ps0 @ ps) @ ps') * sz)"
    "length ps' \<le> 2 * c * n" "holds f64 sz m' base ((ps0 @ ps) @ ps')"
    "w' = w1\<lparr>mem := m', hist := h'\<rparr>" "concat (map dma_bytes ps') = bus_bytes ala1 ss'"
    "ps' = [] \<longrightarrow> (\<forall>s \<in> set ss'. sg_length s = 0)"
    "\<forall>x. \<not> within base T x \<longrightarrow> \<not> within al1 (4 * n) x \<longrightarrow> m' x = mem w1 x"
    "d_write d \<longrightarrow> heads_in (mem w1) m' al1 ss'"
    using Suc.IH[OF seg(2)[unfolded p one(1)] ss(2) g1(1,2) room' Suc.prems(6) g1(3,4) fit' apart'
        clear']
    by (elim exE conjE) (rule that)
  have "concat (map dma_bytes (ps @ ps')) = bus_bytes ala ss"
    using one(6,7) rest(5) by (simp add: ss(1) Let_def flip: off_def)
  moreover have "m' x = mem w x" if "\<not> within base T x" "\<not> within al (4 * Suc n) x" for x
  proof -
    have "\<not> within al 4 x" "\<not> within al1 (4 * n) x"
      using that(2) inner[of x] within_mono[of al 4 x "4 * Suc n"] by auto
    then show ?thesis using that(1) rest(7) one(4) one(9)[of x] by simp
  qed
  moreover have "heads_in (mem w) m' al ss" if d: "d_write d"
  proof -
    have "heads_in (mem w1) m' al1 ss' = heads_in (mem w) m' al1 ss'"
    proof (rule heads_in_cong)
      fix t i assume "t \<in> set ss'" "i < unat (adma_offset (sg_dma_address t))"
      then show "mem w1 (sg_virt t + of_nat i) = mem w (sg_virt t + of_nat i)"
        using clear[of t i] one(4) one(9) within_mono[of al 4 _ "4 * Suc n"] by auto
    qed
    moreover have "m' (al + of_nat i) = mem w (sg_virt s + of_nat i)" if "i < unat off" for i
    proof -
      have i: "i < 4" using that adma_offset_small[of "sg_dma_address s"]
        by (simp add: off_def nat_le_iff flip: nat_uint_eq)
      have "al1 = al + of_nat 4" using that one(5) by (auto simp: unat_eq_0)
      then have "\<not> within al1 (4 * n) (al + of_nat i)"
        using within_shift[of al 4 "4 * n" "al + of_nat i"] within_at[of i 4 al] i Suc.prems(7)
        by auto
      moreover have "\<not> within base T (al + of_nat i)" using apart within_at[of i 4 al] i by simp
      ultimately show ?thesis using rest(7) one(4) one(10)[OF d that] by simp
    qed
    ultimately show ?thesis using rest(8) d one(5) by (simp add: ss(1) Let_def flip: off_def)
  qed
  ultimately show ?case
    using rest(1-4,6) one(2,4,8) ss(1)
    by (intro exI[of _ "ps @ ps'"] exI[of _ m'] exI[of _ h']) (auto simp del: of_nat_mult of_nat_add)
qed

text \<open>The whole table, closed by either of the two end marks.\<close>

lemma table_covers:
  assumes "sdhci_adma_table_pre ops dp n w = Some w'" "sg_walk (nat n) (m_sg w) = Some ss"
    and "geom w f64 sz" "(2 * c * nat n + 1) * sz \<le> T" "T \<le> 2 ^ 64" "4 * nat n \<le> (2 :: nat) ^ 64"
    and "\<forall>s \<in> set ss. seg_ok f64 s" "f64 \<or> uint (h_align_addr w) + 4 * int (nat n) \<le> 2 ^ 32"
    and "\<forall>x. within (ptr_of (h_align_buffer w)) (4 * nat n) x \<longrightarrow> \<not> within (h_adma_table w) T x"
    and "\<exists>s \<in> set ss. sg_length s \<noteq> 0"
    and "\<forall>s \<in> set ss. \<forall>i < unat (adma_offset (sg_dma_address s)).
      \<not> within (h_adma_table w) T (sg_virt s + of_nat i)
      \<and> \<not> within (ptr_of (h_align_buffer w)) (4 * nat n) (sg_virt s + of_nat i)"
  shows "\<exists>ps. adma_walk (length ps + 1) f64 sz (mem w') (h_adma_table w) = Some ps
    \<and> concat (map dma_bytes ps) = bus_bytes (h_align_addr w) ss
    \<and> length ps \<le> 2 * c * nat n
    \<and> (\<forall>x. \<not> within (h_adma_table w) T x \<longrightarrow>
          \<not> within (ptr_of (h_align_buffer w)) (4 * nat n) x \<longrightarrow> mem w' x = mem w x)
    \<and> (d_write (datas w dp) \<longrightarrow> heads_in (mem w) (mem w') (ptr_of (h_align_buffer w)) ss)"
proof -
  define base where "base = h_adma_table w"
  define al where "al = ptr_of (h_align_buffer w)"
  define w0 where "w0 = w\<lparr>h_sg_count := nat n\<rparr>"
  obtain desc al' ala' w1 where segs:
    "adma_segs ops (datas w dp) (nat n) (m_sg w) (base + of_nat (length ([] :: (u64 \<times> nat) list) * sz), al,
        h_align_addr w) w0
      = Some ((desc, al', ala'), w1)"
    and w': "w' = (if tst (h_quirks w1) SDHCI_QUIRK_NO_ENDATTR_IN_NOPDESC then
             (if desc \<noteq> h_adma_table w1
              then sdhci_adma_mark_end (desc - ucast (h_desc_sz w1)) w1 else w1)
           else snd (raw_sdhci_adma_write_desc ops desc 0 0 ADMA2_NOP_END_VALID w1))"
    using assms(1) unfolding sdhci_adma_table_pre_def Let_def Option.bind_eq_Some_conv
    by (auto simp: w0_def base_def al_def)
  have g: "geom w0 f64 sz" "holds f64 sz (mem w0) base []"
    "(length ([] :: (u64 \<times> nat) list) + 2 * c * nat n) * sz \<le> T"
    using assms(3,4) by (simp_all add: w0_def geom_def)
  obtain ps m h where ps: "desc = base + of_nat (length ps * sz)" "length ps \<le> 2 * c * nat n"
    "holds f64 sz m base ps" "w1 = w0\<lparr>mem := m, hist := h\<rparr>"
    "concat (map dma_bytes ps) = bus_bytes (h_align_addr w) ss"
    "ps = [] \<longrightarrow> (\<forall>s \<in> set ss. sg_length s = 0)"
    "\<forall>x. \<not> within base T x \<longrightarrow> \<not> within al (4 * nat n) x \<longrightarrow> m x = mem w0 x"
    "d_write (datas w dp) \<longrightarrow> heads_in (mem w0) m al ss"
    using adma_segs_ok[OF segs assms(2) g assms(5-8) assms(9)[folded base_def al_def]
        assms(11)[folded base_def al_def]]
    unfolding append_Nil by (elim exE conjE) (rule that)
  have ne: "ps \<noteq> []" using ps(6) assms(10) by auto
  have sz: "8 \<le> sz" "dsize f64 \<le> sz" using assms(3) by (auto simp: geom_def dsize_def split: if_splits)
  have fits: "length ps * sz + sz \<le> T"
  proof -
    have "(length ps + 1) * sz \<le> (2 * c * nat n + 1) * sz" using ps(2) by (intro mult_le_mono1) simp
    then show ?thesis using assms(4) by (simp only: distrib_right mult_1_left)
  qed
  have g1: "geom w1 f64 sz" using assms(3) by (simp add: ps(4) w0_def geom_def)
  have in_table: "within base T x" if "within (base + of_nat k) r x" "k + r \<le> T" for k r x
    using within_shift[OF that(1)] that(2) assms(5) within_mono[of base "k + r" x T] by simp
  have "\<exists>m'. mem w' = m' \<and> adma_walk (length ps + 1) f64 sz m' base = Some ps
    \<and> (\<forall>x. \<not> within base T x \<longrightarrow> m' x = m x)"
  proof (cases "tst (h_quirks w1) SDHCI_QUIRK_NO_ENDATTR_IN_NOPDESC")
    case True
    obtain qs p where q: "ps = qs @ [p]" using ne by (cases ps rule: rev_cases) auto
    define a where "a = base + of_nat (length qs * sz)"
    define m' where "m' = store16 m a (load16 m a OR ADMA2_END)"
    have room: "length qs * sz + sz \<le> T" "length qs * sz + 2 \<le> T" using fits sz by (simp_all add: q)
    have "desc = a + of_nat sz" using ps(1) by (simp add: a_def q distrib_right)
    moreover have "(of_nat sz :: u64) = ucast (h_desc_sz w1)"
      using g1 by (simp add: geom_def unsigned_of_nat take_bit_nat_eq_self)
    moreover have "desc \<noteq> h_adma_table w1"
    proof -
      have k: "length ps * sz \<noteq> 0" "length ps * sz < 2 ^ 64" using fits sz assms(5) ne by simp_all
      then have "desc \<noteq> base + of_nat 0"
        using offset_eq_iff[of "length ps * sz" 0 base] unfolding ps(1) by (simp del: of_nat_mult)
      then show ?thesis by (simp add: ps(4) w0_def base_def)
    qed
    ultimately have "mem w' = m'"
      using w' True by (simp add: sdhci_adma_mark_end_def m'_def ps(4))
    moreover have "holds f64 sz m' base qs"
    proof -
      have "m' x = m x" if "within base (length qs * sz) x" for x
        using within_shift[of base "length qs * sz" 2 x] that room assms(5) mark_end_desc(4)[of a x m]
        by (auto simp: a_def m'_def)
      then have "holds f64 sz m' base qs = holds f64 sz m base qs"
        using room assms(5) sz by (intro holds_cong) auto
      then show ?thesis using ps(3) by (simp add: q holds_append)
    qed
    moreover have "adma_walk 2 f64 sz m' a = Some [p]"
    proof -
      have "desc_cmd m' a = 0x23" "(desc_addr f64 m' a, desc_len m' a) = p"
        using ps(3) mark_end_desc(1,2)[of m a] mark_end_desc(3)[of f64 m a]
        by (auto simp: q holds_append a_def m'_def)
      then show ?thesis by (simp add: numeral_2_eq_2 Let_def tst_def)
    qed
    moreover have "m' x = m x" if "\<not> within base T x" for x
      using that in_table[of "length qs * sz" 2 x] room mark_end_desc(4)[of a x m]
      by (auto simp: a_def m'_def)
    ultimately show ?thesis
      using walk_holds[of f64 sz m' base qs 2, folded a_def] by (simp add: q)
  next
    case False
    obtain m' where e: "raw_sdhci_adma_write_desc ops desc 0 0 ADMA2_NOP_END_VALID w1
        = (desc + of_nat sz, w1\<lparr>mem := m'\<rparr>)" "desc_cmd m' desc = ADMA2_NOP_END_VALID"
      "\<forall>x. \<not> within desc sz x \<longrightarrow> m' x = mem w1 x"
      using writes_end[OF g1] by blast
    have "m' x = m x" if "within base (length ps * sz) x \<or> \<not> within base T x" for x
      using that e(3) within_shift[of base "length ps * sz" sz x] in_table[of "length ps * sz" sz x]
        fits assms(5) ps(1,4) by auto
    moreover from this have "holds f64 sz m' base ps = holds f64 sz m base ps"
      using fits assms(5) sz by (intro holds_cong) auto
    ultimately show ?thesis
      using walk_holds[of f64 sz m' base ps 1] ps(1,3) e(1,2) w' False by (simp add: Let_def tst_def)
  qed
  then obtain m' where m': "mem w' = m'" "adma_walk (length ps + 1) f64 sz m' base = Some ps"
    "\<And>x. \<not> within base T x \<Longrightarrow> m' x = m x" by blast
  have "length ss = nat n" using assms(2) by (rule sg_walk_length)
  then have "heads_in (mem w0) m al ss = heads_in (mem w0) m' al ss"
    using m'(3) assms(6,9) by (intro heads_in_table) (simp_all add: base_def al_def)
  then show ?thesis
    using m' ps(2,5,7,8) unfolding base_def al_def
    by (intro exI[of _ ps]) (simp add: w0_def)
qed

end

subsection \<open>The memory the driver sets up\<close>

text \<open>The align buffer of 512 bytes lies before the table of 257 descriptors.\<close>

lemma layout_apart:
  assumes "within buf 512 x" "T + 512 \<le> 2 ^ 64"
  shows "\<not> within (buf + 512) T x"
  using within_shift[of buf 512 T x] assms by auto

text \<open>A segment whose memory lies outside the \<open>n\<close> bytes from \<open>buf\<close> on; and a bus that shows the
  controller the align buffer at \<open>ala\<close> and every segment at its DMA address.\<close>

definition clear_of :: "u64 \<Rightarrow> nat \<Rightarrow> scatterlist \<Rightarrow> bool" where
  "clear_of buf n s \<longleftrightarrow> (\<forall>x. within (sg_virt s) (unat (sg_length s)) x \<longrightarrow> \<not> within buf n x)"

definition bus_ok :: "(u64 \<Rightarrow> u64) \<Rightarrow> u64 \<Rightarrow> u64 \<Rightarrow> scatterlist list \<Rightarrow> bool" where
  "bus_ok cpu ala al ss \<longleftrightarrow> (\<forall>i < 512. cpu (ala + of_nat i) = al + of_nat i)
     \<and> (\<forall>s \<in> set ss. \<forall>i < unat (sg_length s).
          cpu (sg_dma_address s + of_nat i) = sg_virt s + of_nat i)"

context adma_writer
begin

lemma covers_layout:
  assumes "sdhci_adma_table_pre ops dp n w = Some w'" "n \<le> 128" "2 * c * nat n \<le> 256"
    and "sg_walk (nat n) (m_sg w) = Some ss" "\<forall>s \<in> set ss. seg_ok f64 s"
    and "\<exists>s \<in> set ss. sg_length s \<noteq> 0"
    and "geom w f64 sz" "h_align_buffer w = Some buf" "h_adma_table w = buf + 512"
    and "f64 \<or> uint (h_align_addr w) + 512 \<le> 2 ^ 32"
    and "\<forall>s \<in> set ss. clear_of buf (512 + 257 * sz) s"
    and "bus_ok cpu (h_align_addr w) buf ss"
  shows "\<exists>ps. adma_walk (length ps + 1) f64 sz (mem w') (h_adma_table w) = Some ps
    \<and> concat (map dma_bytes ps) = bus_bytes (h_align_addr w) ss
    \<and> (d_write (datas w dp) \<longrightarrow>
        map (mem w' \<circ> cpu) (concat (map dma_bytes ps)) = concat (map (seg_bytes (mem w)) ss))
    \<and> length ps \<le> 2 * c * nat n
    \<and> (\<forall>x. \<not> within buf (512 + 257 * sz) x \<longrightarrow> mem w' x = mem w x)"
proof -
  define T where "T = 257 * sz"
  have sz: "sz \<le> 16" "nat n \<le> 128" using assms(2,7) by (simp_all add: geom_def)
  have T: "(2 * c * nat n + 1) * sz \<le> T" "T \<le> 2 ^ 64" "T + 512 \<le> 2 ^ 64" "4 * nat n \<le> (2 :: nat) ^ 64"
    using sz assms(3) mult_le_mono1[of "2 * c * nat n + 1" 257 sz] by (simp_all add: T_def)
  have apart: "\<forall>x. within (ptr_of (h_align_buffer w)) (4 * nat n) x
      \<longrightarrow> \<not> within (h_adma_table w) T x"
    using layout_apart[OF _ T(3)] within_mono[of buf "4 * nat n" _ 512] sz assms(8,9)
    by (auto simp: ptr_of_def)
  have top: "f64 \<or> uint (h_align_addr w) + 4 * int (nat n) \<le> 2 ^ 32"
    using assms(10) sz by auto
  have outside: "\<not> within (buf + 512) T x" "\<not> within buf (4 * nat n) x"
    if x: "\<not> within buf (512 + 257 * sz) x" for x
    using x within_mono[of buf "4 * nat n" x "512 + 257 * sz"] sz(2)
      within_shift[of buf 512 T x] T(3) by (auto simp: T_def add.commute)
  have whole: "\<not> within buf (512 + 257 * sz) (sg_virt s + of_nat i)"
    if "s \<in> set ss" "i < unat (sg_length s)" for s i
    using assms(11) that within_at[of i "unat (sg_length s)" "sg_virt s"]
      unsigned_less[of "sg_length s", where ?'a = nat] by (auto simp: clear_of_def)
  have head: "unat (adma_offset (sg_dma_address s)) \<le> unat (sg_length s)" if "s \<in> set ss" for s
    using assms(5) that by (auto intro: seg_ok_head)
  have clear: "\<forall>s \<in> set ss. \<forall>i < unat (adma_offset (sg_dma_address s)).
      \<not> within (h_adma_table w) T (sg_virt s + of_nat i)
      \<and> \<not> within (ptr_of (h_align_buffer w)) (4 * nat n) (sg_virt s + of_nat i)"
    using whole head outside assms(8,9) by (fastforce simp: ptr_of_def)
  obtain ps where ps: "adma_walk (length ps + 1) f64 sz (mem w') (h_adma_table w) = Some ps"
    "concat (map dma_bytes ps) = bus_bytes (h_align_addr w) ss" "length ps \<le> 2 * c * nat n"
    "\<forall>x. \<not> within (buf + 512) T x \<longrightarrow> \<not> within buf (4 * nat n) x \<longrightarrow> mem w' x = mem w x"
    "d_write (datas w dp) \<longrightarrow> heads_in (mem w) (mem w') buf ss"
    using table_covers[OF assms(1,4,7) T(1,2,4) assms(5) top apart assms(6) clear] assms(8,9)
    by (auto simp: ptr_of_def)
  have frame: "mem w' x = mem w x" if "\<not> within buf (512 + 257 * sz) x" for x
    using ps(4) outside[OF that] by blast
  have "length ss = nat n" using assms(4) by (rule sg_walk_length)
  then have "map (mem w' \<circ> cpu) (bus_bytes (h_align_addr w) ss) = concat (map (seg_bytes (mem w)) ss)"
    if "d_write (datas w dp)"
    using ps(5) that assms(5,12) sz(2) frame whole
    by (intro heads_fetch[OF _ assms(5), of _ _ buf]) (auto simp: bus_ok_def)
  then show ?thesis using ps(1-3) frame by auto
qed

end

subsection \<open>The writers of the program\<close>

text \<open>One call of the core's own writer: one descriptor, nothing else.\<close>

lemma plain_write:
  assumes g: "geom w f64 sz" and len: "0 < len" "len \<le> 65536"
    and addr: "f64 \<or> uint addr + len \<le> 2 ^ 32"
  obtains m where "sdhci_adma_write_desc desc addr len ADMA2_TRAN_VALID w
      = (desc + of_nat sz, w\<lparr>mem := m\<rparr>)"
    "holds f64 sz m desc [(addr, nat len)]" "\<And>x. \<not> within desc sz x \<Longrightarrow> m x = mem w x"
proof -
  define m where "m = store_bytes (mem w) desc (desc_bytes f64 addr len ADMA2_TRAN_VALID)"
  have "f64 \<or> addr < 2 ^ 32" using addr len by (auto simp: word_less_def)
  then have "holds f64 sz m desc [(addr, nat len)]"
    using desc_bytes_read(1)[OF m_def] desc_bytes_read(2)[OF m_def len] desc_bytes_read(3)[OF m_def]
    by simp
  moreover have "m x = mem w x" if "\<not> within desc sz x" for x
    using store_bytes_within[OF that] g by (simp add: m_def geom_def)
  ultimately show ?thesis using that[of m] by (simp add: write_desc_eq[OF g] m_def)
qed

lemma plain_end:
  assumes g: "geom w f64 sz"
  obtains m where "sdhci_adma_write_desc desc 0 0 ADMA2_NOP_END_VALID w
      = (desc + of_nat sz, w\<lparr>mem := m\<rparr>)"
    "desc_cmd m desc = ADMA2_NOP_END_VALID" "\<And>x. \<not> within desc sz x \<Longrightarrow> m x = mem w x"
proof -
  define m where "m = store_bytes (mem w) desc (desc_bytes f64 0 0 ADMA2_NOP_END_VALID)"
  have "m x = mem w x" if "\<not> within desc sz x" for x
    using store_bytes_within[OF that] g by (simp add: m_def geom_def)
  then show ?thesis
    using that[of m] desc_bytes_read(1)[OF m_def] by (simp add: write_desc_eq[OF g] m_def)
qed

lemma default_writer:
  assumes "o_adma_write_desc ops = None"
  shows "adma_writer ops 1"
proof
  fix w f64 sz and len :: int and addr desc :: u64
  assume g: "geom w f64 sz"
  have raw: "raw_sdhci_adma_write_desc ops = sdhci_adma_write_desc"
    using assms by (intro ext) (simp add: raw_sdhci_adma_write_desc_def)
  show "\<exists>m. raw_sdhci_adma_write_desc ops desc 0 0 ADMA2_NOP_END_VALID w
      = (desc + of_nat sz, w\<lparr>mem := m\<rparr>) \<and> desc_cmd m desc = ADMA2_NOP_END_VALID
      \<and> (\<forall>x. \<not> within desc sz x \<longrightarrow> m x = mem w x)"
    unfolding raw by (rule plain_end[OF g, of desc]) auto
  assume len: "0 < len" "len \<le> 65536" and addr: "f64 \<or> uint addr + len \<le> 2 ^ 32"
  show "\<exists>ps m. raw_sdhci_adma_write_desc ops desc addr len ADMA2_TRAN_VALID w
          = (desc + of_nat (length ps * sz), w\<lparr>mem := m\<rparr>)
        \<and> ps \<noteq> [] \<and> length ps \<le> 1 \<and> holds f64 sz m desc ps
        \<and> concat (map dma_bytes ps) = dma_bytes (addr, nat len)
        \<and> (\<forall>x. \<not> within desc (length ps * sz) x \<longrightarrow> m x = mem w x)"
    unfolding raw
    by (rule plain_write[OF g len addr, of desc], rule exI[of _ "[(addr, nat len)]"]) auto
qed

interpretation pltfm_adma: adma_writer sdhci_pltfm_ops 1
  by (rule default_writer) (simp add: sdhci_pltfm_ops_def)

subsection \<open>The table of a transfer\<close>

text \<open>C9. The descriptor table that \<^verbatim>\<open>sdhci_adma_table_pre\<close> builds for a mapped scatter list of
  at most 128 segments that is not empty and has no segment shorter than its unaligned head, on a
  host whose buffers are laid out as \<^verbatim>\<open>sdhci_setup_host\<close> does, makes the controller transfer
  exactly the bytes of the list, in order, unaligned segment heads through the align buffer.  For a
  write transfer the bytes it fetches over the bus are the contents of the segments, which must lie
  outside the align buffer and the table.  Only the table and the align buffer are written.\<close>

theorem adma_table_covers:
  assumes "sdhci_adma_table_pre sdhci_pltfm_ops dp n w = Some w'" "n \<le> 128"
    and "sg_walk (nat n) (m_sg w) = Some ss" "\<forall>s \<in> set ss. seg_ok f64 s"
    and "\<exists>s \<in> set ss. sg_length s \<noteq> 0"
    and "geom w f64 sz" "h_align_buffer w = Some buf" "h_adma_table w = buf + 512"
    and "f64 \<or> uint (h_align_addr w) + 512 \<le> 2 ^ 32"
    and "\<forall>s \<in> set ss. clear_of buf (512 + 257 * sz) s"
    and "bus_ok cpu (h_align_addr w) buf ss"
  shows "\<exists>ps. adma_walk (length ps + 1) f64 sz (mem w') (h_adma_table w) = Some ps
    \<and> concat (map dma_bytes ps) = bus_bytes (h_align_addr w) ss
    \<and> (d_write (datas w dp) \<longrightarrow>
        map (mem w' \<circ> cpu) (concat (map dma_bytes ps)) = concat (map (seg_bytes (mem w)) ss))
    \<and> length ps \<le> 2 * nat n
    \<and> (\<forall>x. \<not> within buf (512 + 257 * sz) x \<longrightarrow> mem w' x = mem w x)"
  using pltfm_adma.covers_layout[of dp n w w' ss f64 sz buf cpu] assms by simp

text \<open>A host with 32-bit descriptors that writes two segments, one of them unaligned, to the card; the
  bus shows it the memory as the processor sees it.\<close>

definition adma_world :: world where
  "adma_world = blank_world\<lparr>h_desc_sz := 8, h_align_buffer := Some 0x800, h_align_addr := 0x800,
     h_adma_table := 0xA00, h_adma_table_sz := 2056,
     mem := (\<lambda>a. ucast a), datas := (\<lambda>_. blank_data\<lparr>d_write := True\<rparr>),
     m_sg := [sg_zero\<lparr>sg_page_link := 0x2002, sg_dma_address := 0x2002, sg_length := 6\<rparr>,
              sg_zero\<lparr>sg_page_link := 0x4000, sg_dma_address := 0x4000, sg_length := 2,
                sg_flags := SG_END\<rparr>]\<rparr>"

lemma adma_world_ok:
  assumes "s \<in> set (m_sg adma_world)"
  shows "seg_ok False s" "sint (sg_length s) - uint (adma_offset (sg_dma_address s)) \<le> 65536"
    "clear_of 0x800 (512 + 257 * 8) s"
proof -
  consider (one) "s = sg_zero\<lparr>sg_page_link := 0x2002, sg_dma_address := 0x2002, sg_length := 6\<rparr>"
    | (two) "s = sg_zero\<lparr>sg_page_link := 0x4000, sg_dma_address := 0x4000, sg_length := 2, sg_flags := SG_END\<rparr>"
    using assms by (auto simp: adma_world_def)
  note entry = this
  have far: "\<not> within 0x800 2568 x" if "within a 6 x" "a \<in> {0x2002, 0x4000}" for a x :: u64
  proof
    assume "within 0x800 2568 x"
    then have x: "x < 0x1208" "0x800 \<le> x" using that
      by (auto simp: within_def unat_arith_simps split: if_split_asm)
    then show False using that by (auto simp: within_def unat_arith_simps split: if_split_asm)
  qed
  show "seg_ok False s" "sint (sg_length s) - uint (adma_offset (sg_dma_address s)) \<le> 65536"
    using entry by (cases, simp_all add: seg_ok_def adma_offset_def sg_zero_def)+
  show "clear_of 0x800 (512 + 257 * 8) s"
    using entry by cases (auto simp: clear_of_def sg_virt_def sg_zero_def dest: far within_mono[of _ 2 _ 6])
qed

lemma adma_world_bus: "bus_ok id (h_align_addr adma_world) 0x800 (m_sg adma_world)"
  by (auto simp: bus_ok_def adma_world_def sg_virt_def sg_zero_def)

lemma adma_seg_builds:
  "(\<exists>r. adma_seg ops d s p w = Some r)
   \<longleftrightarrow> sint (sg_length s) - uint (adma_offset (sg_dma_address s)) \<le> 65536"
  using adma_offset_small[of "sg_dma_address s"]
  by (cases p)
    (simp add: adma_seg_def Let_def BUG_ON_def case_prod_beta del: adma_offset_small)

lemma adma_segs_builds:
  "(\<exists>r. adma_segs ops d n l p w = Some r) \<longleftrightarrow>
   (\<exists>ss. sg_walk n l = Some ss
     \<and> (\<forall>s \<in> set ss. sint (sg_length s) - uint (adma_offset (sg_dma_address s)) \<le> 65536))"
proof (induction n arbitrary: l p w)
  case (Suc n)
  show ?case
  proof (cases l)
    case (Cons s l')
    show ?thesis
    proof (cases "adma_seg ops d s p w")
      case None
      then show ?thesis using adma_seg_builds[of ops d s p w] by (auto simp: Cons)
    next
      case (Some r)
      then have "sint (sg_length s) - uint (adma_offset (sg_dma_address s)) \<le> 65536"
        using adma_seg_builds[of ops d s p w] by blast
      moreover obtain p' w' where "r = (p', w')" by (cases r)
      ultimately show ?thesis using Suc.IH[of "sg_next l" p' w'] Some by (auto simp: Cons)
    qed
  qed simp
next
  case 0
  then show ?case by (cases p) simp
qed

lemma table_pre_builds:
  "(\<exists>w'. sdhci_adma_table_pre ops dp n w = Some w') \<longleftrightarrow>
   (\<exists>ss. sg_walk (nat n) (m_sg w) = Some ss
     \<and> (\<forall>s \<in> set ss. sint (sg_length s) - uint (adma_offset (sg_dma_address s)) \<le> 65536))"
proof -
  define r where "r = adma_segs ops (datas w dp) (nat n) (m_sg w)
    (h_adma_table w, ptr_of (h_align_buffer w), h_align_addr w) (w\<lparr>h_sg_count := nat n\<rparr>)"
  have "(\<exists>w'. sdhci_adma_table_pre ops dp n w = Some w') \<longleftrightarrow> (\<exists>x. r = Some x)"
    by (cases r) (auto simp: sdhci_adma_table_pre_def Let_def r_def)
  then show ?thesis unfolding r_def adma_segs_builds .
qed

text \<open>C10. The table is built exactly when the list has the announced number of entries and no entry
  is longer than 64 KiB (behind its unaligned head); otherwise the machine stops.\<close>

theorem adma_table_builds:
  "(\<exists>w'. sdhci_adma_table_pre ops dp n w = Some w') \<longleftrightarrow>
   (\<exists>ss. sg_walk (nat n) (m_sg w) = Some ss
     \<and> (\<forall>s \<in> set ss. sint (sg_length s) - uint (adma_offset (sg_dma_address s)) \<le> 65536))"
  by (rule table_pre_builds)

lemma adma_world_walk:
  "sg_walk 2 (m_sg adma_world) = Some (m_sg adma_world)"
  by (simp add: adma_world_def sg_next_def sg_is_last_def tst_def sg_zero_def numeral_2_eq_2)

theorem adma_table_builds_witness:
  "\<exists>w'. sdhci_adma_table_pre sdhci_pltfm_ops 0 2 adma_world = Some w'"
  unfolding adma_table_builds using adma_world_walk
  by (simp add: adma_world_def adma_offset_def sg_zero_def)

lemma adma_world_walk2: "sg_walk (nat 2) (m_sg adma_world) = Some (m_sg adma_world)"
  using adma_world_walk by simp

lemma adma_world_layout:
  "\<exists>s \<in> set (m_sg adma_world). sg_length s \<noteq> 0" "geom adma_world False 8"
  "h_align_buffer adma_world = Some 0x800" "h_adma_table adma_world = 0x800 + 512"
  "False \<or> uint (h_align_addr adma_world) + 512 \<le> 2 ^ 32" "d_write (datas adma_world 0)"
  by (simp_all add: adma_world_def geom_def dsize_def tst_def blank_data_def)

lemma adma_world_bytes:
  "bus_bytes (h_align_addr adma_world) (m_sg adma_world)
    = [0x800, 0x801, 0x2004, 0x2005, 0x2006, 0x2007, 0x4000, 0x4001]"
  "concat (map (seg_bytes (mem adma_world)) (m_sg adma_world)) = [2, 3, 4, 5, 6, 7, 0, 1]"
  by (simp_all add: adma_world_def dma_bytes_def adma_offset_def sg_zero_def upt_rec seg_bytes_def
      sg_virt_def)

theorem adma_table_covers_witness:
  "\<exists>w' ps. sdhci_adma_table_pre sdhci_pltfm_ops 0 2 adma_world = Some w'
    \<and> adma_walk (length ps + 1) False 8 (mem w') 0xA00 = Some ps
    \<and> concat (map dma_bytes ps)
      = [0x800, 0x801, 0x2004, 0x2005, 0x2006, 0x2007, 0x4000, 0x4001]
    \<and> map (mem w') (concat (map dma_bytes ps)) = [2, 3, 4, 5, 6, 7, 0, 1]"
proof -
  obtain w' where w': "sdhci_adma_table_pre sdhci_pltfm_ops 0 2 adma_world = Some w'"
    using table_pre_builds adma_world_walk2 adma_world_ok(2) by blast
  show ?thesis
    using adma_table_covers[OF w' _ adma_world_walk2 _ adma_world_layout(1-5) _ adma_world_bus]
      adma_world_ok adma_world_layout(6) w' unfolding adma_world_bytes
    by (auto simp: adma_world_layout(4) simp del: adma_walk.simps)
qed

text \<open>C11. A segment that is shorter than its unaligned head gets a descriptor with the negative
  rest as its 16-bit length: the controller goes on for almost 64 KiB behind the segment.\<close>

theorem adma_short_segment:
  assumes "adma_seg sdhci_pltfm_ops d s (desc, al, ala) w = Some ((desc', al', ala'), w')"
    and "geom w f64 sz" "0 \<le> sint (sg_length s)"
    and "sint (sg_length s) < uint (adma_offset (sg_dma_address s))"
  shows "desc' = desc + of_nat (2 * sz)
    \<and> desc_cmd (mem w') (desc + of_nat sz) = ADMA2_TRAN_VALID
    \<and> int (desc_len (mem w') (desc + of_nat sz))
      = 65536 - (uint (adma_offset (sg_dma_address s)) - sint (sg_length s))"
proof -
  define off where "off = adma_offset (sg_dma_address s)"
  define len where "len = sint (sg_length s) - uint off"
  have off: "off \<noteq> 0" "uint off \<le> 3" using assms(3,4) adma_offset_small by (auto simp: off_def)
  then have len: "- 3 \<le> len" "len < 0" using assms(3,4) by (simp_all add: len_def off_def)
  define w1 where "w1 = (if d_write d then w\<lparr>mem := memcpy (mem w) al (sg_virt s) off\<rparr> else w)"
  define m1 where "m1 = store_bytes (mem w1) desc (desc_bytes f64 ala (uint off) ADMA2_TRAN_VALID)"
  define m2 where "m2 = store_bytes m1 (desc + of_nat sz)
    (desc_bytes f64 (sg_dma_address s + off) len ADMA2_TRAN_VALID)"
  have "mem w' = m2 \<and> desc' = desc + of_nat sz + of_nat sz"
    using assms(1,2) off len
    by (auto simp: adma_seg_def Let_def BUG_ON_def WARN_ON_def raw_sdhci_adma_write_desc_def
        write_desc_eq[of w f64 sz] write_desc_eq[of "_\<lparr>mem := _\<rparr>" f64 sz] w1_def m1_def m2_def
        off_def[symmetric] len_def[symmetric] split: if_splits)
  moreover have "desc_cmd m2 (desc + of_nat sz) = ADMA2_TRAN_VALID"
    using desc_bytes_read(1)[OF m2_def] by simp
  moreover have "int (desc_len m2 (desc + of_nat sz)) = 65536 + len"
  proof -
    have "load16 m2 (desc + of_nat sz + 2) = word_of_int len"
      by (rule desc_bytes_read(4)[OF m2_def])
    moreover have "uint (word_of_int len :: u16) = 65536 + len"
      using len mod_pos_pos_trivial[of "65536 + len" 65536] by (simp add: uint_word_of_int)
    moreover from this have "(word_of_int len :: u16) \<noteq> 0" using len by auto
    ultimately show ?thesis using len by (simp add: desc_len_def Let_def unat_eq_nat_uint)
  qed
  ultimately show ?thesis by (simp add: len_def off_def)
qed

theorem adma_short_segment_witness:
  "\<exists>p w'. adma_seg sdhci_pltfm_ops blank_data
        (sg_zero\<lparr>sg_dma_address := 0x2001, sg_length := 1, sg_flags := SG_END\<rparr>)
        (0xA00, 0x800, 0x800) adma_world = Some (p, w')
     \<and> desc_len (mem w') 0xA08 = 65534"
proof -
  define s where "s = sg_zero\<lparr>sg_dma_address := 0x2001, sg_length := 1, sg_flags := SG_END\<rparr>"
  have s: "sint (sg_length s) = 1" "uint (adma_offset (sg_dma_address s)) = 3"
    by (simp_all add: s_def adma_offset_def)
  then obtain p w' where e: "adma_seg sdhci_pltfm_ops blank_data s (0xA00, 0x800, 0x800) adma_world
      = Some (p, w')"
    using adma_seg_builds[of sdhci_pltfm_ops blank_data s "(0xA00, 0x800, 0x800)" adma_world] by auto
  obtain desc' al' ala' where p: "p = (desc', al', ala')" by (cases p)
  have "geom adma_world False 8" by (simp add: adma_world_def geom_def tst_def dsize_def)
  then show ?thesis
    using adma_short_segment[OF e[unfolded p], of False 8] e p s by (auto simp: s_def)
qed

end
