(* ===== verification/CvitekOps.thy ===== *)
theory CvitekOps
  imports Cvitek Machine AdmaFacts
begin

text \<open>
  The two operations tables of the CVITEK driver keep the contracts of the core: \<open>host_bus\<close>
  (request logic, bus settings) and \<open>adma_writer\<close> (descriptors), so everything proved against
  the contracts holds for the real board.  Tuning does not run in the steps of the machine, so
  the function that sends the tuning block is arbitrary.
\<close>

subsection \<open>Other blocks and read-modify-write\<close>

lemma io_vw [simp]:
  "vw (snd (io_readl a w)) = vw w" "vw (snd (io_readb a w)) = vw w"
  "vw (io_writel v a w) = vw w" "vw (io_writeb x a w) = vw w"
  "vw (io_modb f a w) = vw w" "vw (io_modl g a w) = vw w"
  by (simp_all add: io_readl_def io_readb_def io_writel_def io_writeb_def io_modb_def io_modl_def)

lemma mod_vw [simp]:
  "r \<noteq> SDHCI_INT_STATUS \<Longrightarrow> r \<noteq> SDHCI_INT_ENABLE \<Longrightarrow> r \<noteq> SDHCI_SIGNAL_ENABLE \<Longrightarrow>
   vw (modl f r w) = vw w"
  "vw (modw g r w) = vw w" "vw (modb h r w) = vw w"
  by (simp_all add: modl_def modw_def modb_def)

lemma fold_vw:
  assumes "\<And>x w. vw (f x w) = vw w"
  shows "vw (fold f xs w) = vw w"
  by (induction xs arbitrary: w) (simp_all add: assms)

lemma cvi_vw [simp]:
  "vw (cvi_phy_setup w) = vw w" "vw (sdhci_cv181x_sd_voltage_restore b w) = vw w"
  "vw (sdhci_cv181x_sd_setup_pad b w) = vw w" "vw (sdhci_cv181x_sd_setup_io b w) = vw w"
  "vw (sdhci_cv181x_sd_voltage_switch w) = vw w" "vw (sdhci_cvi_general_set_uhs_signaling t w) = vw w"
  "vw (snd (sdhci_cvi_general_get_max_clock w)) = vw w"
  by (simp_all add: cvi_phy_setup_def sdhci_cv181x_sd_voltage_restore_def Let_def
      sdhci_cv181x_sd_setup_pad_def sdhci_cv181x_sd_setup_io_def fold_vw
      sdhci_cv181x_sd_voltage_switch_def sdhci_cvi_general_set_uhs_signaling_def
      sdhci_cvi_general_get_max_clock_def)

lemma cvi_set_power_vw [simp]: "vw (sdhci_cv181x_sd_set_power mode vdd w) = vw w"
proof -
  have "vw (sdhci_set_power_noreg m vdd w) = vw w" for m w
    by (simp add: sdhci_set_power_noreg_def power_apply_def Let_def split: option.split)
  then show ?thesis
    by (simp add: sdhci_cv181x_sd_set_power_def Let_def split_beta)
qed

subsection \<open>Resets\<close>

text \<open>The helper masks all interrupts during the reset and restores the mask the driver keeps.\<close>

lemma cvi_reset_helper_tame:
  assumes "sdhci_cvi_reset_helper m w = Some w'"
  shows "tame w w'"
proof -
  define w1 where "w1 = emit (Wr32 SDHCI_SIGNAL_ENABLE 0) (emit (Wr32 SDHCI_INT_ENABLE 0) w)"
  obtain w2 where w2: "sdhci_reset None m w1 = Some w2"
    and w': "w' = emit (Wr32 SDHCI_SIGNAL_ENABLE (h_ier w2)) (emit (Wr32 SDHCI_INT_ENABLE (h_ier w2)) w2)"
    using assms by (auto simp: sdhci_cvi_reset_helper_def Option.bind_eq_Some_conv w1_def Let_def)
  have v: "vw w2 = vw w1" by (rule vw_reset[OF w2])
  have "rq w' = rq w" using vwD(1)[OF v] by (simp add: w' w1_def)
  moreover have "acked w' = acked w"
    using iv_acked[OF vwD(2)[OF v]] by (simp add: w' w1_def)
  moreover have "ier_ok w'"
    by (simp add: w' ier_ok_def)
  ultimately show ?thesis by (simp add: tame_def)
qed

lemma cvi_reset_tame:
  "sdhci_cv181x_sd_reset m w = Some w' \<Longrightarrow> tame w w'"
  "sdhci_cv181x_emmc_reset m w = Some w' \<Longrightarrow> tame w w'"
proof -
  assume "sdhci_cv181x_sd_reset m w = Some w'"
  then obtain w1 where w1: "sdhci_cvi_reset_helper m w = Some w1" "w' = cvi_phy_setup w1"
    by (auto simp: sdhci_cv181x_sd_reset_def Option.bind_eq_Some_conv)
  then show "tame w w'"
    using cvi_reset_helper_tame[OF w1(1)] vw_tame_right[of w' w1] by simp
next
  assume "sdhci_cv181x_emmc_reset m w = Some w'"
  then obtain w1 where w1: "sdhci_cvi_reset_helper m w = Some w1"
    "w' = cvi_phy_setup (modl (\<lambda>v. v OR 1) CVI_CV181X_SDHCI_VENDOR_MSHC_CTRL_R w1)"
    by (auto simp: sdhci_cv181x_emmc_reset_def Option.bind_eq_Some_conv)
  then show "tame w w'"
    using cvi_reset_helper_tame[OF w1(1)] vw_tame_right[of w' w1] by simp
qed

subsection \<open>The descriptor writer\<close>

lemma write_desc_vw [simp]: "vw (snd (sdhci_adma_write_desc d a n c w)) = vw w"
  by (simp add: sdhci_adma_write_desc_def Let_def)

lemma cvi_write_desc_vw [simp]: "vw (snd (cvi_adma_write_desc d a n c w)) = vw w"
  by (simp add: cvi_adma_write_desc_def Let_def split_beta)

subsection \<open>The interpretations\<close>

interpretation cv_sd: host_bus "sdhci_cv181x_sd_ops send" for send
  by unfold_locales
    (auto intro: vw_tame dest: vw_set_clock cvi_reset_tame
      simp: sdhci_cv181x_sd_ops_def sdhci_set_bus_width_def Let_def)

interpretation cv_emmc: host_bus "sdhci_cv181x_emmc_ops send" for send
  by unfold_locales
    (auto intro: vw_tame dest: vw_set_clock cvi_reset_tame
      simp: sdhci_cv181x_emmc_ops_def sdhci_set_bus_width_def Let_def
        sdhci_cvi_emmc_voltage_switch_def)

subsection \<open>Descriptors split at 128 MiB\<close>

lemma boundary_bits:
  "addr OR (SZ_128M - 1) = b OR (SZ_128M - 1) \<longleftrightarrow> drop_bit 27 addr = drop_bit 27 (b :: u64)"
proof -
  have m: "(SZ_128M - 1 :: u64) = mask 27" by (simp add: mask_eq_exp_minus_1)
  have "drop_bit 27 (x OR mask 27) = drop_bit 27 x" for x :: u64
    by (rule bit_word_eqI) (simp add: bit_simps)
  moreover have "x OR mask 27 = push_bit 27 (drop_bit 27 x) OR mask 27" for x :: u64
    by (rule bit_word_eqI) (auto simp: bit_simps)
  ultimately show ?thesis unfolding m by metis
qed

text \<open>Two addresses less than 128 MiB apart are in the same block unless the sum of offset and
  distance leaves it.\<close>

lemma same_block:
  assumes "0 \<le> k" "k < 2 ^ 27"
  shows "drop_bit 27 (addr + word_of_int k) = drop_bit 27 (addr :: u64)
    \<longleftrightarrow> uint addr mod 2 ^ 27 + k < 2 ^ 27"
proof -
  define q where "q = uint addr div 2 ^ 27"
  define o' where "o' = uint addr mod 2 ^ 27"
  define c where "c = (o' + k) div 2 ^ 27"
  have a: "uint addr = q * 2 ^ 27 + o'" by (simp add: q_def o'_def)
  have o': "0 \<le> o'" "o' < 2 ^ 27" by (simp_all add: o'_def)
  have "uint addr < 2 ^ 64" using unsigned_less[of addr, where ?'a = int] by simp
  then have q: "0 \<le> q" "q < 2 ^ 37" by (simp_all add: q_def pos_imp_zdiv_nonneg_iff)
  have c: "c = 0 \<or> c = 1" "c = 0 \<longleftrightarrow> o' + k < 2 ^ 27" using o' assms by (auto simp: c_def)
  have shift: "uint (drop_bit 27 x) = uint x div 2 ^ 27" for x :: u64
    by (simp add: drop_bit_eq_div uint_div_distrib)
  have "uint (addr + word_of_int k) = (uint addr + k) mod 2 ^ 64"
    by (simp add: uint_add_lem uint_word_ariths(1) unsigned_of_int take_bit_eq_mod mod_add_right_eq)
  then have "uint (drop_bit 27 (addr + word_of_int k)) = (uint addr + k) mod (2 ^ 27 * 2 ^ 37) div 2 ^ 27"
    unfolding shift by simp
  also have "\<dots> = (uint addr + k) div 2 ^ 27 mod 2 ^ 37"
    by (subst zmod_zmult2_eq) simp_all
  also have "(uint addr + k) div 2 ^ 27 = q + c"
    by (simp add: a c_def add.assoc)
  finally have "drop_bit 27 (addr + word_of_int k) = drop_bit 27 addr \<longleftrightarrow> (q + c) mod 2 ^ 37 = q"
    by (simp only: word_uint_eq_iff shift q_def)
  also have "\<dots> \<longleftrightarrow> c = 0"
  proof (cases "c = 0")
    case False
    then have "c = 1" using c(1) by simp
    moreover have "(q + 1) mod 2 ^ 37 \<noteq> q"
    proof (cases "q + 1 = 2 ^ 37")
      case False
      then show ?thesis using q by simp
    qed simp
    ultimately show ?thesis by simp
  qed (use q in simp)
  finally show ?thesis using c(2) by (simp add: o'_def)
qed

lemma BOUNDARY_OK_iff:
  assumes "0 < len" "len \<le> 2 ^ 27"
  shows "BOUNDARY_OK addr len \<longleftrightarrow> uint addr mod 2 ^ 27 + len \<le> 2 ^ 27"
proof -
  have "addr + word_of_int len - 1 = addr + word_of_int (len - 1)" by simp
  then have "BOUNDARY_OK addr len \<longleftrightarrow> drop_bit 27 addr = drop_bit 27 (addr + word_of_int (len - 1))"
    unfolding BOUNDARY_OK_def boundary_bits by (simp only:)
  also have "\<dots> \<longleftrightarrow> uint addr mod 2 ^ 27 + (len - 1) < 2 ^ 27"
    using same_block[of "len - 1" addr] assms by (simp only: eq_commute)
  also have "\<dots> \<longleftrightarrow> uint addr mod 2 ^ 27 + len \<le> 2 ^ 27" by linarith
  finally show ?thesis .
qed

text \<open>The first part of a split piece goes up to the boundary, and neither part is empty.\<close>

lemma cvi_split:
  assumes "0 < len" "len \<le> 65536" "\<not> BOUNDARY_OK addr len"
  defines "tmplen \<equiv> 0x08000000 - sint (ucast (addr AND (SZ_128M - 1)) :: u32)"
  shows "0 < tmplen" "tmplen < len" "uint addr mod 2 ^ 27 + tmplen = 2 ^ 27"
proof -
  define o' where "o' = uint (addr AND (SZ_128M - 1))"
  have o': "o' = uint addr mod 2 ^ 27"
  proof -
    have m: "(SZ_128M - 1 :: u64) = mask 27" by (simp add: mask_eq_exp_minus_1)
    show ?thesis
      unfolding o'_def m take_bit_eq_mask[symmetric] unsigned_take_bit_eq by (rule take_bit_eq_mod)
  qed
  have lt: "0 \<le> o'" "o' < 2 ^ 27" unfolding o' by simp_all
  have s: "sint (ucast (addr AND (SZ_128M - 1)) :: u32) = o'"
  proof -
    have u: "uint (ucast (addr AND (SZ_128M - 1)) :: u32) = o'"
      using lt by (simp add: o'_def unsigned_ucast_eq take_bit_int_eq_self)
    have "signed_take_bit 31 o' = o'" using lt by (intro signed_take_bit_int_eq_self) simp_all
    then show ?thesis using u by (simp add: sint_uint)
  qed
  have t: "tmplen = 2 ^ 27 - o'" using s by (simp add: tmplen_def)
  show "0 < tmplen" using lt by (simp add: t)
  show "uint addr mod 2 ^ 27 + tmplen = 2 ^ 27" unfolding o'[symmetric] t by simp
  show "tmplen < len"
    using assms(1-3) BOUNDARY_OK_iff[of len addr] unfolding o'[symmetric] t by simp
qed

text \<open>A writer of at most two descriptors: the contract of the core, with twice the default
  number of descriptors.\<close>

lemma cvi_split_writes:
  assumes g: "geom w f64 sz" and len: "0 < t" "t < len" "len \<le> 65536"
    and addr: "f64 \<or> uint addr + len \<le> 2 ^ 32"
  obtains m where "(let (d, w) = sdhci_adma_write_desc desc addr t ADMA2_TRAN_VALID w
       in sdhci_adma_write_desc d (addr + word_of_int t) (len - t) ADMA2_TRAN_VALID w)
      = (desc + of_nat (2 * sz), w\<lparr>mem := m\<rparr>)"
    "holds f64 sz m desc [(addr, nat t), (addr + word_of_int t, nat (len - t))]"
    "\<And>x. \<not> within desc (2 * sz) x \<Longrightarrow> m x = mem w x"
proof -
  have sz: "dsize f64 \<le> sz" "sz \<le> 16" using g by (simp_all add: geom_def)
  have "t \<le> 65536" "f64 \<or> uint addr + t \<le> 2 ^ 32" using len addr by auto
  from plain_write[OF g len(1) this, of desc]
  obtain m1 where m1: "sdhci_adma_write_desc desc addr t ADMA2_TRAN_VALID w
      = (desc + of_nat sz, w\<lparr>mem := m1\<rparr>)"
    "holds f64 sz m1 desc [(addr, nat t)]" "\<And>x. \<not> within desc sz x \<Longrightarrow> m1 x = mem w x"
    by blast
  have g1: "geom (w\<lparr>mem := m1\<rparr>) f64 sz" using g by simp
  have "f64 \<or> uint (addr + word_of_int t) + (len - t) \<le> 2 ^ 32"
  proof (cases f64)
    case False
    then have "uint addr + t < 2 ^ 64" using addr len by auto
    then have "uint (addr + word_of_int t) = uint addr + t"
      using len by (simp add: uint_plus_if' unsigned_of_int take_bit_int_eq_self)
    then show ?thesis using addr False by simp
  qed simp
  moreover have "0 < len - t" "len - t \<le> 65536" using len by simp_all
  ultimately obtain m2 where m2: "sdhci_adma_write_desc (desc + of_nat sz) (addr + word_of_int t)
      (len - t) ADMA2_TRAN_VALID (w\<lparr>mem := m1\<rparr>)
      = (desc + of_nat sz + of_nat sz, w\<lparr>mem := m1, mem := m2\<rparr>)"
    "holds f64 sz m2 (desc + of_nat sz) [(addr + word_of_int t, nat (len - t))]"
    "\<And>x. \<not> within (desc + of_nat sz) sz x \<Longrightarrow> m2 x = mem (w\<lparr>mem := m1\<rparr>) x"
    using plain_write[OF g1, of "len - t" "addr + word_of_int t" "desc + of_nat sz"] by blast
  have "m2 x = m1 x" if "within desc sz x" for x
    using within_shift[of desc sz sz x] that sz m2(3)[of x] by auto
  then have "holds f64 sz m2 desc [(addr, nat t)]"
    using m1(2) holds_cong[of desc "[(addr, nat t)]" sz m2 m1 f64] sz by simp
  moreover have "m2 x = mem w x" if "\<not> within desc (2 * sz) x" for x
  proof -
    have "\<not> within desc sz x" using that within_mono[of desc sz x "2 * sz"] by auto
    moreover have "\<not> within (desc + of_nat sz) sz x"
      using within_shift[of desc sz sz x] that sz by (auto simp: mult_2)
    ultimately show ?thesis using m1(3) m2(3) by simp
  qed
  ultimately show ?thesis using that[of m2] m1(1) m2(1,2) by (simp add: add.assoc)
qed

text \<open>All bytes of a piece in one block of 128 MiB.\<close>

definition in_block :: "u64 \<times> nat \<Rightarrow> bool" where
  "in_block p \<longleftrightarrow> list_all (\<lambda>a. drop_bit 27 a = drop_bit 27 (fst p)) (dma_bytes p)"

lemma in_blockI:
  assumes "uint a mod 2 ^ 27 + int n \<le> 2 ^ 27" "n \<le> 65536"
  shows "in_block (a, n)"
proof -
  have "drop_bit 27 (a + of_nat i) = drop_bit 27 a" if "i < n" for i
    using same_block[of "int i" a] assms that by simp
  then show ?thesis by (simp add: in_block_def dma_bytes_def list_all_iff)
qed

lemma uint_add_block:
  assumes "uint a mod 2 ^ 27 + t = 2 ^ 27" "0 < t"
  shows "uint ((a :: u64) + word_of_int t) mod 2 ^ 27 = 0"
proof -
  have "uint (a + word_of_int t) mod 2 ^ 27 = (uint a + t) mod 2 ^ 64 mod 2 ^ 27"
    by (simp add: uint_word_ariths(1) unsigned_of_int take_bit_eq_mod mod_add_right_eq)
  also have "\<dots> = (uint a + t) mod 2 ^ 27"
    by (rule mod_mod_cancel) simp
  also have "\<dots> = (uint a mod 2 ^ 27 + t) mod 2 ^ 27" by (simp add: mod_add_left_eq)
  finally show ?thesis unfolding assms(1) by simp
qed

lemma cvi_write_pieces:
  assumes "geom w f64 sz" "0 < len" "len \<le> 65536" "f64 \<or> uint addr + len \<le> 2 ^ 32"
  shows "\<exists>ps m. cvi_adma_write_desc desc addr len ADMA2_TRAN_VALID w
      = (desc + of_nat (length ps * sz), w\<lparr>mem := m\<rparr>)
    \<and> holds f64 sz m desc ps \<and> concat (map dma_bytes ps) = dma_bytes (addr, nat len)
    \<and> list_all in_block ps \<and> length ps \<le> 2
    \<and> (\<forall>x. \<not> within desc (length ps * sz) x \<longrightarrow> m x = mem w x)"
proof (cases "BOUNDARY_OK addr len")
  case True
  then have "in_block (addr, nat len)"
    using BOUNDARY_OK_iff[of len addr] assms(2,3) by (intro in_blockI) simp_all
  moreover obtain m where "sdhci_adma_write_desc desc addr len ADMA2_TRAN_VALID w
      = (desc + of_nat sz, w\<lparr>mem := m\<rparr>)"
    "holds f64 sz m desc [(addr, nat len)]" "\<And>x. \<not> within desc sz x \<Longrightarrow> m x = mem w x"
    using plain_write[OF assms, of desc] by metis
  ultimately show ?thesis
    using True
    by (intro exI[of _ "[(addr, nat len)]"] exI[of _ m]) (simp add: cvi_adma_write_desc_def)
next
  case False
  define t where "t = 0x08000000 - sint (ucast (addr AND (SZ_128M - 1)) :: u32)"
  have t: "0 < t" "t < len" "uint addr mod 2 ^ 27 + t = 2 ^ 27"
    using cvi_split[OF assms(2,3) False] by (simp_all add: t_def)
  obtain m where m: "(let (d, w) = sdhci_adma_write_desc desc addr t ADMA2_TRAN_VALID w
       in sdhci_adma_write_desc d (addr + word_of_int t) (len - t) ADMA2_TRAN_VALID w)
      = (desc + of_nat (2 * sz), w\<lparr>mem := m\<rparr>)"
    "holds f64 sz m desc [(addr, nat t), (addr + word_of_int t, nat (len - t))]"
    "\<And>x. \<not> within desc (2 * sz) x \<Longrightarrow> m x = mem w x"
    using cvi_split_writes[OF assms(1) t(1,2) assms(3,4), of desc] by metis
  have "cvi_adma_write_desc desc addr len ADMA2_TRAN_VALID w
      = (desc + of_nat (2 * sz), w\<lparr>mem := m\<rparr>)"
    using m(1) assms(2) False by (simp only: cvi_adma_write_desc_def t_def[symmetric] Let_def) simp
  moreover have "dma_bytes (addr, nat t) @ dma_bytes (addr + word_of_int t, nat (len - t))
      = dma_bytes (addr, nat len)"
    using dma_bytes_append[of addr "nat t" "nat (len - t)"] t by (simp add: nat_add_distrib[symmetric])
  moreover have "in_block (addr, nat t)" using t assms(3) by (intro in_blockI) simp_all
  moreover have "in_block (addr + word_of_int t, nat (len - t))"
    using uint_add_block[OF t(3,1)] t(1,2) assms(3) by (intro in_blockI) simp_all
  ultimately show ?thesis
    using m(2) m(3)[unfolded mult_2]
    by (intro exI[of _ "[(addr, nat t), (addr + word_of_int t, nat (len - t))]"] exI[of _ m])
      simp
qed

lemma cvi_writer:
  assumes "o_adma_write_desc ops = Some cvi_adma_write_desc"
  shows "adma_writer ops 2"
proof
  fix w f64 sz and len :: int and addr desc :: u64
  assume g: "geom w f64 sz"
  have raw: "raw_sdhci_adma_write_desc ops = cvi_adma_write_desc"
    using assms by (intro ext) (simp add: raw_sdhci_adma_write_desc_def)
  show "\<exists>m. raw_sdhci_adma_write_desc ops desc 0 0 ADMA2_NOP_END_VALID w
      = (desc + of_nat sz, w\<lparr>mem := m\<rparr>) \<and> desc_cmd m desc = ADMA2_NOP_END_VALID
      \<and> (\<forall>x. \<not> within desc sz x \<longrightarrow> m x = mem w x)"
    unfolding raw cvi_adma_write_desc_def by (rule plain_end[OF g, of desc]) auto
  assume len: "0 < len" "len \<le> 65536" and addr: "f64 \<or> uint addr + len \<le> 2 ^ 32"
  obtain ps m where "cvi_adma_write_desc desc addr len ADMA2_TRAN_VALID w
      = (desc + of_nat (length ps * sz), w\<lparr>mem := m\<rparr>)"
    and *: "holds f64 sz m desc ps" "concat (map dma_bytes ps) = dma_bytes (addr, nat len)"
      "length ps \<le> 2" "\<forall>x. \<not> within desc (length ps * sz) x \<longrightarrow> m x = mem w x"
    using cvi_write_pieces[OF g len addr, of desc] by metis
  moreover have "ps \<noteq> []"
    using *(2) len(1) by (auto simp: dma_bytes_def)
  ultimately show "\<exists>ps m. raw_sdhci_adma_write_desc ops desc addr len ADMA2_TRAN_VALID w
          = (desc + of_nat (length ps * sz), w\<lparr>mem := m\<rparr>)
        \<and> ps \<noteq> [] \<and> length ps \<le> 2 \<and> holds f64 sz m desc ps
        \<and> concat (map dma_bytes ps) = dma_bytes (addr, nat len)
        \<and> (\<forall>x. \<not> within desc (length ps * sz) x \<longrightarrow> m x = mem w x)"
    unfolding raw by blast
qed

interpretation cv_sd_adma: adma_writer "sdhci_cv181x_sd_ops send" 2 for send
  by (rule cvi_writer) (simp add: sdhci_cv181x_sd_ops_def)

interpretation cv_emmc_adma: adma_writer "sdhci_cv181x_emmc_ops send" 2 for send
  by (rule cvi_writer) (simp add: sdhci_cv181x_emmc_ops_def)

end
