(* ===== verification/CvitekTuning.thy ===== *)
theory CvitekTuning
  imports CvitekOps
begin

text \<open>
  The tuning of the CVITEK driver.  \<open>window_at ok n i s\<close>: the \<open>s\<close> taps from \<open>i\<close> on are below \<open>n\<close>
  and all pass.  The search of the driver returns the widest such window; \<open>tunes_by\<close> is a card
  whose answer to the tuning block depends on the tap in the delay register only.
\<close>

subsection \<open>The widest window\<close>

definition window_at :: "(nat \<Rightarrow> bool) \<Rightarrow> nat \<Rightarrow> nat \<Rightarrow> nat \<Rightarrow> bool" where
  "window_at ok n i s \<longleftrightarrow> i + s \<le> n \<and> list_all ok [i..<i + s]"

lemma window_at_iff:
  "window_at ok n i s \<longleftrightarrow> i + s \<le> n \<and> (\<forall>k. i \<le> k \<and> k < i + s \<longrightarrow> ok k)"
  by (auto simp: window_at_def list_all_iff)

lemma window_at_Suc:
  "window_at ok (Suc n) i s \<longleftrightarrow>
     window_at ok n i s \<or> (i + s = Suc n \<and> (s = 0 \<or> (ok n \<and> window_at ok n i (s - 1))))"
  unfolding window_at_iff by (cases s) (auto simp: le_Suc_eq less_Suc_eq)

text \<open>The running window is the longest run of passing taps that ends here.\<close>

definition cur_inv :: "(nat \<Rightarrow> bool) \<Rightarrow> nat \<Rightarrow> window \<Rightarrow> bool" where
  "cur_inv ok n v \<longleftrightarrow> cur_size v \<le> n \<and> window_at ok n (n - cur_size v) (cur_size v)
     \<and> (cur_size v < n \<longrightarrow> \<not> ok (n - cur_size v - 1))
     \<and> cur_idx v = (if cur_size v = 0 then -1 else int (n - cur_size v))"

definition max_inv :: "(nat \<Rightarrow> bool) \<Rightarrow> nat \<Rightarrow> window \<Rightarrow> bool" where
  "max_inv ok n v \<longleftrightarrow> (\<forall>i s. window_at ok n i s \<longrightarrow> s \<le> max_size v)
     \<and> (\<exists>j. window_at ok n j (max_size v) \<and> (\<forall>i. window_at ok n i (max_size v) \<longrightarrow> j \<le> i)
          \<and> tap v = (if max_size v \<ge> TAP_WINDOW_THLD then int j + int (max_size v div 2) else -1))"

lemma cur_inv_longest:
  assumes "cur_inv ok n v" "window_at ok n i s" "i + s = n"
  shows "s \<le> cur_size v"
proof (rule ccontr)
  assume "\<not> s \<le> cur_size v"
  then have "i \<le> n - cur_size v - 1 \<and> n - cur_size v - 1 < i + s" "cur_size v < n"
    using assms(3) by simp_all
  then show False using assms(1,2) by (auto simp: cur_inv_def window_at_iff)
qed

lemma step_fields:
  "cur_size (window_step b k v) = (if b then cur_size v + 1 else 0)"
  "cur_idx (window_step b k v) = (if b then if cur_idx v = -1 then int k else cur_idx v else -1)"
  "max_size (window_step b k v) = (if b then max (max_size v) (cur_size v + 1) else max_size v)"
  "tap (window_step b k v) =
     (if b \<and> cur_size v + 1 > max_size v \<and> cur_size v + 1 \<ge> TAP_WINDOW_THLD
      then (if cur_idx v = -1 then int k else cur_idx v) + int ((cur_size v + 1) div 2) else tap v)"
  by (auto simp: window_step_def Let_def)

lemma step_cur_inv: "cur_inv ok n v \<Longrightarrow> cur_inv ok (Suc n) (window_step (ok n) n v)"
  unfolding cur_inv_def step_fields
  by (auto simp: window_at_iff less_Suc_eq Suc_diff_le of_nat_diff)

lemma step_max_inv:
  assumes c: "cur_inv ok n v" and m: "max_inv ok n v"
  shows "max_inv ok (Suc n) (window_step (ok n) n v)"
proof -
  define v' where "v' = window_step (ok n) n v"
  obtain j where j: "window_at ok n j (max_size v)" "\<And>i. window_at ok n i (max_size v) \<Longrightarrow> j \<le> i"
    "tap v = (if max_size v \<ge> TAP_WINDOW_THLD then int j + int (max_size v div 2) else -1)"
    and top: "\<And>i s. window_at ok n i s \<Longrightarrow> s \<le> max_size v"
    using m by (auto simp: max_inv_def)
  have end_run: "s \<le> Suc (cur_size v)" if "window_at ok n i (s - 1)" "i + s = Suc n" for i s
    using cur_inv_longest[OF c that(1)] that(2) by (cases s) simp_all
  have top': "s \<le> max_size v'" if "window_at ok (Suc n) i s" for i s
    using that end_run[of i s] top[of i s]
    by (auto simp: window_at_Suc v'_def step_fields max_def split: if_splits)
  show ?thesis
  proof (cases "ok n \<and> cur_size v + 1 > max_size v")
    case True
    define i0 where "i0 = n - cur_size v"
    have i0: "window_at ok (Suc n) i0 (cur_size v + 1)" "i0 + cur_size v = n"
      "(if cur_idx v = -1 then int n else cur_idx v) = int i0"
      using c True by (auto simp: cur_inv_def window_at_Suc i0_def of_nat_diff)
    have "i0 \<le> i" if "window_at ok (Suc n) i (cur_size v + 1)" for i
      using that top[of i "cur_size v + 1"] True i0(2) by (auto simp: window_at_Suc)
    moreover have "max_size v' = cur_size v + 1"
      "tap v' = (if cur_size v + 1 \<ge> TAP_WINDOW_THLD then int i0 + int ((cur_size v + 1) div 2)
         else tap v)"
      using True i0(3) by (simp_all add: v'_def step_fields max_def)
    moreover have "tap v = -1" if "\<not> cur_size v + 1 \<ge> TAP_WINDOW_THLD"
      using that True j(3) by simp
    ultimately show ?thesis
      using top' i0(1) unfolding max_inv_def v'_def[symmetric]
      by (intro conjI allI impI exI[of _ i0]) simp_all
  next
    case False
    have same: "max_size v' = max_size v" "tap v' = tap v"
      using False by (auto simp: v'_def step_fields max_def)
    have "j \<le> i" if "window_at ok (Suc n) i (max_size v)" for i
      using that j(1) j(2)[of i] by (cases "i + max_size v \<le> n") (auto simp: window_at_iff)
    moreover have "window_at ok (Suc n) j (max_size v)"
      using j(1) by (simp add: window_at_Suc)
    ultimately show ?thesis
      using top' j(3) unfolding max_inv_def v'_def[symmetric] same
      by (intro conjI allI impI exI[of _ j]) simp_all
  qed
qed

lemma find_window_inv: "cur_inv ok n (find_window ok n) \<and> max_inv ok n (find_window ok n)"
proof (induction n)
  case 0
  show ?case by (simp add: cur_inv_def max_inv_def window_at_def)
next
  case (Suc n)
  then show ?case using step_cur_inv step_max_inv by simp
qed

lemma find_window_cong:
  "(\<And>k. k < n \<Longrightarrow> ok k = ok' k) \<Longrightarrow> find_window ok n = find_window ok' n"
  by (induction n) simp_all

subsection \<open>Result masks\<close>

lemma tst_exp: "tst (x :: 'a::len word) (2 ^ j) \<longleftrightarrow> bit x j"
proof -
  have "bit (x AND 2 ^ j) i \<longleftrightarrow> bit x j \<and> i = j" for i
    by (auto simp: bit_simps bit_imp_le_length)
  then show ?thesis
    unfolding tst_def by (metis bit_0_eq bit_eqI bot_apply bot_bool_def)
qed

lemma check_set_bit:
  assumes "b div 8 < length m"
  shows "CHECK_MASK_BIT (SET_MASK_BIT m b) k \<longleftrightarrow> k = b \<or> CHECK_MASK_BIT m k"
proof -
  have "k = b \<longleftrightarrow> k div 8 = b div 8 \<and> k mod 8 = b mod 8"
    by (metis div_mult_mod_eq)
  moreover have "k mod 8 < LENGTH(8)" by simp
  ultimately show ?thesis
    using assms
    by (auto simp: CHECK_MASK_BIT_def SET_MASK_BIT_def tst_exp push_bit_eq_mult nth_list_update
        bit_or_iff bit_exp_iff)
qed

lemma length_set_bit [simp]: "length (SET_MASK_BIT m b) = length m"
  by (simp add: SET_MASK_BIT_def)

subsection \<open>The loop over the taps\<close>

text \<open>The tap in the delay register.\<close>

definition tap_in :: "event list \<Rightarrow> nat" where
  "tap_in h = (case last_wr32 CVI_CV181X_SDHCI_PHY_TX_RX_DLY h of
     Some v \<Rightarrow> unat (drop_bit 16 v) | None \<Rightarrow> 0)"

definition cvi_tap :: "world \<Rightarrow> nat" where
  "cvi_tap w = tap_in (hist w)"

definition tunes_by ::
  "(nat \<Rightarrow> bool) \<Rightarrow> (world \<Rightarrow> (errno option \<times> world) option) \<Rightarrow> bool" where
  "tunes_by good send \<longleftrightarrow> (\<forall>w. \<exists>ret w1. send w = Some (ret, w1)
     \<and> (ret = None \<longleftrightarrow> good (cvi_tap w)) \<and> final_tap (cvi w1) = final_tap (cvi w)
     \<and> (ret = None \<longrightarrow> cvi_tap w1 = cvi_tap w))"

text \<open>A failing block may reset the controller, and with it the delay register; so only a passing
  one is known to leave the tap alone.\<close>

lemma tunes_byE:
  assumes "tunes_by good send"
  obtains ret w1 where "send w = Some (ret, w1)" "ret = None \<longleftrightarrow> good (cvi_tap w)"
    "final_tap (cvi w1) = final_tap (cvi w)" "ret = None \<Longrightarrow> cvi_tap w1 = cvi_tap w"
  using assms unfolding tunes_by_def by blast

lemma set_tap_dly [simp]: "cvi_tap (sdhci_cvi_cv181x_set_tap t w) = unat (drop_bit 16 (push_bit 16 t))"
proof -
  have "drop_bit 16 (0x100 OR push_bit 16 t) = drop_bit 16 (push_bit 16 t)"
    by (simp add: drop_bit_or)
  then show ?thesis
    by (simp add: cvi_tap_def tap_in_def sdhci_cvi_cv181x_set_tap_def modw_def modl_def Let_def mdelay_def
        emit_def)
qed

lemma small_tap: "t < 2 ^ 16 \<Longrightarrow> unat (drop_bit 16 (push_bit 16 (of_nat t :: u32))) = t"
proof -
  assume t: "t < 2 ^ 16"
  have "drop_bit 16 (push_bit 16 (of_nat t :: u32)) = take_bit 16 (of_nat t)"
    by (rule bit_word_eqI) (auto simp: bit_simps)
  also have "unat \<dots> = take_bit 16 (unat (of_nat t :: u32))" by (rule unsigned_take_bit_eq)
  also have "\<dots> = t" using t by (simp add: unsigned_of_nat take_bit_nat_eq_self)
  finally show ?thesis .
qed

lemma tune_tries_result:
  assumes "tunes_by good send" "tune_tries send k w = Some (ret, w')"
  shows "ret = None \<longleftrightarrow> good (cvi_tap w)"
  using assms(2)
proof (induction k arbitrary: w)
  case 0
  then show ?case using tunes_byE[OF assms(1), of w] by auto
next
  case (Suc k)
  obtain r w1 where w1: "send w = Some (r, w1)" "r = None \<longleftrightarrow> good (cvi_tap w)"
    "r = None \<Longrightarrow> cvi_tap w1 = cvi_tap w"
    using tunes_byE[OF assms(1), of w] by blast
  then show ?case using Suc.prems Suc.IH[of w1] by (auto split: if_splits)
qed

text \<open>The result mask marks the taps that fail.\<close>

lemma tune_taps_result:
  assumes "tunes_by good send" "tune_taps send t n (m, l) w = Some ((m', l'), w')"
    "t + n \<le> 128" "length m = 16"
  shows "CHECK_MASK_BIT m' k
    \<longleftrightarrow> CHECK_MASK_BIT m k \<or> (t \<le> k \<and> k < t + n \<and> \<not> good k)"
  using assms(2-)
proof (induction n arbitrary: t m l w)
  case 0
  then show ?case by auto
next
  case (Suc n)
  define w1 where "w1 = snd (sdhci_readw CVI_CV181X_SDHCI_PHY_DLY_STS
    (sdhci_cvi_cv181x_set_tap (of_nat t) w))"
  have "cvi_tap w1 = t"
    using small_tap[of t] Suc.prems(2) set_tap_dly[of "of_nat t" w]
    by (simp add: w1_def cvi_tap_def tap_in_def emit_def)
  obtain ret w2 l2 where run: "tune_tries send MAX_TUNING_CMD_RETRY_COUNT w1 = Some (ret, w2)"
    "tune_taps send (Suc t) n (if ret \<noteq> None then SET_MASK_BIT m t else m, l2) w2
      = Some ((m', l'), w')"
    using Suc.prems(1)
    by (auto simp: Let_def w1_def case_prod_beta Option.bind_eq_Some_conv simp del: tune_tries.simps)
  have "ret \<noteq> None \<longleftrightarrow> \<not> good t"
    using tune_tries_result[OF assms(1) run(1)] \<open>cvi_tap w1 = t\<close> by simp
  then show ?case
    using Suc.IH[OF run(2)] Suc.prems(2,3) check_set_bit[of t m k]
    by (cases "k = t") (auto simp: Suc_le_eq)
qed

text \<open>The other mask marks the taps at which the lead-lag status is set.\<close>

lemma tries_e_rd:
  assumes "\<And>w r w'. send w = Some (r, w') \<Longrightarrow> e_rd w' = e_rd w" "tune_tries send k w = Some (r, w')"
  shows "e_rd w' = e_rd w"
  using assms(2)
  by (induction k arbitrary: w) (auto simp: Option.bind_eq_Some_conv dest: assms(1) split: if_splits)

lemma set_tap_e_rd [simp]: "e_rd (sdhci_cvi_cv181x_set_tap t w) = e_rd w"
  by (simp add: sdhci_cvi_cv181x_set_tap_def modw_def modl_def Let_def mdelay_def)

lemma tune_taps_lead:
  assumes s: "\<And>w r w'. send w = Some (r, w') \<Longrightarrow> e_rd w' = e_rd w"
    and "tune_taps send t n (m, l) w = Some ((m', l'), w')" "t + n \<le> 128" "length l = 16"
    and lead: "\<And>h. tst (ucast (e_rd w h CVI_CV181X_SDHCI_PHY_DLY_STS) :: u16) 2 \<longleftrightarrow> lead (tap_in h)"
  shows "CHECK_MASK_BIT l' k \<longleftrightarrow> CHECK_MASK_BIT l k \<or> (t \<le> k \<and> k < t + n \<and> lead k)"
  using assms(2-)
proof (induction n arbitrary: t m l w)
  case 0
  then show ?case by auto
next
  case (Suc n)
  define w0 where "w0 = sdhci_cvi_cv181x_set_tap (of_nat t) w"
  define w1 where "w1 = snd (sdhci_readw CVI_CV181X_SDHCI_PHY_DLY_STS w0)"
  define l2 where "l2 = (if lead t then SET_MASK_BIT l t else l)"
  have tap: "cvi_tap w0 = t"
    using small_tap[of t] Suc.prems(2) set_tap_dly[of "of_nat t" w] by (simp add: w0_def)
  have "tst (ucast (e_rd w0 (hist w0) CVI_CV181X_SDHCI_PHY_DLY_STS) :: u16) 2 \<longleftrightarrow> lead t"
    using Suc.prems(4)[of "hist w0"] tap by (simp add: w0_def cvi_tap_def)
  then obtain ret m2 w2 where run: "tune_tries send MAX_TUNING_CMD_RETRY_COUNT w1 = Some (ret, w2)"
    "tune_taps send (Suc t) n (m2, l2) w2 = Some ((m', l'), w')"
    using Suc.prems(1) unfolding l2_def w1_def
    by (auto simp: Let_def w0_def[symmetric] sdhci_readw_def Option.bind_eq_Some_conv
        simp del: tune_tries.simps)
  have "e_rd w2 = e_rd w" using tries_e_rd[OF s run(1)] by (simp add: w1_def w0_def)
  then show ?case
    using Suc.IH[OF run(2)] Suc.prems(2-4) check_set_bit[of t l k]
    by (cases "k = t") (auto simp: Suc_le_eq l2_def)
qed

lemma tune_taps_e_rd:
  assumes s: "\<And>w r w'. send w = Some (r, w') \<Longrightarrow> e_rd w' = e_rd w"
    and "tune_taps send t n r w = Some (r', w')"
  shows "e_rd w' = e_rd w"
  using assms(2)
proof (induction n arbitrary: t r w)
  case (Suc n)
  obtain m l where r: "r = (m, l)" by (cases r)
  obtain ret w2 r2 where "tune_tries send MAX_TUNING_CMD_RETRY_COUNT
      (snd (sdhci_readw CVI_CV181X_SDHCI_PHY_DLY_STS (sdhci_cvi_cv181x_set_tap (of_nat t) w)))
      = Some (ret, w2)" "tune_taps send (Suc t) n r2 w2 = Some (r', w')"
    using Suc.prems
    by (auto simp: r Let_def case_prod_beta Option.bind_eq_Some_conv simp del: tune_tries.simps)
  then show ?case using Suc.IH tries_e_rd[OF s] by simp
qed simp

lemma tune_taps_total:
  assumes "\<And>w. \<exists>r w'. send w = Some (r, w')"
  shows "\<exists>r' w'. tune_taps send t n r w = Some (r', w')"
proof -
  have tries: "\<exists>r w'. tune_tries send k w = Some (r, w')" for k w
  proof (induction k arbitrary: w)
    case (Suc k)
    obtain r w1 where "send w = Some (r, w1)" using assms by blast
    then show ?case using Suc[of w1] by auto
  qed (use assms in auto)
  show ?thesis
  proof (induction n arbitrary: t r w)
    case (Suc n)
    obtain m l where r: "r = (m, l)" by (cases r)
    define w1 where "w1 = snd (sdhci_readw CVI_CV181X_SDHCI_PHY_DLY_STS
      (sdhci_cvi_cv181x_set_tap (of_nat t) w))"
    obtain ret w2 where "tune_tries send MAX_TUNING_CMD_RETRY_COUNT w1 = Some (ret, w2)"
      using tries by blast
    then show ?case
      using Suc unfolding r by (simp add: Let_def w1_def case_prod_beta del: tune_tries.simps)
  qed simp
qed

subsection \<open>The lead-lag window\<close>

lemma interval_Suc: "{k..<k + Suc n} = insert k {Suc k..<Suc k + n}" for k :: nat
  by auto

lemma lead_lag_on:
  assumes "idx \<noteq> -1" "0 < cur" "phase = 1 \<longrightarrow> mx = cur"
  shows "lead_lag_size one k n (phase, idx, cur, mx) = 0
    \<longleftrightarrow> mx = 0 \<and> \<not> (\<exists>j \<in> {k..<k + n}. one j)"
  using assms
proof (induction n arbitrary: k phase cur mx)
  case (Suc n)
  then show ?case unfolding interval_Suc by auto
qed simp

lemma lead_lag_zero:
  "lead_lag_size one k n (phase, -1, 0, 0) = 0
   \<longleftrightarrow> \<not> (\<exists>i \<in> {k..<k + n}. \<not> one i \<and> (\<exists>j \<in> {Suc i..<k + n}. one j))"
proof (induction n arbitrary: k phase)
  case (Suc n)
  have "(\<exists>i \<in> {k..<k + Suc n}. \<not> one i \<and> (\<exists>j \<in> {Suc i..<k + Suc n}. one j))
      \<longleftrightarrow> (\<not> one k \<and> (\<exists>j \<in> {Suc k..<Suc k + n}. one j))
         \<or> (\<exists>i \<in> {Suc k..<Suc k + n}. \<not> one i \<and> (\<exists>j \<in> {Suc i..<Suc k + n}. one j))"
    unfolding interval_Suc by simp
  then show ?case
    using Suc lead_lag_on[of "int k" 1 0 0 one "Suc k" n] by auto
qed simp

subsection \<open>The whole procedure\<close>

lemma clear_masks: "CHECK_MASK_BIT (replicate 16 0) k \<longleftrightarrow> False" if "k < 128"
  using that by (simp add: CHECK_MASK_BIT_def tst_def)

text \<open>The world in which the loop over the taps starts.\<close>

definition tuning_start :: "world \<Rightarrow> world" where
  "tuning_start w = snd (sdhci_readw SDHCI_HOST_CONTROL2
    (modw (\<lambda>v. v AND NOT 0x30) SDHCI_HOST_CONTROL2
      (modw (\<lambda>v. v AND NOT 0x80) SDHCI_HOST_CONTROL2 (snd (sdhci_readw SDHCI_HOST_CONTROL2 w)))))"

lemma tuning_start_e_rd [simp]: "e_rd (tuning_start w) = e_rd w"
  by (simp add: tuning_start_def modw_def Let_def)

lemma tuning_unfold:
  "sdhci_cv181x_general_execute_tuning send opcode w = do {
     ((m, l), w) \<leftarrow> tune_taps (send opcode) 0 128 (replicate 16 0, replicate 16 0) (tuning_start w);
     w \<leftarrow> reset_after_tuning_pass w;
     if lead_lag_size (CHECK_MASK_BIT l) 0 128 (-1, -1, 0, 0) = 0 then None
     else (let t = tap (find_window (\<lambda>k. \<not> CHECK_MASK_BIT m k) 128);
               w = sdhci_cvi_cv181x_set_tap (word_of_int t) w
           in send opcode (w\<lparr>cvi := (cvi w)\<lparr>final_tap := word_of_int t\<rparr>\<rparr>))
   }"
  unfolding sdhci_cv181x_general_execute_tuning_def Let_def tuning_start_def
  by (simp add: if_distrib cong: if_cong)

lemma tuning_run:
  assumes "tunes_by good (send opcode)"
    and "sdhci_cv181x_general_execute_tuning send opcode w = Some (ret, w')"
  obtains v w1 where "v = find_window good 128"
    "send opcode w1 = Some (ret, w')" "cvi_tap w1 = unat (drop_bit 16 (push_bit 16 (word_of_int (tap v) :: u32)))"
    "final_tap (cvi w1) = word_of_int (tap v)"
proof -
  obtain m l w1 w2 where taps: "tune_taps (send opcode) 0 128
        (replicate 16 0, replicate 16 0) (tuning_start w) = Some ((m, l), w1)"
    and last: "send opcode
      ((sdhci_cvi_cv181x_set_tap (word_of_int (tap (find_window (\<lambda>k. \<not> CHECK_MASK_BIT m k) 128))) w2)
        \<lparr>cvi := (cvi (sdhci_cvi_cv181x_set_tap
            (word_of_int (tap (find_window (\<lambda>k. \<not> CHECK_MASK_BIT m k) 128))) w2))
          \<lparr>final_tap := word_of_int (tap (find_window (\<lambda>k. \<not> CHECK_MASK_BIT m k) 128))\<rparr>\<rparr>)
      = Some (ret, w')"
    using assms(2) unfolding tuning_unfold Let_def
    by (auto simp: Option.bind_eq_Some_conv simp del: tune_taps.simps find_window.simps
        split: if_splits)
  have "find_window (\<lambda>k. \<not> CHECK_MASK_BIT m k) 128 = find_window good 128"
    using tune_taps_result[OF assms(1) taps] clear_masks by (intro find_window_cong) auto
  then show ?thesis
    using that[OF refl last] set_tap_dly by (simp add: cvi_tap_def)
qed

text \<open>C14. Tuning finds the widest window: with a card whose answer depends on the tap only and at
  least one run of 20 passing taps, the procedure succeeds, and the tap it leaves in the delay
  register and in \<open>final_tap\<close> is the middle of a widest run, which itself passes.\<close>

theorem cvi_tuning_widest:
  assumes "sdhci_cv181x_general_execute_tuning send opcode w = Some (ret, w')"
    and "tunes_by good (send opcode)" "window_at good 128 i s" "20 \<le> s"
  shows "ret = None \<and> (\<exists>j n. window_at good 128 j n \<and> s \<le> n
    \<and> (\<forall>j' n'. window_at good 128 j' n' \<longrightarrow> n' \<le> n \<and> (n' = n \<longrightarrow> j \<le> j'))
    \<and> cvi_tap w' = j + n div 2 \<and> final_tap (cvi w') = of_nat (j + n div 2)
    \<and> good (cvi_tap w'))"
proof -
  obtain v w1 where v: "v = find_window good 128" and last: "send opcode w1 = Some (ret, w')"
    and w1: "cvi_tap w1 = unat (drop_bit 16 (push_bit 16 (word_of_int (tap v) :: u32)))"
      "final_tap (cvi w1) = word_of_int (tap v)"
    by (rule tuning_run[of good send opcode w ret w', OF assms(2,1)])
  obtain j where j: "window_at good 128 j (max_size v)"
    "\<And>i. window_at good 128 i (max_size v) \<Longrightarrow> j \<le> i"
    "tap v = (if max_size v \<ge> TAP_WINDOW_THLD then int j + int (max_size v div 2) else -1)"
    and top: "\<And>i s. window_at good 128 i s \<Longrightarrow> s \<le> max_size v"
    using find_window_inv[of good 128] by (auto simp: max_inv_def v)
  have t: "tap v = int (j + max_size v div 2)" "j + max_size v div 2 < 128"
    "good (j + max_size v div 2)"
    using j(1,3) top[OF assms(3)] assms(4) by (auto simp: window_at_iff)
  have "cvi_tap w1 = j + max_size v div 2"
    using w1(1) small_tap[of "j + max_size v div 2"] t(2) by (simp add: t(1))
  moreover obtain r w2 where "send opcode w1 = Some (r, w2)" "r = None \<longleftrightarrow> good (cvi_tap w1)"
    "final_tap (cvi w2) = final_tap (cvi w1)" "r = None \<Longrightarrow> cvi_tap w2 = cvi_tap w1"
    using tunes_byE[OF assms(2), of w1] by blast
  ultimately show ?thesis
    using last w1(2) t j(1,2) top[OF assms(3)] top
    by (intro conjI exI[of _ j] exI[of _ "max_size v"] allI impI) auto
qed

text \<open>C19. Without a run of 20 passing taps the procedure goes on with the initial value -1 of the
  tap: the delay register is written with all bits of the upper half set, \<open>final_tap\<close> becomes
  255, and whether tuning fails is left to the last block.\<close>

theorem cvi_tuning_no_window:
  assumes "sdhci_cv181x_general_execute_tuning send opcode w = Some (ret, w')"
    and "tunes_by good (send opcode)" "\<not> (\<exists>i. window_at good 128 i 20)"
  shows "final_tap (cvi w') = 255 \<and> (ret = None \<longleftrightarrow> good 0xFFFF)"
proof -
  obtain v w1 where v: "v = find_window good 128" and last: "send opcode w1 = Some (ret, w')"
    and w1: "cvi_tap w1 = unat (drop_bit 16 (push_bit 16 (word_of_int (tap v) :: u32)))"
      "final_tap (cvi w1) = word_of_int (tap v)"
    by (rule tuning_run[of good send opcode w ret w', OF assms(2,1)])
  obtain j where j: "window_at good 128 j (max_size v)"
    "tap v = (if max_size v \<ge> TAP_WINDOW_THLD then int j + int (max_size v div 2) else -1)"
    using find_window_inv[of good 128] by (auto simp: max_inv_def v)
  have "window_at good 128 j 20" if "20 \<le> max_size v"
    using j(1) that by (auto simp: window_at_iff)
  then have "tap v = -1" using j(2) assms(3) by auto
  moreover have "unat (drop_bit 16 (push_bit 16 (-1 :: u32))) = 0xFFFF"
    unfolding push_bit_eq_mult drop_bit_eq_div by simp
  ultimately have "cvi_tap w1 = 0xFFFF" "final_tap (cvi w1) = 255" using w1 by simp_all
  then show ?thesis
    using last tunes_byE[OF assms(2), of w1] by auto
qed

text \<open>When the lead-lag status never changes from 0 to 1 from one tap to a later one, the width
  of the lead-lag window stays 0 and the success rate is computed by a division by zero; here
  for a controller whose status bit is never set.\<close>

theorem cvi_tuning_undefined:
  assumes "\<forall>h. \<not> tst (ucast (e_rd w h CVI_CV181X_SDHCI_PHY_DLY_STS) :: u16) 2"
    and "\<forall>w r w'. send opcode w = Some (r, w') \<longrightarrow> e_rd w' = e_rd w"
  shows "sdhci_cv181x_general_execute_tuning send opcode w = None"
proof (cases "tune_taps (send opcode) 0 128 (replicate 16 0, replicate 16 0) (tuning_start w)")
  case (Some x)
  obtain m l w1 where x: "x = ((m, l), w1)" by (cases x) auto
  have "\<not> CHECK_MASK_BIT l k" if "k < 128" for k
    using tune_taps_lead[of "send opcode" 0 128 "replicate 16 0" "replicate 16 0" "tuning_start w"
        m l w1 "\<lambda>_. False" k] assms Some x clear_masks[OF that] by auto
  then have "lead_lag_size (CHECK_MASK_BIT l) 0 128 (-1, -1, 0, 0) = 0"
    by (simp add: lead_lag_zero del: lead_lag_size.simps)
  then show ?thesis unfolding tuning_unfold Some x
    by (simp add: Option.bind_eq_None_conv del: lead_lag_size.simps)
qed (simp add: tuning_unfold)

subsection \<open>A card to tune\<close>

text \<open>The status bit is set from tap 64 on; the card answers rightly at the taps 10 to 39.\<close>

definition tuning_world :: world where
  "tuning_world = blank_world\<lparr>e_rd := \<lambda>h r.
     if r = CVI_CV181X_SDHCI_PHY_DLY_STS \<and> 64 \<le> tap_in h then 2 else 0\<rparr>"

definition answer_at :: "(nat \<Rightarrow> bool) \<Rightarrow> u32 \<Rightarrow> world \<Rightarrow> (errno option \<times> world) option" where
  "answer_at good opcode w = Some (if good (cvi_tap w) then None else Some EIO, w)"

lemma answer_tunes: "tunes_by good (answer_at good opcode)"
  by (simp add: tunes_by_def answer_at_def)

lemma tuning_world_runs:
  obtains ret w' where
    "sdhci_cv181x_general_execute_tuning (answer_at good) opcode tuning_world = Some (ret, w')"
proof -
  obtain m l w1 where taps: "tune_taps (answer_at good opcode) 0 128 (replicate 16 0, replicate 16 0)
      (tuning_start tuning_world) = Some ((m, l), w1)"
    using tune_taps_total[of "answer_at good opcode"] by (fastforce simp: answer_at_def)
  have rd: "e_rd w1 = e_rd tuning_world"
    using tune_taps_e_rd[OF _ taps] by (auto simp: answer_at_def)
  have "CHECK_MASK_BIT l k \<longleftrightarrow> 64 \<le> k" if "k < 128" for k
    using tune_taps_lead[OF _ taps, of "\<lambda>t. 64 \<le> t" k] clear_masks[OF that] that
    by (auto simp: answer_at_def tuning_world_def tst_def)
  then have "\<not> CHECK_MASK_BIT l 0" "CHECK_MASK_BIT l 64" by simp_all
  then have "\<exists>i \<in> {0..<0 + 128}. \<not> CHECK_MASK_BIT l i \<and> (\<exists>j \<in> {Suc i..<0 + 128}. CHECK_MASK_BIT l j)"
    by (intro bexI[of _ 0] conjI bexI[of _ 64]) auto
  then have "lead_lag_size (CHECK_MASK_BIT l) 0 128 (-1, -1, 0, 0) \<noteq> 0"
    unfolding lead_lag_zero by blast
  moreover obtain w2 where "reset_after_tuning_pass w1 = Some w2"
    by (simp add: reset_after_tuning_pass_def tuning_reset_wait.simps modb_def modw_def Let_def rd
        tuning_world_def tst_def)
  ultimately show ?thesis
    using that taps by (simp add: tuning_unfold Let_def answer_at_def del: lead_lag_size.simps)
qed

theorem cvi_tuning_widest_witness:
  "\<exists>w'. sdhci_cv181x_general_execute_tuning (answer_at (\<lambda>t. 10 \<le> t \<and> t < 40)) 21 tuning_world
      = Some (None, w') \<and> cvi_tap w' = 25 \<and> final_tap (cvi w') = 25"
proof -
  define good where "good = (\<lambda>t::nat. 10 \<le> t \<and> t < 40)"
  obtain ret w' where run: "sdhci_cv181x_general_execute_tuning (answer_at good) 21 tuning_world
      = Some (ret, w')"
    by (rule tuning_world_runs)
  have at: "window_at good 128 j n \<longleftrightarrow> j + n \<le> 128 \<and> (n = 0 \<or> (10 \<le> j \<and> j + n \<le> 40))" for j n
  proof (cases n)
    case (Suc m)
    then show ?thesis by (auto simp: window_at_iff good_def dest: spec[of _ j] spec[of _ "j + m"])
  qed (auto simp: window_at_iff)
  obtain j n where "ret = None" "window_at good 128 j n" "30 \<le> n" "cvi_tap w' = j + n div 2"
    "final_tap (cvi w') = of_nat (j + n div 2)"
    using cvi_tuning_widest[OF run answer_tunes, of 10 30] at by auto
  moreover from this have "j = 10 \<and> n = 30" by (auto simp: at)
  ultimately show ?thesis using run by (auto simp: good_def)
qed

theorem cvi_tuning_no_window_witness:
  "\<exists>w'. sdhci_cv181x_general_execute_tuning (answer_at (\<lambda>t. False)) 21 tuning_world
      = Some (Some EIO, w') \<and> final_tap (cvi w') = 255"
proof -
  obtain ret w' where run: "sdhci_cv181x_general_execute_tuning (answer_at (\<lambda>t. False)) 21
      tuning_world = Some (ret, w')"
    by (rule tuning_world_runs)
  have none: "\<not> window_at (\<lambda>t. False) 128 i 20" for i
    by (auto simp: window_at_iff dest: spec[of _ i])
  have "final_tap (cvi w') = 255"
    using cvi_tuning_no_window[OF run answer_tunes] none by blast
  moreover have "ret = Some EIO"
    using tuning_run[OF answer_tunes run] by (auto simp: answer_at_def)
  ultimately show ?thesis using run by blast
qed

theorem cvi_tuning_undefined_witness:
  "sdhci_cv181x_general_execute_tuning (answer_at (\<lambda>t. True)) 21 blank_world = None"
  by (rule cvi_tuning_undefined) (simp_all add: answer_at_def tst_def)

end
