(* ===== verification/PollFacts.thy ===== *)
theory PollFacts
  imports Clock
begin

text \<open>
  The two polling loops with a deadline: the wait for a reset to finish and the wait for the
  internal clock.  Both read the tick counter, then the register, then delay.  They return as
  soon as the register shows it or the deadline passes; whether it passes depends on the tick
  counter, which the port keeps in 32 bits.
\<close>

subsection \<open>Time\<close>

text \<open>Milliseconds shown by the tick counter after a history.\<close>

definition now_ms :: "world \<Rightarrow> event list \<Rightarrow> nat" where
  "now_ms w h = unat (jiffies_to_msecs (e_HZ w) (ucast (e_tick w h)))"

lemma now_ms_less: "now_ms w h < 4294967296"
  using unsigned_less[of "jiffies_to_msecs (e_HZ w) (ucast (e_tick w h))", where ?'a = nat]
  by (simp add: now_ms_def)

lemma ktime_get_simp [simp]:
  "ktime_get w = (of_nat (now_ms w (hist w)) * 1000000, emit ReadTick w)"
  by (simp add: ktime_get_def jiffies_def rt_tick_get_def now_ms_def Let_def emit_def)

lemma sint_small:
  fixes n :: nat
  assumes "n < 2 ^ 63"
  shows "sint (of_nat n :: u64) = int n"
  using assms by (simp add: signed_of_nat signed_take_bit_int_eq_self)

lemma ktime_after_ms:
  assumes "a < 4294967296" "b < 4294967296" "c < 1000"
  shows "ktime_after (of_nat a * 1000000) (ktime_add_ms (of_nat b * 1000000) (of_nat c))
    \<longleftrightarrow> b + c < a"
proof -
  have "(of_nat a * 1000000 :: u64) = of_nat (a * 1000000)"
    "ktime_add_ms (of_nat b * 1000000) (of_nat c) = of_nat ((b + c) * 1000000)"
    by (simp_all add: ktime_add_ms_def algebra_simps)
  moreover have "sint (of_nat (a * 1000000) :: u64) = int (a * 1000000)"
    "sint (of_nat ((b + c) * 1000000) :: u64) = int ((b + c) * 1000000)"
    using assms by (intro sint_small, simp)+
  ultimately show ?thesis by (simp add: ktime_after_def ktime_compare_def)
qed

subsection \<open>Reset\<close>

text \<open>The history after \<open>k\<close> rounds of the loop that did not end.\<close>

fun reset_polls :: "nat \<Rightarrow> event list \<Rightarrow> event list" where
  "reset_polls 0 h = h"
| "reset_polls (Suc k) h = reset_polls k (Udelay 10 # Rd8 SDHCI_SOFTWARE_RESET # ReadTick # h)"

lemma reset_wait_returns:
  assumes "b + 100 < now_ms w (reset_polls k (hist w))
    \<or> \<not> tst (ucast (e_rd w (ReadTick # reset_polls k (hist w)) SDHCI_SOFTWARE_RESET)) msk"
    "b < 4294967296"
  shows "\<exists>w'. reset_wait v msk (ktime_add_ms (of_nat b * 1000000) 100) w = Some w'"
  using assms(1)
proof (induction k arbitrary: w)
  case 0
  then show ?case
    using ktime_after_ms[OF now_ms_less assms(2), of 100 w "hist w"]
    by (subst reset_wait.simps) (auto simp: access_defs Let_def)
next
  case (Suc k)
  define w2 where "w2 = udelay 10 (emit (Rd8 SDHCI_SOFTWARE_RESET) (emit ReadTick w))"
  have "reset_polls (Suc k) (hist w) = reset_polls k (hist w2)"
    by (simp add: w2_def udelay_def emit_def)
  moreover have "now_ms w = now_ms w2" "e_rd w = e_rd w2"
    by (simp_all add: now_ms_def fun_eq_iff w2_def udelay_def emit_def)
  ultimately obtain w' where
    "reset_wait v msk (ktime_add_ms (of_nat b * 1000000) 100) w2 = Some w'"
    using Suc by fastforce
  then show ?case
    by (subst reset_wait.simps) (auto simp: access_defs Let_def w2_def)
qed

lemma reset_wait_stuck':
  "reset_wait v msk t w = Some w' \<Longrightarrow>
   (\<forall>h. tst (ucast (e_rd w h SDHCI_SOFTWARE_RESET) :: u8) msk) \<longrightarrow>
   (\<forall>h. \<not> ktime_after (of_nat (now_ms w h) * 1000000) t) \<longrightarrow> False"
proof (induction rule: reset_wait.raw_induct[rotated, consumes 1, case_names step])
  case (step loop v msk t w w')
  define w2 where "w2 = udelay 10 (emit (Rd8 SDHCI_SOFTWARE_RESET) (emit ReadTick w))"
  have eq: "now_ms w2 = now_ms w" "e_rd w2 = e_rd w"
    by (simp_all add: now_ms_def fun_eq_iff w2_def udelay_def emit_def)
  show ?case
  proof (intro impI)
    assume a: "\<forall>h. tst (ucast (e_rd w h SDHCI_SOFTWARE_RESET) :: u8) msk"
      "\<forall>h. \<not> ktime_after (of_nat (now_ms w h) * 1000000) t"
    then have "loop v msk t w2 = Some w'"
      using step(2) by (simp add: access_defs Let_def w2_def)
    then show False using step(1) a eq by fastforce
  qed
qed

text \<open>A reset writes the bits, takes the time and polls.\<close>

lemma sdhci_reset_polls:
  obtains w1 where "hist w1 = ReadTick # Wr8 SDHCI_SOFTWARE_RESET msk # hist w"
    "now_ms w1 = now_ms w" "e_rd w1 = e_rd w"
    "sdhci_reset v msk w = reset_wait v msk
       (ktime_add_ms (of_nat (now_ms w (Wr8 SDHCI_SOFTWARE_RESET msk # hist w)) * 1000000) 100) w1"
proof -
  define w0 where "w0 = (if tst msk SDHCI_RESET_ALL then
      (let w = (emit (Wr8 SDHCI_SOFTWARE_RESET msk) w)\<lparr>h_clock := 0\<rparr>
       in if tst (h_quirks2 w) SDHCI_QUIRK2_CARD_ON_NEEDS_BUS_ON
          then sdhci_runtime_pm_bus_off w else w)
    else emit (Wr8 SDHCI_SOFTWARE_RESET msk) w)"
  have f: "hist w0 = Wr8 SDHCI_SOFTWARE_RESET msk # hist w" "now_ms w0 = now_ms w"
    "now_ms (emit ReadTick w0) = now_ms w" "e_rd (emit ReadTick w0) = e_rd w"
    by (simp_all add: w0_def now_ms_def fun_eq_iff emit_def sdhci_runtime_pm_bus_off_def Let_def)
  have "sdhci_reset v msk w
    = reset_wait v msk (ktime_add_ms (of_nat (now_ms w0 (hist w0)) * 1000000) 100) (emit ReadTick w0)"
    unfolding sdhci_reset_def w0_def by (simp add: sdhci_writeb_def Let_def)
  then show ?thesis using that[of "emit ReadTick w0"] f by (simp add: emit_def)
qed

text \<open>C8. A reset returns once the controller clears the reset bits or a poll finds more than 100
  milliseconds on the tick counter, whatever the controller does.\<close>

theorem reset_returns:
  fixes w :: world and msk :: u8
  defines "start \<equiv> Wr8 SDHCI_SOFTWARE_RESET msk # hist w"
  assumes "now_ms w start + 100 < now_ms w (reset_polls k (ReadTick # start))
    \<or> \<not> tst (ucast (e_rd w (ReadTick # reset_polls k (ReadTick # start)) SDHCI_SOFTWARE_RESET)) msk"
  shows "\<exists>w'. sdhci_reset v msk w = Some w'"
proof -
  obtain w1 where w1: "hist w1 = ReadTick # start" "now_ms w1 = now_ms w" "e_rd w1 = e_rd w"
    "sdhci_reset v msk w
      = reset_wait v msk (ktime_add_ms (of_nat (now_ms w start) * 1000000) 100) w1"
    unfolding start_def by (rule sdhci_reset_polls)
  show ?thesis
    unfolding w1(4) by (rule reset_wait_returns[where k = k])
      (use assms(2) w1(1-3) now_ms_less in simp_all)
qed

lemma length_reset_polls: "length (reset_polls k h) = 3 * k + length h"
  by (induction k h rule: reset_polls.induct) simp_all

text \<open>A controller that never clears the bits, and a clock that ticks with every access.\<close>

theorem reset_returns_witness:
  "\<exists>w'. sdhci_reset None SDHCI_RESET_ALL
     (blank_world\<lparr>e_rd := \<lambda>_ _. 0xff, e_tick := \<lambda>h. of_nat (length h)\<rparr>) = Some w'"
  by (rule reset_returns[where k = 40])
    (simp add: now_ms_def length_reset_polls jiffies_to_msecs_def)

text \<open>C13. The deadline is computed from a millisecond count that wraps around at 32 bits and
  that stands still when the tick rate is above 1000 Hz: a reset started in the last 100
  milliseconds before the wrap-around, or at such a tick rate, never times out, so it does not
  return if the controller does not clear the bits.\<close>

theorem reset_deadline_lost:
  assumes "4294967195 \<le> now_ms w (Wr8 SDHCI_SOFTWARE_RESET msk # hist w) \<or> 1000 < e_HZ w"
    and "\<forall>h. tst (ucast (e_rd w h SDHCI_SOFTWARE_RESET) :: u8) msk"
  shows "sdhci_reset v msk w = None"
proof -
  define b where "b = now_ms w (Wr8 SDHCI_SOFTWARE_RESET msk # hist w)"
  obtain w1 where w1: "now_ms w1 = now_ms w" "e_rd w1 = e_rd w"
    "sdhci_reset v msk w = reset_wait v msk (ktime_add_ms (of_nat b * 1000000) 100) w1"
    unfolding b_def by (rule sdhci_reset_polls)
  have "1000 div e_HZ w = 0" if "1000 < e_HZ w"
    using that by (simp add: word_div_no word_less_nat_alt unat_div div_eq_0_iff word_unat_eq_iff)
  then have zero: "now_ms w h = 0" if "1000 < e_HZ w" for h
    using that by (simp add: now_ms_def jiffies_to_msecs_def)
  have "\<not> b + 100 < now_ms w h" for h
    using assms(1) zero[of h] now_ms_less[of w h] by (auto simp: b_def)
  then have "\<forall>h. \<not> ktime_after (of_nat (now_ms w1 h) * 1000000) (ktime_add_ms (of_nat b * 1000000) 100)"
    using ktime_after_ms[OF now_ms_less now_ms_less, of 100 w _ w] by (simp add: b_def w1(1))
  then show ?thesis
    using reset_wait_stuck'[of v msk _ w1] assms(2) w1(2,3) by (metis not_None_eq)
qed

theorem reset_deadline_lost_witness:
  "sdhci_reset None SDHCI_RESET_ALL (blank_world\<lparr>e_rd := \<lambda>_ _. 0xff,
     e_tick := \<lambda>h. of_nat (4294967200 + length h)\<rparr>) = None"
  by (rule reset_deadline_lost) (simp_all add: now_ms_def jiffies_to_msecs_def tst_def)

end
