(* ===== verification/CvitekFacts.thy ===== *)
theory CvitekFacts
  imports CvitekOps PollFacts
begin

text \<open>
  What the contracts of the core give for the CVITEK board: its tables of operations keep the
  request invariant, its descriptor tables transfer exactly the bytes asked for, no descriptor
  crosses a 128 MiB boundary, and a reset brings the interrupt mask and the tuned delay back.
\<close>

subsection \<open>Descriptors\<close>

text \<open>C15. The descriptor writer of the board splits a piece at a 128 MiB boundary: the descriptors
  it writes cover exactly the piece, none of them crosses a boundary, there are at most two, and
  only their memory changes.\<close>

theorem cvi_desc_blocks:
  assumes "geom w f64 sz" "0 < len" "len \<le> 65536" "f64 \<or> uint addr + len \<le> 2 ^ 32"
  shows "\<exists>ps m. cvi_adma_write_desc desc addr len ADMA2_TRAN_VALID w
      = (desc + of_nat (length ps * sz), w\<lparr>mem := m\<rparr>)
    \<and> holds f64 sz m desc ps \<and> concat (map dma_bytes ps) = dma_bytes (addr, nat len)
    \<and> list_all in_block ps \<and> length ps \<le> 2
    \<and> (\<forall>x. \<not> within desc (length ps * sz) x \<longrightarrow> m x = mem w x)"
  by (rule cvi_write_pieces[OF assms])

text \<open>A piece of 32 bytes, half of it behind the first boundary.\<close>

theorem cvi_desc_blocks_witness:
  "\<exists>ps d w'. cvi_adma_write_desc 0xA00 0x7FFFFF0 32 ADMA2_TRAN_VALID adma_world = (d, w')
    \<and> holds False 8 (mem w') 0xA00 ps
    \<and> concat (map dma_bytes ps) = dma_bytes (0x7FFFFF0, 32) \<and> list_all in_block ps"
  using cvi_desc_blocks[of adma_world False 8 32 "0x7FFFFF0" "0xA00"]
  by (fastforce simp: adma_world_def geom_def tst_def dsize_def)

text \<open>C16. On the board, too, the table of up to 64 segments makes the controller transfer exactly the
  bytes of the list, although every part may be split at a boundary, and for a write transfer the
  bytes it fetches are the contents of the segments.  As on any host the list must not be empty, no
  segment may be shorter than its unaligned head, and the segments must lie outside the align buffer
  and the table.\<close>

theorem cvi_adma_table_covers:
  assumes "sdhci_adma_table_pre ops dp n w = Some w'" "n \<le> 64"
    and "ops = sdhci_cv181x_sd_ops send \<or> ops = sdhci_cv181x_emmc_ops send"
    and "sg_walk (nat n) (m_sg w) = Some ss" "\<forall>s \<in> set ss. seg_ok f64 s"
    and "\<exists>s \<in> set ss. sg_length s \<noteq> 0"
    and "geom w f64 sz" "h_align_buffer w = Some buf" "h_adma_table w = buf + 512"
    and "f64 \<or> uint (h_align_addr w) + 512 \<le> 2 ^ 32"
    and "\<forall>s \<in> set ss. clear_of buf (512 + 257 * sz) s"
    and "bus_ok cpu (h_align_addr w) buf ss"
  shows "\<exists>ps. adma_walk (length ps + 1) f64 sz (mem w') (h_adma_table w) = Some ps
    \<and> concat (map dma_bytes ps) = bus_bytes (h_align_addr w) ss
    \<and> (d_write (datas w dp) \<longrightarrow>
        map (mem w' \<circ> cpu) (concat (map dma_bytes ps)) = concat (map (seg_bytes (mem w)) ss))
    \<and> length ps \<le> 4 * nat n
    \<and> (\<forall>x. \<not> within buf (512 + 257 * sz) x \<longrightarrow> mem w' x = mem w x)"
  using cv_sd_adma.covers_layout[of send dp n w w' ss f64 sz buf cpu]
    cv_emmc_adma.covers_layout[of send dp n w w' ss f64 sz buf cpu] assms by auto

theorem cvi_adma_table_covers_witness:
  "\<exists>w' ps. sdhci_adma_table_pre (sdhci_cv181x_sd_ops (\<lambda>_ _. None)) 0 2 adma_world = Some w'
    \<and> adma_walk (length ps + 1) False 8 (mem w') 0xA00 = Some ps
    \<and> concat (map dma_bytes ps)
      = [0x800, 0x801, 0x2004, 0x2005, 0x2006, 0x2007, 0x4000, 0x4001]
    \<and> map (mem w') (concat (map dma_bytes ps)) = [2, 3, 4, 5, 6, 7, 0, 1]"
proof -
  obtain w' where w': "sdhci_adma_table_pre (sdhci_cv181x_sd_ops (\<lambda>_ _. None)) 0 2 adma_world = Some w'"
    using table_pre_builds adma_world_walk2 adma_world_ok(2) by blast
  show ?thesis
    using cvi_adma_table_covers[OF w' _ disjI1[OF refl] adma_world_walk2 _ adma_world_layout(1-5) _ adma_world_bus]
      adma_world_ok adma_world_layout(6) w' unfolding adma_world_bytes
    by (auto simp: adma_world_layout(4) simp del: adma_walk.simps)
qed

subsection \<open>Requests\<close>

text \<open>C17. The invariant of the request life cycle holds for both tables of the board, too: no request
  in progress and finished, no more than \<open>SDHCI_MAX_MRQS\<close> known, and the interrupt enable
  registers hold the mask the driver keeps, although the resets of the board write them.\<close>

theorem cvi_reachable_sound:
  assumes "reachable ops w w'" "host_inv w"
    and "ops = sdhci_cv181x_sd_ops send \<or> ops = sdhci_cv181x_emmc_ops send"
  shows "distinct (finished w') \<and> set (active w') \<inter> set (finished w') = {}
    \<and> card (tracked w') \<le> SDHCI_MAX_MRQS
    \<and> last_wr32 SDHCI_INT_ENABLE (hist w') = Some (h_ier w')
    \<and> last_wr32 SDHCI_SIGNAL_ENABLE (hist w') = Some (h_ier w')"
proof -
  have "host_inv w'"
    using assms cv_sd.reachable_host_inv cv_emmc.reachable_host_inv by blast
  then show ?thesis by (simp add: host_inv_def req_inv_def ier_ok_def)
qed

theorem cvi_reachable_sound_witness:
  "\<exists>w'. reachable (sdhci_cv181x_sd_ops (\<lambda>_ _. None)) idle_world w' \<and> active w' = [7]
    \<and> 7 \<notin> set (finished w') \<and> last_wr32 SDHCI_INT_ENABLE (hist w') = Some (h_ier w')"
proof -
  define ops where "ops = sdhci_cv181x_sd_ops (\<lambda>_ _. None)"
  obtain w where w: "reachable ops idle_world w" "active w = [7]"
    by (rule idle_reachable[of ops])
  then show ?thesis
    using cvi_reachable_sound[OF w(1) idle_host_inv(1), of "\<lambda>_ _. None"] w(2)
    by (auto simp: ops_def)
qed

subsection \<open>Resets\<close>

text \<open>What a reset of the core leaves alone.\<close>

definition kept :: "world \<Rightarrow> u32 \<times> sdhci_cvi_host \<times> (event list \<Rightarrow> nat \<Rightarrow> u32)" where
  "kept w = (h_ier w, cvi w, e_rd w)"

lemma kept_simps [simp]:
  "kept (emit e w) = kept w" "kept (w\<lparr>h_clock := c\<rparr>) = kept w" "kept (w\<lparr>h_bus_on := b\<rparr>) = kept w"
  "kept (sdhci_dumpregs None w) = kept w" "kept (udelay n w) = kept w"
  "kept (snd (ktime_get w)) = kept w"
  by (simp_all add: kept_def sdhci_dumpregs_def dump_regs1_def dump_regs2_def call_opt_def
      Let_def udelay_def ktime_get_def jiffies_def rt_tick_get_def split_beta)

lemma kept_wait:
  "reset_wait v m t w = Some w' \<Longrightarrow> v = None \<longrightarrow> kept w' = kept w"
proof (induction rule: reset_wait.raw_induct[rotated, consumes 1, case_names step])
  case (step loop v m t w w')
  then show ?case by (auto simp: Let_def split_beta split: if_split_asm)
qed

lemma kept_reset: "sdhci_reset None m w = Some w' \<Longrightarrow> kept w' = kept w"
  by (auto simp: sdhci_reset_def Let_def split_beta sdhci_runtime_pm_bus_off_def
      dest!: kept_wait split: if_split_asm)

lemma cvi_reset_helper_masks:
  assumes "sdhci_cvi_reset_helper m w = Some w'"
  shows "last_wr32 SDHCI_INT_ENABLE (hist w') = Some (h_ier w)"
    "last_wr32 SDHCI_SIGNAL_ENABLE (hist w') = Some (h_ier w)"
    "cvi w' = cvi w" "e_rd w' = e_rd w"
proof -
  define w1 where "w1 = emit (Wr32 SDHCI_SIGNAL_ENABLE 0) (emit (Wr32 SDHCI_INT_ENABLE 0) w)"
  obtain w2 where w2: "sdhci_reset None m w1 = Some w2"
    and w': "w' = emit (Wr32 SDHCI_SIGNAL_ENABLE (h_ier w2)) (emit (Wr32 SDHCI_INT_ENABLE (h_ier w2)) w2)"
    using assms by (auto simp: sdhci_cvi_reset_helper_def Option.bind_eq_Some_conv w1_def Let_def)
  have k: "h_ier w2 = h_ier w" "cvi w2 = cvi w" "e_rd w2 = e_rd w"
    using kept_reset[OF w2] by (simp_all add: kept_def w1_def)
  show "last_wr32 SDHCI_INT_ENABLE (hist w') = Some (h_ier w)"
    "last_wr32 SDHCI_SIGNAL_ENABLE (hist w') = Some (h_ier w)" "cvi w' = cvi w" "e_rd w' = e_rd w"
    by (simp_all add: w' k emit_def)
qed

lemma cvi_phy_setup_masks:
  "last_wr32 SDHCI_INT_ENABLE (hist (cvi_phy_setup w)) = last_wr32 SDHCI_INT_ENABLE (hist w)"
  "last_wr32 SDHCI_SIGNAL_ENABLE (hist (cvi_phy_setup w)) = last_wr32 SDHCI_SIGNAL_ENABLE (hist w)"
  by (simp_all add: cvi_phy_setup_def Let_def modl_def emit_def)

lemma cvi_phy_setup_delay:
  "\<exists>h. last_wr32 CVI_CV181X_SDHCI_PHY_TX_RX_DLY (hist (cvi_phy_setup w))
    = Some (if ucast (e_rd w h SDHCI_HOST_CONTROL2) AND SDHCI_CTRL_UHS_MASK
              = (SDHCI_CTRL_UHS_SDR104 :: u16)
            then 0x100 OR push_bit 16 (ucast (final_tap (cvi w)) AND 0x7F) else 0x1000100)"
  by (rule exI[of _ "hist w"]) (simp add: cvi_phy_setup_def Let_def modl_def emit_def)

text \<open>C18. After every reset of the SD or eMMC host both interrupt enable registers hold the mask the
  driver keeps.  If the controller is in SDR104 mode, the delay register again holds the tap that
  tuning found, below 128; if it is in another mode, the default of the slower modes.\<close>

theorem cvi_reset_restores:
  assumes "sdhci_cv181x_sd_reset m w = Some w' \<or> sdhci_cv181x_emmc_reset m w = Some w'"
  shows "last_wr32 SDHCI_INT_ENABLE (hist w') = Some (h_ier w)
    \<and> last_wr32 SDHCI_SIGNAL_ENABLE (hist w') = Some (h_ier w)
    \<and> ((\<forall>h. ucast (e_rd w h SDHCI_HOST_CONTROL2) AND SDHCI_CTRL_UHS_MASK
          = (SDHCI_CTRL_UHS_SDR104 :: u16)) \<longrightarrow>
        last_wr32 CVI_CV181X_SDHCI_PHY_TX_RX_DLY (hist w')
          = Some (0x100 OR push_bit 16 (ucast (final_tap (cvi w)) AND 0x7F)))
    \<and> ((\<forall>h. ucast (e_rd w h SDHCI_HOST_CONTROL2) AND SDHCI_CTRL_UHS_MASK
          \<noteq> (SDHCI_CTRL_UHS_SDR104 :: u16)) \<longrightarrow>
        last_wr32 CVI_CV181X_SDHCI_PHY_TX_RX_DLY (hist w') = Some 0x1000100)"
proof -
  obtain w1 w2 where w1: "sdhci_cvi_reset_helper m w = Some w1" and w': "w' = cvi_phy_setup w2"
    and w2: "w2 = w1 \<or> w2 = modl (\<lambda>v. v OR 1) CVI_CV181X_SDHCI_VENDOR_MSHC_CTRL_R w1"
    using assms
    by (auto simp: sdhci_cv181x_sd_reset_def sdhci_cv181x_emmc_reset_def Option.bind_eq_Some_conv)
  note h = cvi_reset_helper_masks[OF w1]
  have k: "last_wr32 SDHCI_INT_ENABLE (hist w2) = Some (h_ier w)"
    "last_wr32 SDHCI_SIGNAL_ENABLE (hist w2) = Some (h_ier w)" "cvi w2 = cvi w" "e_rd w2 = e_rd w"
    using w2 h by (auto simp: modl_def Let_def emit_def)
  show ?thesis
    using cvi_phy_setup_delay[of w2] unfolding w' cvi_phy_setup_masks k by auto
qed

definition reset_world :: world where
  "reset_world = blank_world\<lparr>h_ier := 3, cvi := \<lparr>final_tap = 25, sdio0_voltage_1_8_v = 0\<rparr>,
     e_rd := \<lambda>_ r. if r = SDHCI_HOST_CONTROL2 then 3 else 0\<rparr>"

theorem cvi_reset_restores_witness:
  "\<exists>w'. sdhci_cv181x_sd_reset SDHCI_RESET_CMD reset_world = Some w'
    \<and> last_wr32 CVI_CV181X_SDHCI_PHY_TX_RX_DLY (hist w') = Some 0x190100
    \<and> last_wr32 SDHCI_INT_ENABLE (hist w') = Some 3"
proof -
  define w1 where "w1 = emit (Wr32 SDHCI_SIGNAL_ENABLE 0) (emit (Wr32 SDHCI_INT_ENABLE 0) reset_world)"
  obtain w2 t where "sdhci_reset None SDHCI_RESET_CMD w1 = reset_wait None SDHCI_RESET_CMD t w2"
    and rd: "e_rd w2 = e_rd w1"
    by (rule sdhci_reset_polls)
  moreover have "\<exists>w'. reset_wait None SDHCI_RESET_CMD t w2 = Some w'"
    by (subst reset_wait.simps) (simp add: Let_def split_beta rd w1_def reset_world_def tst_def)
  ultimately obtain w' where w': "sdhci_cv181x_sd_reset SDHCI_RESET_CMD reset_world = Some w'"
    by (auto simp: sdhci_cv181x_sd_reset_def sdhci_cvi_reset_helper_def w1_def Let_def)
  then show ?thesis
    using cvi_reset_restores[OF disjI1[OF w']] by (simp add: reset_world_def)
qed

end
