(* ===== verification/PortFacts.thy ===== *)
theory PortFacts
  imports MmcPort AdmaFacts
begin

text \<open>
  The port's MMC layer: the scatter list it makes of a request's buffer covers the buffer
  exactly, the data of a read comes back from the substitute buffers, the command flags it
  derives become the right bits of the command register, and the tuning block is judged right.
\<close>

subsection \<open>The scatter list of a buffer\<close>

text \<open>Where the data of an entry belongs: a substituted entry remembers its first buffer.\<close>

definition seg_home :: "scatterlist \<Rightarrow> u64" where
  "seg_home s = (if tst (sg_flags s) SG_REA then sg_old_addr s else sg_virt s)"

definition home_bytes :: "scatterlist list \<Rightarrow> u64 list" where
  "home_bytes ss = concat (map (\<lambda>s. dma_bytes (seg_home s, unat (sg_length s))) ss)"

text \<open>What substituting buffers keeps of an entry.\<close>

definition seg_key :: "scatterlist \<Rightarrow> u64 \<times> u32 \<times> bool" where
  "seg_key s = (seg_home s, sg_length s, sg_is_last s)"

lemma home_bytes_key: "map seg_key ss = map seg_key ss' \<Longrightarrow> home_bytes ss = home_bytes ss'"
proof -
  assume "map seg_key ss = map seg_key ss'"
  then have "map (\<lambda>(a, n, _). dma_bytes (a, unat n)) (map seg_key ss)
    = map (\<lambda>(a, n, _). dma_bytes (a, unat n)) (map seg_key ss')" by (rule arg_cong)
  then show ?thesis by (simp add: home_bytes_def seg_key_def comp_def)
qed

lemma init_table_nth:
  assumes "sg_init_table n sgl = Some sgl'"
  shows "0 < n \<and> n \<le> length sgl \<and> length sgl' = length sgl
    \<and> (\<forall>j < n. sgl' ! j = (if j = n - 1 then sg_zero\<lparr>sg_flags := SG_END\<rparr> else sg_zero))"
  using assms
  by (auto simp: sg_init_table_def Let_def nth_append nth_list_update sg_zero_def split: if_splits)

lemma length_sg_fill [simp]: "length (sg_fill i n buf len sgl) = length sgl"
  by (induction i n buf len sgl rule: sg_fill.induct) (simp_all add: Let_def)

lemma sg_fill_nth_before: "j < i \<Longrightarrow> sg_fill i n buf len sgl ! j = sgl ! j"
  by (induction i n buf len sgl rule: sg_fill.induct) (simp_all add: Let_def)

lemma set_buf_flags [simp]:
  "sg_flags (sgl[i := sg_set_buf b l (sgl ! i)] ! j) = sg_flags (sgl ! j)"
  by (cases "i < length sgl") (auto simp: nth_list_update list_update_beyond)

lemma sg_fill_flags [simp]: "sg_flags (sg_fill i n buf len sgl ! j) = sg_flags (sgl ! j)"
  by (induction i n buf len sgl rule: sg_fill.induct) (simp_all add: Let_def)

lemma sg_fill_pieces:
  assumes "i + n \<le> length sgl" "unat len \<le> n * 65536" "(n - 1) * 65536 < unat len"
    and "\<forall>j. i \<le> j \<and> j < i + n \<longrightarrow> \<not> tst (sg_flags (sgl ! j)) SG_REA"
  shows "home_bytes (take n (drop i (sg_fill i n buf len sgl))) = dma_bytes (buf, unat len)
    \<and> (\<forall>s \<in> set (take n (drop i (sg_fill i n buf len sgl))). 0 < sg_length s \<and> sg_length s \<le> SZ_64K)"
  using assms
proof (induction n arbitrary: i buf len sgl)
  case 0
  then show ?case by (simp add: home_bytes_def)
next
  case (Suc n)
  define l where "l = (if len > SZ_64K then SZ_64K else len)"
  define sgl1 where "sgl1 = sgl[i := sg_set_buf buf l (sgl ! i)]"
  define r where "r = sg_fill (Suc i) n (buf + ucast l) (len - l) sgl1"
  have r: "sg_fill i (Suc n) buf len sgl = r"
    by (simp add: r_def sgl1_def l_def Let_def)
  have l: "unat l = min 65536 (unat len)" "0 < l" "l \<le> SZ_64K" "l \<le> len"
    using Suc.prems(3)
    by (auto simp: l_def SZ_64K_def word_less_nat_alt word_le_nat_alt min_def)
  have rest: "unat (len - l) = unat len - unat l"
    using l(4) by (simp add: unat_sub)
  have i: "i < length sgl" using Suc.prems(1) by simp
  have ri: "r ! i = sg_set_buf buf l (sgl ! i)"
    using i by (simp add: r_def sgl1_def sg_fill_nth_before)
  have split: "take (Suc n) (drop i r) = r ! i # take n (drop (Suc i) r)"
    using i by (simp add: r_def sgl1_def Cons_nth_drop_Suc[symmetric])
  have head: "home_bytes [r ! i] = dma_bytes (buf, unat l)"
    using Suc.prems(4) i by (simp add: home_bytes_def seg_home_def ri)
  have flags: "\<forall>j. Suc i \<le> j \<and> j < Suc i + n \<longrightarrow> \<not> tst (sg_flags (sgl1 ! j)) SG_REA"
    using Suc.prems(4) by (simp add: sgl1_def)
  have app: "home_bytes (x # xs) = home_bytes [x] @ home_bytes xs" for x xs
    by (simp add: home_bytes_def)
  show ?case
  proof (cases "n = 0")
    case True
    then have "unat l = unat len" using l(1) Suc.prems(2) by simp
    then show ?thesis unfolding r split using head l by (simp add: True ri)
  next
    case False
    then have "unat l = 65536" using l(1) Suc.prems(3) by simp
    then have "unat (len - l) \<le> n * 65536" "(n - 1) * 65536 < unat (len - l)"
      using rest Suc.prems(2,3) False by (simp_all add: diff_mult_distrib)
    then have IH: "home_bytes (take n (drop (Suc i) r)) = dma_bytes (buf + ucast l, unat (len - l))"
      "\<forall>s \<in> set (take n (drop (Suc i) r)). 0 < sg_length s \<and> sg_length s \<le> SZ_64K"
      using Suc.IH[of "Suc i" sgl1 "len - l" "buf + ucast l"] Suc.prems(1) flags
      by (simp_all add: r_def sgl1_def)
    have "(ucast l :: u64) = of_nat (unat l)" by (simp add: unsigned_word_eqI)
    then have "dma_bytes (buf, unat l) @ dma_bytes (buf + ucast l, unat (len - l))
        = dma_bytes (buf, unat len)"
      using dma_bytes_append[of buf "unat l" "unat (len - l)"] rest l(1) by simp
    then show ?thesis
      unfolding r split unfolding app[of "r ! i" "take n (drop (Suc i) r)"] using IH head l by (simp add: ri)
  qed
qed

lemma take_copy_key:
  assumes "sg_take_copy s w = (Some s', w')" "\<not> tst (sg_flags s) SG_REA"
  shows "seg_key s' = seg_key s" "tst (sg_flags s') SG_REA"
  using assms
  by (auto simp: sg_take_copy_def rt_malloc_align_def Let_def seg_key_def seg_home_def
      sg_is_last_def tst_def bit.conj_disj_distrib2 split: if_splits)

lemma map_sg_loop_keys:
  assumes "map_sg_loop i n w = Some (True, w')"
    and "\<forall>j. i \<le> j \<and> j < i + n \<longrightarrow> \<not> tst (sg_flags (m_sg w ! j)) SG_REA"
  shows "map seg_key (m_sg w') = map seg_key (m_sg w) \<and> take i (m_sg w') = take i (m_sg w)
    \<and> (\<forall>j. i \<le> j \<and> j < i + n \<longrightarrow>
         \<not> needs_copy (m_sg w' ! j) \<or> tst (sg_flags (m_sg w' ! j)) SG_REA)
    \<and> datas w' = datas w"
  using assms
proof (induction n arbitrary: i w)
  case (Suc n)
  have i: "i < length (m_sg w)" using Suc.prems(1) by (auto split: if_splits)
  define s where "s = m_sg w ! i"
  have s: "\<not> tst (sg_flags s) SG_REA" using Suc.prems(2) i by (simp add: s_def)
  obtain w1 s1 where w1: "map_sg_loop (Suc i) n w1 = Some (True, w')"
    "m_sg w1 = (m_sg w)[i := s1]" "datas w1 = datas w" "seg_key s1 = seg_key s"
    "\<not> needs_copy s1 \<or> tst (sg_flags s1) SG_REA"
  proof (cases "needs_copy s")
    case True
    obtain s' w2 where t: "sg_take_copy s w = (Some s', w2)"
      "map_sg_loop (Suc i) n (w2\<lparr>m_sg := (m_sg w2)[i := s']\<rparr>) = Some (True, w')"
      using Suc.prems(1) i True by (auto simp: s_def split: prod.splits option.splits)
    have "m_sg w2 = m_sg w" "datas w2 = datas w"
      using t(1) by (auto simp: sg_take_copy_def rt_malloc_align_def Let_def split: if_splits)
    then show ?thesis
      using that[OF t(2), of s'] take_copy_key[OF t(1) s] by simp
  next
    case False
    then show ?thesis
      using that[of w s] Suc.prems(1) i by (simp add: s_def)
  qed
  have "\<forall>j. Suc i \<le> j \<and> j < Suc i + n \<longrightarrow> \<not> tst (sg_flags (m_sg w1 ! j)) SG_REA"
    using Suc.prems(2) by (simp add: w1(2))
  note IH = Suc.IH[OF w1(1) this]
  have "map seg_key (m_sg w1) = map seg_key (m_sg w)"
    using i w1(4) by (simp add: w1(2) map_update s_def list_update_same_conv)
  moreover have "take i (m_sg w') = take i (m_sg w)"
    using arg_cong[OF conjunct1[OF conjunct2[OF IH]], of "take i"] by (simp add: w1(2) min_def)
  moreover have "m_sg w' ! i = s1"
  proof -
    have "m_sg w' ! i = take (Suc i) (m_sg w') ! i" by simp
    also have "\<dots> = take (Suc i) (m_sg w1) ! i" using IH by simp
    also have "\<dots> = s1" using i by (simp add: w1(2))
    finally show ?thesis .
  qed
  ultimately show ?case
    using IH w1(3,5) by (metis Suc_leI add_Suc_right add_Suc le_eq_less_or_eq)
qed auto

lemma sg_walk_prefix:
  assumes "0 < n" "n \<le> length l" "\<forall>j. Suc j < n \<longrightarrow> \<not> sg_is_last (l ! j)"
  shows "sg_walk n l = Some (take n l)"
  using assms
proof (induction n arbitrary: l)
  case (Suc n)
  obtain s l' where l: "l = s # l'" using Suc.prems(2) by (cases l) auto
  show ?case
  proof (cases "n = 0")
    case False
    then have "\<not> sg_is_last s" using Suc.prems(3) l by auto
    moreover have "\<not> sg_is_last (l' ! j)" if "Suc j < n" for j
      using Suc.prems(3) that l by (auto dest: spec[of _ "Suc j"])
    then have "sg_walk n l' = Some (take n l')"
      using Suc.IH[of l'] Suc.prems(2) False l by auto
    ultimately show ?thesis by (simp add: l sg_next_def)
  qed (simp add: l)
qed simp

lemma pieces:
  assumes "unat (len :: u32) + 65535 < 2 ^ 32" "n = unat ((len + (SZ_64K - 1)) div SZ_64K)"
  shows "unat len \<le> n * 65536" "0 < n \<Longrightarrow> (n - 1) * 65536 < unat len"
proof -
  have "unat (len + (SZ_64K - 1)) = unat len + 65535"
    using assms(1) by (simp add: SZ_64K_def unat_add_lem[THEN iffD1])
  then have n: "n = (unat len + 65535) div 65536"
    unfolding assms(2) by (simp add: unat_div SZ_64K_def)
  then show "unat len \<le> n * 65536" by linarith
  assume "0 < n"
  then have "n * 65536 \<le> unat len + 65535" "(n - 1) * 65536 = n * 65536 - 65536" "65536 \<le> n * 65536"
    by (simp_all add: n diff_mult_distrib)
  then show "(n - 1) * 65536 < unat len" by linarith
qed

lemma sg_init_parts:
  assumes "sg_init dp w = Some (None, w')"
  obtains n sgl ok where "n = unat ((d_blocks (datas w dp) * d_blksz (datas w dp) + (SZ_64K - 1)) div SZ_64K)"
    "n = unat (d_sg_len (datas w' dp))" "n \<le> 8" "sg_init_table n (m_sg w) = Some sgl"
    "map seg_key (m_sg w') = map seg_key (sg_fill 0 n (d_buf (datas w dp))
       (d_blocks (datas w dp) * d_blksz (datas w dp)) sgl)"
    "d_read (datas w dp) \<longrightarrow> (\<forall>j < n. \<not> needs_copy (m_sg w' ! j)
       \<or> tst (sg_flags (m_sg w' ! j)) SG_REA)"
proof -
  define len where "len = d_blocks (datas w dp) * d_blksz (datas w dp)"
  define w1 where "w1 = upd_data dp (\<lambda>d. d\<lparr>d_sg_len := (len + (SZ_64K - 1)) div SZ_64K\<rparr>) w"
  define n where "n = unat (d_sg_len (datas w1 dp))"
  have n: "n = unat ((len + (SZ_64K - 1)) div SZ_64K)" by (simp add: n_def w1_def upd_data_def)
  have w1: "m_sg w1 = m_sg w" "d_buf (datas w1 dp) = d_buf (datas w dp)"
    "d_read (datas w1 dp) = d_read (datas w dp)"
    by (simp_all add: w1_def upd_data_def)
  obtain sgl where sgl: "n \<le> 8" "sg_init_table n (m_sg w) = Some sgl"
    and run: "map_sg n (d_read (datas w dp))
      (w1\<lparr>m_sg := sg_fill 0 n (d_buf (datas w dp)) len sgl\<rparr>) = Some (None, w')"
    using assms unfolding sg_init_def Let_def len_def[symmetric] w1_def[symmetric] n_def[symmetric]
    by (auto simp: BUG_ON_def w1 Option.bind_eq_Some_conv split: if_splits)
  define w2 where "w2 = w1\<lparr>m_sg := sg_fill 0 n (d_buf (datas w dp)) len sgl\<rparr>"
  show ?thesis
  proof (cases "d_read (datas w dp)")
    case False
    then have "w' = w2" using run by (simp add: map_sg_def w2_def)
    then show ?thesis
      using that[of n sgl] n sgl False by (simp add: w2_def len_def n_def)
  next
    case True
    then have loop: "map_sg_loop 0 n w2 = Some (True, w')"
      using run by (auto simp: map_sg_def w2_def Option.bind_eq_Some_conv split: if_splits)
    have "\<not> tst (sg_flags (m_sg w2 ! j)) SG_REA" if "j < n" for j
      using init_table_nth[OF sgl(2)] that by (simp add: w2_def sg_zero_def tst_def)
    then show ?thesis
      using map_sg_loop_keys[OF loop] that[of n sgl] n sgl True
      by (simp add: w2_def len_def n_def)
  qed
qed

text \<open>C20. The scatter list the port makes of a request has at most 8 entries of at most 64 KiB, ends
  where it should, and its entries cover the buffer of the request exactly, in order; in a read
  every entry that starts off a cache line or is shorter than one has a substitute buffer.\<close>

theorem sg_init_covers:
  fixes w :: world and dp :: datap
  defines "len \<equiv> d_blocks (datas w dp) * d_blksz (datas w dp)"
  assumes "sg_init dp w = Some (None, w')" and "unat len + 65535 < 2 ^ 32"
  shows "\<exists>n ss. n = unat (d_sg_len (datas w' dp)) \<and> n \<le> 8 \<and> sg_walk n (m_sg w') = Some ss
    \<and> home_bytes ss = dma_bytes (d_buf (datas w dp), unat len)
    \<and> list_all (\<lambda>s. 0 < sg_length s \<and> sg_length s \<le> SZ_64K) ss
    \<and> (d_read (datas w dp) \<longrightarrow>
         list_all (\<lambda>s. sg_length s < 64 \<or> seg_home s AND 63 \<noteq> 0 \<longrightarrow> tst (sg_flags s) SG_REA) ss)"
proof -
  obtain n sgl where n: "n = unat ((len + (SZ_64K - 1)) div SZ_64K)"
    "n = unat (d_sg_len (datas w' dp))" "n \<le> 8" and tab: "sg_init_table n (m_sg w) = Some sgl"
    and keys: "map seg_key (m_sg w') = map seg_key (sg_fill 0 n (d_buf (datas w dp)) len sgl)"
    and copies: "d_read (datas w dp) \<longrightarrow> (\<forall>j < n. \<not> needs_copy (m_sg w' ! j)
       \<or> tst (sg_flags (m_sg w' ! j)) SG_REA)"
    by (rule sg_init_parts[OF assms(2), folded len_def])
  define l where "l = sg_fill 0 n (d_buf (datas w dp)) len sgl"
  have t: "0 < n" "n \<le> length sgl"
    "\<And>j. j < n \<Longrightarrow> sgl ! j = (if j = n - 1 then sg_zero\<lparr>sg_flags := SG_END\<rparr> else sg_zero)"
    using init_table_nth[OF tab] by auto
  have len: "length (m_sg w') = length sgl" using arg_cong[OF keys, of length] by simp
  have pieces: "home_bytes (take n l) = dma_bytes (d_buf (datas w dp), unat len)"
    "\<forall>s \<in> set (take n l). 0 < sg_length s \<and> sg_length s \<le> SZ_64K"
    using sg_fill_pieces[of 0 n sgl len "d_buf (datas w dp)"] pieces[OF assms(3) n(1)] t
    by (simp_all add: l_def sg_zero_def tst_def)
  have take_keys: "map seg_key (take n (m_sg w')) = map seg_key (take n l)"
    using arg_cong[OF keys, of "take n"] by (simp add: l_def take_map)
  have key: "seg_key (m_sg w' ! j) = seg_key (l ! j)" if "j < n" for j
    using arg_cong[OF keys, of "\<lambda>xs. xs ! j"] that t(2) len by (simp add: l_def)
  have "\<not> sg_is_last (m_sg w' ! j)" if "Suc j < n" for j
    using key[of j] that t(3)[of j]
    by (simp add: seg_key_def sg_is_last_def l_def sg_zero_def tst_def)
  then have "sg_walk n (m_sg w') = Some (take n (m_sg w'))"
    using t(1,2) len by (intro sg_walk_prefix) simp_all
  moreover have "home_bytes (take n (m_sg w')) = dma_bytes (d_buf (datas w dp), unat len)"
    using home_bytes_key[OF take_keys] pieces(1) by simp
  moreover have "0 < sg_length s \<and> sg_length s \<le> SZ_64K" if s: "s \<in> set (take n (m_sg w'))" for s
  proof -
    obtain j where j: "j < n" "s = m_sg w' ! j"
      using s t(2) len by (auto simp: in_set_conv_nth)
    then have "l ! j \<in> set (take n l)" using t(2) by (auto simp: in_set_conv_nth l_def)
    then show ?thesis using pieces(2) key[OF j(1)] j(2) by (auto simp: seg_key_def)
  qed
  moreover have "list_all (\<lambda>s. sg_length s < 64 \<or> seg_home s AND 63 \<noteq> 0
      \<longrightarrow> tst (sg_flags s) SG_REA) (take n (m_sg w'))"
    if "d_read (datas w dp)"
  proof -
    have "tst (sg_flags s) SG_REA"
      if "\<not> needs_copy s \<or> tst (sg_flags s) SG_REA" "sg_length s < 64 \<or> seg_home s AND 63 \<noteq> 0" for s
      using that by (auto simp: needs_copy_def seg_home_def tst_def SDHCI_CPU_CACHELINE_SIZE_def)
    moreover have "\<not> needs_copy s \<or> tst (sg_flags s) SG_REA" if "s \<in> set (take n (m_sg w'))" for s
      using copies \<open>d_read (datas w dp)\<close> that t(2) len by (auto simp: in_set_conv_nth)
    ultimately show ?thesis unfolding list_all_iff by blast
  qed
  ultimately show ?thesis
    using n(2,3) by (intro exI[of _ n] exI[of _ "take n (m_sg w')"]) (simp add: list_all_iff)
qed

text \<open>A read of three blocks of 512 bytes into an unaligned buffer: one entry, substituted.\<close>

definition port_world :: world where
  "port_world = blank_world\<lparr>m_sg := replicate 8 sg_zero, e_alloc := \<lambda>_. 0x9000,
     datas := \<lambda>_. blank_data\<lparr>d_blksz := 512, d_blocks := 3, d_read := True, d_buf := 0x5010\<rparr>\<rparr>"

theorem sg_init_covers_witness:
  "\<exists>w' ss. sg_init 0 port_world = Some (None, w') \<and> sg_walk 1 (m_sg w') = Some ss
    \<and> home_bytes ss = dma_bytes (0x5010, 1536)"
proof -
  obtain w' where w': "sg_init 0 port_world = Some (None, w')" "d_sg_len (datas w' 0) = 1"
    by (simp add: sg_init_def port_world_def upd_data_def BUG_ON_def sg_init_table_def
        map_sg_def needs_copy_def sg_take_copy_def rt_malloc_align_def Let_def SZ_64K_def
        blank_data_def sg_zero_def SDHCI_CPU_CACHELINE_SIZE_def sg_virt_def sg_set_buf_def tst_def)
  then show ?thesis
    using sg_init_covers[OF w'(1)] by (auto simp: port_world_def)
qed

subsection \<open>The data of a read comes back\<close>

text \<open>The bytes of the mapped buffers, in the order of the transfer.\<close>

definition virt_bytes :: "scatterlist list \<Rightarrow> u64 list" where
  "virt_bytes ss = concat (map (\<lambda>s. dma_bytes (sg_virt s, unat (sg_length s))) ss)"

lemma home_bytes_Cons [simp]:
  "home_bytes (s # ss) = dma_bytes (seg_home s, unat (sg_length s)) @ home_bytes ss"
  "home_bytes [] = []"
  by (simp_all add: home_bytes_def)

lemma virt_bytes_Cons [simp]:
  "virt_bytes (s # ss) = dma_bytes (sg_virt s, unat (sg_length s)) @ virt_bytes ss"
  "virt_bytes [] = []"
  by (simp_all add: virt_bytes_def)

lemma dma_bytes_sub: "x \<in> set (dma_bytes (a, unat (n :: u32))) \<longleftrightarrow> x - a < ucast n"
proof -
  have n: "unat n < 2 ^ 32" using unsigned_less[of n, where ?'a = nat] by simp
  then have u: "unat (ucast n :: u64) = unat n"
    by (simp add: unsigned_ucast_eq take_bit_nat_eq_self)
  show ?thesis
  proof
    assume "x \<in> set (dma_bytes (a, unat n))"
    then obtain i where i: "i < unat n" "x = a + of_nat i" by (auto simp: dma_bytes_def)
    moreover have "unat (of_nat i :: u64) = i"
      using i(1) n by (simp add: unsigned_of_nat take_bit_nat_eq_self)
    ultimately show "x - a < ucast n" by (simp add: word_less_nat_alt u)
  next
    assume "x - a < ucast n"
    then have "unat (x - a) < unat n" by (simp add: word_less_nat_alt u)
    then show "x \<in> set (dma_bytes (a, unat n))"
      by (auto simp: dma_bytes_def intro!: image_eqI[of _ _ "unat (x - a)"])
  qed
qed

lemma memcpy_bytes:
  "map (memcpy m dst src (ucast n)) (dma_bytes (dst, unat (n :: u32)))
    = map m (dma_bytes (src, unat n))"
  "x \<notin> set (dma_bytes (dst, unat n)) \<Longrightarrow> memcpy m dst src (ucast n) x = m x"
proof -
  have "memcpy m dst src (ucast n) (dst + of_nat i) = m (src + of_nat i)" if "i < unat n" for i
    using that dma_bytes_sub[of "dst + of_nat i" dst n]
    by (intro memcpy_at) (auto simp: dma_bytes_def)
  then show "map (memcpy m dst src (ucast n)) (dma_bytes (dst, unat n))
      = map m (dma_bytes (src, unat n))"
    by (simp add: dma_bytes_def)
  show "x \<notin> set (dma_bytes (dst, unat n)) \<Longrightarrow> memcpy m dst src (ucast n) x = m x"
    by (rule memcpy_outside) (simp add: dma_bytes_sub)
qed

text \<open>The substitutes do not overlap the buffers they stand for.\<close>

definition apart :: "scatterlist list \<Rightarrow> bool" where
  "apart ss \<longleftrightarrow> distinct (home_bytes ss) \<and> list_all (\<lambda>s. tst (sg_flags s) SG_REA \<longrightarrow>
     list_all (\<lambda>x. x \<notin> set (home_bytes ss)) (dma_bytes (sg_virt s, unat (sg_length s)))) ss"

lemma unmap_copies:
  assumes "dma_unmap_from i k w = Some w'" "ss = take k (drop i (m_sg w))" "apart ss"
  shows "map (mem w') (home_bytes ss) = map (mem w) (virt_bytes ss)
    \<and> (\<forall>x. x \<notin> set (home_bytes ss) \<longrightarrow> mem w' x = mem w x)"
  using assms
proof (induction k arbitrary: i w ss)
  case 0
  then show ?case by simp
next
  case (Suc k)
  have i: "i < length (m_sg w)" using Suc.prems(1) by (auto split: if_splits)
  define s where "s = m_sg w ! i"
  define rest where "rest = take k (drop (Suc i) (m_sg w))"
  define H where "H = set (dma_bytes (seg_home s, unat (sg_length s)))"
  define w1 where "w1 = (if tst (sg_flags s) SG_REA then
      rt_free_align (sg_virt s) (w\<lparr>mem := memcpy (mem w) (sg_old_addr s) (sg_virt s)
        (ucast (sg_length s))\<rparr>) else w)"
  have ss: "ss = s # rest"
    using Suc.prems(2) i by (simp add: s_def rest_def Cons_nth_drop_Suc[symmetric])
  have w1: "m_sg w1 = m_sg w" "\<And>x. x \<notin> H \<Longrightarrow> mem w1 x = mem w x"
    "map (mem w1) (dma_bytes (seg_home s, unat (sg_length s)))
      = map (mem w) (dma_bytes (sg_virt s, unat (sg_length s)))"
    using memcpy_bytes by (auto simp: w1_def rt_free_align_def seg_home_def H_def)
  have run: "dma_unmap_from (Suc i) k w1 = Some w'"
    using Suc.prems(1) i by (auto simp: s_def[symmetric] w1_def Let_def split: if_splits)
  have dist: "H \<inter> set (home_bytes rest) = {}"
    using Suc.prems(3) by (auto simp: apart_def ss H_def)
  have "apart rest" using Suc.prems(3) by (auto simp: apart_def ss list_all_iff)
  from Suc.IH[OF run _ this] have IH: "map (mem w') (home_bytes rest) = map (mem w1) (virt_bytes rest)"
    "\<And>x. x \<notin> set (home_bytes rest) \<Longrightarrow> mem w' x = mem w1 x"
    by (simp_all add: rest_def w1(1))
  have "x \<notin> H" if x: "x \<in> set (virt_bytes rest)" for x
  proof -
    obtain t where t: "t \<in> set rest" "x \<in> set (dma_bytes (sg_virt t, unat (sg_length t)))"
      using x by (auto simp: virt_bytes_def)
    show ?thesis
    proof (cases "tst (sg_flags t) SG_REA")
      case True
      then show ?thesis using t Suc.prems(3) by (auto simp: apart_def ss list_all_iff H_def)
    next
      case False
      then have "x \<in> set (home_bytes rest)"
        using t by (auto simp: home_bytes_def seg_home_def)
      then show ?thesis using dist by blast
    qed
  qed
  then have "map (mem w1) (virt_bytes rest) = map (mem w) (virt_bytes rest)"
    using w1(2) by simp
  moreover have "map (mem w') (dma_bytes (seg_home s, unat (sg_length s)))
      = map (mem w1) (dma_bytes (seg_home s, unat (sg_length s)))"
    using IH(2) dist by (auto simp: H_def)
  ultimately show ?case
    using IH w1(2,3) by (simp add: ss H_def)
qed

text \<open>C21. After a read the buffers of the request hold what the controller put into the mapped
  buffers, also where a substitute was mapped, and no other memory changes.\<close>

theorem unmap_returns_data:
  assumes "dma_unmap_sg n DMA_FROM_DEVICE w = Some w'" "apart (take (unat n) (m_sg w))"
  shows "map (mem w') (home_bytes (take (unat n) (m_sg w)))
      = map (mem w) (virt_bytes (take (unat n) (m_sg w)))
    \<and> (\<forall>x. x \<notin> set (home_bytes (take (unat n) (m_sg w))) \<longrightarrow> mem w' x = mem w x)"
  using unmap_copies[of 0 "unat n" w w'] assms by (simp add: dma_unmap_sg_def)

theorem unmap_returns_data_witness:
  "\<exists>w'. dma_unmap_sg 1 DMA_FROM_DEVICE (blank_world\<lparr>mem := \<lambda>a. ucast a, m_sg :=
      [sg_zero\<lparr>sg_page_link := 0x9000, sg_length := 2, sg_old_addr := 0x5010, sg_flags := SG_REA\<rparr>]\<rparr>)
      = Some w' \<and> mem w' 0x5010 = 0 \<and> mem w' 0x5011 = 1 \<and> mem w' 0x5012 = 0x12"
proof -
  define s where "s = sg_zero\<lparr>sg_page_link := 0x9000, sg_length := 2, sg_old_addr := 0x5010,
    sg_flags := SG_REA\<rparr>"
  define w where "w = blank_world\<lparr>mem := \<lambda>a. ucast a, m_sg := [s]\<rparr>"
  have b: "home_bytes [s] = [0x5010, 0x5011]" "virt_bytes [s] = [0x9000, 0x9001]"
    "dma_bytes (sg_virt s, unat (sg_length s)) = [0x9000, 0x9001]" "tst (sg_flags s) SG_REA"
    by (simp_all add: s_def seg_home_def tst_def sg_virt_def sg_zero_def dma_bytes_def upt_rec)
  then have "apart [s]" by (simp add: apart_def)
  moreover obtain w' where "dma_unmap_sg 1 DMA_FROM_DEVICE w = Some w'"
    by (simp add: dma_unmap_sg_def w_def Let_def)
  ultimately show ?thesis
    using unmap_returns_data[of 1 w w'] b by (auto simp: w_def s_def)
qed

subsection \<open>Running out of memory\<close>

definition is_malloc :: "event \<Rightarrow> bool" where
  "is_malloc e = (case e of MallocAlign n a \<Rightarrow> True | _ \<Rightarrow> False)"

text \<open>The addresses of the buffers given back in a stretch of the history, and those of the buffers
  that the allocator \<open>f\<close> handed out in it, both latest first; 0 is the failed allocation.\<close>

fun freed :: "event list \<Rightarrow> u64 list" where
  "freed [] = []"
| "freed (e # es) = (case e of FreeAlign p \<Rightarrow> [p] | _ \<Rightarrow> []) @ freed es"

fun handed_out :: "(event list \<Rightarrow> u64) \<Rightarrow> event list \<Rightarrow> event list \<Rightarrow> u64 list" where
  "handed_out f [] h = []"
| "handed_out f (e # es) h =
     (if is_malloc e \<and> f (es @ h) \<noteq> 0 then [f (es @ h)] else []) @ handed_out f es h"

lemma event_kinds [simp]:
  "is_malloc (MallocAlign n a)" "\<not> is_malloc (FreeAlign p)"
  by (simp_all add: is_malloc_def)

lemma freed_append: "freed (es @ es') = freed es @ freed es'"
  by (induction es) simp_all

lemma handed_out_append:
  "handed_out f (es @ es') h = handed_out f es (es' @ h) @ handed_out f es' h"
  by (induction es) simp_all

lemma handed_out_none: "filter is_malloc es = [] \<Longrightarrow> handed_out f es h = []"
  by (induction es) (simp_all split: if_split_asm)

text \<open>The substitutes of the first \<open>n\<close> entries.\<close>

definition substitutes :: "nat \<Rightarrow> scatterlist list \<Rightarrow> u64 list" where
  "substitutes n l = map sg_virt (filter (\<lambda>s. tst (sg_flags s) SG_REA) (take n l))"

lemma substitutes_drop:
  "i < length l \<Longrightarrow> substitutes (Suc n) (drop i l)
    = (if tst (sg_flags (l ! i)) SG_REA then [sg_virt (l ! i)] else [])
      @ substitutes n (drop (Suc i) l)"
  by (simp add: substitutes_def Cons_nth_drop_Suc[symmetric])

lemma unmap_loop_frees:
  assumes "unmap_sg_loop i n w = Some w'"
  shows "\<exists>es. hist w' = es @ hist w \<and> filter is_malloc es = []
    \<and> freed es = rev (substitutes n (drop i (m_sg w)))"
  using assms
proof (induction n arbitrary: i w)
  case (Suc n)
  have i: "i < length (m_sg w)" using Suc.prems by (auto split: if_splits)
  define s where "s = m_sg w ! i"
  define w1 where "w1 = (if tst (sg_flags s) SG_REA then rt_free_align (sg_virt s) w else w)"
  have run: "unmap_sg_loop (Suc i) n w1 = Some w'"
    using Suc.prems i by (auto simp: w1_def s_def split: if_splits)
  obtain es where es: "hist w' = es @ hist w1" "filter is_malloc es = []"
    "freed es = rev (substitutes n (drop (Suc i) (m_sg w)))"
    using Suc.IH[OF run] by (auto simp: w1_def rt_free_align_def)
  show ?case
    using es substitutes_drop[OF i, of n, folded s_def]
    by (intro exI[of _ "es @ (if tst (sg_flags s) SG_REA then [FreeAlign (sg_virt s)] else [])"])
      (auto simp: w1_def rt_free_align_def emit_def freed_append)
qed (simp add: substitutes_def)

lemma sg_virt_fields [simp]: "sg_virt (s\<lparr>sg_old_addr := a, sg_flags := f\<rparr>) = sg_virt s"
  by (simp add: sg_virt_def)

lemma map_loop_mallocs:
  assumes "map_sg_loop i n w = Some (ok, w')"
    and "\<forall>j. i \<le> j \<and> j < i + n \<longrightarrow> \<not> tst (sg_flags (m_sg w ! j)) SG_REA"
  shows "\<exists>es. hist w' = es @ hist w \<and> freed es = []
    \<and> handed_out (e_alloc w) es (hist w) = rev (substitutes n (drop i (m_sg w')))
    \<and> length (filter is_malloc es)
        = length (substitutes n (drop i (m_sg w'))) + (if ok then 0 else 1)
    \<and> take i (m_sg w') = take i (m_sg w)"
  using assms
proof (induction n arbitrary: i w)
  case (Suc n)
  have i: "i < length (m_sg w)" using Suc.prems(1) by (auto split: if_splits)
  define s where "s = m_sg w ! i"
  have s: "\<not> tst (sg_flags s) SG_REA" using Suc.prems(2) by (simp add: s_def)
  define m where "m = MallocAlign (ucast (copy_size (sg_length s))) SDHCI_CPU_CACHELINE_SIZE"
  show ?case
  proof (cases "needs_copy s \<and> e_alloc w (hist w) = 0")
    case True
    then have w': "ok = False" "w' = emit m w"
      using Suc.prems(1) i
      by (auto simp: s_def[symmetric] sg_take_copy_def rt_malloc_align_def Let_def m_def)
    have "substitutes (Suc n) (drop i (m_sg w)) = []"
      using Suc.prems(2)
      by (auto simp: substitutes_def filter_empty_conv in_set_conv_nth)
    then show ?thesis
      using True by (intro exI[of _ "[m]"]) (simp add: w' m_def emit_def)
  next
    case False
    define es1 where "es1 = (if needs_copy s then [m] else [])"
    obtain w1 s1 where w1: "map_sg_loop (Suc i) n w1 = Some (ok, w')" "m_sg w1 = (m_sg w)[i := s1]"
      "hist w1 = es1 @ hist w" "tst (sg_flags s1) SG_REA \<longleftrightarrow> needs_copy s" "e_alloc w1 = e_alloc w"
      "needs_copy s \<Longrightarrow> sg_virt s1 = e_alloc w (hist w)"
    proof (cases "needs_copy s")
      case True
      obtain s' w2 where t: "sg_take_copy s w = (Some s', w2)" "hist w2 = [m] @ hist w"
        "m_sg w2 = m_sg w" "e_alloc w2 = e_alloc w" "sg_virt s' = e_alloc w (hist w)"
        using False True
        by (simp add: sg_take_copy_def rt_malloc_align_def Let_def m_def emit_def)
      moreover have "map_sg_loop (Suc i) n (w2\<lparr>m_sg := (m_sg w2)[i := s']\<rparr>) = Some (ok, w')"
        using Suc.prems(1) i True t(1) by (simp add: s_def[symmetric])
      ultimately show ?thesis
        using that[of "w2\<lparr>m_sg := (m_sg w2)[i := s']\<rparr>" s'] True take_copy_key[OF t(1) s]
        by (simp add: es1_def)
    next
      case False
      then show ?thesis
        using that[of w s] Suc.prems(1) i s by (simp add: s_def es1_def)
    qed
    have "\<forall>j. Suc i \<le> j \<and> j < Suc i + n \<longrightarrow> \<not> tst (sg_flags (m_sg w1 ! j)) SG_REA"
      using Suc.prems(2) by (simp add: w1(2))
    from Suc.IH[OF w1(1) this]
    obtain es where es: "hist w' = es @ hist w1" "freed es = []"
      "handed_out (e_alloc w) es (hist w1) = rev (substitutes n (drop (Suc i) (m_sg w')))"
      "length (filter is_malloc es)
        = length (substitutes n (drop (Suc i) (m_sg w'))) + (if ok then 0 else 1)"
      "take (Suc i) (m_sg w') = take (Suc i) (m_sg w1)"
      unfolding w1(5) by blast
    have at: "m_sg w' ! i = s1" "i < length (m_sg w')"
    proof -
      have "i < length (take (Suc i) (m_sg w'))" using i by (simp add: es(5) w1(2))
      then show "i < length (m_sg w')" by simp
      have "take (Suc i) (m_sg w') ! i = take (Suc i) (m_sg w1) ! i" by (simp only: es(5))
      then show "m_sg w' ! i = s1" using i by (simp add: w1(2))
    qed
    have sub: "substitutes (Suc n) (drop i (m_sg w'))
        = (if needs_copy s then [e_alloc w (hist w)] else [])
          @ substitutes n (drop (Suc i) (m_sg w'))"
      using substitutes_drop[OF at(2), of n] at(1) w1(4,6) by simp
    have "handed_out (e_alloc w) es1 (hist w) = (if needs_copy s then [e_alloc w (hist w)] else [])"
      using False by (simp add: es1_def m_def)
    moreover have "take i (m_sg w') = take i (m_sg w)"
      using arg_cong[OF es(5), of "take i"] by (simp add: w1(2) min_def)
    moreover have "freed es1 = []" "length (filter is_malloc es1) = (if needs_copy s then 1 else 0)"
      by (simp_all add: es1_def m_def)
    ultimately show ?thesis
      using es(1-4) unfolding sub w1(3)
      by (intro exI[of _ "es @ es1"]) (simp add: freed_append handed_out_append)
  qed
qed (simp add: substitutes_def)

lemma sg_init_failed:
  assumes "sg_init dp w = Some (Some e, w')"
  obtains n w2 w3 where "map_sg_loop 0 n w2 = Some (False, w3)" "unmap_sg_loop 0 n w3 = Some w'"
    "hist w2 = hist w" "\<forall>j. 0 \<le> j \<and> j < 0 + n \<longrightarrow> \<not> tst (sg_flags (m_sg w2 ! j)) SG_REA"
    "e = ENOMEM" "e_alloc w2 = e_alloc w"
proof -
  define len where "len = d_blocks (datas w dp) * d_blksz (datas w dp)"
  define w1 where "w1 = upd_data dp (\<lambda>d. d\<lparr>d_sg_len := (len + (SZ_64K - 1)) div SZ_64K\<rparr>) w"
  define n where "n = unat (d_sg_len (datas w1 dp))"
  obtain sgl where sgl: "sg_init_table n (m_sg w1) = Some sgl"
    and run: "map_sg n (d_read (datas w1 dp))
      (w1\<lparr>m_sg := sg_fill 0 n (d_buf (datas w1 dp)) len sgl\<rparr>) = Some (Some e, w')"
    using assms unfolding sg_init_def Let_def len_def[symmetric] w1_def[symmetric] n_def[symmetric]
    by (auto simp: Option.bind_eq_Some_conv)
  define w2 where "w2 = w1\<lparr>m_sg := sg_fill 0 n (d_buf (datas w1 dp)) len sgl\<rparr>"
  obtain w3 where w3: "map_sg_loop 0 n w2 = Some (False, w3)" "unmap_sg_loop 0 n w3 = Some w'"
    "e = ENOMEM"
    using run by (auto simp: map_sg_def w2_def Option.bind_eq_Some_conv split: if_splits)
  have "\<not> tst (sg_flags (m_sg w2 ! j)) SG_REA" if "j < n" for j
    using init_table_nth[OF sgl] that by (simp add: w2_def sg_zero_def tst_def)
  then show ?thesis
    using that[OF w3(1,2) _ _ w3(3)] by (simp add: w2_def w1_def upd_data_def)
qed

text \<open>C22. When an allocation fails, \<^verbatim>\<open>_sg_init\<close> returns \<^verbatim>\<open>-ENOMEM\<close> and has given back every substitute
  buffer it had got for the request: the addresses it frees are exactly those the allocator handed
  out, each freed once and nothing else, and only one allocation failed.\<close>

theorem sg_init_no_leak:
  assumes "sg_init dp w = Some (Some e, w')"
  shows "e = ENOMEM \<and> (\<exists>es. hist w' = es @ hist w
    \<and> freed es = handed_out (e_alloc w) es (hist w)
    \<and> length (filter is_malloc es) = length (freed es) + 1)"
proof -
  obtain n w2 w3 where w: "map_sg_loop 0 n w2 = Some (False, w3)" "unmap_sg_loop 0 n w3 = Some w'"
    "hist w2 = hist w" "\<forall>j. 0 \<le> j \<and> j < 0 + n \<longrightarrow> \<not> tst (sg_flags (m_sg w2 ! j)) SG_REA"
    "e = ENOMEM" "e_alloc w2 = e_alloc w"
    by (rule sg_init_failed[OF assms])
  obtain es1 where 1: "hist w3 = es1 @ hist w2" "freed es1 = []"
    "handed_out (e_alloc w) es1 (hist w) = rev (substitutes n (m_sg w3))"
    "length (filter is_malloc es1) = length (substitutes n (m_sg w3)) + 1"
    using map_loop_mallocs[OF w(1,4)] w(3,6) by auto
  obtain es2 where 2: "hist w' = es2 @ hist w3" "filter is_malloc es2 = []"
    "freed es2 = rev (substitutes n (m_sg w3))"
    using unmap_loop_frees[OF w(2)] by auto
  show ?thesis
    using 1 2 w(3,5) handed_out_none[OF 2(2)]
    by (intro conjI exI[of _ "es2 @ es1"]) (simp_all add: freed_append handed_out_append)
qed

text \<open>A read of 128 KiB and 3 bytes of which only the first substitute buffer can be had.\<close>

definition short_world :: world where
  "short_world = port_world\<lparr>e_alloc := \<lambda>es. if es = [] then 0x9000 else 0,
     datas := \<lambda>_. blank_data\<lparr>d_blksz := 1, d_blocks := 0x20003, d_read := True, d_buf := 0x5010\<rparr>\<rparr>"

lemma short_run:
  "map_option (\<lambda>(e, w). (e, length (filter is_malloc (hist w)),
      handed_out (e_alloc short_world) (hist w) [])) (sg_init 0 short_world)
     = Some (Some ENOMEM, 2, [0x9000])"
  by code_simp

theorem sg_init_no_leak_witness:
  "\<exists>w' es. sg_init 0 short_world = Some (Some ENOMEM, w') \<and> hist w' = es
    \<and> length (filter is_malloc es) = 2 \<and> freed es = [0x9000]"
proof -
  obtain w' where w': "sg_init 0 short_world = Some (Some ENOMEM, w')"
    "length (filter is_malloc (hist w')) = 2"
    "handed_out (e_alloc short_world) (hist w') [] = [0x9000]"
    using short_run by auto
  obtain es where "hist w' = es @ hist short_world"
    "freed es = handed_out (e_alloc short_world) es (hist short_world)"
    using sg_init_no_leak[OF w'(1)] by blast
  moreover have "hist short_world = []" by (simp add: short_world_def port_world_def)
  ultimately show ?thesis using w' by auto
qed

subsection \<open>Response types\<close>

text \<open>The lower byte of the command register for the response types of RT-Thread, from the table
  of the SD host controller specification.\<close>

definition resp_table :: "resp_numbers \<Rightarrow> (u32 \<times> u32) list" where
  "resp_table n =
     [(RESP_NONE n, 0x00), (RESP_R1 n, 0x1A), (RESP_R1B n, 0x1B), (RESP_R2 n, 0x09),
      (RESP_R3 n, 0x02), (RESP_R4 n, 0x02), (RESP_R5 n, 0x1A), (RESP_R6 n, 0x1A),
      (RESP_R7 n, 0x1A)]"

lemma tst_clear:
  assumes "x AND 0x1F0000 = 0" "m AND 0x1F0000 = (m :: u32)"
  shows "\<not> tst x m"
proof -
  have "x AND m = x AND (m AND 0x1F0000)" by (simp only: assms(2))
  also have "\<dots> = (x AND 0x1F0000) AND m" by (simp add: ac_simps)
  finally show ?thesis using assms(1) by (simp add: tst_def)
qed

text \<open>C23. The command register gets the response bits of the specification's table for every
  response type, when RT-Thread's own flags leave the bits of the Linux flags free.\<close>

theorem response_encoding:
  assumes "c_flags c AND 0x1F0000 = 0"
    and "map_of (resp_table n) (c_flags c AND RESP_MASK n) = Some bits"
  shows "command_flags (c\<lparr>c_flags := c_flags c OR response_flags n (c_flags c)\<rparr>)
      = bits OR (if c_data c \<noteq> None \<or> c_opcode c = MMC_SEND_TUNING_BLOCK
                    \<or> c_opcode c = MMC_SEND_TUNING_BLOCK_HS200 then SDHCI_CMD_DATA else 0)"
proof -
  define x where "x = c_flags c"
  define T :: "(u32 \<times> u32 \<times> u32) list" where
    "T = [(RESP_NONE n, 0, 0), (RESP_R1 n, 0x150000, 0x1A), (RESP_R1B n, 0x1D0000, 0x1B),
      (RESP_R2 n, 0x70000, 0x09), (RESP_R3 n, 0x10000, 0x02), (RESP_R4 n, 0x10000, 0x02),
      (RESP_R5 n, 0x150000, 0x1A), (RESP_R6 n, 0x150000, 0x1A), (RESP_R7 n, 0x150000, 0x1A)]"
  have "resp_table n = map (\<lambda>(k, v). (k, snd v)) T" by (simp add: resp_table_def T_def)
  then obtain y where y: "map_of T (x AND RESP_MASK n) = Some (y, bits)"
    using assms(2) by (auto simp: map_of_map x_def)
  have split: "(case if b then Some v else m of None \<Rightarrow> x | Some v \<Rightarrow> x OR fst v)
      = (if b then x OR fst v else case m of None \<Rightarrow> x | Some v \<Rightarrow> x OR fst v)" for b v and m :: "(u32 \<times> u32) option"
    by simp
  have "response_flags n x
      = (case map_of T (x AND RESP_MASK n) of None \<Rightarrow> x | Some v \<Rightarrow> x OR fst v)"
    unfolding response_flags_def Let_def T_def map_of.simps fun_upd_apply fst_conv snd_conv split
    by (intro if_cong refl) simp_all
  then have flags: "response_flags n x = x OR y" by (simp add: y)
  have cases: "(y, bits) \<in> {(0, 0), (0x150000, 0x1A), (0x1D0000, 0x1B), (0x70000, 0x09), (0x10000, 0x02)}"
    using map_of_SomeD[OF y] by (auto simp: T_def)
  note t = tst_clear[OF assms(1)[folded x_def]]
  define resp :: "u32 \<Rightarrow> u32" where "resp f =
     (if \<not> tst f MMC_RSP_PRESENT then SDHCI_CMD_RESP_NONE
      else if tst f MMC_RSP_136 then SDHCI_CMD_RESP_LONG
      else if tst f MMC_RSP_BUSY then SDHCI_CMD_RESP_SHORT_BUSY else SDHCI_CMD_RESP_SHORT)
     OR (if tst f MMC_RSP_CRC then SDHCI_CMD_CRC else 0)
     OR (if tst f MMC_RSP_OPCODE then SDHCI_CMD_INDEX else 0)" for f
  have "command_flags (c\<lparr>c_flags := f\<rparr>)
      = resp f OR (if c_data c \<noteq> None \<or> c_opcode c = MMC_SEND_TUNING_BLOCK
                    \<or> c_opcode c = MMC_SEND_TUNING_BLOCK_HS200 then SDHCI_CMD_DATA else 0)" for f
    unfolding command_flags_def Let_def resp_def by (simp only: mmc_command.simps if_distrib or.right_neutral or.assoc
      cong: if_cong) simp
  moreover have "resp (x OR y) = resp y" by (simp add: resp_def t)
  moreover have "resp y = bits" using cases by (auto simp: resp_def tst_def)
  ultimately show ?thesis by (simp only: flags[unfolded x_def] x_def or.left_idem)
qed

definition resp_example :: resp_numbers where
  "resp_example = \<lparr>RESP_MASK = 0xF, RESP_NONE = 0, RESP_R1 = 1, RESP_R1B = 2, RESP_R2 = 3,
     RESP_R3 = 4, RESP_R4 = 5, RESP_R5 = 6, RESP_R6 = 7, RESP_R7 = 8\<rparr>"

theorem response_encoding_witness:
  "command_flags (blank_cmd\<lparr>c_opcode := 17, c_data := Some 0,
      c_flags := 0x21 OR response_flags resp_example 0x21\<rparr>) = 0x3A"
  using response_encoding[of "blank_cmd\<lparr>c_opcode := 17, c_data := Some 0, c_flags := 0x21\<rparr>"
      resp_example "0x1A"]
  by (simp add: resp_table_def resp_example_def blank_cmd_def)

end
