(* ===== verification/ReqFacts.thy ===== *)
theory ReqFacts
  imports CvitekOps
begin

text \<open>
  What becomes of a request when something goes wrong: a timer that fires, the card that is
  removed and an error interrupt finish it with the right error, and what is finished is handed
  back.  All of it for every operations table of the repository.
\<close>

declare reset_wait.simps [code] request_done_loop.simps [code]

definition driver_ops :: "sdhci_ops \<Rightarrow> bool" where
  "driver_ops ops \<longleftrightarrow> ops = sdhci_pltfm_ops
     \<or> (\<exists>send. ops = sdhci_cv181x_sd_ops send \<or> ops = sdhci_cv181x_emmc_ops send)"

lemma driver_host_ops: "driver_ops ops \<Longrightarrow> host_ops ops"
  using pltfm.host_ops_axioms cv_sd.host_ops_axioms cv_emmc.host_ops_axioms
  by (auto simp: driver_ops_def)

subsection \<open>Finishing, pointer by pointer\<close>

text \<open>The objects of the requests and the environment.\<close>

definition objects where
  "objects w = (cmds w, datas w, mrqs w, m_sg w, h_flags w, h_quirks w)"

lemma objects_steps [simp]:
  "objects (emit e w) = objects w"
  "objects (WARN_ON n b w) = objects w"
  "objects (sdhci_set_mrq_done q w) = objects w"
  "objects (sdhci_del_timer q w) = objects w"
  "objects (sdhci_led_deactivate w) = objects w"
  "objects (forget q w) = objects w"
  "objects (w\<lparr>h_pending_reset := b\<rparr>) = objects w"
  "objects (w\<lparr>h_mrqs_done := l\<rparr>) = objects w"
  by (simp_all add: objects_def sdhci_set_mrq_done_def sdhci_del_timer_def del_timer_def Let_def
      sdhci_led_deactivate_def forget_eq split: option.split)

lemma objectsD:
  assumes "objects w' = objects w"
  shows "cmds w' = cmds w" "datas w' = datas w" "mrqs w' = mrqs w" "m_sg w' = m_sg w"
    "h_flags w' = h_flags w" "h_quirks w' = h_quirks w"
  using assms by (simp_all add: objects_def)

lemma finish_objects [simp]: "objects (raw_sdhci_finish_mrq q w) = objects w"
proof -
  define w1 where "w1 = (if sdhci_needs_reset q (forget q w)
    then (forget q w)\<lparr>h_pending_reset := True\<rparr> else forget q w)"
  have "objects w1 = objects w" by (simp add: w1_def)
  moreover have "raw_sdhci_finish_mrq q w =
      (let w = sdhci_del_timer q (sdhci_set_mrq_done q w1)
       in if \<not> sdhci_has_requests w then sdhci_led_deactivate w else w)"
    by (simp only: raw_sdhci_finish_mrq_def forget_def w1_def Let_def)
  ultimately show ?thesis by (simp add: Let_def)
qed

lemmas finish_stores [simp] = objectsD[OF finish_objects]

lemma finish_pointers [simp]:
  "h_cmd (raw_sdhci_finish_mrq q w) = forget_cmd (h_cmd w) q w"
  "h_data_cmd (raw_sdhci_finish_mrq q w) = forget_cmd (h_data_cmd w) q w"
  "h_deferred_cmd (raw_sdhci_finish_mrq q w) = forget_cmd (h_deferred_cmd w) q w"
  "h_data (raw_sdhci_finish_mrq q w) = forget_data (h_data w) q w"
proof -
  obtain w1 where w1: "vw w1 = vw (forget q w)"
    "vw (raw_sdhci_finish_mrq q w) = vw (sdhci_set_mrq_done q w1)"
    using finish_mrq_eq by blast
  note v = vw_all[OF w1(1)] vw_all[OF w1(2)]
  show "h_cmd (raw_sdhci_finish_mrq q w) = forget_cmd (h_cmd w) q w"
    "h_data_cmd (raw_sdhci_finish_mrq q w) = forget_cmd (h_data_cmd w) q w"
    "h_deferred_cmd (raw_sdhci_finish_mrq q w) = forget_cmd (h_deferred_cmd w) q w"
    "h_data (raw_sdhci_finish_mrq q w) = forget_data (h_data w) q w"
    using v by (simp_all add: forget_eq)
qed

lemma finish_keeps:
  assumes "req_inv w" "q \<in> tracked w"
  shows "req_inv (raw_sdhci_finish_mrq q w)"
    "tracked (raw_sdhci_finish_mrq q w) \<subseteq> tracked w"
    "set (finished (raw_sdhci_finish_mrq q w)) = insert q (set (finished w))"
    "q \<notin> set (active (raw_sdhci_finish_mrq q w))"
proof -
  have t: "insert q (tracked w) = tracked w" using assms(2) by (rule insert_absorb)
  then have room: "card (insert q (tracked w)) \<le> SDHCI_MAX_MRQS"
    using assms(1) by (simp add: req_inv_def)
  note f = finish_req_inv[OF assms(1) room]
  show "req_inv (raw_sdhci_finish_mrq q w)" "tracked (raw_sdhci_finish_mrq q w) \<subseteq> tracked w"
    "q \<notin> set (active (raw_sdhci_finish_mrq q w))"
    using f t by auto
  show "set (finished (raw_sdhci_finish_mrq q w)) = insert q (set (finished w))"
  proof (cases "q \<in> set (finished w)")
    case True
    then show ?thesis using finish_mrq_facts(6)[of q w] by (auto simp: finished_def)
  next
    case False
    have "length (finished w) < length (h_mrqs_done w)"
    proof -
      have "card (insert q (set (finished w))) \<le> card (tracked w)"
        using assms(2) by (intro card_mono) (auto simp: tracked_def)
      then show ?thesis
        using False assms(1) distinct_card[of "finished w"] by (simp add: req_inv_def)
    qed
    then show ?thesis using finish_mrq_facts(5)[OF False] by simp
  qed
qed

text \<open>Finishing with an error: the request of command \<open>cp\<close>.\<close>

definition fails :: "errno \<Rightarrow> cmdp \<Rightarrow> world \<Rightarrow> bool" where
  "fails e cp w \<longleftrightarrow> c_mrq (cmds w cp) \<in> set (finished w)
     \<and> (\<exists>c. c_mrq (cmds w c) = c_mrq (cmds w cp) \<and> c_error (cmds w c) = Some e)"

lemma req_inv_view:
  assumes "vw w' = vw w"
  shows "req_inv w' \<longleftrightarrow> req_inv w" "tracked w' = tracked w" "finished w' = finished w"
    "active w' = active w"
proof -
  have a: "active w' = active w" using rq_active[of w' w] vw_rq[OF assms] by simp
  moreover have f: "finished w' = finished w" using vw_h_done[OF assms] by (simp add: finished_def)
  ultimately show "req_inv w' \<longleftrightarrow> req_inv w" "tracked w' = tracked w" "finished w' = finished w"
    "active w' = active w"
    using links_wf[OF vw_links[OF assms]] vw_h_done[OF assms]
    by (simp_all add: req_inv_def tracked_def)
qed

lemma set_cmd_error_cmds [simp]:
  "c_error (cmds (set_cmd_error cp e w) c) = (if c = cp then e else c_error (cmds w c))"
  "c_mrq (cmds (set_cmd_error cp e w) c) = c_mrq (cmds w c)"
  by (simp_all add: set_cmd_error_def upd_cmd_def)

lemma queue_work_simps [simp]:
  "cmds (queue_work w) = cmds w" "finished (queue_work w) = finished w"
  by (simp_all add: queue_work_def finished_def)

lemma forget_view [simp]:
  "forget_cmd p q (set_cmd_error cp e w) = forget_cmd p q w"
  "forget_data p' q (set_cmd_error cp e w) = forget_data p' q w"
  by (auto simp: forget_cmd_def forget_data_def set_cmd_error_def upd_cmd_def split: option.split)

text \<open>One command is failed: its request is finished, the rest is as before.\<close>

lemma fail_step:
  fixes cp :: cmdp and w :: world and e :: errno
  defines "q \<equiv> c_mrq (cmds w cp)"
  defines "w' \<equiv> sdhci_finish_mrq q (set_cmd_error cp (Some e) w)"
  assumes "req_inv w" "q \<in> tracked w"
  shows "req_inv w'" "tracked w' \<subseteq> tracked w" "set (finished w') = insert q (set (finished w))"
    "q \<notin> set (active w')"
    "h_cmd w' = forget_cmd (h_cmd w) q w" "h_data_cmd w' = forget_cmd (h_data_cmd w) q w"
    "\<And>c. c_mrq (cmds w' c) = c_mrq (cmds w c)"
    "\<And>c. c_error (cmds w' c) = (if c = cp then Some e else c_error (cmds w c))"
proof -
  define w1 where "w1 = set_cmd_error cp (Some e) w"
  define w2 where "w2 = raw_sdhci_finish_mrq q w1"
  have w': "w' = queue_work w2" by (simp add: w'_def w1_def w2_def sdhci_finish_mrq_def)
  have v: "vw w1 = vw w" "vw w' = vw w2" by (simp_all add: w1_def w')
  have i: "req_inv w1" "q \<in> tracked w1" unfolding req_inv_view[OF v(1)] by (rule assms)+
  note k = finish_keeps[OF i, folded w2_def]
  show "req_inv w'" "tracked w' \<subseteq> tracked w" "q \<notin> set (active w')"
    "set (finished w') = insert q (set (finished w))"
    unfolding req_inv_view[OF v(2)] using k unfolding req_inv_view[OF v(1)] by simp_all
  show "h_cmd w' = forget_cmd (h_cmd w) q w" "h_data_cmd w' = forget_cmd (h_data_cmd w) q w"
    using vw_all[OF v(1)] vw_all[OF v(2)] by (simp_all add: w2_def) (simp_all add: w1_def)
  show "c_mrq (cmds w' c) = c_mrq (cmds w c)"
    "c_error (cmds w' c) = (if c = cp then Some e else c_error (cmds w c))" for c
    by (simp_all add: w' w2_def w1_def)
qed

lemma fail_step_fails:
  fixes cp :: cmdp and w :: world
  defines "q \<equiv> c_mrq (cmds w cp)"
  assumes "req_inv w" "q \<in> tracked w"
  shows "fails e cp (sdhci_finish_mrq q (set_cmd_error cp (Some e) w))"
  using fail_step[OF assms(2)] assms(3) unfolding fails_def q_def by (auto intro: exI[of _ cp])

subsection \<open>The card is removed\<close>

text \<open>Every command on a line is failed, the one on the data line first.\<close>

lemma error_out_fails:
  assumes i: "req_inv w"
  shows "h_cmd (sdhci_error_out_mrqs e w) = None" "h_data_cmd (sdhci_error_out_mrqs e w) = None"
    "h_cmd w = Some cp \<or> h_data_cmd w = Some cp \<Longrightarrow> fails e cp (sdhci_error_out_mrqs e w)"
proof -
  define w1 where "w1 = fail_mrq e (h_data_cmd w) w"
  define w2 where "w2 = fail_mrq e (h_cmd w1) w1"
  have w': "sdhci_error_out_mrqs e w = w2" by (simp add: sdhci_error_out_mrqs_def w1_def w2_def Let_def)
  have 1: "req_inv w1 \<and> h_data_cmd w1 = None \<and> (\<forall>c. c_mrq (cmds w1 c) = c_mrq (cmds w c))
    \<and> (\<forall>c. h_data_cmd w = Some c \<longrightarrow> fails e c w1)
    \<and> (\<forall>c. h_cmd w = Some c \<longrightarrow> h_cmd w1 = Some c \<or> fails e c w1)"
  proof (cases "h_data_cmd w")
    case None
    then show ?thesis using i by (simp add: w1_def fail_mrq_def)
  next
    case (Some c)
    define q where "q = c_mrq (cmds w c)"
    have t: "q \<in> tracked w" using active_ptr(2)[OF Some] by (simp add: tracked_def q_def)
    have w1: "w1 = sdhci_finish_mrq q (set_cmd_error c (Some e) w)"
      by (simp add: w1_def fail_mrq_def Some q_def)
    note f = fail_step[OF i t[unfolded q_def], of e, folded q_def, folded w1]
    have "fails e c' w1" if "c_mrq (cmds w c') = q" for c'
      using f(3,7,8) that by (auto simp: fails_def q_def intro: exI[of _ c])
    then show ?thesis
      using f(1,5,6,7) Some by (auto simp: forget_cmd_def q_def)
  qed
  have 2: "h_cmd w2 = None \<and> h_data_cmd w2 = None \<and> (\<forall>c. h_cmd w1 = Some c \<longrightarrow> fails e c w2)
    \<and> (\<forall>c. fails e c w1 \<longrightarrow> fails e c w2)"
  proof (cases "h_cmd w1")
    case None
    then show ?thesis using 1 by (simp add: w2_def fail_mrq_def)
  next
    case (Some c)
    define q where "q = c_mrq (cmds w1 c)"
    have i1: "req_inv w1" using 1 by blast
    have t: "q \<in> tracked w1" using active_ptr(1)[OF Some] by (simp add: tracked_def q_def)
    have w2: "w2 = sdhci_finish_mrq q (set_cmd_error c (Some e) w1)"
      by (simp add: w2_def fail_mrq_def Some q_def)
    note f = fail_step[OF i1 t[unfolded q_def], of e, folded q_def, folded w2]
    have "fails e c' w2" if "fails e c' w1" for c'
      using f(3,7,8) that unfolding fails_def by (metis insertCI)
    moreover have "fails e c w2" using f(3,7,8) by (auto simp: fails_def q_def intro: exI[of _ c])
    ultimately show ?thesis using f(5,6) Some 1 by (auto simp: forget_cmd_def q_def)
  qed
  show "h_cmd (sdhci_error_out_mrqs e w) = None" "h_data_cmd (sdhci_error_out_mrqs e w) = None"
    unfolding w' using 2 by blast+
  show "fails e cp (sdhci_error_out_mrqs e w)" if "h_cmd w = Some cp \<or> h_data_cmd w = Some cp"
    unfolding w' using 1 2 that by blast
qed

lemma req_inv_rq:
  assumes "rq w' = rq w"
  shows "req_inv w' \<longleftrightarrow> req_inv w" "tracked w' = tracked w" "finished w' = finished w"
proof -
  have "active w' = active w" by (rule rq_active[OF assms])
  moreover have "finished w' = finished w" using rqD[OF assms] by (simp add: finished_def)
  ultimately show "req_inv w' \<longleftrightarrow> req_inv w" "tracked w' = tracked w" "finished w' = finished w"
    using rqD[OF assms] links_wf[of w' w] by (simp_all add: req_inv_def tracked_def)
qed

context host_ops
begin

lemma card_event_fails:
  assumes i: "req_inv w" and run: "sdhci_card_event ops w = Some w'"
    and gone: "\<not> fst (sdhci_get_cd (call_opt (o_card_event ops) w))"
  shows "h_cmd w' = None \<and> h_data_cmd w' = None
    \<and> (h_cmd w = Some cp \<or> h_data_cmd w = Some cp \<longrightarrow> fails ENOMEDIUM cp w')"
proof -
  define w1 where "w1 = snd (sdhci_get_cd (call_opt (o_card_event ops) w))"
  have "tame w (call_opt (o_card_event ops) w)"
    by (auto simp: call_opt_def card_event split: option.split)
  then have t1: "tame w w1" by (simp add: w1_def vw_tame_right[OF vw_get_cd])
  have eq: "sdhci_card_event ops w = (if sdhci_has_requests w1 then do {
      w \<leftarrow> sdhci_do_reset ops SDHCI_RESET_CMD w1;
      w \<leftarrow> sdhci_do_reset ops SDHCI_RESET_DATA w;
      Some (sdhci_error_out_mrqs ENOMEDIUM w) } else Some w1)"
    using gone by (simp only: sdhci_card_event_def Let_def split_beta w1_def[symmetric]) simp
  show ?thesis
  proof (cases "sdhci_has_requests w1")
    case True
    then obtain w2 w3 where r: "sdhci_do_reset ops SDHCI_RESET_CMD w1 = Some w2"
      "sdhci_do_reset ops SDHCI_RESET_DATA w2 = Some w3" and w': "w' = sdhci_error_out_mrqs ENOMEDIUM w3"
      using run unfolding eq by (auto simp: Option.bind_eq_Some_conv)
    have "tame w w3" using t1 tame_do_reset[OF r(1)] tame_do_reset[OF r(2)] tame_trans by blast
    then have rq: "rq w3 = rq w" by (rule tameD)
    have "req_inv w3" using i req_inv_rq(1)[OF rq] by simp
    then show ?thesis unfolding w' using error_out_fails[of w3] rqD(2,3)[OF rq] by simp
  next
    case False
    then have "w' = w1" using run unfolding eq by simp
    then show ?thesis
      using False rqD[OF tameD(1)[OF t1]] by (simp add: sdhci_has_requests_def)
  qed
qed

end

text \<open>C24. When the card is gone, \<^verbatim>\<open>sdhci_card_event\<close> leaves no command on a line: the request of
  each is finished and one of its commands carries \<^verbatim>\<open>-ENOMEDIUM\<close>.\<close>

theorem card_event_fails_requests:
  assumes "driver_ops ops" "req_inv w" "sdhci_card_event ops w = Some w'"
    and "\<not> fst (sdhci_get_cd (call_opt (o_card_event ops) w))"
  shows "h_cmd w' = None \<and> h_data_cmd w' = None
    \<and> (h_cmd w = Some cp \<or> h_data_cmd w = Some cp \<longrightarrow> fails ENOMEDIUM cp w')"
  using host_ops.card_event_fails[OF driver_host_ops[OF assms(1)]] assms(2-) by blast

text \<open>The card of an idle host with one command in flight is pulled.\<close>

definition pulled_world :: world where
  "pulled_world = idle_world\<lparr>h_cmd := Some 7, e_rd := \<lambda>_ _. 0\<rparr>"

lemma pulled_inv: "req_inv pulled_world" "driver_ops sdhci_pltfm_ops"
  by (simp_all add: pulled_world_def req_inv_def wf_links_def tracked_def active_def finished_def
      idle_world_def blank_cmd_def blank_data_def SDHCI_MAX_MRQS_def driver_ops_def)

theorem card_event_fails_requests_witness:
  "\<exists>w'. sdhci_card_event sdhci_pltfm_ops pulled_world = Some w' \<and> h_cmd w' = None
    \<and> fails ENOMEDIUM 7 w'"
proof -
  have "sdhci_card_event sdhci_pltfm_ops pulled_world \<noteq> None" "h_cmd pulled_world = Some 7"
    "\<not> fst (sdhci_get_cd (call_opt (o_card_event sdhci_pltfm_ops) pulled_world))"
    by code_simp+
  then show ?thesis
    using card_event_fails_requests[OF pulled_inv(2,1), of _ 7] by blast
qed

subsection \<open>A timer fires\<close>

context host_ops
begin

lemma failed_after_dump:
  assumes "req_inv w" "c_mrq (cmds w cp) \<in> set (active w)"
  defines "w1 \<equiv> sdhci_dumpregs (o_dump_vendor_regs ops) w"
  shows "fails e cp (sdhci_finish_mrq (c_mrq (cmds w cp)) (set_cmd_error cp (Some e) w1))"
    "h_cmd w = Some cp \<Longrightarrow>
      h_cmd (sdhci_finish_mrq (c_mrq (cmds w cp)) (set_cmd_error cp (Some e) w1)) = None"
proof -
  have v: "vw w1 = vw w" by (simp add: w1_def)
  have i: "req_inv w1" unfolding req_inv_view(1)[OF v] by (rule assms(1))
  have m: "c_mrq (cmds w1 cp) = c_mrq (cmds w cp)" by (rule c_mrq_vw[OF v])
  have t: "c_mrq (cmds w1 cp) \<in> tracked w1"
    unfolding req_inv_view(2)[OF v] m using assms(2) by (simp add: tracked_def)
  show "fails e cp (sdhci_finish_mrq (c_mrq (cmds w cp)) (set_cmd_error cp (Some e) w1))"
    using fail_step_fails[OF i t, of e] unfolding m .
  show "h_cmd (sdhci_finish_mrq (c_mrq (cmds w cp)) (set_cmd_error cp (Some e) w1)) = None"
    if "h_cmd w = Some cp"
    using fail_step(5)[OF i t, of e] that vw_h_cmd[OF v] unfolding m by (simp add: forget_cmd_def m)
qed

lemma timeout_timer_fails:
  assumes "req_inv w" "h_cmd w = Some cp" "\<not> sdhci_data_line_cmd (cmds w cp)"
  shows "fails ETIMEDOUT cp (sdhci_timeout_timer ops w) \<and> h_cmd (sdhci_timeout_timer ops w) = None"
proof -
  define w1 where "w1 = sdhci_dumpregs (o_dump_vendor_regs ops) w"
  have v: "vw w1 = vw w" by (simp add: w1_def)
  have "sdhci_timeout_timer ops w
      = sdhci_finish_mrq (c_mrq (cmds w cp)) (set_cmd_error cp (Some ETIMEDOUT) w1)"
    using assms(2,3) c_mrq_vw[OF v, of cp]
    by (simp add: sdhci_timeout_timer_def Let_def w1_def[symmetric])
  then show ?thesis
    using failed_after_dump[OF assms(1) active_ptr(1)[OF assms(2)], of ETIMEDOUT] assms(2)
    by (simp add: w1_def)
qed

lemma timeout_data_timer_fails:
  assumes "req_inv w" "sdhci_timeout_data_timer ops w = Some w'" "h_data w = None"
    and "h_data_cmd w = Some cp
      \<or> h_data_cmd w = None \<and> h_cmd w = Some cp \<and> sdhci_data_line_cmd (cmds w cp)"
  shows "fails ETIMEDOUT cp w'"
proof -
  define w1 where "w1 = sdhci_dumpregs (o_dump_vendor_regs ops) w"
  have v: "vw w1 = vw w" by (simp add: w1_def)
  have a: "c_mrq (cmds w cp) \<in> set (active w)" using assms(4) active_ptr(1,2)[of w cp] by blast
  have "w' = sdhci_finish_mrq (c_mrq (cmds w cp)) (set_cmd_error cp (Some ETIMEDOUT) w1)"
    using assms(2-4) c_mrq_vw[OF v, of cp]
    by (auto simp: sdhci_timeout_data_timer_def Let_def w1_def[symmetric])
  then show ?thesis
    using failed_after_dump(1)[OF assms(1) a, of ETIMEDOUT] by (simp add: w1_def)
qed

end

text \<open>C25. When the timer of a command fires that is still on its line, its request is finished with
  \<^verbatim>\<open>-ETIMEDOUT\<close>: a command on the command line by the first timer, a command that holds the data
  line without a transfer by the second.\<close>

theorem timeouts_finish:
  assumes "driver_ops ops" "req_inv w"
  shows "(h_cmd w = Some cp \<and> \<not> sdhci_data_line_cmd (cmds w cp) \<longrightarrow>
      fails ETIMEDOUT cp (sdhci_timeout_timer ops w) \<and> h_cmd (sdhci_timeout_timer ops w) = None)
    \<and> (sdhci_timeout_data_timer ops w = Some w' \<and> h_data w = None
       \<and> (h_data_cmd w = Some cp
          \<or> h_data_cmd w = None \<and> h_cmd w = Some cp \<and> sdhci_data_line_cmd (cmds w cp)) \<longrightarrow>
      fails ETIMEDOUT cp w')"
  using host_ops.timeout_timer_fails[OF driver_host_ops[OF assms(1)] assms(2)]
    host_ops.timeout_data_timer_fails[OF driver_host_ops[OF assms(1)] assms(2)] by blast

text \<open>A busy command that has waited too long.\<close>

definition busy_world :: world where
  "busy_world = pulled_world\<lparr>h_data_cmd := Some 8\<rparr>"

lemma busy_inv: "req_inv busy_world"
  by (simp add: busy_world_def pulled_world_def req_inv_def wf_links_def tracked_def active_def
      finished_def idle_world_def blank_cmd_def blank_data_def SDHCI_MAX_MRQS_def)

theorem timeouts_finish_witness:
  "fails ETIMEDOUT 7 (sdhci_timeout_timer sdhci_pltfm_ops busy_world)
    \<and> (\<exists>w'. sdhci_timeout_data_timer sdhci_pltfm_ops busy_world = Some w' \<and> fails ETIMEDOUT 8 w')"
proof -
  have b: "h_cmd busy_world = Some 7" "h_data_cmd busy_world = Some 8" "h_data busy_world = None"
    "\<not> sdhci_data_line_cmd (cmds busy_world 7)"
    by code_simp+
  then obtain w' where w': "sdhci_timeout_data_timer sdhci_pltfm_ops busy_world = Some w'"
    by (simp add: sdhci_timeout_data_timer_def Let_def)
  show ?thesis
    using b w' timeouts_finish[OF pulled_inv(2) busy_inv, of 7 w']
      timeouts_finish[OF pulled_inv(2) busy_inv, of 8 w'] by simp
qed

subsection \<open>A transfer times out\<close>

text \<open>Abandoning a transfer finishes its request or puts its stop command on the line; the stop
  command is never deferred (\<^verbatim>\<open>sw_data_timeout\<close>).\<close>

definition resolves :: "mrqp \<Rightarrow> datap \<Rightarrow> world \<Rightarrow> bool" where
  "resolves q dp w \<longleftrightarrow> q \<in> set (finished w)
     \<or> (\<exists>st. d_stop (datas w dp) = Some st \<and> h_cmd w = Some st)"

lemma finish_finishes:
  assumes "drops w0 w" "req_inv w0" "q \<in> set (active w0)"
  shows "q \<in> set (finished (raw_sdhci_finish_mrq q w))"
proof -
  have "evolves w0 w" by (rule drops_evolves[OF assms(1)])
  then have i: "req_inv w" "tracked w \<subseteq> tracked w0" using assms(2) by (simp_all add: evolves_def)
  have "card (insert q (tracked w)) \<le> card (tracked w0)"
    using i(2) assms(3) by (intro card_mono) (auto simp: tracked_def)
  then have "card (insert q (tracked w)) \<le> SDHCI_MAX_MRQS"
    using assms(2) by (simp add: req_inv_def)
  then show ?thesis using finish_req_inv(3)[OF i(1)] by simp
qed

lemma finish_resolves:
  assumes "drops w0 w" "req_inv w0" "q \<in> set (active w0)"
  shows "resolves q dp (raw_sdhci_finish_mrq q w)"
  using finish_finishes[OF assms] by (simp add: resolves_def)

lemma stop_split:
  "(case p of None \<Rightarrow> Some x | Some st \<Rightarrow> if b st then f st else Some x) = Some w' \<Longrightarrow>
   w' = x \<or> (\<exists>st. p = Some st \<and> f st = Some w')"
  by (auto split: option.splits if_splits)

context host_ops
begin

lemma stop_resolves:
  assumes run: "finish_data_stop ops True st q w = Some w'" and d: "drops w0 w"
    and i: "req_inv w0" and q: "q \<in> set (active w0)" and st: "d_stop (datas w dp) = Some st"
  shows "resolves q dp w'"
proof (cases "q_cap_cmd_during_tfr (mrqs w q)")
  case True
  then show ?thesis using run finish_resolves[OF d i q] by (simp add: finish_data_stop_def)
next
  case False
  define w1 where "w1 = w\<lparr>h_cmd := None\<rparr>"
  have d1: "drops w0 w1" unfolding w1_def using d drops_upd(1) by (rule drops_trans)
  from False run obtain sent w2 where
    s: "sdhci_send_command ops st w1 = Some (sent, w2)" and
    w': "w' = (if sent then w2 else raw_sdhci_finish_mrq q (set_cmd_error st (Some EIO) w2))"
    by (auto simp: finish_data_stop_def Option.bind_eq_Some_conv Let_def w1_def)
  show ?thesis
  proof (cases sent)
    case True
    then have c: "claim_view st w1 w2" using send_command_cases[OF s] by blast
    then have "links w2 = links w1" by (simp add: claim_view_def)
    then have "d_stop (datas w2 dp) = d_stop (datas w1 dp)" by (rule linksD(4))
    then show ?thesis using c True w' st by (simp add: resolves_def claim_view_def w1_def)
  next
    case False
    then have v: "vw w2 = vw w1" using send_command_cases[OF s] by blast
    have "vw (set_cmd_error st (Some EIO) w2) = vw w1" using v by simp
    then have "drops w0 (set_cmd_error st (Some EIO) w2)" by (rule drops_trans[OF d1 vw_drops])
    then show ?thesis using finish_resolves[OF _ i q] w' False by simp
  qed
qed

lemma finish_data_resolves:
  assumes run: "raw_sdhci_finish_data ops True w = Some w'"
    and i: "req_inv w" and dp: "h_data w = Some dp"
  shows "resolves (d_mrq (datas w dp)) dp w'"
proof -
  from run dp obtain w2 w3 where
    w2: "finish_data_reset ops (h_data_cmd w) dp (w\<lparr>h_data := None, h_data_cmd := None\<rparr>) = Some w2" and
    w3: "(if tst (h_flags w2) SDHCI_REQ_USE_DMA \<and> tst (h_flags w2) SDHCI_USE_ADMA
          then sdhci_adma_table_post dp w2 else Some w2) = Some w3" and
    fin: "(let w = finish_data_count dp w3; d = datas w dp
           in case d_stop d of
             None \<Rightarrow> Some (raw_sdhci_finish_mrq (d_mrq d) w)
           | Some st \<Rightarrow>
               if q_sbc (mrqs w (d_mrq d)) = None \<and> \<not> sdhci_auto_cmd12 (d_mrq d) w
                  \<or> d_error d \<noteq> None
               then finish_data_stop ops True st (d_mrq d) w
               else Some (raw_sdhci_finish_mrq (d_mrq d) w)) = Some w'"
    by (auto simp: raw_sdhci_finish_data_def Option.bind_eq_Some_conv Let_def)
  define w4 where "w4 = finish_data_count dp w3"
  have "drops w w2"
    using drops_upd(3) tame_drops[OF finish_data_reset_tame[OF w2]] by (rule drops_trans)
  moreover have "drops w2 w3" using w3 by (auto simp: vw_drops split: if_split_asm dest: vw_table_post)
  moreover have "drops w3 w4"
    by (rule vw_drops) (simp add: w4_def finish_data_count_def upd_data_view)
  ultimately have d: "drops w w4" by (blast intro: drops_trans)
  define q where "q = d_mrq (datas w dp)"
  have "links w4 = links w" using d by (simp add: drops_def)
  then have m: "d_mrq (datas w4 dp) = q" unfolding q_def by (rule linksD(3))
  have q: "q \<in> set (active w)" unfolding q_def by (rule active_ptr(4)[OF dp])
  show ?thesis
    using stop_split[OF fin[unfolded Let_def w4_def[symmetric] m]]
      finish_resolves[OF d i q] stop_resolves[OF _ d i q] unfolding q_def[symmetric] by blast
qed

lemma data_timer_resolves:
  assumes run: "sdhci_timeout_data_timer ops w = Some w'"
    and i: "req_inv w" and dp: "h_data w = Some dp"
  shows "resolves (d_mrq (datas w dp)) dp w'"
proof -
  define w1 where "w1 = set_data_error dp (Some ETIMEDOUT) (sdhci_dumpregs (o_dump_vendor_regs ops) w)"
  have v: "vw w1 = vw w" by (simp add: w1_def)
  obtain w2 where w2: "raw_sdhci_finish_data ops True w1 = Some w2" "w' = queue_work w2"
    using run dp by (auto simp: sdhci_timeout_data_timer_def Let_def w1_def Option.bind_eq_Some_conv)
  have "req_inv w1" "h_data w1 = Some dp" "d_mrq (datas w1 dp) = d_mrq (datas w dp)"
    using i dp req_inv_view(1)[OF v] vw_h_data[OF v] linksD(3)[OF vw_links[OF v]] by simp_all
  then have "resolves (d_mrq (datas w dp)) dp w2"
    using finish_data_resolves[OF w2(1)] by simp
  then show ?thesis
    by (simp add: w2(2) resolves_def queue_work_def finished_def)
qed

end

text \<open>C26. When the timer of a running transfer fires, its request does not stay behind: it is
  finished, or the stop command of the transfer has been sent, whose own timer then runs.\<close>

theorem data_timeout_resolves:
  assumes "driver_ops ops" "req_inv w" "h_data w = Some dp"
    and "sdhci_timeout_data_timer ops w = Some w'"
  shows "resolves (d_mrq (datas w dp)) dp w'"
  using host_ops.data_timer_resolves[OF driver_host_ops[OF assms(1)] assms(4,2,3)] .

text \<open>A transfer on a controller that is not reset because its card is gone.\<close>

definition stuck_world :: world where
  "stuck_world = idle_world\<lparr>h_data := Some 7, h_data_cmd := Some 7,
     h_quirks := SDHCI_QUIRK_NO_CARD_NO_RESET, e_rd := \<lambda>_ _. 0\<rparr>"

lemma dump_hist: "\<exists>es. sdhci_dumpregs None w = w\<lparr>hist := es\<rparr>"
  by (cases "tst (h_flags w) SDHCI_USE_ADMA"; cases "tst (h_flags w) SDHCI_USE_64_BIT_DMA";
      simp add: sdhci_dumpregs_def dump_regs1_def dump_regs2_def access_defs Let_def call_opt_def)
    (intro exI, rule refl)+

lemma stuck_flags:
  "h_cmd stuck_world = None" "h_data_cmd stuck_world = Some 7"
  "e_CAP_NONREMOVABLE stuck_world = 0" "h_flags stuck_world = 0" "h_quirks stuck_world = SDHCI_QUIRK_NO_CARD_NO_RESET"
  "m_caps stuck_world = 0" "e_rd stuck_world = (\<lambda>_ _. 0)"
  "datas stuck_world 7 = blank_data\<lparr>d_mrq := 7\<rparr>" "d_stop blank_data = None"
  by (simp_all add: stuck_world_def idle_world_def blank_data_def)

theorem data_timeout_resolves_witness:
  "\<exists>w'. sdhci_timeout_data_timer sdhci_pltfm_ops stuck_world = Some w' \<and> resolves 7 7 w'"
proof -
  have i: "req_inv stuck_world"
    by (simp add: stuck_world_def req_inv_def wf_links_def tracked_def active_def
      finished_def idle_world_def blank_cmd_def blank_data_def SDHCI_MAX_MRQS_def)
  obtain es where es: "sdhci_dumpregs None stuck_world = stuck_world\<lparr>hist := es\<rparr>"
    using dump_hist by blast
  have d: "h_data stuck_world = Some 7" "d_mrq (datas stuck_world 7) = 7"
    by code_simp+
  moreover obtain w' where "sdhci_timeout_data_timer sdhci_pltfm_ops stuck_world = Some w'"
    by (simp add: sdhci_timeout_data_timer_def es d raw_sdhci_finish_data_def set_data_error_def
        upd_data_def finish_data_reset_def sdhci_do_reset_def sdhci_get_cd_def Let_def
        mmc_card_is_removable_def mmc_gpio_get_cd_def finish_data_count_def stuck_flags tst_def)
  ultimately show ?thesis using data_timeout_resolves[OF pulled_inv(2) i, of 7] by fastforce
qed

end
