(* ===== verification/DoneFacts.thy ===== *)
theory DoneFacts
  imports ReqFacts
begin

text \<open>
  Handing finished requests back (\<^verbatim>\<open>sdhci_request_done\<close>, \<^verbatim>\<open>sdhci_complete_work\<close>): the work queue
  stops only when nothing is left, or when what is left waits for the lines to become free
  before the reset its error calls for; without such a request it ends and hands every finished
  request back once, in order.
\<close>

subsection \<open>When the loop stops\<close>

definition waits_for_reset :: "world \<Rightarrow> bool" where
  "waits_for_reset w \<longleftrightarrow> sdhci_has_requests w \<and> (\<exists>q. sdhci_needs_reset q w)"

lemma first_done_None: "first_done i l = None \<longleftrightarrow> occupied l = []"
  by (induction i l rule: first_done.induct) auto

lemma request_done_stops:
  assumes "sdhci_request_done ops u w = Some (True, w')"
  shows "finished w' = [] \<or> waits_for_reset w'"
proof (cases "first_done 0 (h_mrqs_done w)")
  case None
  then have "w' = w" using assms by (simp add: sdhci_request_done_def)
  then show ?thesis using None first_done_None[of 0] by (simp add: finished_def)
next
  case (Some p)
  then obtain i q where p: "first_done 0 (h_mrqs_done w) = Some (i, q)" by (cases p) auto
  show ?thesis
    using assms unfolding sdhci_request_done_def p
    by (auto simp: Option.bind_eq_Some_conv waits_for_reset_def split: if_split_asm)
qed

lemma request_done_loop_stops:
  "request_done_loop ops u w = Some w' \<Longrightarrow> finished w' = [] \<or> waits_for_reset w'"
proof (induction rule: request_done_loop.raw_induct[rotated, consumes 1, case_names step])
  case (step loop ops u w w')
  obtain stop w1 where r: "sdhci_request_done ops u w = Some (stop, w1)"
    and w': "(if stop then Some w1 else loop ops u (u w1)) = Some w'"
    using step(2) by (auto simp: Option.bind_eq_Some_conv)
  show ?case
  proof (cases stop)
    case True
    then show ?thesis using w' request_done_stops[of ops u w w1] r by simp
  next
    case False
    then show ?thesis using w' step(1) by simp
  qed
qed

text \<open>Whatever runs in between, the work queue returns only when no finished request is left, or
  when one of them needs a reset while a command of another request is on a line.\<close>

theorem complete_work_drains:
  assumes "sdhci_complete_work ops u w = Some w'"
  shows "finished w' = [] \<or> waits_for_reset w'"
  using request_done_loop_stops[OF assms[unfolded sdhci_complete_work_def]] .

text \<open>Request 7 has been finished on an otherwise idle host.\<close>

definition done_world :: world where
  "done_world = idle_world\<lparr>h_mrqs_done := [Some 7, None]\<rparr>"

theorem complete_work_drains_witness:
  "\<exists>w'. sdhci_complete_work sdhci_pltfm_ops (\<lambda>w. w) done_world = Some w' \<and> finished w' = []"
proof -
  have "map_option sdhci_has_requests (sdhci_complete_work sdhci_pltfm_ops (\<lambda>w. w) done_world)
      = Some False"
    by code_simp
  then obtain w' where w': "sdhci_complete_work sdhci_pltfm_ops (\<lambda>w. w) done_world = Some w'"
    "\<not> sdhci_has_requests w'" by auto
  then show ?thesis using complete_work_drains[OF w'(1)] by (simp add: waits_for_reset_def)
qed

subsection \<open>When it ends\<close>

definition is_done :: "event \<Rightarrow> bool" where
  "is_done e = (case e of RequestDone q \<Rightarrow> True | _ \<Rightarrow> False)"

lemma is_done_simps [simp]:
  "is_done (RequestDone q)" "\<not> is_done (FreeAlign p)"
  by (simp_all add: is_done_def)

text \<open>What a round keeps besides the slots: it may unmap data.\<close>

definition unmaps :: "world \<Rightarrow> world \<Rightarrow> bool" where
  "unmaps w w' \<longleftrightarrow> cmds w' = cmds w \<and> mrqs w' = mrqs w \<and> m_sg w' = m_sg w
     \<and> h_flags w' = h_flags w \<and> h_quirks w' = h_quirks w
     \<and> h_use_external_dma w' = h_use_external_dma w
     \<and> (\<forall>d. d_stop (datas w' d) = d_stop (datas w d) \<and> d_sg_len (datas w' d) = d_sg_len (datas w d)
          \<and> (d_host_cookie (datas w' d) = COOKIE_MAPPED \<longrightarrow>
             d_host_cookie (datas w d) = COOKIE_MAPPED))"

lemma unmaps_refl [simp]: "unmaps w w"
  by (simp add: unmaps_def)

definition handed_back :: "world \<Rightarrow> event list" where
  "handed_back w = filter is_done (hist w)"

lemma dma_unmap_from_frame:
  assumes "i + k \<le> length (m_sg w)"
  shows "\<exists>w'. dma_unmap_from i k w = Some w' \<and> unmaps w w' \<and> h_mrqs_done w' = h_mrqs_done w
    \<and> handed_back w' = handed_back w"
  using assms
proof (induction i k w rule: dma_unmap_from.induct)
  case (1 i w)
  then show ?case by (simp add: unmaps_def)
next
  case (2 i k w)
  define s where "s = m_sg w ! i"
  define w1 where "w1 = (if tst (sg_flags s) SG_REA
    then rt_free_align (sg_virt s)
      (w\<lparr>mem := memcpy (mem w) (sg_old_addr s) (sg_virt s) (ucast (sg_length s))\<rparr>) else w)"
  have w1: "unmaps w w1" "m_sg w1 = m_sg w" "h_mrqs_done w1 = h_mrqs_done w"
    "handed_back w1 = handed_back w"
    by (simp_all add: w1_def unmaps_def rt_free_align_def handed_back_def)
  have "Suc i + k \<le> length (m_sg w1)" using 2(2) w1(2) by simp
  then obtain w' where "dma_unmap_from (Suc i) k w1 = Some w'" "unmaps w1 w'"
    "h_mrqs_done w' = h_mrqs_done w1" "handed_back w' = handed_back w1"
    using 2(1)[OF _ refl, of w1] 2(2) by (auto simp: w1_def s_def Let_def)
  then show ?case
    using 2(2) w1 by (auto simp: w1_def s_def Let_def unmaps_def)
qed


lemma done_dma_frame:
  assumes "\<not> h_use_external_dma w"
    and "\<And>d. q_data (mrqs w q) = Some d \<Longrightarrow> d_host_cookie (datas w d) = COOKIE_MAPPED \<Longrightarrow>
      unat (d_sg_len (datas w d)) \<le> length (m_sg w)"
  shows "\<exists>w'. done_dma (\<lambda>w. w) i q w = Some w' \<and> unmaps w w' \<and> h_mrqs_done w' = h_mrqs_done w
    \<and> handed_back w' = handed_back w"
proof (cases "q_data (mrqs w q)")
  case None
  then show ?thesis by (simp add: done_dma_def unmaps_def)
next
  case (Some d)
  have u: "\<exists>w'. done_unmap (\<lambda>w. w) d w = Some w' \<and> unmaps w w' \<and> h_mrqs_done w' = h_mrqs_done w
    \<and> handed_back w' = handed_back w"
  proof (cases "d_host_cookie (datas w d) = COOKIE_MAPPED")
    case False
    then show ?thesis by (simp add: done_unmap_def unmaps_def)
  next
    case True
    obtain w1 where w1: "(case h_bounce_buffer w of
          Some bounce \<Rightarrow> Some (unmap_bounce d bounce w)
        | None \<Rightarrow> map_option (\<lambda>w. w) (dma_unmap_sg (d_sg_len (datas w d))
            (mmc_get_dma_dir (datas w d)) w)) = Some w1" "unmaps w w1"
        "h_mrqs_done w1 = h_mrqs_done w" "handed_back w1 = handed_back w"
    proof (cases "h_bounce_buffer w")
      case None
      have "0 + unat (d_sg_len (datas w d)) \<le> length (m_sg w)" using assms(2)[OF Some True] by simp
      then obtain w' where w': "dma_unmap_from 0 (unat (d_sg_len (datas w d))) w = Some w'"
        "unmaps w w'" "h_mrqs_done w' = h_mrqs_done w" "handed_back w' = handed_back w"
        using dma_unmap_from_frame by blast
      show ?thesis
      proof (cases "mmc_get_dma_dir (datas w d) = DMA_FROM_DEVICE")
        case True
        show ?thesis by (rule that[of w']) (simp_all add: None True w' dma_unmap_sg_def)
      next
        case False
        show ?thesis by (rule that[of w]) (simp_all add: None False dma_unmap_sg_def)
      qed
    next
      case (Some b)
      then show ?thesis
        using that[of w] by (simp add: unmap_bounce_def Let_def dma_sync_single_for_cpu_def
            sg_copy_from_buffer_def unmaps_def)
    qed
    define w2 where "w2 = upd_data d (\<lambda>d. d\<lparr>d_host_cookie := COOKIE_UNMAPPED\<rparr>) w1"
    have "done_unmap (\<lambda>w. w) d w = Some w2"
      using True w1(1) by (simp add: done_unmap_def Let_def w2_def)
    moreover have "unmaps w w2"
      using w1(2) unfolding unmaps_def w2_def upd_data_def by simp
    moreover have "h_mrqs_done w2 = h_mrqs_done w" "handed_back w2 = handed_back w"
      using w1(3,4) by (simp_all add: w2_def upd_data_def handed_back_def)
    ultimately show ?thesis by blast
  qed
  then show ?thesis using assms(1) Some by (auto simp: done_dma_def unmaps_def)
qed

text \<open>A request that can be handed back at once: no reset is due, its mapped data fits the list.\<close>

definition returnable :: "world \<Rightarrow> mrqp \<Rightarrow> bool" where
  "returnable w q \<longleftrightarrow> \<not> sdhci_needs_reset q w
     \<and> (\<forall>d. q_data (mrqs w q) = Some d \<and> d_host_cookie (datas w d) = COOKIE_MAPPED \<longrightarrow>
          unat (d_sg_len (datas w d)) \<le> length (m_sg w))"

lemma unmaps_needs_reset:
  assumes "unmaps w w'"
  shows "sdhci_needs_reset q w' \<longleftrightarrow> sdhci_needs_reset q w"
proof -
  have "cmd_failed w' = cmd_failed w"
    using assms by (simp add: fun_eq_iff cmd_failed_def unmaps_def)
  then show ?thesis
    using assms by (simp add: unmaps_def sdhci_needs_reset_def Let_def split: option.split)
qed

lemma unmaps_returnable: "unmaps w w' \<Longrightarrow> returnable w q \<Longrightarrow> returnable w' q"
  using unmaps_needs_reset[of w w' q] unfolding returnable_def unmaps_def by auto

lemma first_done_occupied:
  "first_done i l = Some (j, q) \<Longrightarrow>
   i \<le> j \<and> j - i < length l \<and> occupied l = q # occupied (l[j - i := None])"
proof (induction i l rule: first_done.induct)
  case (3 i l)
  then have "Suc i \<le> j" "j - Suc i < length l" "occupied l = q # occupied (l[j - Suc i := None])"
    by auto
  moreover have "j - i = Suc (j - Suc i)" using calculation(1) by simp
  ultimately show ?case by simp
qed auto

lemma returns_all:
  assumes "o_request_done ops = None" "\<not> h_use_external_dma w"
    and "\<And>q. q \<in> set (finished w) \<Longrightarrow> returnable w q"
  shows "\<exists>w'. request_done_loop ops (\<lambda>w. w) w = Some w' \<and> finished w' = []
    \<and> handed_back w' = rev (map RequestDone (finished w)) @ handed_back w"
  using assms(2,3)
proof (induction "length (finished w)" arbitrary: w)
  case 0
  then have "first_done 0 (h_mrqs_done w) = None" by (simp add: first_done_None finished_def)
  then show ?case
    using 0(1) by (subst request_done_loop.simps) (simp add: sdhci_request_done_def)
next
  case (Suc n)
  then obtain i q where first: "first_done 0 (h_mrqs_done w) = Some (i, q)"
    using first_done_None[of 0 "h_mrqs_done w"] by (cases "first_done 0 (h_mrqs_done w)") (auto simp: finished_def)
  note o = first_done_occupied[OF first]
  have q: "returnable w q" using Suc.prems(2) o by (simp add: finished_def)
  obtain w1 where w1: "done_dma (\<lambda>w. w) i q w = Some w1" "unmaps w w1"
    "h_mrqs_done w1 = h_mrqs_done w" "handed_back w1 = handed_back w"
    using done_dma_frame[of w q i] Suc.prems(1) q unfolding returnable_def by blast
  define w2 where "w2 = emit (RequestDone q) (clear_slot i w1)"
  have round: "sdhci_request_done ops (\<lambda>w. w) w = Some (False, w2)"
    using w1(1) q unmaps_needs_reset[OF w1(2)] assms(1)
    by (simp add: sdhci_request_done_def first returnable_def hand_back_def mmc_request_done_def w2_def)
  have fin: "finished w = q # finished w2"
    using o w1(3) by (simp add: finished_def w2_def clear_slot_def)
  have "unmaps w w2" using w1(2) by (simp add: unmaps_def w2_def clear_slot_def)
  then have "returnable w2 q'" if "q' \<in> set (finished w2)" for q'
    using unmaps_returnable Suc.prems(2) that fin by simp
  moreover have "\<not> h_use_external_dma w2" using Suc.prems(1) w1(2) by (simp add: unmaps_def w2_def clear_slot_def)
  moreover have "n = length (finished w2)" using Suc.hyps(2) fin by simp
  ultimately obtain w' where w': "request_done_loop ops (\<lambda>w. w) w2 = Some w'" "finished w' = []"
    "handed_back w' = rev (map RequestDone (finished w2)) @ handed_back w2"
    using Suc.hyps(1)[of w2] by blast
  have "handed_back w2 = RequestDone q # handed_back w"
    using w1(4) by (simp add: handed_back_def w2_def clear_slot_def)
  then show ?case
    using w' round fin by (subst request_done_loop.simps) simp
qed

text \<open>C27. When nothing interferes and no finished request calls for a reset, the work queue ends and
  has handed every finished request back exactly once, in the order of the slots.\<close>

theorem complete_work_returns:
  assumes "driver_ops ops" "\<not> h_use_external_dma w"
    and "\<forall>q \<in> set (finished w). returnable w q"
  shows "\<exists>w'. sdhci_complete_work ops (\<lambda>w. w) w = Some w' \<and> finished w' = []
    \<and> handed_back w' = rev (map RequestDone (finished w)) @ handed_back w"
proof -
  have "o_request_done ops = None"
    using assms(1) by (auto simp: driver_ops_def sdhci_cv181x_sd_ops_def sdhci_cv181x_emmc_ops_def)
  then show ?thesis
    using returns_all[of ops w] assms(2,3) unfolding sdhci_complete_work_def by blast
qed

text \<open>Two finished requests, the second with a mapped buffer.\<close>

definition two_done_world :: world where
  "two_done_world = done_world\<lparr>h_mrqs_done := [Some 7, Some 8], h_flags := SDHCI_REQ_USE_DMA,
     m_sg := [sg_zero], mrqs := (mrqs done_world)(8 := \<lparr>q_sbc = None, q_cmd = 8, q_data = Some 8,
       q_cap_cmd_during_tfr = False\<rparr>),
     datas := (datas done_world)(8 := blank_data\<lparr>d_mrq := 8, d_sg_len := 1, d_read := True,
       d_host_cookie := COOKIE_MAPPED\<rparr>)\<rparr>"

theorem complete_work_returns_witness:
  "\<exists>w'. sdhci_complete_work sdhci_pltfm_ops (\<lambda>w. w) two_done_world = Some w' \<and> finished w' = []
    \<and> handed_back w' = [RequestDone 8, RequestDone 7]"
proof -
  have f: "finished two_done_world = [7, 8]" "handed_back two_done_world = []"
    "\<not> h_use_external_dma two_done_world"
    by code_simp+
  have "returnable two_done_world 7" "returnable two_done_world 8"
    by (simp_all add: returnable_def sdhci_needs_reset_def two_done_world_def done_world_def
        idle_world_def cmd_failed_def blank_cmd_def blank_data_def tst_def)
  then show ?thesis
    using complete_work_returns[OF pulled_inv(2) f(3)] f by simp
qed

end
