(* ===== verification/ResetFacts.thy ===== *)
theory ResetFacts
  imports ReqFacts
begin

text \<open>
  What a reset leaves alone: with the operations of the repository it changes no field of the host
  but the clock and the state of the bus, nothing of the requests and no memory.
\<close>

definition settled :: "world \<Rightarrow> world" where
  "settled w = w\<lparr>h_clock := 0, h_bus_on := False, h_preset_enabled := False, hist := []\<rparr>"

lemma settled_upd [simp]:
  "settled (emit e w) = settled w" "settled (w\<lparr>h_clock := c\<rparr>) = settled w"
  "settled (w\<lparr>h_bus_on := b\<rparr>) = settled w" "settled (w\<lparr>h_preset_enabled := p\<rparr>) = settled w"
  "settled (w\<lparr>hist := h\<rparr>) = settled w"
  by (simp_all add: settled_def emit_def)

lemma settled_wait:
  "reset_wait v m t w = Some w' \<Longrightarrow> v = None \<longrightarrow> settled w' = settled w"
proof (induction rule: reset_wait.raw_induct[rotated, consumes 1, case_names step])
  case (step loop v m t w w')
  have d: "settled (sdhci_dumpregs None x) = settled x" for x
    using dump_hist[of x] by auto
  show ?case
  proof
    assume v: "v = None"
    show "settled w' = settled w"
      using step(2) step(1) v
      by (auto simp: Let_def split_beta d ktime_get_def jiffies_def rt_tick_get_def
          udelay_def split: if_split_asm)
  qed
qed

lemma settled_reset: "sdhci_reset None m w = Some w' \<Longrightarrow> settled w' = settled w"
  by (auto simp: sdhci_reset_def Let_def split_beta ktime_get_def jiffies_def rt_tick_get_def
      sdhci_runtime_pm_bus_off_def dest!: settled_wait split: if_split_asm)

lemma settled_mod [simp]:
  "settled (modl f r w) = settled w" "settled (cvi_phy_setup w) = settled w"
  by (simp_all add: modl_def cvi_phy_setup_def Let_def split_beta)

lemma settled_ops:
  assumes "driver_ops ops" "o_reset ops m w = Some w'"
  shows "settled w' = settled w"
  using assms
  by (auto simp: driver_ops_def sdhci_pltfm_ops_def sdhci_cv181x_sd_ops_def
      sdhci_cv181x_emmc_ops_def sdhci_cv181x_sd_reset_def sdhci_cv181x_emmc_reset_def
      sdhci_cvi_reset_helper_def Option.bind_eq_Some_conv dest!: settled_reset)

lemma driver_no_hooks:
  assumes "driver_ops ops"
  shows "o_enable_dma ops = None" "o_set_timeout ops = None"
  using assms by (auto simp: driver_ops_def sdhci_pltfm_ops_def sdhci_cv181x_sd_ops_def
      sdhci_cv181x_emmc_ops_def)

theorem do_reset_settled:
  assumes "driver_ops ops" "sdhci_do_reset ops m w = Some w'"
  shows "settled w' = settled w"
proof -
  have cd: "settled (snd (sdhci_get_cd x)) = settled x" for x
    by (simp add: sdhci_get_cd_def Let_def split_beta split: sum.split)
  have ep: "settled (reset_epilogue ops m x) = settled x" for x
    by (simp add: reset_epilogue_def run_enable_dma_def driver_no_hooks[OF assms(1)] Let_def)
  define w1 where "w1 = snd (if tst (h_quirks w) SDHCI_QUIRK_NO_CARD_NO_RESET
     then (let (cd, w) = sdhci_get_cd w in (\<not> cd, w)) else (False, w))"
  have w1: "settled w1 = settled w" by (simp add: w1_def Let_def split_beta cd)
  consider "w' = w1" | w2 where "o_reset ops m w1 = Some w2" "w' = reset_epilogue ops m w2"
    using assms(2) unfolding sdhci_do_reset_def Let_def[of "if _ then _ else _"]
    by (simp add: split_beta w1_def[symmetric] Option.bind_eq_Some_conv split: if_split_asm)
  then show ?thesis
    by cases (simp_all add: w1 ep settled_ops[OF assms(1)])
qed

end
