(* ===== verification/SetupFacts.thy ===== *)
theory SetupFacts
  imports Host ResetFacts
begin

text \<open>
  Setting a host up and taking it down: the descriptor table and the align buffer are laid out as
  the table builder needs them, every failure leaves no buffer behind, and removing a host leaves
  its interrupts masked and its timers stopped.
\<close>

subsection \<open>The DMA buffers of a host\<close>

definition buffers where
  "buffers w = (h_desc_sz w, h_adma_table_sz w, h_align_buffer w, h_align_addr w, h_adma_table w,
     h_adma_addr w, h_adma_table_cnt w, h_alloc_desc_sz w, h_align_buffer_sz w, h_v4_mode w)"

text \<open>Allocations and releases of DMA memory, latest first.\<close>

definition is_page :: "event \<Rightarrow> bool" where
  "is_page e = (case e of PagesAlloc n \<Rightarrow> True | FreeCoherent n a b \<Rightarrow> True | _ \<Rightarrow> False)"

definition page_events :: "world \<Rightarrow> event list" where
  "page_events w = filter is_page (hist w)"

lemma is_page_simps [simp]:
  "is_page (PagesAlloc n)" "is_page (FreeCoherent n a b)" "\<not> is_page (Rd32 r)" "\<not> is_page (Rd16 r)"
  "\<not> is_page (Rd8 r)" "\<not> is_page (Wr32 r v)" "\<not> is_page (Wr16 r v')" "\<not> is_page (Wr8 r v'')"
  "\<not> is_page (Malloc k)" "\<not> is_page (Free k)" "\<not> is_page (OsCall s)" "\<not> is_page (Warn i)"
  "\<not> is_page ReadTick"
  by (simp_all add: is_page_def)

definition dma_view where
  "dma_view w = (buffers w, tst (h_flags w) SDHCI_USE_ADMA, tst (h_flags w) SDHCI_USE_64_BIT_DMA,
     page_events w)"

lemma dma_view_upd [simp]:
  "dma_view (w\<lparr>h_quirks := a1\<rparr>) = dma_view w" "dma_view (w\<lparr>h_quirks2 := a2\<rparr>) = dma_view w"
  "dma_view (w\<lparr>h_bounce_buffer := a3\<rparr>) = dma_view w" "dma_view (w\<lparr>h_bounce_addr := a4\<rparr>) = dma_view w"
  "dma_view (w\<lparr>h_bounce_buffer_size := a5\<rparr>) = dma_view w" "dma_view (w\<lparr>h_version := a6\<rparr>) = dma_view w"
  "dma_view (w\<lparr>h_max_clk := a7\<rparr>) = dma_view w" "dma_view (w\<lparr>h_timeout_clk := a8\<rparr>) = dma_view w"
  "dma_view (w\<lparr>h_clk_mul := a9\<rparr>) = dma_view w" "dma_view (w\<lparr>h_clock := b1\<rparr>) = dma_view w"
  "dma_view (w\<lparr>h_bus_on := b2\<rparr>) = dma_view w" "dma_view (w\<lparr>h_preset_enabled := b3\<rparr>) = dma_view w"
  "dma_view (w\<lparr>h_use_external_dma := b4\<rparr>) = dma_view w" "dma_view (w\<lparr>h_caps := b5\<rparr>) = dma_view w"
  "dma_view (w\<lparr>h_caps1 := b6\<rparr>) = dma_view w" "dma_view (w\<lparr>h_read_caps := b7\<rparr>) = dma_view w"
  "dma_view (w\<lparr>h_tuning_count := b8\<rparr>) = dma_view w" "dma_view (w\<lparr>h_tuning_mode := b9\<rparr>) = dma_view w"
  "dma_view (w\<lparr>h_dma_mask := c1\<rparr>) = dma_view w" "dma_view (w\<lparr>m_caps := c2\<rparr>) = dma_view w"
  "dma_view (w\<lparr>m_caps2 := c3\<rparr>) = dma_view w" "dma_view (w\<lparr>m_vmmc := c4\<rparr>) = dma_view w"
  "dma_view (w\<lparr>m_vqmmc := c5\<rparr>) = dma_view w" "dma_view (w\<lparr>mh := c6\<rparr>) = dma_view w"
  "dma_view (w\<lparr>m_max_blk_size := c7\<rparr>) = dma_view w"
  "dma_view (w\<lparr>m_max_busy_timeout := c8\<rparr>) = dma_view w"
  "dma_view (w\<lparr>h_sdhci_core_to_disable_vqmmc := c9\<rparr>) = dma_view w"
  "\<not> is_page d2 \<Longrightarrow> dma_view (emit d2 w) = dma_view w"
  "dma_view (upd_mh d3 w) = dma_view w" "dma_view (add_caps d4 w) = dma_view w"
  "dma_view (add_caps2 d5 w) = dma_view w" "dma_view (WARN_ON d6 d7 w) = dma_view w"
  by (simp_all add: dma_view_def buffers_def page_events_def upd_mh_def add_caps_def add_caps2_def
      WARN_ON_def)

lemma clear_flags_clears: "m AND m' = m \<Longrightarrow> \<not> tst (h_flags (clear_flags m' w)) m"
  by (simp add: clear_flags_def)

lemma dma_view_flags:
  "\<not> tst m SDHCI_USE_ADMA \<Longrightarrow> \<not> tst m SDHCI_USE_64_BIT_DMA \<Longrightarrow>
     dma_view (set_flags m w) = dma_view w"
  "\<not> tst m SDHCI_USE_ADMA \<Longrightarrow> \<not> tst m SDHCI_USE_64_BIT_DMA \<Longrightarrow>
     dma_view (clear_flags m w) = dma_view w"
proof -
  assume a: "\<not> tst m SDHCI_USE_ADMA" "\<not> tst m SDHCI_USE_64_BIT_DMA"
  then show "dma_view (set_flags m w) = dma_view w"
    by (simp add: dma_view_def buffers_def page_events_def set_flags_def)
  have "SDHCI_USE_ADMA AND m = 0" "SDHCI_USE_64_BIT_DMA AND m = 0"
    using a by (simp_all add: tst_def and.commute)
  then show "dma_view (clear_flags m w) = dma_view w"
    by (simp add: dma_view_def buffers_def page_events_def clear_flags_def)
qed

lemma buffers_flags [simp]:
  "buffers (w\<lparr>h_flags := f\<rparr>) = buffers w" "buffers (w\<lparr>hist := h\<rparr>) = buffers w"
  "buffers (emit e w) = buffers w"
  by (simp_all add: buffers_def)

lemma dma_view_buffers: "dma_view w' = dma_view w \<Longrightarrow> buffers w' = buffers w"
  by (simp add: dma_view_def)

lemmas buffers_upd [simp] = dma_view_upd[THEN dma_view_buffers]

lemma dma_view_sections [simp]:
  "dma_view (setup_clk_mul w) = dma_view w"
  "dma_view (setup_no_1_8_v w) = dma_view w"
  "dma_view (setup_drivers_tuning w) = dma_view w"
  "dma_view (snd (setup_ocr w)) = dma_view w"
  "dma_view (setup_segs w) = dma_view w"
  "dma_view (setup_sizes w) = dma_view w"
  by (simp_all add: setup_clk_mul_def setup_no_1_8_v_def setup_drivers_tuning_def Let_def
      setup_ocr_def max_current_def setup_vdd_def setup_segs_def setup_sizes_def
      sdhci_allocate_bounce_buffer_def devm_kmalloc_def split_beta)

lemma dma_view_flag_sections [simp]:
  "dma_view (setup_uhs w) = dma_view w"
  "dma_view (setup_signaling w) = dma_view w"
  "dma_view (setup_caps w) = dma_view w"
  "dma_view (snd (setup_vqmmc b r w)) = dma_view w"
  by (simp_all add: setup_uhs_def setup_signaling_def setup_caps_def setup_vqmmc_def Let_def
      split_beta dma_view_flags)

subsection \<open>The layout of the buffers\<close>

text \<open>The align buffer (4 bytes for each of the 128 segments), behind it the table of 257
  descriptors, in one allocation, the last of DMA memory, of exactly their size; a descriptor has
  16 bytes with 64-bit addresses in version 4 mode, 12 with 64-bit addresses otherwise, and 8 with
  32-bit ones.  The controller is given the bus address of the table.\<close>

definition table_ready :: "world \<Rightarrow> bool" where
  "table_ready w \<longleftrightarrow>
     (let f64 = tst (h_flags w) SDHCI_USE_64_BIT_DMA;
          sz = (if f64 then if h_v4_mode w then 16 else 12 else 8)
      in geom w f64 sz \<and> h_adma_table_cnt w = 257
        \<and> h_align_buffer_sz w = 512 \<and> h_adma_table_sz w = of_nat (257 * sz)
        \<and> (\<exists>l. page_events w = PagesAlloc (of_nat (512 + 257 * sz)) # l)
        \<and> (\<exists>buf. h_align_buffer w = Some buf \<and> buf \<noteq> 0 \<and> h_adma_table w = buf + 512)
        \<and> h_adma_addr w = h_align_addr w + 512
        \<and> \<not> tst (h_adma_addr w) (SDHCI_ADMA2_DESC_ALIGN - 1))"

definition no_table :: "world \<Rightarrow> bool" where
  "no_table w \<longleftrightarrow> h_align_buffer w = None \<and> h_adma_table w = 0"

definition dma_ready :: "world \<Rightarrow> bool" where
  "dma_ready w \<longleftrightarrow> (if tst (h_flags w) SDHCI_USE_ADMA then table_ready w else no_table w)"

lemma dma_ready_view:
  assumes "dma_view w' = dma_view w"
  shows "dma_ready w' \<longleftrightarrow> dma_ready w"
  using assms
  by (simp add: dma_ready_def table_ready_def no_table_def geom_def dma_view_def buffers_def Let_def)

lemma alloc_coherent_hist:
  "\<exists>h. snd (dma_alloc_coherent n w) = w\<lparr>hist := h\<rparr>
    \<and> filter is_page h = PagesAlloc n # filter is_page (hist w)"
proof (cases "e_alloc w (hist w) = 0")
  case True
  then show ?thesis
    by (intro exI[of _ "PagesAlloc n # hist w"])
      (simp add: dma_alloc_coherent_def emit_def Let_def)
next
  case False
  then show ?thesis
    by (intro exI[of _ "OsCall ''rt_ioremap_wt'' # PagesAlloc n # hist w"])
      (simp add: dma_alloc_coherent_def ioremap_wt_def emit_def Let_def)
qed

lemma setup_adma_buffers_ready:
  assumes "no_table w" "h_adma_table_cnt w = 257" "h_alloc_desc_sz w = 0"
  shows "dma_ready (setup_adma_buffers w)"
proof (cases "tst (h_flags w) SDHCI_USE_ADMA")
  case False
  then show ?thesis using assms(1) by (simp add: setup_adma_buffers_def dma_ready_def)
next
  case True
  define f64 where "f64 = tst (h_flags w) SDHCI_USE_64_BIT_DMA"
  define sz :: nat where "sz = (if f64 then if h_v4_mode w then 16 else 12 else 8)"
  define w1 where "w1 = w\<lparr>h_alloc_desc_sz := of_nat sz, h_desc_sz := of_nat sz,
    h_adma_table_sz := of_nat (257 * sz), h_align_buffer_sz := 512\<rparr>"
  define r where "r = dma_alloc_coherent (h_align_buffer_sz w1 + h_adma_table_sz w1) w1"
  define buf where "buf = fst (fst r)"
  define dma where "dma = snd (fst r)"
  obtain h where r: "r = ((buf, dma), w1\<lparr>hist := h\<rparr>)"
    and h: "filter is_page h = PagesAlloc (h_align_buffer_sz w1 + h_adma_table_sz w1) # filter is_page (hist w1)"
    using alloc_coherent_hist[of "h_align_buffer_sz w1 + h_adma_table_sz w1" w1]
    unfolding r_def[symmetric] by (metis buf_def dma_def prod.collapse)
  define w2 where "w2 = w1\<lparr>hist := h\<rparr>"
  have eq: "setup_adma_buffers w
      = (if buf = 0 then clear_flags SDHCI_USE_ADMA w2
         else if tst (dma + h_align_buffer_sz w2) (SDHCI_ADMA2_DESC_ALIGN - 1) then
           dma_free_coherent (h_align_buffer_sz w2 + h_adma_table_sz w2) buf dma
             (clear_flags SDHCI_USE_ADMA w2)
         else w2\<lparr>h_align_buffer := Some buf, h_align_addr := dma,
           h_adma_table := buf + h_align_buffer_sz w2, h_adma_addr := dma + h_align_buffer_sz w2\<rparr>)"
  proof -
    have "setup_adma_buffers w = (case r of ((buf, dma), w) \<Rightarrow>
        if buf = 0 then clear_flags SDHCI_USE_ADMA w
        else if tst (dma + h_align_buffer_sz w) (SDHCI_ADMA2_DESC_ALIGN - 1) then
          (let w = clear_flags SDHCI_USE_ADMA w
           in dma_free_coherent (h_align_buffer_sz w + h_adma_table_sz w) buf dma w)
        else w\<lparr>h_align_buffer := Some buf, h_align_addr := dma,
             h_adma_table := buf + h_align_buffer_sz w, h_adma_addr := dma + h_align_buffer_sz w\<rparr>)"
      using True assms
      by (simp add: setup_adma_buffers_def r_def w1_def sz_def f64_def SDHCI_MAX_SEGS_def Let_def
          split: prod.split)
    then show ?thesis unfolding r w2_def by (simp add: Let_def clear_flags_def)
  qed
  have w2: "no_table w2" "h_align_buffer_sz w2 = 512" "h_desc_sz w2 = of_nat sz"
    "h_adma_table_sz w2 = of_nat (257 * sz)" "h_flags w2 = h_flags w" "h_v4_mode w2 = h_v4_mode w"
    "h_adma_table_cnt w2 = 257" "page_events w2 = PagesAlloc (of_nat (512 + 257 * sz)) # page_events w"
    using assms(1,2) h by (simp_all add: w2_def w1_def no_table_def page_events_def)
  have "\<not> tst (h_flags (clear_flags SDHCI_USE_ADMA w2)) SDHCI_USE_ADMA"
    by (rule clear_flags_clears) simp
  moreover have "no_table (clear_flags SDHCI_USE_ADMA w2)"
    using w2(1) by (simp add: clear_flags_def no_table_def)
  moreover have "geom w2 f64 sz" by (simp add: geom_def w2 f64_def sz_def dsize_def)
  ultimately show ?thesis
    unfolding eq dma_ready_def
    using True w2
    by (auto simp: dma_free_coherent_def no_table_def table_ready_def geom_def Let_def
        page_events_def f64_def sz_def)
qed

subsection \<open>What set-up relies on\<close>

text \<open>The operations of the platform that run while the host is set up leave the buffers alone;
  after the buffers are there, also the choice of DMA.\<close>

locale setup_ops = host_ops +
  assumes reset_buffers: "o_reset ops rm w = Some w' \<Longrightarrow> buffers w' = buffers w"
    and mask_buffers: "o_set_dma_mask ops = Some fm \<Longrightarrow> buffers (snd (fm w)) = buffers w"
    and enable_buffers: "o_enable_dma ops = Some fe' \<Longrightarrow> buffers (snd (fe' w)) = buffers w"
    and max_clock_view: "o_get_max_clock ops = Some fx \<Longrightarrow> dma_view (snd (fx w)) = dma_view w"
    and min_clock_view: "o_get_min_clock ops = Some fn \<Longrightarrow> dma_view (snd (fn w)) = dma_view w"
    and timeout_clock_view: "o_get_timeout_clock ops = Some fo \<Longrightarrow> dma_view (snd (fo w)) = dma_view w"
    and timeout_count_view:
      "o_get_max_timeout_count ops = Some fc' \<Longrightarrow> dma_view (snd (fc' w)) = dma_view w"
begin

lemma view_max_clk: "dma_view (snd (setup_max_clk ops w)) = dma_view w"
  by (auto simp: setup_max_clk_def Let_def split_beta max_clock_view split: option.split)

lemma view_freq: "dma_view (setup_freq ops w) = dma_view w"
  by (auto simp: setup_freq_def Let_def split_beta min_clock_view split: option.split)

lemma view_timeout_clk: "dma_view (snd (setup_timeout_clk ops w)) = dma_view w"
  by (auto simp: setup_timeout_clk_def Let_def split_beta timeout_clock_view split: option.split)

lemma view_timeout: "setup_timeout ops k w = Some (e, w') \<Longrightarrow> dma_view w' = dma_view w"
  by (auto simp: setup_timeout_def Let_def split_beta timeout_count_view view_timeout_clk
      Option.bind_eq_Some_conv split: option.splits if_splits)

lemma buffers_do_reset:
  assumes "sdhci_do_reset ops m w = Some w'"
  shows "buffers w' = buffers w"
proof -
  have cd: "buffers (snd (sdhci_get_cd x)) = buffers x" for x
    by (simp add: sdhci_get_cd_def Let_def split_beta split: sum.split)
  have ep: "buffers (reset_epilogue ops m x) = buffers x" for x
    by (auto simp: reset_epilogue_def run_enable_dma_def enable_buffers Let_def split: option.split)
  define w1 where "w1 = snd (if tst (h_quirks w) SDHCI_QUIRK_NO_CARD_NO_RESET
     then (let (cd, w) = sdhci_get_cd w in (\<not> cd, w)) else (False, w))"
  have w1: "buffers w1 = buffers w" by (simp add: w1_def Let_def split_beta cd)
  consider "w' = w1" | w2 where "o_reset ops m w1 = Some w2" "w' = reset_epilogue ops m w2"
    using assms unfolding sdhci_do_reset_def Let_def[of "if _ then _ else _"]
    by (simp add: split_beta w1_def[symmetric] Option.bind_eq_Some_conv split: if_split_asm)
  then show ?thesis
  proof cases
    case 2
    then show ?thesis using reset_buffers[OF 2(1)] w1 ep by simp
  qed (simp add: w1)
qed

lemma buffers_read_caps:
  assumes "sdhci_read_caps ops w = Some w'"
  shows "buffers w' = buffers w"
proof (cases "h_read_caps w")
  case True
  then show ?thesis using assms by (simp add: sdhci_read_caps_def raw_sdhci_read_caps_def)
next
  case False
  have v4: "buffers (sdhci_do_enable_v4_mode x) = buffers x" for x
    by (simp add: sdhci_do_enable_v4_mode_def Let_def split_beta)
  have begin_eq: "buffers w1 = buffers w" if "read_caps_begin ops w = Some w1" for w1
    using that
    by (auto simp: read_caps_begin_def debug_quirks_def debug_quirks2_def Option.bind_eq_Some_conv v4
        dest!: buffers_do_reset split: if_split_asm)
  have caps: "buffers (read_caps0 m c k x) = buffers x" "buffers (read_caps1 m c k x) = buffers x" for m c k x
    by (simp_all add: read_caps0_def read_caps1_def split_beta Let_def split: option.split)
  show ?thesis
    using assms False
    by (auto simp: sdhci_read_caps_def raw_sdhci_read_caps_def Let_def split_beta caps begin_eq
        Option.bind_eq_Some_conv split: if_split_asm)
qed

lemma buffers_dma_mask: "buffers (snd (setup_dma_mask ops r w)) = buffers w"
proof -
  have m: "buffers (snd (sdhci_set_dma_mask x)) = buffers x" for x
    by (simp add: sdhci_set_dma_mask_def Let_def dma_set_mask_and_coherent_def clear_flags_def)
  obtain r1 w1 where 1: "(case o_set_dma_mask ops of Some f \<Rightarrow> f w | None \<Rightarrow> sdhci_set_dma_mask w) = (r1, w1)"
    by fastforce
  have w1: "buffers w1 = buffers w"
    using arg_cong[OF 1, of "\<lambda>p. buffers (snd p)"]
    by (auto simp: m mask_buffers split: option.split_asm)
  obtain r2 w2 where 2: "(case (r1, o_enable_dma ops) of (None, Some f) \<Rightarrow> f w1 | _ \<Rightarrow> (r1, w1)) = (r2, w2)"
    by fastforce
  have w2: "buffers w2 = buffers w"
    using arg_cong[OF 2, of "\<lambda>p. buffers (snd p)"] w1
    by (auto simp: enable_buffers split: option.split_asm)
  show ?thesis
    unfolding setup_dma_mask_def Let_def 1 prod.case 2[unfolded prod.case] by (simp add: w2 clear_flags_def)
qed

lemma setup_dma_ready:
  assumes "no_table w" "h_adma_table_cnt w = 257" "h_alloc_desc_sz w = 0"
  shows "dma_ready (snd (setup_dma ops r w))"
proof -
  define w1 where "w1 = snd (setup_dma_mask ops r w)"
  define w2 where "w2 = (if tst (h_flags w1) SDHCI_USE_64_BIT_DMA \<and> \<not> h_v4_mode w1
    then clear_flags SDHCI_USE_SDMA w1 else w1)"
  have "buffers w2 = buffers w"
    using buffers_dma_mask[of r w] by (simp add: w2_def w1_def clear_flags_def)
  then have "no_table w2" "h_adma_table_cnt w2 = 257" "h_alloc_desc_sz w2 = 0"
    using assms by (simp_all add: buffers_def no_table_def)
  then have "dma_ready (setup_adma_buffers w2)" by (rule setup_adma_buffers_ready)
  moreover have "dma_view (snd (setup_dma ops r w)) = dma_view (setup_adma_buffers w2)"
    by (simp add: setup_dma_def Let_def split_beta w1_def[symmetric] w2_def[symmetric])
  ultimately show ?thesis using dma_ready_view by blast
qed

text \<open>What the rest of the set-up makes of the buffers: it keeps them, or fails and drops them.\<close>

lemma no_table_undma [simp]: "no_table (setup_undma w)" "no_table (setup_unreg w)"
  by (simp_all add: no_table_def setup_undma_def setup_unreg_def)

lemma setup_finish_ready:
  assumes "dma_ready w" "setup_finish w = (e, w')"
  shows "if e = None then dma_ready w' else no_table w'"
proof -
  define w1 where "w1 = snd (setup_ocr (setup_drivers_tuning (setup_uhs (setup_no_1_8_v w))))"
  have v1: "dma_view w1 = dma_view w" by (simp add: w1_def)
  have "dma_view (setup_sizes (setup_segs (setup_signaling w1))) = dma_view w" by (simp add: v1)
  then have "dma_ready (setup_sizes (setup_segs (setup_signaling w1)))"
    using assms(1) dma_ready_view by blast
  then show ?thesis
    using assms(2) by (auto simp: setup_finish_def Let_def split_beta w1_def split: if_split_asm)
qed

lemma setup_host_dma_ready:
  assumes i: "no_table w" "h_adma_table_cnt w = 257" "h_alloc_desc_sz w = 0"
    and run: "setup_host_dma ops b r k w = Some (e, w')"
  shows "if e = None then dma_ready w' else no_table w'"
proof -
  define r1 where "r1 = fst (setup_dma ops r w)"
  define w1 where "w1 = snd (setup_dma ops r w)"
  define e2 where "e2 = fst (setup_max_clk ops w1)"
  define w2 where "w2 = snd (setup_max_clk ops w1)"
  define w3 where "w3 = setup_freq ops (setup_clk_mul w2)"
  have r1: "dma_ready w1" unfolding w1_def by (rule setup_dma_ready[OF i])
  have "dma_view w3 = dma_view w1" by (simp add: w3_def w2_def view_freq view_max_clk)
  then have r3: "dma_ready w3" using r1 dma_ready_view by blast
  have eq: "setup_host_dma ops b r k w = (if e2 \<noteq> None then Some (e2, setup_undma w2)
      else do {
        (e, w) \<leftarrow> setup_timeout ops k w3;
        if e \<noteq> None then Some (e, setup_undma w)
        else Some (setup_finish (snd (setup_vqmmc b r1 (setup_caps w)))) })"
    unfolding setup_host_dma_def Let_def split_beta r1_def w1_def e2_def w2_def w3_def ..
  show ?thesis
  proof (cases "e2 = None")
    case False
    then have "e = e2" "w' = setup_undma w2" using run unfolding eq by simp_all
    then show ?thesis using False by auto
  next
    case True
    then obtain e4 w4 where w4: "setup_timeout ops k w3 = Some (e4, w4)"
      and fin: "(if e4 \<noteq> None then Some (e4, setup_undma w4)
        else Some (setup_finish (snd (setup_vqmmc b r1 (setup_caps w4))))) = Some (e, w')"
      using run unfolding eq by (auto simp: Option.bind_eq_Some_conv)
    have "dma_view (snd (setup_vqmmc b r1 (setup_caps w4))) = dma_view w3"
      using view_timeout[OF w4] by simp
    then have "dma_ready (snd (setup_vqmmc b r1 (setup_caps w4)))"
      using r3 dma_ready_view by blast
    then show ?thesis
      using fin setup_finish_ready by (auto split: if_split_asm)
  qed
qed

lemma setup_host_ready:
  assumes i: "no_table w" "h_adma_table_cnt w = 257" "h_alloc_desc_sz w = 0"
    and run: "sdhci_setup_host ops w = Some (e, w')"
  shows "if e = None then dma_ready w' else no_table w'"
proof -
  define w1 where "w1 = snd (setup_supply w)"
  have b1: "buffers w1 = buffers w"
    by (simp add: w1_def setup_supply_def mmc_regulator_get_supply_def Let_def)
  define b where "b = snd (fst (setup_supply w))"
  have s: "fst (fst (setup_supply w)) = None"
    by (simp add: setup_supply_def mmc_regulator_get_supply_def Let_def)
  have eq: "sdhci_setup_host ops w = do {
       w \<leftarrow> sdhci_read_caps ops w1;
       let p = setup_external_dma None (setup_dma_caps w);
       if fst p = Some EPROBE_DEFER then Some (fst p, setup_unreg (snd p))
       else setup_host_dma ops b (fst p) (h_timeout_clk w) (snd p) }"
    unfolding sdhci_setup_host_def Let_def split_beta w1_def[symmetric] b_def[symmetric] s by simp
  obtain w2 where w2: "sdhci_read_caps ops w1 = Some w2"
    using run unfolding eq by (auto simp: Option.bind_eq_Some_conv)
  define p where "p = setup_external_dma None (setup_dma_caps w2)"
  have "buffers (setup_dma_caps x) = buffers x" for x
    by (simp add: setup_dma_caps_def Let_def set_flags_def clear_flags_def)
  moreover have "buffers (snd (setup_external_dma None x)) = buffers x" for x
    by (simp add: setup_external_dma_def sdhci_external_dma_init_def sdhci_switch_external_dma_def)
  ultimately have "buffers (snd p) = buffers w"
    using buffers_read_caps[OF w2] b1 by (simp add: p_def)
  then have p: "no_table (snd p)" "h_adma_table_cnt (snd p) = 257" "h_alloc_desc_sz (snd p) = 0"
    using i by (simp_all add: buffers_def no_table_def)
  have "(if fst p = Some EPROBE_DEFER then Some (fst p, setup_unreg (snd p))
      else setup_host_dma ops b (fst p) (h_timeout_clk w2) (snd p)) = Some (e, w')"
    using run unfolding eq w2 Let_def Option.bind.simps p_def .
  then show ?thesis
    using setup_host_dma_ready[OF p] by (auto split: if_split_asm)
qed

end

subsection \<open>The tables of the repository\<close>

lemma buffers_settled: "settled w' = settled w \<Longrightarrow> buffers w' = buffers w"
proof -
  have "buffers x = buffers (settled x)" for x by (simp add: buffers_def settled_def)
  then show "settled w' = settled w \<Longrightarrow> buffers w' = buffers w" by metis
qed

lemmas buffers_reset = settled_ops[THEN buffers_settled]

interpretation pltfm_setup: setup_ops sdhci_pltfm_ops
  by unfold_locales
    (erule buffers_reset[rotated], simp_all add: driver_ops_def, simp_all add: sdhci_pltfm_ops_def)

interpretation cv_sd_setup: setup_ops "sdhci_cv181x_sd_ops send" for send
  by unfold_locales
    (erule buffers_reset[rotated], auto simp: driver_ops_def, auto simp: sdhci_cv181x_sd_ops_def
      sdhci_cvi_general_get_max_clock_def)

interpretation cv_emmc_setup: setup_ops "sdhci_cv181x_emmc_ops send" for send
  by unfold_locales
    (erule buffers_reset[rotated], auto simp: driver_ops_def, auto simp: sdhci_cv181x_emmc_ops_def
      sdhci_cvi_general_get_max_clock_def)

lemma driver_setup_ops: "driver_ops ops \<Longrightarrow> setup_ops ops"
  using pltfm_setup.setup_ops_axioms cv_sd_setup.setup_ops_axioms cv_emmc_setup.setup_ops_axioms
  by (auto simp: driver_ops_def)

subsection \<open>Set-up, failure and removal\<close>

text \<open>C33. When the platform has not chosen a descriptor size of its own, a host that has been set up
  with ADMA has the align buffer and the descriptor table the table builder relies on: 512 bytes and
  257 descriptors of the size of its mode (16 bytes with 64-bit addresses in version 4 mode, 12 in
  version 3 mode, 8 with 32-bit addresses), in one aligned allocation of exactly that size.  A host
  without ADMA, or whose set-up failed, has no table.\<close>

theorem setup_host_lays_out:
  assumes "driver_ops ops" "no_table w" "h_adma_table_cnt w = 257" "h_alloc_desc_sz w = 0"
    and "sdhci_setup_host ops w = Some (e, w')"
  shows "if e = None then dma_ready w' else no_table w'"
  using setup_ops.setup_host_ready[OF driver_setup_ops[OF assms(1)] assms(2-)] .

text \<open>A version 3.00 controller with ADMA2 and 64-bit addresses, 50 MHz, whose capabilities are
  known already; one offers 3.3 V, the other no voltage at all.\<close>

definition caps_world :: "u32 \<Rightarrow> world" where
  "caps_world c = blank_world\<lparr>h_adma_table_cnt := 257, e_alloc := \<lambda>_. 0x9000, h_read_caps := True,
     h_version := SDHCI_SPEC_300, h_caps := c\<rparr>"

lemma caps_fields [simp]:
  "h_version (caps_world c) = SDHCI_SPEC_300" "h_caps (caps_world c) = c" "h_quirks (caps_world c) = 0"
  "h_quirks2 (caps_world c) = 0" "h_adma_table_cnt (caps_world c) = 257" "e_alloc (caps_world c) = (\<lambda>_. 0x9000)"
  "h_flags (caps_world c) = 0" "h_v4_mode (caps_world c) = False" "h_alloc_desc_sz (caps_world c) = 0"
  "h_read_caps (caps_world c) = True" "m_vqmmc (caps_world c) = NoSupply" "h_use_external_dma (caps_world c) = False"
  "h_timeout_clk (caps_world c) = 0" "h_caps1 (caps_world c) = 0" "mh (caps_world c) = mh blank_world"
  "h_align_buffer (caps_world c) = None" "h_adma_table (caps_world c) = 0" "e_v2p (caps_world c) = (\<lambda>a. a)"
  "h_ocr_mask (caps_world c) = 0"
  by (simp_all add: caps_world_def)

lemma caps_supply:
  "setup_supply (caps_world c)
     = ((None, True), (caps_world c)\<lparr>m_vmmc := ErrSupply ENODEV, m_vqmmc := ErrSupply ENODEV\<rparr>)"
  by (simp add: setup_supply_def mmc_regulator_get_supply_def)

lemma pltfm_setup_simps [simp]:
  "o_set_dma_mask sdhci_pltfm_ops = None" "o_enable_dma sdhci_pltfm_ops = None"
  "o_get_max_clock sdhci_pltfm_ops = None" "o_get_min_clock sdhci_pltfm_ops = None"
  "o_get_timeout_clock sdhci_pltfm_ops = None" "o_get_max_timeout_count sdhci_pltfm_ops = None"
  by (simp_all add: sdhci_pltfm_ops_def)

definition caps_ready :: "u32 \<Rightarrow> world" where
  "caps_ready c = (caps_world c)\<lparr>m_vmmc := ErrSupply ENODEV, m_vqmmc := ErrSupply ENODEV, h_flags := 0x1002,
     h_alloc_desc_sz := 12, h_desc_sz := 12, h_adma_table_sz := 3084, h_align_buffer_sz := 512,
     hist := OsCall ''rt_ioremap_wt'' # PagesAlloc 3596 # hist (caps_world c),
     h_align_buffer := Some 0x9000, h_align_addr := 0x9000, h_adma_table := 0x9200,
     h_adma_addr := 0x9200\<rparr>"

lemma caps_dma:
  assumes "c = 0x11283232 \<or> c = 0x10283232"
  shows
  "setup_dma_caps ((caps_world c)\<lparr>m_vmmc := v, m_vqmmc := v'\<rparr>)
     = (caps_world c)\<lparr>m_vmmc := v, m_vqmmc := v', h_flags := 0x1002\<rparr>"
  "setup_dma sdhci_pltfm_ops None
     ((caps_world c)\<lparr>m_vmmc := ErrSupply ENODEV, m_vqmmc := ErrSupply ENODEV, h_flags := 0x1002\<rparr>)
     = (None, caps_ready c)"
  by (insert assms, safe)
    (simp_all add: setup_dma_caps_def set_flags_def Let_def sdhci_can_64bit_dma_def tst_def
      setup_dma_def setup_dma_mask_def sdhci_set_dma_mask_def dma_set_mask_and_coherent_def
      setup_adma_buffers_def dma_alloc_coherent_def ioremap_wt_def
      clear_flags_def SDHCI_MAX_SEGS_def emit_def caps_ready_def)

lemma caps_clocks:
  assumes "c = 0x11283232 \<or> c = (0x10283232 :: u32)"
  shows "FIELD_GET SDHCI_CLOCK_V3_BASE_MASK c = 0x32" "FIELD_GET SDHCI_TIMEOUT_CLK_MASK c = 0x32"
proof -
  have "FIELD_GET SDHCI_CLOCK_V3_BASE_MASK (0x11283232 :: u32) = 0x32"
    "FIELD_GET SDHCI_TIMEOUT_CLK_MASK (0x11283232 :: u32) = 0x32"
    "FIELD_GET SDHCI_CLOCK_V3_BASE_MASK (0x10283232 :: u32) = 0x32"
    "FIELD_GET SDHCI_TIMEOUT_CLK_MASK (0x10283232 :: u32) = 0x32"
    by code_simp+
  then show "FIELD_GET SDHCI_CLOCK_V3_BASE_MASK c = 0x32" "FIELD_GET SDHCI_TIMEOUT_CLK_MASK c = 0x32"
    using assms by auto
qed

lemma power_view [simp]:
  "h_caps (setup_caps w) = h_caps w" "h_ocr_mask (setup_caps w) = h_ocr_mask w"
  "h_caps (setup_no_1_8_v w) = h_caps w" "h_ocr_mask (setup_no_1_8_v w) = h_ocr_mask w"
  "h_caps (setup_uhs w) = h_caps w" "h_ocr_mask (setup_uhs w) = h_ocr_mask w"
  "h_caps (setup_drivers_tuning w) = h_caps w" "h_ocr_mask (setup_drivers_tuning w) = h_ocr_mask w"
  by (simp_all add: setup_caps_def setup_no_1_8_v_def setup_uhs_def setup_drivers_tuning_def Let_def
      add_caps_def add_caps2_def upd_mh_def set_flags_def)

lemma avail_view [simp]:
  "ocr_avail (mh (setup_caps w)) = ocr_avail (mh w)"
  "ocr_avail (mh (setup_no_1_8_v w)) = ocr_avail (mh w)"
  "ocr_avail (mh (setup_uhs w)) = ocr_avail (mh w)"
  "ocr_avail (mh (setup_drivers_tuning w)) = ocr_avail (mh w)"
  by (simp_all add: setup_caps_def setup_no_1_8_v_def setup_uhs_def setup_drivers_tuning_def Let_def
      add_caps_def add_caps2_def upd_mh_def set_flags_def)

lemma ocr_error:
  assumes "h_ocr_mask w = 0" "ocr_avail (mh w) = 0"
  shows "tst (h_caps w) SDHCI_CAN_VDD_330 \<Longrightarrow> fst (setup_ocr w) = None"
    "\<not> tst (h_caps w) SDHCI_CAN_VDD_330 \<Longrightarrow> \<not> tst (h_caps w) SDHCI_CAN_VDD_300 \<Longrightarrow>
       \<not> tst (h_caps w) SDHCI_CAN_VDD_180 \<Longrightarrow> fst (setup_ocr w) = Some ENODEV"
proof -
  define c where "c = fst (max_current w)"
  define w1 where "w1 = snd (max_current w)"
  have w1: "h_caps w1 = h_caps w" "h_ocr_mask w1 = 0" "ocr_avail (mh w1) = 0"
    using assms by (simp_all add: w1_def max_current_def Let_def split_beta)
  have v: "h_caps (snd (setup_vdd c w1)) = h_caps w" "h_ocr_mask (snd (setup_vdd c w1)) = 0"
    "ocr_avail (mh (snd (setup_vdd c w1))) = 0"
    using w1 by (simp_all add: setup_vdd_def Let_def split_beta upd_mh_def)
  have e: "fst (setup_ocr w) = (if fst (setup_vdd c w1) = 0 then Some ENODEV else None)"
    unfolding setup_ocr_def Let_def split_beta c_def[symmetric] w1_def[symmetric]
    using v by simp
  show "fst (setup_ocr w) = None" if "tst (h_caps w) SDHCI_CAN_VDD_330"
    using that w1(1) unfolding e by (simp add: setup_vdd_def Let_def split_beta upd_mh_def)
  show "fst (setup_ocr w) = Some ENODEV" if "\<not> tst (h_caps w) SDHCI_CAN_VDD_330"
      "\<not> tst (h_caps w) SDHCI_CAN_VDD_300" "\<not> tst (h_caps w) SDHCI_CAN_VDD_180"
    using that w1(1) unfolding e by (simp add: setup_vdd_def Let_def split_beta upd_mh_def)
qed

lemma setup_finish_power:
  assumes "h_ocr_mask w = 0" "ocr_avail (mh w) = 0"
  shows "tst (h_caps w) SDHCI_CAN_VDD_330 \<Longrightarrow> fst (setup_finish w) = None"
    "\<not> tst (h_caps w) SDHCI_CAN_VDD_330 \<Longrightarrow> \<not> tst (h_caps w) SDHCI_CAN_VDD_300 \<Longrightarrow>
       \<not> tst (h_caps w) SDHCI_CAN_VDD_180 \<Longrightarrow> fst (setup_finish w) = Some ENODEV"
  using assms by (simp_all add: setup_finish_def Let_def split_beta ocr_error)

lemma caps_run:
  assumes c: "c = 0x11283232 \<or> c = 0x10283232"
  shows "\<exists>w. sdhci_setup_host sdhci_pltfm_ops (caps_world c) = Some (setup_finish w) \<and> h_caps w = c
    \<and> h_ocr_mask w = 0 \<and> ocr_avail (mh w) = 0"
proof -
  define w1 where "w1 = caps_ready c\<lparr>h_max_clk := 50000000\<rparr>"
  define w2 where "w2 = setup_freq sdhci_pltfm_ops (setup_clk_mul w1)"
  define w3 where "w3 = w2\<lparr>h_timeout_clk := 50, m_max_busy_timeout := 2684354\<rparr>"
  have f: "h_caps w2 = c" "h_quirks w2 = 0" "h_quirks2 w2 = 0" "h_ocr_mask w2 = 0"
    "ocr_avail (mh w2) = 0" "m_vqmmc w2 = ErrSupply ENODEV"
    by (simp_all add: w2_def w1_def setup_freq_def setup_clk_mul_def caps_ready_def upd_mh_def Let_def
        cong: if_cong)
  have 1: "setup_max_clk sdhci_pltfm_ops (caps_ready c) = (None, w1)"
    by (simp add: setup_max_clk_def caps_clocks(1)[OF c] w1_def caps_ready_def Let_def)
  have "\<not> tst c SDHCI_TIMEOUT_CLK_UNIT \<longrightarrow> setup_timeout sdhci_pltfm_ops 0 w2 = Some (None, w3)"
    using f by (simp add: setup_timeout_def setup_timeout_clk_def caps_clocks[OF c] Let_def w3_def)
  then have 2: "setup_timeout sdhci_pltfm_ops 0 w2 = Some (None, w3)" using c by (auto simp: tst_def)
  have "m_vqmmc (setup_caps w3) = ErrSupply ENODEV"
    by (simp add: setup_caps_def Let_def add_caps_def add_caps2_def set_flags_def w3_def f)
  then have v: "setup_vqmmc b r (setup_caps w3) = (r, setup_caps w3)" for b r
    by (simp add: setup_vqmmc_def IS_ERR_supply_def)
  have "sdhci_setup_host sdhci_pltfm_ops (caps_world c) = Some (setup_finish (setup_caps w3))"
    by (simp add: sdhci_setup_host_def caps_supply sdhci_read_caps_def raw_sdhci_read_caps_def
        caps_dma[OF c] setup_external_dma_def setup_host_dma_def 1 2 w2_def[symmetric] Let_def v)
  moreover have "h_caps (setup_caps w3) = c" "h_ocr_mask (setup_caps w3) = 0"
    "ocr_avail (mh (setup_caps w3)) = 0"
    by (simp_all add: w3_def f)
  ultimately show ?thesis by blast
qed

lemma setup_host_lays_out_witness:
  "\<exists>w'. sdhci_setup_host sdhci_pltfm_ops (caps_world 0x11283232) = Some (None, w') \<and> dma_ready w'"
proof -
  obtain w1 where w1: "sdhci_setup_host sdhci_pltfm_ops (caps_world 0x11283232) = Some (setup_finish w1)"
    "h_caps w1 = 0x11283232" "h_ocr_mask w1 = 0" "ocr_avail (mh w1) = 0"
    using caps_run by blast
  have "fst (setup_finish w1) = None" by (rule setup_finish_power(1)) (simp_all add: w1(2-4) tst_def)
  then obtain w' where w': "sdhci_setup_host sdhci_pltfm_ops (caps_world 0x11283232) = Some (None, w')"
    using w1(1) by (metis prod.collapse)
  have "driver_ops sdhci_pltfm_ops" "no_table (caps_world 0x11283232)" by (simp_all add: driver_ops_def no_table_def)
  from setup_host_lays_out[OF this _ _ w'] w' show ?thesis by simp
qed

text \<open>C34. When adding a host fails, whatever the step it failed at, no table and no align buffer
  are left in the host.\<close>

theorem add_host_failure_clean:
  assumes "driver_ops ops" "no_table w" "h_adma_table_cnt w = 257" "h_alloc_desc_sz w = 0"
    and "sdhci_add_host ops hw_register w = Some (Some e, w')"
  shows "no_table w'"
proof -
  obtain r1 w1 where 1: "sdhci_setup_host ops w = Some (r1, w1)"
    and rest: "(if r1 \<noteq> None then Some (r1, w1) else do {
       (ret, w) \<leftarrow> raw_sdhci_add_host ops hw_register w1;
       Some (ret, if ret \<noteq> None then sdhci_cleanup_host w else w) }) = Some (Some e, w')"
    using assms(5) by (auto simp: sdhci_add_host_def Option.bind_eq_Some_conv)
  have c: "no_table (sdhci_cleanup_host x)" for x
    by (simp add: no_table_def sdhci_cleanup_host_def Let_def)
  show ?thesis
  proof (cases r1)
    case None
    then show ?thesis using rest c by (auto simp: Option.bind_eq_Some_conv split: if_split_asm)
  next
    case (Some x)
    then show ?thesis
      using rest setup_ops.setup_host_ready[OF driver_setup_ops[OF assms(1)] assms(2-4) 1] by simp
  qed
qed

lemma add_host_failure_clean_witness:
  "\<exists>w'. sdhci_add_host sdhci_pltfm_ops (\<lambda>w. (None, w)) (caps_world 0x10283232) = Some (Some ENODEV, w')
    \<and> no_table w'"
proof -
  obtain w1 where w1: "sdhci_setup_host sdhci_pltfm_ops (caps_world 0x10283232) = Some (setup_finish w1)"
    "h_caps w1 = 0x10283232" "h_ocr_mask w1 = 0" "ocr_avail (mh w1) = 0"
    using caps_run by blast
  have "fst (setup_finish w1) = Some ENODEV"
    by (rule setup_finish_power(2)) (simp_all add: w1(2-4) tst_def)
  then obtain w' where w': "sdhci_add_host sdhci_pltfm_ops (\<lambda>w. (None, w)) (caps_world 0x10283232)
      = Some (Some ENODEV, w')"
    using w1(1) by (cases "setup_finish w1") (simp add: sdhci_add_host_def)
  have "driver_ops sdhci_pltfm_ops" "no_table (caps_world 0x10283232)"
    by (simp_all add: driver_ops_def no_table_def)
  from add_host_failure_clean[OF this _ _ w'] w' show ?thesis by simp
qed

subsection \<open>Removing a host\<close>

lemma remove_dead_fails:
  assumes "req_inv w" "h_cmd w = Some cp \<or> h_data_cmd w = Some cp"
  shows "fails ENOMEDIUM cp (remove_dead True w)"
proof -
  have rq: "rq (set_flags SDHCI_DEVICE_DEAD w) = rq w" by (simp add: set_flags_def rq_def)
  then have "req_inv (set_flags SDHCI_DEVICE_DEAD w)" using assms(1) req_inv_rq(1) by blast
  then show ?thesis
    using error_out_fails[of "set_flags SDHCI_DEVICE_DEAD w"] rqD(2,3)[OF rq] assms(2)
    by (auto simp: remove_dead_def Let_def sdhci_has_requests_def)
qed

lemma fails_objects:
  "cmds w' = cmds w \<Longrightarrow> finished w' = finished w \<Longrightarrow> fails e cp w' = fails e cp w"
  by (simp add: fails_def)

lemma undma_fields [simp]:
  "cmds (setup_undma w) = cmds w" "h_mrqs_done (setup_undma w) = h_mrqs_done w"
  "h_timer (setup_undma w) = h_timer w" "h_data_timer (setup_undma w) = h_data_timer w"
  "last_wr32 r (hist (setup_undma w)) = last_wr32 r (hist w)"
  by (simp_all add: setup_undma_def free_adma_buffers_def dma_free_coherent_def emit_def
      split: option.split)

text \<open>C40. A removed host has both interrupt masks cleared, no timer armed and no descriptor table; if
  the device was pulled, every command that was on a line has failed with \<^verbatim>\<open>-ENOMEDIUM\<close>.\<close>

theorem remove_host_quiet:
  assumes "req_inv w" "sdhci_remove_host ops dead w = Some w'"
  shows "no_table w' \<and> h_timer w' = None \<and> h_data_timer w' = None
    \<and> last_wr32 SDHCI_INT_ENABLE (hist w') = Some 0
    \<and> last_wr32 SDHCI_SIGNAL_ENABLE (hist w') = Some 0
    \<and> (dead \<and> (h_cmd w = Some cp \<or> h_data_cmd w = Some cp) \<longrightarrow> fails ENOMEDIUM cp w')"
proof -
  define w1 where "w1 = sdhci_disable_card_detection (remove_dead dead w)"
  obtain w2 where 2: "(if \<not> dead then sdhci_do_reset ops SDHCI_RESET_ALL w1 else Some w1) = Some w2"
    and w': "w' = (let w = sdhci_writel 0 SDHCI_SIGNAL_ENABLE (sdhci_writel 0 SDHCI_INT_ENABLE w2);
      w = destroy_workqueue (del_timer True (del_timer False w))
      in setup_undma w)"
  proof -
    have "sdhci_remove_host ops dead w = do {
        w2 \<leftarrow> (if \<not> dead then sdhci_do_reset ops SDHCI_RESET_ALL w1 else Some w1);
        Some (let w = sdhci_writel 0 SDHCI_SIGNAL_ENABLE (sdhci_writel 0 SDHCI_INT_ENABLE w2);
          w = destroy_workqueue (del_timer True (del_timer False w))
          in setup_undma w) }"
      unfolding sdhci_remove_host_def Let_def w1_def sdhci_led_unregister_def mmc_remove_host_def
        free_irq_def regulator_disable_def sdhci_external_dma_release_def if_cancel
        setup_undma_def by simp
    from assms(2)[unfolded this] show thesis
      by (rule bind_eq_SomeD) (rule that, assumption, simp)
  qed
  have q: "cmds w' = cmds w2" "finished w' = finished w2"
    by (simp_all add: w' Let_def destroy_workqueue_def del_timer_def finished_def)
  have "fails ENOMEDIUM cp w'" if d: "dead" "h_cmd w = Some cp \<or> h_data_cmd w = Some cp"
  proof -
    have "w2 = w1" using 2 d(1) by simp
    then have "cmds w2 = cmds (remove_dead dead w)" "finished w2 = finished (remove_dead dead w)"
      by (simp_all add: w1_def sdhci_disable_card_detection_def sdhci_set_card_detection_def Let_def
          finished_def write_ier_def)
    then show ?thesis using remove_dead_fails[OF assms(1) d(2)] d(1) q by (simp add: fails_def)
  qed
  then show ?thesis
    by (simp add: w' Let_def destroy_workqueue_def del_timer_def emit_def)
qed

lemma remove_host_quiet_witness:
  "\<exists>w'. sdhci_remove_host sdhci_pltfm_ops True pulled_world = Some w'
    \<and> last_wr32 SDHCI_SIGNAL_ENABLE (hist w') = Some 0 \<and> fails ENOMEDIUM 7 w'"
proof -
  obtain w' where w': "sdhci_remove_host sdhci_pltfm_ops True pulled_world = Some w'"
    by (auto simp: sdhci_remove_host_def Let_def)
  then show ?thesis
    using remove_host_quiet[OF pulled_inv(1) w', of 7] by (simp add: pulled_world_def)
qed

subsection \<open>The interrupt thread\<close>

text \<open>Whatever the number of times the interrupt thread runs, and whatever interrupts it, the host is
  in a state the driver's own steps reach.\<close>

lemma irq_thread_reachable:
  "irq_thread (sdhci_thread_irq ops (preempt ops hs)) n w = Some w' \<Longrightarrow> reachable ops w w'"
proof (induction n arbitrary: w)
  case (Suc n)
  then obtain w1 where "sdhci_thread_irq ops (preempt ops hs) w = Some w1" "reachable ops w1 w'"
    by (auto simp: Option.bind_eq_Some_conv)
  then show ?case
    unfolding reachable_def by (meson converse_rtranclp_into_rtranclp step.thread)
qed (simp add: reachable_def)

end
