(* ===== verification/SuspendFacts.thy ===== *)
theory SuspendFacts
  imports ReqFacts
begin

text \<open>
  A power cycle of the controller: no request is lost or invented, the interrupt handler keeps
  away from a suspended controller, and afterwards the controller again holds the interrupt mask
  the driver believes in.
\<close>

lemma driver_bus_ops: "driver_ops ops \<Longrightarrow> host_bus ops"
  using pltfm_bus.host_bus_axioms cv_sd.host_bus_axioms cv_emmc.host_bus_axioms
  by (auto simp: driver_ops_def)

subsection \<open>Power cycles\<close>

text \<open>C37. While the controller is runtime-suspended its interrupt handler touches no register and
  only the SDIO interrupt is enabled; a suspend and a resume leave the requests as they were, and
  afterwards both interrupt enable registers hold the driver's mask again.\<close>

theorem runtime_power_cycle:
  assumes "driver_ops ops" "hs400_strobe pm = None"
    and "w1 = sdhci_runtime_suspend_host (\<lambda>w. w) w"
  shows "sdhci_irq ops w1 = Some (IRQ_NONE, w1)
    \<and> ier_ok w1 \<and> h_ier w1 = h_ier w AND SDHCI_INT_CARD_INT \<and> rq w1 = rq w
    \<and> (sdhci_runtime_resume_host pm ops soft w1 = Some w2 \<longrightarrow>
        rq w2 = rq w \<and> ier_ok w2 \<and> \<not> h_runtime_suspended w2)"
proof -
  have s: "sdhci_irq ops w1 = Some (IRQ_NONE, w1)" "h_ier w1 = h_ier w AND SDHCI_INT_CARD_INT"
    by (simp_all add: assms(3) sdhci_irq_def sdhci_runtime_suspend_host_def Let_def
        synchronize_hardirq_def mmc_retune_timer_stop_def)
  have k: "ier_ok w1" "rq w1 = rq w"
    by (simp_all add: assms(3) sdhci_runtime_suspend_host_def Let_def ier_ok_def emit_def
        synchronize_hardirq_def mmc_retune_timer_stop_def)
  show ?thesis
    using s k host_bus.runtime_resume_recovers[OF driver_bus_ops[OF assms(1)] _ assms(2)]
    by (auto simp: recovers_def)
qed

definition quiet_pm :: pm_env where
  "quiet_pm = \<lparr>may_wakeup = True, card_wakes = True, keep_power = False, wake_fails = False,
     sdio_claimed = True, hs400_strobe = None\<rparr>"

lemma quiet_pm_fields [simp]:
  "may_wakeup quiet_pm" "card_wakes quiet_pm" "\<not> keep_power quiet_pm" "\<not> wake_fails quiet_pm"
  "sdio_claimed quiet_pm" "hs400_strobe quiet_pm = None"
  by (simp_all add: quiet_pm_def)

lemma pltfm_driver: "driver_ops sdhci_pltfm_ops"
  by (simp add: driver_ops_def)

theorem runtime_power_cycle_witness:
  "\<exists>w2. sdhci_runtime_resume_host quiet_pm sdhci_pltfm_ops False
      (sdhci_runtime_suspend_host (\<lambda>w. w) idle_world) = Some w2
    \<and> rq w2 = rq idle_world \<and> ier_ok w2 \<and> \<not> h_runtime_suspended w2"
proof -
  have "map_option h_ier (sdhci_runtime_resume_host quiet_pm sdhci_pltfm_ops False
      (sdhci_runtime_suspend_host (\<lambda>w. w) idle_world)) \<noteq> None"
    by code_simp
  then obtain w2 where w2: "sdhci_runtime_resume_host quiet_pm sdhci_pltfm_ops False
      (sdhci_runtime_suspend_host (\<lambda>w. w) idle_world) = Some w2" by auto
  show ?thesis
    using runtime_power_cycle[OF pltfm_driver quiet_pm_fields(6) refl, of idle_world False w2] w2 by simp
qed

text \<open>A system suspend either enables exactly the wake-up sources asked for, or leaves both
  interrupt masks zero; a resume leaves the requests as they were, and both interrupt enable
  registers hold the driver's mask again.\<close>

theorem system_power_cycle:
  assumes "driver_ops ops" "\<And>x. vw (snd (hw x)) = vw x" "\<not> h_irq_wake_enabled w"
    and "w1 = sdhci_suspend_host pm w"
  shows "(if h_irq_wake_enabled w1
      then may_wakeup pm \<and> last_wr32 SDHCI_INT_ENABLE (hist w1)
        = Some ((if sdhci_cd_irq_can_wakeup w then SDHCI_INT_CARD_INSERT OR SDHCI_INT_CARD_REMOVE else 0)
            OR (if card_wakes pm then SDHCI_INT_CARD_INT else 0))
      else h_ier w1 = 0 \<and> ier_ok w1)
    \<and> rq w1 = rq w
    \<and> (sdhci_resume_host pm hw ops w1 = Some (e, w2) \<longrightarrow> rq w2 = rq w \<and> ier_ok w2)"
proof -
  define w0 where "w0 = mmc_retune_timer_stop (sdhci_disable_card_detection w)"
  have w0: "rq w0 = rq w" "\<not> h_irq_wake_enabled w0"
    "sdhci_cd_irq_can_wakeup w0 = sdhci_cd_irq_can_wakeup w"
    using assms(3)
    by (simp_all add: w0_def mmc_retune_timer_stop_def sdhci_disable_card_detection_def
        sdhci_set_card_detection_def write_ier_def sdhci_cd_irq_can_wakeup_def
        mmc_card_is_removable_def)
  define p where "p = (if may_wakeup pm then sdhci_enable_irq_wakeups pm w0 else (False, w0))"
  have w1: "w1 = (if \<not> fst p then (snd p)\<lparr>h_ier := 0, hist := Wr32 SDHCI_SIGNAL_ENABLE 0
      # Wr32 SDHCI_INT_ENABLE 0 # hist (snd p)\<rparr> else snd p)"
    by (simp add: assms(4) sdhci_suspend_host_def Let_def p_def w0_def free_irq_def split_beta emit_def)
  have rq: "rq (snd p) = rq w"
    by (simp add: p_def sdhci_enable_irq_wakeups_def Let_def w0)
  have "h_irq_wake_enabled (snd p) \<longleftrightarrow> fst p"
    using w0(2) by (simp add: p_def sdhci_enable_irq_wakeups_def Let_def)
  then have k: "h_irq_wake_enabled w1 \<longleftrightarrow> fst p" by (simp add: w1)
  have "rq w1 = rq w" using rq by (simp add: w1 rq_def)
  moreover have "if h_irq_wake_enabled w1
      then may_wakeup pm \<and> last_wr32 SDHCI_INT_ENABLE (hist w1)
        = Some ((if sdhci_cd_irq_can_wakeup w then SDHCI_INT_CARD_INSERT OR SDHCI_INT_CARD_REMOVE else 0)
            OR (if card_wakes pm then SDHCI_INT_CARD_INT else 0))
      else h_ier w1 = 0 \<and> ier_ok w1"
    unfolding k
    by (auto simp: w1 ier_ok_def p_def sdhci_enable_irq_wakeups_def Let_def w0 emit_def
        split: if_split_asm)
  moreover have "rq w2 = rq w \<and> ier_ok w2" if "sdhci_resume_host pm hw ops w1 = Some (e, w2)"
    using host_bus.resume_recovers[OF driver_bus_ops[OF assms(1)] that assms(2)] calculation(1)
    by (simp add: recovers_def)
  ultimately show ?thesis by blast
qed

end
