(* ===== verification/DataFacts.thy ===== *)
theory DataFacts
  imports ResetFacts
begin

text \<open>
  The end of a transfer: what becomes of the byte count, of the stop command and of the request
  when a transfer is finished.
\<close>

subsection \<open>The objects of a transfer\<close>

definition transfers where
  "transfers w = (datas w, mrqs w, h_flags w, \<lambda>c. c_data (cmds w c))"

lemma transfersD:
  assumes "transfers w' = transfers w"
  shows "datas w' = datas w" "mrqs w' = mrqs w" "h_flags w' = h_flags w"
    "c_data (cmds w' c) = c_data (cmds w c)"
  using assms fun_cong[of "\<lambda>c. c_data (cmds w' c)" _ c] by (simp_all add: transfers_def)

lemma transfers_settled: "settled w' = settled w \<Longrightarrow> transfers w' = transfers w"
proof -
  have "transfers x = transfers (settled x)" for x by (simp add: transfers_def settled_def)
  then show "settled w' = settled w \<Longrightarrow> transfers w' = transfers w" by metis
qed

lemma transfers_upd [simp]:
  "transfers (emit e w) = transfers w" "transfers (WARN_ON k b w) = transfers w"
  "transfers (w\<lparr>h_cmd := a1\<rparr>) = transfers w" "transfers (w\<lparr>h_data_cmd := a2\<rparr>) = transfers w"
  "transfers (w\<lparr>h_data := a3\<rparr>) = transfers w" "transfers (w\<lparr>h_deferred_cmd := a4\<rparr>) = transfers w"
  "transfers (w\<lparr>h_data_timeout := a5\<rparr>) = transfers w" "transfers (w\<lparr>mem := a6\<rparr>) = transfers w"
  "transfers (w\<lparr>h_ier := a7\<rparr>) = transfers w" "transfers (w\<lparr>h_timer := a8\<rparr>) = transfers w"
  "transfers (w\<lparr>h_data_timer := a9\<rparr>) = transfers w"
  "transfers (set_cmd_error cp e' w) = transfers w"
  "transfers (upd_cmd cp (\<lambda>c. c\<lparr>c_flags := f c\<rparr>) w) = transfers w"
  by (auto simp: transfers_def set_cmd_error_def upd_cmd_def fun_eq_iff)

lemma transfers_finish [simp]: "transfers (raw_sdhci_finish_mrq q w) = transfers w"
  using objectsD[OF finish_objects[of q w]] by (simp add: transfers_def)

lemma transfers_post: "sdhci_adma_table_post dp w = Some w' \<Longrightarrow> transfers w' = transfers w"
proof -
  have s: "sg_sync i n dir x = Some x' \<Longrightarrow> transfers x' = transfers x" for i n dir x x'
    by (induction i n dir x rule: sg_sync.induct) (auto simp: dma_sync_def Let_def split: if_split_asm)
  have c: "adma_copy_back n l a x = Some x' \<Longrightarrow> transfers x' = transfers x" for n l a x x'
    by (induction n l a x rule: adma_copy_back.induct) (auto split: if_split_asm)
  show "sdhci_adma_table_post dp w = Some w' \<Longrightarrow> transfers w' = transfers w"
    by (auto simp: sdhci_adma_table_post_def Let_def Option.bind_eq_Some_conv
        dma_sync_sg_for_cpu_def split: if_split_asm dest!: s c)
qed

lemma transfers_set_timeout:
  assumes "raw_sdhci_set_timeout c w = Some w'"
  shows "transfers w' = transfers w"
proof -
  have s: "sdhci_calc_sw_timeout cp x = Some x' \<Longrightarrow> transfers x' = transfers x" for cp x x'
    by (auto simp: sdhci_calc_sw_timeout_def Let_def Option.bind_eq_Some_conv
        split: option.splits if_splits)
  show ?thesis
    using assms
    by (auto simp: raw_sdhci_set_timeout_def Option.bind_eq_Some_conv sdhci_set_data_timeout_irq_def
        write_ier_def split: if_split_asm dest!: s)
qed

lemma transfers_send:
  assumes "driver_ops ops" "sdhci_send_command ops cp w = Some (b, w')" "c_data (cmds w cp) = None"
  shows "transfers w' = transfers w"
proof -
  define w1 where "w1 = emit (Rd32 SDHCI_PRESENT_STATE) (send_prologue cp w)"
  have p: "transfers w1 = transfers w" by (simp add: w1_def send_prologue_def Let_def)
  have i: "transfers (send_issue cp x) = transfers x" if "c_data (cmds x cp) = None" for x
    using that
    by (simp add: send_issue_def Let_def sdhci_set_transfer_mode_def request_timeout_def split_beta
        sdhci_mod_timer_def mod_timer_def jiffies_def rt_tick_get_def)
  consider "w' = w1" | w2 w3 where "send_claim ops cp w1 = Some w2" "send_data ops cp w2 = Some w3"
      "w' = send_issue cp w3"
    using assms(2)
    by (auto simp: sdhci_send_command_def Let_def Option.bind_eq_Some_conv w1_def split: if_split_asm)
  then show ?thesis
  proof cases
    case 2
    have c: "transfers w2 = transfers w"
      using 2(1) p transfers_set_timeout
      by (auto simp: send_claim_def Let_def sdhci_set_timeout_def driver_no_hooks[OF assms(1)]
          split: if_split_asm)
    then have "c_data (cmds w2 cp) = None" using transfersD(4) assms(3) by metis
    then show ?thesis using 2(2,3) c i by (simp add: send_data_def)
  qed (simp add: p)
qed

subsection \<open>The end of a transfer\<close>

text \<open>A separate stop command is due when the transfer has one and neither a block count was set
  before nor the controller sends it, or when the transfer failed.\<close>

definition stop_due :: "datap \<Rightarrow> world \<Rightarrow> cmdp option" where
  "stop_due dp w =
     (let d = datas w dp
      in if q_sbc (mrqs w (d_mrq d)) = None \<and> \<not> sdhci_auto_cmd12 (d_mrq d) w \<or> d_error d \<noteq> None
         then d_stop d else None)"

lemma stop_due_cong: "transfers w' = transfers w \<Longrightarrow> stop_due dp w' = stop_due dp w"
  using transfersD[of w' w] by (simp add: stop_due_def sdhci_auto_cmd12_def Let_def)

lemma stop_settles:
  assumes run: "finish_data_stop ops False st q w = Some w'" and ops: "driver_ops ops"
    and i: "req_inv w0" "drops w0 w" and q: "q \<in> set (active w0)"
    and st: "c_data (cmds w st) = None"
  shows "datas w' = datas w
    \<and> (q \<in> set (finished w') \<or> h_cmd w' = Some st \<or> h_deferred_cmd w' = Some st)"
proof (cases "q_cap_cmd_during_tfr (mrqs w q)")
  case True
  then show ?thesis
    using run finish_finishes[OF i(2,1) q] by (auto simp: finish_data_stop_def)
next
  case False
  then obtain sent w2 where
    s: "sdhci_send_command ops st (w\<lparr>h_cmd := None\<rparr>) = Some (sent, w2)" and
    w': "w' = (if sent then w2 else (WARN_ON 1554 (h_deferred_cmd w2 \<noteq> None) w2)\<lparr>h_deferred_cmd := Some st\<rparr>)"
    using run by (auto simp: finish_data_stop_def Option.bind_eq_Some_conv Let_def)
  have "transfers w2 = transfers w"
    using transfers_send[OF ops s] st by simp
  then have d: "datas w2 = datas w" by (rule transfersD)
  show ?thesis
    using host_ops.send_command_cases[OF driver_host_ops[OF ops] s] w' d
    by (auto simp: claim_view_def)
qed

text \<open>C35. When a transfer ends, its byte count is that of the whole transfer, or 0 if it failed, and
  nothing else of the transfers changes; its request is finished, unless a separate stop command
  is due: then that is on the line, or waits for it, or the request is finished.\<close>

theorem finish_data_settles:
  assumes "driver_ops ops" "req_inv w" "h_data w = Some dp" "sdhci_finish_data ops w = Some w'"
    and "\<And>st. stop_due dp w = Some st \<Longrightarrow> c_data (cmds w st) = None"
  shows "datas w' = (datas w)(dp := (datas w dp)\<lparr>d_bytes_xfered :=
        if d_error (datas w dp) \<noteq> None then 0 else d_blksz (datas w dp) * d_blocks (datas w dp)\<rparr>)
    \<and> (case stop_due dp w of
          None \<Rightarrow> d_mrq (datas w dp) \<in> set (finished w')
        | Some st \<Rightarrow> d_mrq (datas w dp) \<in> set (finished w') \<or> h_cmd w' = Some st
            \<or> h_deferred_cmd w' = Some st)"
proof -
  define w1 where "w1 = w\<lparr>h_data := None, h_data_cmd := None\<rparr>"
  obtain w2 w3 where
    w2: "finish_data_reset ops (h_data_cmd w) dp w1 = Some w2" and
    w3: "(if tst (h_flags w2) SDHCI_REQ_USE_DMA \<and> tst (h_flags w2) SDHCI_USE_ADMA
          then sdhci_adma_table_post dp w2 else Some w2) = Some w3" and
    fin: "(let w = finish_data_count dp w3; d = datas w dp
           in case d_stop d of
             None \<Rightarrow> Some (raw_sdhci_finish_mrq (d_mrq d) w)
           | Some st \<Rightarrow>
               if q_sbc (mrqs w (d_mrq d)) = None \<and> \<not> sdhci_auto_cmd12 (d_mrq d) w
                  \<or> d_error d \<noteq> None
               then finish_data_stop ops False st (d_mrq d) w
               else Some (raw_sdhci_finish_mrq (d_mrq d) w)) = Some w'"
    using assms(3,4)
    by (auto simp: sdhci_finish_data_def raw_sdhci_finish_data_def Option.bind_eq_Some_conv Let_def
        w1_def)
  define w4 where "w4 = finish_data_count dp w3"
  have "drops w w2"
    unfolding w1_def
    using drops_upd(3) tame_drops[OF host_ops.finish_data_reset_tame[OF driver_host_ops[OF assms(1)]
          w2[unfolded w1_def]]]
    by (rule drops_trans)
  moreover have "drops w2 w3" using w3 by (auto simp: vw_drops split: if_split_asm dest: vw_table_post)
  moreover have "drops w3 w4"
    by (rule vw_drops) (simp add: w4_def finish_data_count_def upd_data_view)
  ultimately have d: "drops w w4" by (blast intro: drops_trans)
  have "transfers w2 = transfers w"
    using w2 do_reset_settled[OF assms(1), THEN transfers_settled]
    by (auto simp: finish_data_reset_def Option.bind_eq_Some_conv w1_def split: if_split_asm)
  moreover have "transfers w3 = transfers w2"
    using w3 transfers_post by (auto split: if_split_asm)
  ultimately have t: "transfers w3 = transfers w" by simp
  note t3 = transfersD[OF t]
  have d4: "datas w4 = (datas w)(dp := (datas w dp)\<lparr>d_bytes_xfered :=
        if d_error (datas w dp) \<noteq> None then 0 else d_blksz (datas w dp) * d_blocks (datas w dp)\<rparr>)"
    by (auto simp: w4_def finish_data_count_def upd_data_def t3 fun_eq_iff)
  define q where "q = d_mrq (datas w dp)"
  have q: "q \<in> set (active w)" unfolding q_def by (rule active_ptr(4)[OF assms(3)])
  have m: "mrqs w4 = mrqs w" "h_flags w4 = h_flags w" "\<And>c. c_data (cmds w4 c) = c_data (cmds w c)"
    by (simp_all add: w4_def finish_data_count_def upd_data_def t3)
  have f: "w' = raw_sdhci_finish_mrq q w4 \<and> stop_due dp w = None
      \<or> (\<exists>st. stop_due dp w = Some st \<and> finish_data_stop ops False st q w4 = Some w')"
    using fin unfolding Let_def w4_def[symmetric]
    by (auto simp: d4 m stop_due_def Let_def sdhci_auto_cmd12_def q_def split: option.splits if_splits)
  from f show ?thesis
  proof (elim disjE conjE exE)
    assume a: "w' = raw_sdhci_finish_mrq q w4" "stop_due dp w = None"
    then show ?thesis
      using finish_finishes[OF d assms(2) q] d4 unfolding q_def by simp
  next
    fix st assume a: "stop_due dp w = Some st" "finish_data_stop ops False st q w4 = Some w'"
    have "c_data (cmds w4 st) = None" using assms(5)[OF a(1)] m(3) by simp
    then show ?thesis
      using stop_settles[OF a(2) assms(1,2) d q] d4 a(1) unfolding q_def by simp
  qed
qed

text \<open>The last block of a transfer of four has come in for request 7; command \<open>2 n\<close> is the command of
  request \<open>n\<close> and \<open>2 n + 1\<close> its stop command.\<close>

definition moved_world :: world where
  "moved_world = idle_world\<lparr>h_data := Some 7, h_data_cmd := Some 14,
     cmds := \<lambda>c. blank_cmd\<lparr>c_mrq := c div 2\<rparr>,
     mrqs := \<lambda>q. \<lparr>q_sbc = None, q_cmd = 2 * q, q_data = None, q_cap_cmd_during_tfr = False\<rparr>,
     datas := \<lambda>d. blank_data\<lparr>d_mrq := d, d_blksz := 512, d_blocks := 4,
       d_stop := Some (2 * d + 1)\<rparr>\<rparr>"

theorem finish_data_settles_witness:
  "\<exists>w'. sdhci_finish_data sdhci_pltfm_ops moved_world = Some w'
    \<and> d_bytes_xfered (datas w' 7) = 2048
    \<and> (7 \<in> set (finished w') \<or> h_cmd w' = Some 15 \<or> h_deferred_cmd w' = Some 15)"
proof -
  have i: "req_inv moved_world"
    by (simp add: moved_world_def req_inv_def wf_links_def tracked_def active_def finished_def
        idle_world_def blank_cmd_def blank_data_def SDHCI_MAX_MRQS_def)
  have f: "h_data moved_world = Some 7" "d_mrq (datas moved_world 7) = 7"
    "d_error (datas moved_world 7) = None"
    "d_blksz (datas moved_world 7) * d_blocks (datas moved_world 7) = 2048"
    "stop_due 7 moved_world = Some 15" "c_data (cmds moved_world 15) = None"
    "map_option (\<lambda>w. ()) (sdhci_finish_data sdhci_pltfm_ops moved_world) \<noteq> None"
    by code_simp+
  obtain w' where w': "sdhci_finish_data sdhci_pltfm_ops moved_world = Some w'" using f(7) by auto
  show ?thesis
    using finish_data_settles[OF pulled_inv(2) i f(1) w'] f w' by simp
qed

end
