(* ===== verification/CmdFacts.thy ===== *)
theory CmdFacts
  imports ReqFacts
begin

text \<open>
  One command: when it is issued (argument before command register, under a running timer), what
  its long response is, and what an error interrupt makes of it.
\<close>

subsection \<open>Issuing a command\<close>

lemma transfer_mode_hist [simp]:
  "last_wr32 SDHCI_ARGUMENT (hist (sdhci_set_transfer_mode cp w)) = last_wr32 SDHCI_ARGUMENT (hist w)"
  "cmds (sdhci_set_transfer_mode cp w) = cmds w" "mrqs (sdhci_set_transfer_mode cp w) = mrqs w"
proof -
  have a: "last_wr32 SDHCI_ARGUMENT (hist (snd (sdhci_auto_cmd_select cp m w)))
      = last_wr32 SDHCI_ARGUMENT (hist w)"
    "cmds (snd (sdhci_auto_cmd_select cp m w)) = cmds w"
    "mrqs (snd (sdhci_auto_cmd_select cp m w)) = mrqs w" for m w
    by (simp_all add: sdhci_auto_cmd_select_def Let_def)
  show "last_wr32 SDHCI_ARGUMENT (hist (sdhci_set_transfer_mode cp w)) = last_wr32 SDHCI_ARGUMENT (hist w)"
    "cmds (sdhci_set_transfer_mode cp w) = cmds w" "mrqs (sdhci_set_transfer_mode cp w) = mrqs w"
    by (simp_all add: sdhci_set_transfer_mode_def Let_def split_beta a WARN_ON_def split: option.split)
qed

lemma mod_timer_hist:
  "\<exists>t es. hist (mod_timer dt e w) = TimerStart dt t # es
    \<and> last_wr32 SDHCI_ARGUMENT es = last_wr32 SDHCI_ARGUMENT (hist w)
    \<and> cmds (mod_timer dt e w) = cmds w \<and> mrqs (mod_timer dt e w) = mrqs w"
  by (auto simp: mod_timer_def rt_tick_get_def Let_def WARN_ON_def)

lemma send_issue_hist:
  fixes cp :: cmdp and w :: world
  defines "w' \<equiv> send_issue cp w"
  shows "\<exists>t es. hist w' = Wr16 SDHCI_COMMAND
        (SDHCI_MAKE_CMD (c_opcode (cmds w' cp)) (command_flags (cmds w' cp)))
      # TimerStart (sdhci_data_line_cmd (cmds w' (q_cmd (mrqs w' (c_mrq (cmds w' cp)))))) t # es
    \<and> last_wr32 SDHCI_ARGUMENT es = Some (c_arg (cmds w' cp))"
proof -
  define w1 where "w1 = sdhci_set_transfer_mode cp (sdhci_writel (c_arg (cmds w cp)) SDHCI_ARGUMENT w)"
  define w2 where "w2 = (if tst (c_flags (cmds w1 cp)) MMC_RSP_136 \<and> tst (c_flags (cmds w1 cp)) MMC_RSP_BUSY
    then upd_cmd cp (\<lambda>c. c\<lparr>c_flags := c_flags c AND NOT MMC_RSP_BUSY\<rparr>) (WARN_ON 1616 True w1)
    else w1)"
  define w3 where "w3 = snd (request_timeout cp w2)"
  define w4 where "w4 = sdhci_mod_timer (c_mrq (cmds w3 cp)) (fst (request_timeout cp w2)) w3"
  have w1: "last_wr32 SDHCI_ARGUMENT (hist w1) = Some (c_arg (cmds w cp))" "cmds w1 = cmds w"
    by (simp_all add: w1_def)
  have w2: "last_wr32 SDHCI_ARGUMENT (hist w2) = Some (c_arg (cmds w2 cp))"
    using w1 by (simp add: w2_def upd_cmd_def WARN_ON_def)
  have w3: "cmds w3 = cmds w2" "mrqs w3 = mrqs w2"
    "last_wr32 SDHCI_ARGUMENT (hist w3) = last_wr32 SDHCI_ARGUMENT (hist w2)"
    by (simp_all add: w3_def request_timeout_def jiffies_def rt_tick_get_def Let_def)
  obtain t es where w4: "hist w4 = TimerStart (sdhci_data_line_cmd
        (cmds w3 (q_cmd (mrqs w3 (c_mrq (cmds w3 cp)))))) t # es"
    "last_wr32 SDHCI_ARGUMENT es = last_wr32 SDHCI_ARGUMENT (hist w3)"
    "cmds w4 = cmds w3" "mrqs w4 = mrqs w3"
    using mod_timer_hist unfolding w4_def sdhci_mod_timer_def by blast
  have "w' = sdhci_writew (SDHCI_MAKE_CMD (c_opcode (cmds w4 cp)) (command_flags (cmds w2 cp)))
      SDHCI_COMMAND w4"
    unfolding w'_def send_issue_def Let_def w1_def[symmetric] w2_def[symmetric]
    by (simp add: split_beta w3_def[symmetric] w4_def[symmetric])
  then show ?thesis using w2 w3 w4 by simp
qed

text \<open>The data line belongs to a command with data, a busy response, or the stop command of a
  controller that raises "transfer complete" for it.\<close>

definition needs_data_line :: "cmdp \<Rightarrow> world \<Rightarrow> bool" where
  "needs_data_line cp w \<longleftrightarrow>
     (let c = cmds w cp
      in (c_data c \<noteq> None \<or> c_flags c AND MMC_RSP_BUSY \<noteq> 0
          \<or> h_quirks2 w AND SDHCI_QUIRK2_STOP_WITH_TC \<noteq> 0 \<and> c_opcode c = MMC_STOP_TRANSMISSION)
       \<and> (case q_data (mrqs w (c_mrq c)) of None \<Rightarrow> True | Some dp \<Rightarrow> d_stop (datas w dp) \<noteq> Some cp))"

lemma send_free_lines:
  fixes cp :: cmdp and w :: world
  defines "p \<equiv> send_prologue cp w"
  assumes "\<not> tst (fst (sdhci_readl SDHCI_PRESENT_STATE p)) (inhibit_mask cp p)"
  defines "s \<equiv> e_rd w (hist (WARN_ON 1575 (h_cmd w \<noteq> None) w)) SDHCI_PRESENT_STATE"
  shows "s AND 1 = 0 \<and> (needs_data_line cp w \<longrightarrow> s AND 2 = 0)"
proof -
  define q where "q \<longleftrightarrow> tst (h_quirks2 w) SDHCI_QUIRK2_STOP_WITH_TC
    \<and> c_opcode (cmds w cp) = MMC_STOP_TRANSMISSION"
  have f: "mrqs p = mrqs w" "datas p = datas w" "c_mrq (cmds p cp) = c_mrq (cmds w cp)"
    "c_data (cmds p cp) = c_data (cmds w cp)"
    "c_flags (cmds p cp) = (if q then c_flags (cmds w cp) OR MMC_RSP_BUSY else c_flags (cmds w cp))"
    "fst (sdhci_readl SDHCI_PRESENT_STATE p) = s"
    by (auto simp: p_def s_def send_prologue_def Let_def set_cmd_error_def upd_cmd_def q_def
        WARN_ON_def)
  define d where "d \<longleftrightarrow> sdhci_data_line_cmd (cmds p cp)"
  have d: "d \<longleftrightarrow> c_data (cmds w cp) \<noteq> None \<or> tst (c_flags (cmds w cp)) MMC_RSP_BUSY \<or> q"
    unfolding d_def sdhci_data_line_cmd_def f by (auto simp: tst_def)
  have n: "needs_data_line cp w \<longleftrightarrow> d \<and> (case q_data (mrqs w (c_mrq (cmds w cp))) of None \<Rightarrow> True
      | Some dp \<Rightarrow> d_stop (datas w dp) \<noteq> Some cp)"
    unfolding needs_data_line_def Let_def d q_def tst_def ..
  have m: "inhibit_mask cp p = (if needs_data_line cp w then 3 else 1)"
    unfolding n inhibit_mask_def Let_def d_def[symmetric] f by (simp split: option.split)
  have "s AND 1 = (s AND 3) AND 1" "s AND 2 = (s AND 3) AND 2" by (simp_all add: and.assoc)
  then have "s AND 1 = 0 \<and> s AND 2 = 0" if "s AND 3 = 0" unfolding that by simp
  then show ?thesis using assms(2) unfolding f m by (simp add: tst_def split: if_split_asm)
qed

text \<open>C28. A command is sent only when the present state register, as it reads when the command is
  tried, has the bit 0 "command inhibit" clear, and the bit 1 "data inhibit" too if the command
  needs the data line and is not the stop command of its own transfer.  Then the last thing written
  is the command register, with the opcode of the command, after the argument of the command is in
  its register and the timer that watches the command runs.\<close>

theorem send_command_issues:
  fixes cp :: cmdp and w w' :: world
  defines "c \<equiv> cmds w' cp"
  defines "s \<equiv> e_rd w (hist (WARN_ON 1575 (h_cmd w \<noteq> None) w)) SDHCI_PRESENT_STATE"
  assumes "sdhci_send_command ops cp w = Some (True, w')"
  shows "(\<exists>v t es. hist w' = Wr16 SDHCI_COMMAND v
        # TimerStart (sdhci_data_line_cmd (cmds w' (q_cmd (mrqs w' (c_mrq c))))) t # es
      \<and> v = SDHCI_MAKE_CMD (c_opcode c) (command_flags c)
      \<and> SDHCI_GET_CMD v = c_opcode c AND 0x3f
      \<and> last_wr32 SDHCI_ARGUMENT es = Some (c_arg c))
    \<and> s AND 1 = 0 \<and> (needs_data_line cp w \<longrightarrow> s AND 2 = 0)"
proof -
  obtain w1 where w1: "w' = send_issue cp w1"
    and free: "\<not> tst (fst (sdhci_readl SDHCI_PRESENT_STATE (send_prologue cp w)))
         (inhibit_mask cp (send_prologue cp w))"
    using assms(3) unfolding sdhci_send_command_def Let_def
    by (auto simp: Option.bind_eq_Some_conv split_beta split: if_split_asm)
  show ?thesis
    using send_issue_hist[of cp w1] send_free_lines[OF free] unfolding w1[symmetric] c_def s_def
    by (auto simp: SDHCI_GET_MAKE_CMD)
qed

text \<open>The first command of a request on an idle controller.\<close>

definition free_world :: world where
  "free_world = idle_world\<lparr>cmds := \<lambda>c. blank_cmd\<lparr>c_mrq := c, c_opcode := 17, c_arg := 0x1234\<rparr>\<rparr>"

theorem send_command_issues_witness:
  "\<exists>w' t es. sdhci_send_command sdhci_pltfm_ops 7 free_world = Some (True, w')
    \<and> hist w' = Wr16 SDHCI_COMMAND 0x1100 # TimerStart False t # es
    \<and> last_wr32 SDHCI_ARGUMENT es = Some 0x1234"
proof -
  have r: "map_option (\<lambda>(ok, w'). (ok, cmds w' 7, mrqs w' 7)) (sdhci_send_command sdhci_pltfm_ops 7 free_world)
      = Some (True, cmds free_world 7, mrqs free_world 7)"
    by (simp add: sdhci_send_command_def free_world_def send_prologue_def set_cmd_error_def
        upd_cmd_def inhibit_mask_def sdhci_data_line_cmd_def tst_def send_claim_def send_data_def
        blank_cmd_def send_issue_def sdhci_set_transfer_mode_def request_timeout_def jiffies_def
        rt_tick_get_def sdhci_mod_timer_def mod_timer_def Let_def)
  then obtain w' where w': "sdhci_send_command sdhci_pltfm_ops 7 free_world = Some (True, w')"
    "cmds w' 7 = cmds free_world 7" "mrqs w' 7 = mrqs free_world 7" by auto
  have c: "cmds free_world 7 = blank_cmd\<lparr>c_mrq := 7, c_opcode := 17, c_arg := 0x1234\<rparr>"
    "mrqs free_world 7 = \<lparr>q_sbc = None, q_cmd = 7, q_data = None, q_cap_cmd_during_tfr = False\<rparr>"
    by (simp_all add: free_world_def)
  obtain t es where "hist w' = Wr16 SDHCI_COMMAND (SDHCI_MAKE_CMD 17 (command_flags (cmds free_world 7)))
      # TimerStart (sdhci_data_line_cmd (cmds free_world 7)) t # es"
    "last_wr32 SDHCI_ARGUMENT es = Some 0x1234"
    using send_command_issues[OF w'(1)] w'(2,3) c by (auto simp: blank_cmd_def)
  moreover have "SDHCI_MAKE_CMD 17 (command_flags (cmds free_world 7)) = 0x1100"
    "\<not> sdhci_data_line_cmd (cmds free_world 7)"
    by code_simp+
  ultimately show ?thesis using w'(1) by auto
qed

subsection \<open>The long response\<close>

text \<open>The four words as one number, most significant first.\<close>

definition resp_bits :: "u32 list \<Rightarrow> 128 word" where
  "resp_bits r = push_bit 96 (ucast (r ! 0)) OR push_bit 64 (ucast (r ! 1))
     OR push_bit 32 (ucast (r ! 2)) OR ucast (r ! 3)"

fun read_values :: "nat list \<Rightarrow> world \<Rightarrow> u32 list" where
  "read_values [] w = []"
| "read_values (r # rs) w = (let (v, w) = sdhci_readl r w in v # read_values rs w)"

lemma shift_word:
  "push_bit 8 (ucast x :: 128 word) = push_bit 32 (ucast (drop_bit 24 x)) OR ucast (push_bit 8 (x :: u32))"
  by (rule bit_word_eqI) (auto simp: bit_simps)

lemma shift_word_at:
  "push_bit n (push_bit 8 (ucast x :: 128 word))
     = push_bit (n + 32) (ucast (drop_bit 24 x)) OR push_bit n (ucast (push_bit 8 (x :: u32)))"
  unfolding shift_word by (simp add: push_bit_or push_bit_push_bit)

lemma shift_rsp_bits:
  "resp_bits (shift_rsp [0, 1, 2, 3] [a, b, c, d]) = push_bit 8 (resp_bits [a, b, c, d])"
proof -
  have s: "shift_rsp [0, 1, 2, 3] [a, b, c, d]
      = [push_bit 8 a OR drop_bit 24 b, push_bit 8 b OR drop_bit 24 c,
         push_bit 8 c OR drop_bit 24 d, push_bit 8 d]"
    by simp
  have c: "push_bit 8 (push_bit n y) = push_bit n (push_bit 8 y)" for n and y :: "128 word"
    by (simp add: push_bit_push_bit add.commute)
  have "push_bit 128 y = 0" for y :: "128 word" by (rule bit_word_eqI) (simp add: bit_simps)
  then have "push_bit 8 (resp_bits [a, b, c, d])
      = push_bit 96 (ucast (push_bit 8 a)) OR (push_bit 96 (ucast (drop_bit 24 b)) OR push_bit 64 (ucast (push_bit 8 b)))
        OR (push_bit 64 (ucast (drop_bit 24 c)) OR push_bit 32 (ucast (push_bit 8 c)))
        OR (push_bit 32 (ucast (drop_bit 24 d)) OR ucast (push_bit 8 d))"
    using shift_word_at[of 96 a] shift_word_at[of 64 b] shift_word_at[of 32 c] shift_word[of d]
    by (simp only: resp_bits_def nth_Cons_0 nth_Cons_Suc numeral_2_eq_2 numeral_3_eq_3 One_nat_def
        push_bit_or c) simp
  then show ?thesis
    unfolding s by (simp add: resp_bits_def push_bit_or unsigned_or_eq ac_simps)
qed

lemma list4:
  assumes "length r = 4"
  obtains a b c d where "r = [a, b, c, d]"
  using assms by (auto simp: length_Suc_conv eval_nat_numeral)

lemma read_rsp_regs_values:
  assumes "length (c_resp (cmds w cp)) = 4"
  shows "c_resp (cmds (read_rsp_regs [0, 1, 2, 3] cp w) cp) = read_values
      [SDHCI_RESPONSE + 12, SDHCI_RESPONSE + 8, SDHCI_RESPONSE + 4, SDHCI_RESPONSE] w"
proof -
  obtain a b c d where "c_resp (cmds w cp) = [a, b, c, d]" by (rule list4[OF assms])
  then show ?thesis by (simp add: set_resp_def upd_cmd_def)
qed

text \<open>C29. The 136-bit response is read most significant word first, and, where the controller has
  stripped the CRC, moved up by a byte over word boundaries, so that the bits stand where the
  card put them.\<close>

theorem read_rsp_136_bits:
  assumes "length (c_resp (cmds w cp)) = 4"
  shows "resp_bits (c_resp (cmds (sdhci_read_rsp_136 cp w) cp))
    = push_bit (if tst (h_quirks2 w) SDHCI_QUIRK2_RSP_136_HAS_CRC then 0 else 8)
        (resp_bits (read_values
          [SDHCI_RESPONSE + 12, SDHCI_RESPONSE + 8, SDHCI_RESPONSE + 4, SDHCI_RESPONSE] w))"
proof -
  define w1 where "w1 = read_rsp_regs [0, 1, 2, 3] cp w"
  note v = read_rsp_regs_values[OF assms, folded w1_def]
  have q: "h_quirks2 w1 = h_quirks2 w" by (simp add: w1_def set_resp_def upd_cmd_def)
  obtain a b c d where r: "c_resp (cmds w1 cp) = [a, b, c, d]"
    by (rule list4[of "c_resp (cmds w1 cp)"]) (simp add: v)
  have "c_resp (cmds (sdhci_read_rsp_136 cp w) cp)
      = (if tst (h_quirks2 w) SDHCI_QUIRK2_RSP_136_HAS_CRC then c_resp (cmds w1 cp)
         else shift_rsp [0, 1, 2, 3] (c_resp (cmds w1 cp)))"
    unfolding sdhci_read_rsp_136_def Let_def w1_def[symmetric] q
    by (simp add: upd_cmd_def del: shift_rsp.simps)
  then show ?thesis
    using shift_rsp_bits[of a b c d] v r by (simp del: shift_rsp.simps read_values.simps)
qed

text \<open>A controller whose response registers hold 0, 1, 2 and 3.\<close>

definition resp_world :: world where
  "resp_world = blank_world\<lparr>e_rd := \<lambda>_ r. if r = 0x10 then 0xff000000 else if r = 0x1c then 3 else 0\<rparr>"

theorem read_rsp_136_bits_witness:
  "resp_bits (c_resp (cmds (sdhci_read_rsp_136 0 resp_world) 0)) = push_bit 104 3 OR 0xff00000000"
proof -
  have "length (c_resp (cmds resp_world 0)) = 4"
    by (simp add: resp_world_def blank_cmd_def)
  moreover have "\<not> tst (h_quirks2 resp_world) SDHCI_QUIRK2_RSP_136_HAS_CRC"
    by (simp add: resp_world_def tst_def)
  moreover have "read_values [0x1c, 0x18, 0x14, 0x10] resp_world = [3, 0, 0, 0xff000000]"
    by (simp add: resp_world_def)
  ultimately show ?thesis
    using read_rsp_136_bits[of resp_world 0] by (simp add: resp_bits_def del: read_values.simps)
qed

subsection \<open>Error interrupts\<close>

lemma cmd_irq_error_result:
  assumes i: "req_inv w" and cp: "h_cmd w = Some cp"
    and run: "cmd_irq_error intmask m cp w = (m', w')"
  shows "c_error (cmds w' cp) = Some (if tst intmask SDHCI_INT_TIMEOUT then ETIMEDOUT else EILSEQ)
    \<and> h_cmd w' = None
    \<and> (if c_data (cmds w cp) \<noteq> None
          \<and> intmask AND (SDHCI_INT_CRC OR SDHCI_INT_TIMEOUT) = SDHCI_INT_CRC
       then m' = m OR SDHCI_INT_DATA_CRC \<and> finished w' = finished w
       else m' = m \<and> c_mrq (cmds w cp) \<in> set (finished w'))"
proof -
  define w1 where "w1 = set_cmd_error cp
    (Some (if tst intmask SDHCI_INT_TIMEOUT then ETIMEDOUT else EILSEQ)) w"
  define q where "q = c_mrq (cmds w cp)"
  define b where "b \<longleftrightarrow> c_data (cmds w cp) \<noteq> None
      \<and> intmask AND (SDHCI_INT_CRC OR SDHCI_INT_TIMEOUT) = SDHCI_INT_CRC"
  have v: "vw w1 = vw w" by (simp add: w1_def)
  have c: "c_error (cmds w1 cp) = Some (if tst intmask SDHCI_INT_TIMEOUT then ETIMEDOUT else EILSEQ)"
    "c_mrq (cmds w1 cp) = q" "h_cmd w1 = Some cp" "c_data (cmds w1 cp) = c_data (cmds w cp)"
    using vw_h_cmd[OF v] cp linksD(2)[OF vw_links[OF v]] by (simp_all add: w1_def q_def)
  have i1: "req_inv w1" "q \<in> tracked w1"
    unfolding req_inv_view(1,2)[OF v] using i active_ptr(1)[OF cp] by (simp_all add: tracked_def q_def)
  have "(m', w') = (if b then (m OR SDHCI_INT_DATA_CRC, w1\<lparr>h_cmd := None\<rparr>)
      else (m, raw_sdhci_finish_mrq q w1))"
    unfolding run[symmetric] cmd_irq_error_def Let_def w1_def[symmetric] c(2,4) b_def ..
  then show ?thesis
    using finish_keeps(3)[OF i1] c req_inv_view(3)[OF v]
    unfolding b_def[symmetric] q_def[symmetric]
    by (cases b) (simp_all add: forget_cmd_def finished_def)
qed

lemma cmd_irq_plain_error:
  assumes "req_inv w" "h_cmd w = Some cp" "fst (auto_cmd12_error intmask m w) = None"
    and "tst intmask (SDHCI_INT_TIMEOUT OR SDHCI_INT_CRC OR SDHCI_INT_END_BIT OR SDHCI_INT_INDEX)"
    and "sdhci_cmd_irq ops intmask m w = Some (m', w')"
  shows "c_error (cmds w' cp) = Some (if tst intmask SDHCI_INT_TIMEOUT then ETIMEDOUT else EILSEQ)
    \<and> h_cmd w' = None
    \<and> (if c_data (cmds w cp) \<noteq> None
          \<and> intmask AND (SDHCI_INT_CRC OR SDHCI_INT_TIMEOUT) = SDHCI_INT_CRC
       then m' = m OR SDHCI_INT_DATA_CRC \<and> finished w' = finished w
       else m' = m \<and> c_mrq (cmds w cp) \<in> set (finished w'))"
proof -
  define w1 where "w1 = snd (auto_cmd12_error intmask m w)"
  have v: "vw w1 = vw w" by (simp add: w1_def)
  have "h_cmd w1 = Some cp" "req_inv w1"
    using vw_h_cmd[OF v] assms(1,2) req_inv_view(1)[OF v] by simp_all
  moreover have "cmd_irq_error intmask m cp w1 = (m', w')"
    using assms(3-5) calculation(1)
    by (simp add: sdhci_cmd_irq_def split_beta w1_def[symmetric])
  ultimately show ?thesis
    using cmd_irq_error_result[of w1 cp intmask m m' w'] linksD(1)[OF vw_links[OF v]]
      linksD(2)[OF vw_links[OF v]] req_inv_view(3)[OF v] by metis
qed

text \<open>The other case: the error of an automatic CMD12 (no CMD23 was asked for) while a command holds
  the data line.\<close>

definition auto_cmd12_failed :: "u32 \<Rightarrow> world \<Rightarrow> bool" where
  "auto_cmd12_failed intmask w \<longleftrightarrow> intmask AND SDHCI_INT_AUTO_CMD_ERR \<noteq> 0
     \<and> h_flags w AND SDHCI_AUTO_CMD12 \<noteq> 0
     \<and> (case h_data_cmd w of None \<Rightarrow> False
        | Some dc \<Rightarrow> q_sbc (mrqs w (c_mrq (cmds w dc))) = None)"

lemma auto_cmd12_error_eq:
  "fst (auto_cmd12_error intmask m w) =
     (if auto_cmd12_failed intmask w
      then Some (m OR (if e_rd w (hist w) SDHCI_AUTO_CMD_STATUS AND 2 \<noteq> 0
                       then SDHCI_INT_DATA_TIMEOUT else SDHCI_INT_DATA_CRC))
      else None)"
  "snd (auto_cmd12_error intmask m w) = w
    \<or> snd (auto_cmd12_error intmask m w) = emit (Rd16 SDHCI_AUTO_CMD_STATUS) w"
proof -
  have u: "(ucast x :: u16) AND 2 = 0 \<longleftrightarrow> x AND 2 = 0" for x :: u32
    using and_exp_eq_0_iff_not_bit[of "ucast x :: u16" 1] and_exp_eq_0_iff_not_bit[of x 1]
    by (simp add: bit_simps)
  show "fst (auto_cmd12_error intmask m w) =
     (if auto_cmd12_failed intmask w
      then Some (m OR (if e_rd w (hist w) SDHCI_AUTO_CMD_STATUS AND 2 \<noteq> 0
                       then SDHCI_INT_DATA_TIMEOUT else SDHCI_INT_DATA_CRC))
      else None)"
    by (auto simp: auto_cmd12_error_def auto_cmd12_failed_def Let_def tst_def u split: option.split)
  show "snd (auto_cmd12_error intmask m w) = w
    \<or> snd (auto_cmd12_error intmask m w) = emit (Rd16 SDHCI_AUTO_CMD_STATUS) w"
    by (auto simp: auto_cmd12_error_def Let_def split: option.split)
qed

text \<open>C30. An error interrupt of a command is never lost.  If it comes with the error of an automatic
  CMD12, a data timeout or data CRC error is reported, as the controller's status says, which ends
  the transfer and with it the request; the command keeps its line and gets no error.  Otherwise the
  command carries the error, leaves its line, and its request is finished, unless only the response
  was damaged while data may still be moving; then a data CRC error is reported.\<close>

theorem cmd_error_reported:
  assumes "req_inv w" "h_cmd w = Some cp"
    and "tst intmask (SDHCI_INT_TIMEOUT OR SDHCI_INT_CRC OR SDHCI_INT_END_BIT OR SDHCI_INT_INDEX)"
    and "sdhci_cmd_irq ops intmask m w = Some (m', w')"
  shows "if auto_cmd12_failed intmask w then
      m' = m OR (if e_rd w (hist w) SDHCI_AUTO_CMD_STATUS AND 2 \<noteq> 0
                 then SDHCI_INT_DATA_TIMEOUT else SDHCI_INT_DATA_CRC)
      \<and> cmds w' = cmds w \<and> h_cmd w' = Some cp \<and> finished w' = finished w
    else
      c_error (cmds w' cp) = Some (if tst intmask SDHCI_INT_TIMEOUT then ETIMEDOUT else EILSEQ)
      \<and> h_cmd w' = None
      \<and> (if c_data (cmds w cp) \<noteq> None
            \<and> intmask AND (SDHCI_INT_CRC OR SDHCI_INT_TIMEOUT) = SDHCI_INT_CRC
         then m' = m OR SDHCI_INT_DATA_CRC \<and> finished w' = finished w
         else m' = m \<and> c_mrq (cmds w cp) \<in> set (finished w'))"
proof (cases "auto_cmd12_failed intmask w")
  case True
  define b :: u32 where "b = (if e_rd w (hist w) SDHCI_AUTO_CMD_STATUS AND 2 \<noteq> 0
    then SDHCI_INT_DATA_TIMEOUT else SDHCI_INT_DATA_CRC)"
  have "fst (auto_cmd12_error intmask m w) = Some (m OR b)"
    using True by (simp add: auto_cmd12_error_eq b_def)
  then have "m' = m OR b" "w' = snd (auto_cmd12_error intmask m w)"
    using assms(4) by (simp_all add: sdhci_cmd_irq_def split_beta)
  moreover from this(2) have "cmds w' = cmds w \<and> h_cmd w' = h_cmd w \<and> finished w' = finished w"
    using auto_cmd12_error_eq(2)[of intmask m w] by (auto simp: finished_def)
  ultimately show ?thesis using True assms(2) by (simp add: b_def)
next
  case False
  then have "fst (auto_cmd12_error intmask m w) = None" by (simp add: auto_cmd12_error_eq)
  from cmd_irq_plain_error[OF assms(1,2) this assms(3,4)] False show ?thesis by simp
qed

theorem cmd_error_reported_witness:
  "\<exists>w'. sdhci_cmd_irq sdhci_pltfm_ops SDHCI_INT_TIMEOUT 0 pulled_world = Some (0, w')
    \<and> c_error (cmds w' 7) = Some ETIMEDOUT \<and> 7 \<in> set (finished w')"
proof -
  have p: "h_cmd pulled_world = Some 7" "fst (auto_cmd12_error SDHCI_INT_TIMEOUT 0 pulled_world) = None"
    "c_data (cmds pulled_world 7) = None" "c_mrq (cmds pulled_world 7) = 7"
    "snd (auto_cmd12_error SDHCI_INT_TIMEOUT 0 pulled_world) = pulled_world"
    by (simp_all add: pulled_world_def idle_world_def auto_cmd12_error_def blank_cmd_def)
  obtain m' w' where run: "sdhci_cmd_irq sdhci_pltfm_ops SDHCI_INT_TIMEOUT 0 pulled_world = Some (m', w')"
    using p by (cases "cmd_irq_error SDHCI_INT_TIMEOUT 0 7 pulled_world")
      (simp add: sdhci_cmd_irq_def split_beta tst_def)
  then show ?thesis
    using cmd_error_reported[OF pulled_inv(1) p(1) _ run] p
    by (simp add: tst_def auto_cmd12_failed_def)
qed

end
