(* ===== verification/PioFacts.thy ===== *)
theory PioFacts
  imports CmdFacts
begin

text \<open>
  Programmed I/O: what goes through the buffer port for a block that lies in one chunk of the
  scatter list iterator, and what happens with an iterator that has no chunk at all, which is
  the one the port leaves the driver with.
\<close>

subsection \<open>Bytes and words\<close>

fun load_bytes :: "memory \<Rightarrow> u64 \<Rightarrow> nat \<Rightarrow> u8 list" where
  "load_bytes m a 0 = []"
| "load_bytes m a (Suc n) = m a # load_bytes m (a + 1) n"

text \<open>The words of the buffer port that carry a sequence of bytes, the last one filled up with
  zeros.\<close>

fun port_words :: "u8 list \<Rightarrow> u32 list" where
  "port_words (a # b # c # d # bs) = of_le32 a b c d # port_words bs"
| "port_words [] = []"
| "port_words bs = [of_le32 (hd (bs @ [0])) (hd (tl bs @ [0])) (hd (tl (tl bs) @ [0])) 0]"

lemma four_steps:
  obtains "n < 4" | k where "n = Suc (Suc (Suc (Suc k)))"
  using nat_le_iff_add[of 4 n] by (cases "n < 4") auto

subsection \<open>A block that is written\<close>

lemma write_bytes:
  "pio_write_bytes n 0 buf 0 0 w = (0, 0,
     w\<lparr>hist := rev (map (Wr32 SDHCI_BUFFER) (port_words (load_bytes (mem w) buf n))) @ hist w\<rparr>)"
proof (induction n arbitrary: buf w rule: less_induct)
  case (less n)
  show ?case
  proof (cases rule: four_steps[of n])
    case 1
    then consider "n = 0" | "n = 1" | "n = 2" | "n = 3" by linarith
    then show ?thesis
      by cases (simp_all add: numeral_2_eq_2 numeral_3_eq_3 of_le32_def emit_def add.assoc or.assoc)
  next
    case (2 k)
    have "buf + 1 + 1 + 1 + 1 = buf + 4" by simp
    moreover have "of_le32 a b c d = ((ucast a OR push_bit 8 (ucast b)) OR push_bit 16 (ucast c))
        OR push_bit 24 (ucast d)" for a b c d
      by (simp add: of_le32_def ac_simps)
    ultimately show ?thesis
      using less.IH[of k "buf + 4"]
      by (simp add: 2 emit_def add.assoc)
  qed
qed

subsection \<open>A block that is read\<close>

abbreviation port_reads :: "nat \<Rightarrow> world \<Rightarrow> u32 list" where
  "port_reads k w \<equiv> read_values (replicate k SDHCI_BUFFER) w"

lemma read_values_view:
  "e_rd w' = e_rd w \<Longrightarrow> hist w' = hist w \<Longrightarrow> read_values rs w' = read_values rs w"
proof (induction rs arbitrary: w w')
  case (Cons r rs)
  show ?case
    using Cons.IH[of "emit (Rd32 r) w'" "emit (Rd32 r) w"] Cons.prems by (simp add: emit_def)
qed simp

lemma read_values_mem [simp]: "read_values rs (w\<lparr>hist := h, mem := m\<rparr>) = read_values rs (w\<lparr>hist := h\<rparr>)"
  by (rule read_values_view) simp_all

lemma read_few:
  "snd (snd (pio_read_bytes (Suc 0) buf 0 s w)) = w\<lparr>hist := Rd32 SDHCI_BUFFER # hist w,
     mem := store_bytes (mem w) buf (take (Suc 0) (le32 (e_rd w (hist w) SDHCI_BUFFER)))\<rparr>"
  "snd (snd (pio_read_bytes (Suc (Suc 0)) buf 0 s w)) = w\<lparr>hist := Rd32 SDHCI_BUFFER # hist w,
     mem := store_bytes (mem w) buf (take (Suc (Suc 0)) (le32 (e_rd w (hist w) SDHCI_BUFFER)))\<rparr>"
  "snd (snd (pio_read_bytes (Suc (Suc (Suc 0))) buf 0 s w)) = w\<lparr>hist := Rd32 SDHCI_BUFFER # hist w,
     mem := store_bytes (mem w) buf (take (Suc (Suc (Suc 0))) (le32 (e_rd w (hist w) SDHCI_BUFFER)))\<rparr>"
  by (simp_all add: le32_def emit_def add.assoc)

lemma read_four:
  "pio_read_bytes (Suc (Suc (Suc (Suc k)))) buf 0 s w
     = pio_read_bytes k (buf + 4) 0 (drop_bit 32 (e_rd w (hist w) SDHCI_BUFFER))
         (w\<lparr>hist := Rd32 SDHCI_BUFFER # hist w,
            mem := store_bytes (mem w) buf (le32 (e_rd w (hist w) SDHCI_BUFFER))\<rparr>)"
  by (simp add: le32_def emit_def add.assoc)

lemma read_bytes:
  "snd (snd (pio_read_bytes n buf 0 s w)) =
     w\<lparr>hist := replicate ((n + 3) div 4) (Rd32 SDHCI_BUFFER) @ hist w,
       mem := store_bytes (mem w) buf (take n (concat (map le32 (port_reads ((n + 3) div 4) w))))\<rparr>"
proof (induction n arbitrary: buf s w rule: less_induct)
  case (less n)
  show ?case
  proof (cases rule: four_steps[of n])
    case 1
    then consider "n = 0" | "n = Suc 0" | "n = Suc (Suc 0)" | "n = Suc (Suc (Suc 0))" by linarith
    then show ?thesis
    proof cases
      case 2
      then have "(n + 3) div 4 = 1" by simp
      then show ?thesis by (simp only: 2 read_few) simp
    next
      case 3
      then have "(n + 3) div 4 = 1" by simp
      then show ?thesis by (simp only: 3 read_few) simp
    next
      case 4
      then have "(n + 3) div 4 = 1" by simp
      then show ?thesis by (simp only: 4 read_few) simp
    qed simp
  next
    case (2 k)
    have d: "(n + 3) div 4 = Suc ((k + 3) div 4)" by (simp add: 2)
    have t: "take n (le32 v @ bs) = le32 v @ take k bs" for v bs by (simp add: 2)
    have l: "length (le32 v) = 4" for v by simp
    show ?thesis
      unfolding d using less.IH[of k "buf + 4"]
      by (simp only: 2(1) read_four) (simp add: t[unfolded 2(1)] store_bytes_append emit_def
          replicate_app_Cons_same)
  qed
qed

text \<open>A device that gives back the words it was given gives back the bytes.\<close>

lemma u8_bits: "8 \<le> n \<Longrightarrow> \<not> bit (v :: u8) n"
  using bit_imp_le_length[of v n] by auto

lemma le32_of_le32: "le32 (of_le32 a b c d) = [a, b, c, d]"
  unfolding le32_def of_le32_def
  by (auto intro!: bit_word_eqI simp: bit_simps u8_bits)

lemma port_words_bytes: "take (length bs) (concat (map le32 (port_words bs))) = bs"
  by (induction bs rule: port_words.induct) (simp_all add: le32_of_le32)

lemma length_load [simp]: "length (load_bytes m a n) = n"
  by (induction n arbitrary: a) simp_all

subsection \<open>Whole blocks\<close>

declare pio_read_loop.simps [code] pio_write_loop.simps [code]

lemma loop_done: "pio_write_loop 0 c s w = Some w" "pio_read_loop 0 c s w = Some w"
  by (simp_all add: pio_write_loop.simps pio_read_loop.simps)

lemma pio_write_chunk:
  assumes "0 < n" "n \<le> unat (mi_length (h_sg_miter w))"
  shows "pio_write_loop n 0 0 w = Some ((miter_consume n w)\<lparr>hist :=
    rev (map (Wr32 SDHCI_BUFFER) (port_words (load_bytes (mem w) (mi_addr (h_sg_miter w)) n))) @ hist w\<rparr>)"
  using assms
  by (subst pio_write_loop.simps)
    (simp add: sg_miter_next_def min_absorb2 write_bytes miter_consume_def loop_done)

lemma pio_read_chunk:
  assumes "0 < n" "n \<le> unat (mi_length (h_sg_miter w))"
  shows "pio_read_loop n 0 0 w = Some ((miter_consume n w)\<lparr>
    hist := replicate ((n + 3) div 4) (Rd32 SDHCI_BUFFER) @ hist w,
    mem := store_bytes (mem w) (mi_addr (h_sg_miter w))
      (take n (concat (map le32 (port_reads ((n + 3) div 4) w))))\<rparr>)"
proof -
  define w1 where "w1 = miter_consume n w"
  have w1: "mi_addr (h_sg_miter w1) = mi_addr (h_sg_miter w)" "mem w1 = mem w" "hist w1 = hist w"
    by (simp_all add: w1_def miter_consume_def)
  have r: "read_values rs w1 = read_values rs w" for rs
    by (rule read_values_view) (simp_all add: w1_def miter_consume_def)
  show ?thesis
    using assms read_bytes[of n "mi_addr (h_sg_miter w)" 0 w1]
    by (subst pio_read_loop.simps)
      (simp add: sg_miter_next_def min_absorb2 w1_def[symmetric] w1 r split_beta loop_done)
qed

lemma pio_empty_chunk:
  "pio_write_loop n c s w = Some w' \<Longrightarrow> mi_length (h_sg_miter w) = 0 \<longrightarrow> n = 0"
proof (induction rule: pio_write_loop.raw_induct[rotated, consumes 1, case_names step])
  case (step loop n c s w w')
  then show ?case
    by (fastforce simp: sg_miter_next_def miter_consume_def split: if_splits)
qed

lemma pio_empty_chunk_read:
  "pio_read_loop n c s w = Some w' \<Longrightarrow> mi_length (h_sg_miter w) = 0 \<longrightarrow> n = 0"
proof (induction rule: pio_read_loop.raw_induct[rotated, consumes 1, case_names step])
  case (step loop n c s w w')
  then show ?case
    by (fastforce simp: sg_miter_next_def miter_consume_def split: if_splits)
qed

text \<open>C36. A block that lies in the chunk of the iterator is moved completely: written, its bytes go to
  the buffer port in little-endian words, the last filled up with zeros; read, the words of the
  port are stored byte by byte, and what was written would be stored unchanged.  With an empty
  chunk, which is all the iterator of the port ever has, neither loop ends.\<close>

theorem pio_block:
  assumes "h_data w = Some dp" "n = unat (d_blksz (datas w dp))" "0 < n"
    and "a = mi_addr (h_sg_miter w)"
  shows "(n \<le> unat (mi_length (h_sg_miter w)) \<longrightarrow>
      sdhci_write_block_pio w = Some ((miter_consume n w)\<lparr>hist :=
        rev (map (Wr32 SDHCI_BUFFER) (port_words (load_bytes (mem w) a n))) @ hist w\<rparr>)
      \<and> sdhci_read_block_pio w = Some ((miter_consume n w)\<lparr>
        hist := replicate ((n + 3) div 4) (Rd32 SDHCI_BUFFER) @ hist w,
        mem := store_bytes (mem w) a (take n (concat (map le32 (port_reads ((n + 3) div 4) w))))\<rparr>))
    \<and> take n (concat (map le32 (port_words (load_bytes (mem w) a n)))) = load_bytes (mem w) a n
    \<and> (mi_length (h_sg_miter w) = 0 \<longrightarrow>
      sdhci_write_block_pio w = None \<and> sdhci_read_block_pio w = None)"
proof (intro conjI impI)
  assume le: "n \<le> unat (mi_length (h_sg_miter w))"
  show "sdhci_write_block_pio w = Some ((miter_consume n w)\<lparr>hist :=
      rev (map (Wr32 SDHCI_BUFFER) (port_words (load_bytes (mem w) a n))) @ hist w\<rparr>)"
    unfolding sdhci_write_block_pio_def assms(1,4) Option.bind.simps assms(2)[symmetric]
    using pio_write_chunk[OF assms(3) le] by (simp add: sg_miter_stop_def)
  show "sdhci_read_block_pio w = Some ((miter_consume n w)\<lparr>
        hist := replicate ((n + 3) div 4) (Rd32 SDHCI_BUFFER) @ hist w,
        mem := store_bytes (mem w) a (take n (concat (map le32 (port_reads ((n + 3) div 4) w))))\<rparr>)"
    unfolding sdhci_read_block_pio_def assms(1,4) Option.bind.simps assms(2)[symmetric]
    using pio_read_chunk[OF assms(3) le] by (simp add: sg_miter_stop_def)
next
  show "take n (concat (map le32 (port_words (load_bytes (mem w) a n)))) = load_bytes (mem w) a n"
    using port_words_bytes[of "load_bytes (mem w) a n"] by simp
next
  assume z: "mi_length (h_sg_miter w) = 0"
  have l: "pio_write_loop n 0 0 w = None" "pio_read_loop n 0 0 w = None"
    using pio_empty_chunk[of n 0 0 w] pio_empty_chunk_read[of n 0 0 w] z assms(3)
    by (cases "pio_write_loop n 0 0 w"; cases "pio_read_loop n 0 0 w"; simp)+
  show "sdhci_write_block_pio w = None" "sdhci_read_block_pio w = None"
    by (simp_all add: sdhci_write_block_pio_def sdhci_read_block_pio_def assms(1)
        assms(2)[symmetric] l)
qed

text \<open>Six bytes in a chunk of eight; and the iterator as the port leaves it.\<close>

definition pio_world :: world where
  "pio_world = blank_world\<lparr>h_data := Some 0, datas := \<lambda>_. blank_data\<lparr>d_blksz := 6\<rparr>,
     h_sg_miter := (h_sg_miter blank_world)\<lparr>mi_addr := 0x100, mi_length := 8\<rparr>,
     mem := \<lambda>a. ucast a\<rparr>"

theorem pio_block_witness:
  "map_option hist (sdhci_write_block_pio pio_world)
     = Some [Wr32 SDHCI_BUFFER 0x504, Wr32 SDHCI_BUFFER 0x3020100]
   \<and> sdhci_write_block_pio (pio_world\<lparr>h_sg_miter := h_sg_miter blank_world\<rparr>) = None"
proof -
  have f: "h_data pio_world = Some 0" "unat (d_blksz (datas pio_world 0)) = 6"
    "mi_addr (h_sg_miter pio_world) = 0x100" "6 \<le> unat (mi_length (h_sg_miter pio_world))"
    "hist pio_world = []" "load_bytes (mem pio_world) 0x100 6 = [0, 1, 2, 3, 4, 5]"
    "port_words [0, 1, 2, 3, 4, 5] = [0x3020100, 0x504]"
    by code_simp+
  show ?thesis
    using pio_block[OF f(1) f(2)[symmetric] _ f(3)[symmetric]] f
      pio_block[of "pio_world\<lparr>h_sg_miter := h_sg_miter blank_world\<rparr>" 0 6 0]
    by (simp add: blank_world_def)
qed

end
