(* ===== verification/Board.thy ===== *)
theory Board
  imports Cvitek
begin

text \<open>
  The boards of \<^verbatim>\<open>example/cvitek-drvinit.c\<close>: the device nodes of the eMMC and of the SD slot, and
  the two start functions, which run once each when the system starts
  (\<^verbatim>\<open>INIT_DEVICE_EXPORT\<close>) and so find their static node zeroed.  The last argument of
  \<^verbatim>\<open>dn_pp_set_and_add_string\<close> is a string literal whose address, \<open>p\<close>, the linker chooses.
  \<^verbatim>\<open>ioremap\<close> of RT-Thread is a parameter; the interrupt number and the name of the device are
  those of the static \<^verbatim>\<open>platform_device\<close>.
\<close>

definition emmc_of :: "u64 \<Rightarrow> device_node" where
  "emmc_of p =
     (let dn = [];
          dn = dn_pp_set_and_add_string dn ''compatible'' p ''cvitek,cv181x-emmc'';
          dn = dn_pp_set_and_add_u32 dn ''bus-width'' 4;
          dn = dn_pp_set_and_add_u32 dn ''max-frequency'' 200000000
      in dn_pp_set_and_add_bool dn ''non-removable'')"

definition sd_of :: "u64 \<Rightarrow> device_node" where
  "sd_of p =
     (let dn = [];
          dn = dn_pp_set_and_add_string dn ''compatible'' p ''cvitek,cv181x-sd'';
          dn = dn_pp_set_and_add_u32 dn ''bus-width'' 4;
          dn = dn_pp_set_and_add_u32 dn ''max-frequency'' 200000000;
          dn = dn_pp_set_and_add_bool dn ''cap-sd-highspeed''
      in dn_pp_set_and_add_bool dn ''no-1-8-v'')"

type_synonym board_env = "(u32 \<Rightarrow> world \<Rightarrow> (errno option \<times> world) option) \<times> sdhci_ops
  \<times> (u64 \<Rightarrow> errno + u64) \<times> (world \<Rightarrow> errno option \<times> world)"

definition emmc_init :: "bool \<Rightarrow> board_env \<Rightarrow> u64 \<Rightarrow> world \<Rightarrow> (errno option \<times> world) option" where
  "emmc_init enabled env p w =
     (case env of (send, default_ops, ioremap, hw_register) \<Rightarrow>
        if enabled then
          sdhci_cvi_probe send default_ops (ioremap 0x4300000) 34 hw_register
            (w\<lparr>of_node := Some (emmc_of p), m_dev_name := ''emmc''\<rparr>)
        else Some (None, w))"

definition sd_init :: "board_env \<Rightarrow> u64 \<Rightarrow> world \<Rightarrow> (errno option \<times> world) option" where
  "sd_init env p w =
     (case env of (send, default_ops, ioremap, hw_register) \<Rightarrow>
        sdhci_cvi_probe send default_ops (ioremap 0x4310000) 36 hw_register
          (w\<lparr>of_node := Some (sd_of p), m_dev_name := ''sd''\<rparr>))"

text \<open>The shell command of a build without automatic start; running it again adds the static cells
  a second time, for which \<open>NodeList\<close> shows what happens.\<close>

definition sdhcistart ::
  "bool \<Rightarrow> board_env \<Rightarrow> u64 \<Rightarrow> string list \<Rightarrow> world \<Rightarrow> (errno option \<times> world) option" where
  "sdhcistart enabled env p argv w =
     (if length argv = 2 \<and> argv ! 1 = ''sd'' then sd_init env p w else emmc_init enabled env p w)"

subsection \<open>What the nodes say\<close>

lemmas node_defs = emmc_of_def sd_of_def Let_def dn_pp_set_and_add_string_def
  dn_pp_set_and_add_u32_def dn_pp_set_and_add_bool_def

lemma find_property_nil [simp]: "find_property (Some []) k = None"
  by (simp add: find_property_def)

lemma sd_reads:
  "of_property_read_u32 (Some (sd_of p)) ''bus-width'' = Inr 4"
  "of_property_read_u32 (Some (sd_of p)) ''max-frequency'' = Inr 200000000"
  "of_property_read_bool (Some (sd_of p)) k
     \<longleftrightarrow> k \<in> {''no-1-8-v'', ''cap-sd-highspeed'', ''max-frequency'', ''bus-width'', ''compatible''}"
  by (simp_all add: of_property_read_u32_def of_property_read_bool_def node_defs)

lemma emmc_reads:
  "of_property_read_u32 (Some (emmc_of p)) ''bus-width'' = Inr 4"
  "of_property_read_u32 (Some (emmc_of p)) ''max-frequency'' = Inr 200000000"
  "of_property_read_bool (Some (emmc_of p)) k
     \<longleftrightarrow> k \<in> {''non-removable'', ''max-frequency'', ''bus-width'', ''compatible''}"
  by (simp_all add: of_property_read_u32_def of_property_read_bool_def node_defs)

lemma cap_nums:
  "MMC_CAP_4_BIT_DATA (w\<lparr>of_node := n\<rparr>) = MMC_CAP_4_BIT_DATA w"
  "MMC_CAP_SD_HIGHSPEED (w\<lparr>of_node := n\<rparr>) = MMC_CAP_SD_HIGHSPEED w"
  "MMC_CAP_SD_HIGHSPEED (w\<lparr>m_caps := c\<rparr>) = MMC_CAP_SD_HIGHSPEED w"
  "MMC_CAP_SD_HIGHSPEED (w\<lparr>mh := h\<rparr>) = MMC_CAP_SD_HIGHSPEED w"
  by (simp_all add: MMC_CAP_4_BIT_DATA_def MMC_CAP_SD_HIGHSPEED_def)

lemmas prop_defs = device_property_read_bool_def device_property_read_u32_def
  device_property_present_def read_or_def

text \<open>What parsing makes of a host with one of the nodes.\<close>

lemma parse_sd:
  assumes "of_node w = Some (sd_of p)"
  shows "mmc_of_parse w = (None, add_caps (MMC_CAP_SD_HIGHSPEED w)
    (upd_mh (\<lambda>m. m\<lparr>f_max := 200000000\<rparr>) (add_caps (MMC_CAP_4_BIT_DATA w) w)))"
  by (simp add: assms mmc_of_parse_def parse_caps_def cap_prop_def cap2_prop_def prop_defs sd_reads
      add_caps_def upd_mh_def cap_nums)

lemma parse_emmc:
  assumes "of_node w = Some (emmc_of p)"
  shows "mmc_of_parse w = (None, add_caps (e_CAP_NONREMOVABLE w)
    (upd_mh (\<lambda>m. m\<lparr>f_max := 200000000\<rparr>) (add_caps (MMC_CAP_4_BIT_DATA w) w)))"
  by (simp add: assms mmc_of_parse_def parse_caps_def cap_prop_def cap2_prop_def prop_defs emmc_reads
      add_caps_def upd_mh_def cap_nums)

lemma of_node_set: "of_node (w\<lparr>of_node := n\<rparr>) = n"
  by simp

lemma property_quirks2:
  "h_quirks2 (sdhci_get_property w)
     = (if of_property_read_bool (of_node w) ''no-1-8-v'' then h_quirks2 w OR SDHCI_QUIRK2_NO_1_8_V
        else h_quirks2 w)"
proof -
  define q1 where "q1 = quirk_if (device_property_present w ''sdhci,auto-cmd12'')
    SDHCI_QUIRK_MULTIBLOCK_READ_ACMD12 w"
  define q2 where "q2 = quirk_if (device_property_present q1 ''sdhci,1-bit-only''
    \<or> device_property_read_u32 q1 ''bus-width'' = Inr 1) SDHCI_QUIRK_FORCE_1_BIT_DATA q1"
  define q3 where "q3 = quirk_if (sdhci_wp_inverted q2) SDHCI_QUIRK_INVERTED_WRITE_PROTECT q2"
  define q4 where "q4 = quirk_if (device_property_present q3 ''broken-cd'')
    SDHCI_QUIRK_BROKEN_CARD_DETECTION q3"
  define q5 where "q5 = (if device_property_present q4 ''no-1-8-v''
    then q4\<lparr>h_quirks2 := h_quirks2 q4 OR SDHCI_QUIRK2_NO_1_8_V\<rparr> else q4)"
  have k: "of_node (quirk_if b q x) = of_node x \<and> h_quirks2 (quirk_if b q x) = h_quirks2 x" for b q x
    by (simp add: quirk_if_def)
  have q4: "of_node q4 = of_node w" "h_quirks2 q4 = h_quirks2 w"
    by (simp_all add: q4_def q3_def q2_def q1_def k)
  have "h_quirks2 (sdhci_get_property w) = h_quirks2 q5"
    unfolding sdhci_get_property_def q1_def[symmetric] Let_def[of q1] q2_def[symmetric]
      Let_def[of q2] q3_def[symmetric] Let_def[of q3] q4_def[symmetric] Let_def[of q4]
      q5_def[symmetric] Let_def[of q5]
    by (simp add: Let_def upd_mh_def)
  then show ?thesis by (simp add: q5_def q4 device_property_present_def)
qed

end
