(* ===== verification/BoardFacts.thy ===== *)
theory BoardFacts
  imports Board SetupFacts
begin

text \<open>
  Starting the boards: the probe function is run with the node and the name the start function
  gave the device, which adding the host leaves alone, so its outcome can be told for both boards.
\<close>

subsection \<open>The name of the device\<close>

lemma name_basic [simp]:
  "m_dev_name (emit e w) = m_dev_name w" "m_dev_name (upd_mh f w) = m_dev_name w"
  "m_dev_name (add_caps c w) = m_dev_name w" "m_dev_name (add_caps2 c w) = m_dev_name w"
  "m_dev_name (set_flags m w) = m_dev_name w" "m_dev_name (clear_flags m w) = m_dev_name w"
  "m_dev_name (write_ier w) = m_dev_name w"
  by (simp_all add: emit_def upd_mh_def add_caps_def add_caps2_def set_flags_def clear_flags_def
      write_ier_def)

lemma name_settled: "settled w' = settled w \<Longrightarrow> m_dev_name w' = m_dev_name w"
proof -
  have "m_dev_name x = m_dev_name (settled x)" for x by (simp add: settled_def)
  then show "settled w' = settled w \<Longrightarrow> m_dev_name w' = m_dev_name w" by metis
qed

lemmas name_do_reset = do_reset_settled[THEN name_settled]

lemma name_setup_dma_parts [simp]:
  "m_dev_name (snd (setup_supply w)) = m_dev_name w" "m_dev_name (setup_dma_caps w) = m_dev_name w"
  "m_dev_name (snd (setup_external_dma r w)) = m_dev_name w"
  "m_dev_name (setup_adma_buffers w) = m_dev_name w"
  "m_dev_name (setup_undma w) = m_dev_name w" "m_dev_name (setup_unreg w) = m_dev_name w"
  "m_dev_name (sdhci_cleanup_host w) = m_dev_name w"
proof -
  have a: "m_dev_name (snd (dma_alloc_coherent n x)) = m_dev_name x" for n x
    by (simp add: dma_alloc_coherent_def ioremap_wt_def Let_def)
  have f: "m_dev_name (free_adma_buffers x) = m_dev_name x" for x
    by (simp add: free_adma_buffers_def dma_free_coherent_def split: option.split)
  show "m_dev_name (snd (setup_supply w)) = m_dev_name w"
    by (simp add: setup_supply_def mmc_regulator_get_supply_def Let_def)
  show "m_dev_name (setup_dma_caps w) = m_dev_name w" by (simp add: setup_dma_caps_def Let_def)
  show "m_dev_name (snd (setup_external_dma r w)) = m_dev_name w"
    by (simp add: setup_external_dma_def sdhci_switch_external_dma_def Let_def)
  show "m_dev_name (setup_adma_buffers w) = m_dev_name w"
    by (simp add: setup_adma_buffers_def dma_free_coherent_def Let_def split_beta a)
  show "m_dev_name (setup_undma w) = m_dev_name w" "m_dev_name (setup_unreg w) = m_dev_name w"
    "m_dev_name (sdhci_cleanup_host w) = m_dev_name w"
    by (simp_all add: setup_undma_def setup_unreg_def sdhci_cleanup_host_def regulator_disable_def
        sdhci_external_dma_release_def Let_def f)
qed

lemma name_setup_rest [simp]:
  "m_dev_name (setup_clk_mul w) = m_dev_name w" "m_dev_name (setup_caps w) = m_dev_name w"
  "m_dev_name (snd (setup_vqmmc b r w)) = m_dev_name w" "m_dev_name (setup_no_1_8_v w) = m_dev_name w"
  "m_dev_name (setup_uhs w) = m_dev_name w" "m_dev_name (setup_drivers_tuning w) = m_dev_name w"
  "m_dev_name (snd (setup_ocr w)) = m_dev_name w" "m_dev_name (setup_signaling w) = m_dev_name w"
  "m_dev_name (setup_segs w) = m_dev_name w" "m_dev_name (setup_sizes w) = m_dev_name w"
  by (simp_all add: setup_clk_mul_def setup_caps_def setup_vqmmc_def setup_no_1_8_v_def setup_uhs_def
      setup_drivers_tuning_def setup_ocr_def max_current_def setup_vdd_def setup_signaling_def
      setup_segs_def setup_sizes_def sdhci_allocate_bounce_buffer_def devm_kmalloc_def Let_def
      split_beta)

lemma name_setup_finish: "setup_finish w = (e, w') \<Longrightarrow> m_dev_name w' = m_dev_name w"
  by (auto simp: setup_finish_def Let_def split_beta split: if_split_asm)

subsection \<open>Adding a host\<close>

lemma driver_setup_hooks:
  assumes "driver_ops ops"
  shows "o_set_dma_mask ops = None" "o_get_min_clock ops = None" "o_get_timeout_clock ops = None"
    "o_get_max_timeout_count ops = None"
    "o_get_max_clock ops = Some f \<Longrightarrow> snd (f w) = w"
  using assms by (auto simp: driver_ops_def sdhci_pltfm_ops_def sdhci_cv181x_sd_ops_def
      sdhci_cv181x_emmc_ops_def sdhci_cvi_general_get_max_clock_def)

lemma name_read_caps:
  assumes "driver_ops ops" "sdhci_read_caps ops w = Some w'"
  shows "m_dev_name w' = m_dev_name w"
proof -
  have v4: "m_dev_name (sdhci_do_enable_v4_mode x) = m_dev_name x" for x
    by (simp add: sdhci_do_enable_v4_mode_def Let_def split_beta)
  have b: "m_dev_name w1 = m_dev_name w" if "read_caps_begin ops w = Some w1" for w1
    using that name_do_reset[OF assms(1)]
    by (fastforce simp: read_caps_begin_def debug_quirks_def debug_quirks2_def Option.bind_eq_Some_conv
        v4 split: if_split_asm)
  have c: "m_dev_name (read_caps0 m c k x) = m_dev_name x" "m_dev_name (read_caps1 m c k x) = m_dev_name x"
    for m c k x
    by (simp_all add: read_caps0_def read_caps1_def split_beta Let_def split: option.split)
  show ?thesis
    using assms(2)
    by (auto simp: sdhci_read_caps_def raw_sdhci_read_caps_def Let_def split_beta c b
        Option.bind_eq_Some_conv split: if_split_asm)
qed

lemma name_setup_ops:
  assumes "driver_ops ops"
  shows "m_dev_name (snd (setup_dma ops r w)) = m_dev_name w"
    "m_dev_name (snd (setup_max_clk ops w)) = m_dev_name w"
    "m_dev_name (setup_freq ops w) = m_dev_name w"
    "setup_timeout ops k w = Some (e, w') \<Longrightarrow> m_dev_name w' = m_dev_name w"
proof -
  note h = driver_setup_hooks[OF assms] driver_no_hooks[OF assms]
  have m: "m_dev_name (snd (sdhci_set_dma_mask x)) = m_dev_name x" for x
    by (simp add: sdhci_set_dma_mask_def Let_def dma_set_mask_and_coherent_def)
  have "m_dev_name (snd (setup_dma_mask ops r w)) = m_dev_name w"
    by (simp add: setup_dma_mask_def h m split_beta Let_def split: option.split)
  then show "m_dev_name (snd (setup_dma ops r w)) = m_dev_name w"
    by (simp add: setup_dma_def Let_def split_beta)
  show "m_dev_name (snd (setup_max_clk ops w)) = m_dev_name w"
    using h(5) by (auto simp: setup_max_clk_def Let_def split_beta split: option.split)
  show "m_dev_name (setup_freq ops w) = m_dev_name w"
    by (simp add: setup_freq_def h Let_def)
  show "setup_timeout ops k w = Some (e, w') \<Longrightarrow> m_dev_name w' = m_dev_name w"
    by (auto simp: setup_timeout_def setup_timeout_clk_def h Let_def split_beta
        Option.bind_eq_Some_conv split: if_split_asm)
qed

lemma name_setup_host_dma:
  assumes "driver_ops ops" "setup_host_dma ops b r k w = Some (e, w')"
  shows "m_dev_name w' = m_dev_name w"
proof -
  note n = name_setup_ops[OF assms(1)]
  define w2 where "w2 = snd (setup_max_clk ops (snd (setup_dma ops r w)))"
  have w2: "m_dev_name w2 = m_dev_name w" by (simp add: w2_def n)
  show ?thesis
    using assms(2) unfolding setup_host_dma_def Let_def split_beta w2_def[symmetric]
    by (auto simp: Option.bind_eq_Some_conv w2 n(3) dest!: n(4) name_setup_finish split: if_split_asm)
qed

lemma name_setup_host:
  assumes "driver_ops ops" "sdhci_setup_host ops w = Some (e, w')"
  shows "m_dev_name w' = m_dev_name w"
  using assms(2) unfolding sdhci_setup_host_def Let_def split_beta
  by (auto simp: Option.bind_eq_Some_conv dest!: name_read_caps[OF assms(1)]
      name_setup_host_dma[OF assms(1)] split: if_split_asm)

lemma name_init:
  assumes "driver_ops ops" "sdhci_init ops f False w = Some w'"
  shows "m_dev_name w' = m_dev_name w"
proof -
  have v4: "m_dev_name (sdhci_do_enable_v4_mode x) = m_dev_name x"
    "m_dev_name (sdhci_set_default_irqs x) = m_dev_name x" for x
    by (simp_all add: sdhci_do_enable_v4_mode_def sdhci_set_default_irqs_def Let_def split_beta)
  show ?thesis
    using assms(2) name_do_reset[OF assms(1)]
    by (fastforce simp: sdhci_init_def Let_def Option.bind_eq_Some_conv v4 split: if_split_asm)
qed

lemma name_add_host_last:
  assumes "driver_ops ops" "add_host_last ops w = Some (e, w')"
  shows "m_dev_name w' = m_dev_name w"
proof -
  have a: "m_dev_name (snd (mmc_add_host x)) = m_dev_name x" for x
    by (simp add: mmc_add_host_def Let_def)
  have u: "m_dev_name y = m_dev_name x" if "add_host_unirq ops x = Some y" for x y
    using that name_do_reset[OF assms(1)]
    by (fastforce simp: add_host_unirq_def destroy_workqueue_def free_irq_def Let_def
        Option.bind_eq_Some_conv)
  have c: "m_dev_name (sdhci_enable_card_detection x) = m_dev_name x" for x
    by (simp add: sdhci_enable_card_detection_def sdhci_set_card_detection_def Let_def split_beta)
  show ?thesis
    using assms(2)
    by (auto simp: add_host_last_def sdhci_led_register_def sdhci_led_unregister_def Let_def a c
        Option.bind_eq_Some_conv split_beta dest!: u split: if_split_asm)
qed

text \<open>Adding a host keeps the name, when installing the interrupt does.\<close>

lemma name_add_host:
  assumes "driver_ops ops" "\<And>x. m_dev_name (snd (reg x)) = m_dev_name x"
    and "sdhci_add_host ops reg w = Some (e, w')"
  shows "m_dev_name w' = m_dev_name w"
proof -
  have t: "m_dev_name (snd (request_threaded_irq reg b c x)) = m_dev_name x" for b c x
    by (simp add: request_threaded_irq_def init_waitqueue_head_def Let_def split_beta assms(2))
  have r: "m_dev_name y = m_dev_name x" if "raw_sdhci_add_host ops reg x = Some (e', y)" for x y e'
    using that unfolding raw_sdhci_add_host_def Let_def alloc_workqueue_def destroy_workqueue_def
      timer_setup_def init_waitqueue_head_def split_beta
    by (auto simp: Option.bind_eq_Some_conv t dest!: name_init[OF assms(1)]
        name_add_host_last[OF assms(1)] split: if_split_asm)
  show ?thesis
    using assms(3)
    by (auto simp: sdhci_add_host_def Option.bind_eq_Some_conv dest!: name_setup_host[OF assms(1)] r
        split: if_split_asm)
qed

subsection \<open>The start functions\<close>

definition add_or_free ::
  "sdhci_ops \<Rightarrow> (world \<Rightarrow> errno option \<times> world) \<Rightarrow> world \<Rightarrow> (errno option \<times> world) option" where
  "add_or_free ops reg w = do {
     (ret, w') \<leftarrow> sdhci_add_host ops reg w;
     Some (if ret \<noteq> None then (ret, sdhci_pltfm_free w') else (None, w'))
   }"

text \<open>What the two steps before it keep: the name and what the device node configures.\<close>

definition config where
  "config w = (of_node w, m_dev_name w, m_caps w, f_max (mh w), h_quirks2 w, e_num w, e_CAP_NONREMOVABLE w)"

lemma config_simps [simp]:
  "config (emit e w) = config w" "config (w\<lparr>cvi := c\<rparr>) = config w" "config (mdelay n w) = config w"
  "config (modl f r w) = config w" "config (io_modl g a w) = config w"
  by (simp_all add: config_def emit_def mdelay_def modl_def io_modl_def io_readl_def io_writel_def Let_def)

lemma config_voltage_restore: "config (sdhci_cv181x_sd_voltage_restore b w) = config w"
  by (simp add: sdhci_cv181x_sd_voltage_restore_def Let_def)

lemma property_fields:
  "m_dev_name (sdhci_get_property w) = m_dev_name w" "m_caps (sdhci_get_property w) = m_caps w"
  "f_max (mh (sdhci_get_property w)) = f_max (mh w)"
proof -
  define v where "v x = (m_dev_name x, m_caps x, f_max (mh x))" for x :: world
  have k: "v (quirk_if b q x) = v x" "v (x\<lparr>h_quirks2 := q\<rparr>) = v x" "v (x\<lparr>pltfm_clock := c\<rparr>) = v x"
    "v (upd_mh (\<lambda>m. m\<lparr>pm_caps := g m\<rparr>) x) = v x" for b q x c g
    by (simp_all add: quirk_if_def v_def upd_mh_def)
  have if_v: "v (if b then x else y) = (if b then v x else v y)" for b x y by simp
  have "v (sdhci_get_property w) = v w"
    unfolding sdhci_get_property_def Let_def if_v k by (simp only: if_cancel)
  then show "m_dev_name (sdhci_get_property w) = m_dev_name w" "m_caps (sdhci_get_property w) = m_caps w"
    "f_max (mh (sdhci_get_property w)) = f_max (mh w)"
    by (simp_all add: v_def)
qed

lemma probe_host_plain:
  assumes "driver_ops ops" "\<And>x. m_dev_name (snd (reg x)) = m_dev_name x"
    and "mmc_of_parse (sdhci_cv181x_sd_voltage_restore False w) = (None, w1)"
    and "\<not> strstr (m_dev_name w1) ''cv-emmc''"
  shows "cvi_probe_host ops reg w = add_or_free ops reg (sdhci_get_property w1)"
proof (cases "sdhci_add_host ops reg (sdhci_get_property w1)")
  case (Some r)
  obtain e w2 where r: "r = (e, w2)" by (cases r)
  have "m_dev_name w2 = m_dev_name w1"
    using name_add_host[OF assms(1,2) Some[unfolded r]] by (simp add: property_fields)
  then show ?thesis
    using assms(3,4) Some r by (simp add: cvi_probe_host_def add_or_free_def Let_def)
qed (simp add: cvi_probe_host_def add_or_free_def Let_def assms(3))

lemma pltfm_init_config:
  assumes "e_alloc w (hist w) \<noteq> 0" "0 \<le> irq" "pd_ops pd = Some ops"
  obtains x where "sdhci_pltfm_init default_ops (Some pd) (Inr b) irq w = (Inr ops, x)"
    "config x = (of_node w, m_dev_name w, 0, 0, pd_quirks2 pd, e_num w, e_CAP_NONREMOVABLE w)"
proof -
  define x where "x = (sdhci_alloc_host (emit (OsCall ''mmcsd_host_init'')
      (zeroed_host (emit (OsCall ''rt_malloc'') w))))\<lparr>h_quirks := pd_quirks pd, h_quirks2 := pd_quirks2 pd\<rparr>"
  have "sdhci_pltfm_init default_ops (Some pd) (Inr b) irq w = (Inr ops, x)"
    using assms by (simp add: sdhci_pltfm_init_def mmc_alloc_host_def Let_def x_def)
  moreover have "config x = (of_node w, m_dev_name w, 0, 0, pd_quirks2 pd, e_num w, e_CAP_NONREMOVABLE w)"
    by (simp add: x_def config_def sdhci_alloc_host_def zeroed_host_def Let_def)
  ultimately show ?thesis using that by blast
qed

lemma probe_board:
  assumes "of_match_device (sdhci_cvi_dt_match send) (Some node) = Some (Some (k, pd))"
    and "pd_ops pd = Some ops" "driver_ops ops" "0 \<le> irq"
    and "\<And>x. m_dev_name (snd (reg x)) = m_dev_name x" "e_alloc w (hist w) \<noteq> 0"
    and "\<And>x. of_node x = Some node \<Longrightarrow> mmc_of_parse x = (None, f x)"
    and "\<And>x. m_dev_name (f x) = m_dev_name x" "\<not> strstr name ''cv-emmc''"
  obtains x where "sdhci_cvi_probe send default_ops (Inr b) irq reg (w\<lparr>of_node := Some node, m_dev_name := name\<rparr>)
      = add_or_free ops reg (sdhci_get_property (f x))"
    "config x = (Some node, name, 0, 0, pd_quirks2 pd, e_num w, e_CAP_NONREMOVABLE w)"
proof -
  define w0 where "w0 = w\<lparr>of_node := Some node, m_dev_name := name\<rparr>"
  have a: "e_alloc w0 (hist w0) \<noteq> 0" using assms(6) by (simp add: w0_def)
  obtain x where x: "sdhci_pltfm_init default_ops (Some pd) (Inr b) irq w0 = (Inr ops, x)"
    "config x = (of_node w0, m_dev_name w0, 0, 0, pd_quirks2 pd, e_num w0, e_CAP_NONREMOVABLE w0)"
    by (rule pltfm_init_config[OF a assms(4,2)])
  define x1 where "x1 = emit (OsCall ''ioremap'') (emit (OsCall ''ioremap'') (emit (OsCall ''ioremap'') x))"
  define x2 where "x2 = sdhci_cv181x_sd_voltage_restore False x1"
  have c: "config x2 = (Some node, name, 0, 0, pd_quirks2 pd, e_num w, e_CAP_NONREMOVABLE w)"
    using x(2) by (simp add: x2_def x1_def config_voltage_restore w0_def)
  then have n: "of_node x2 = Some node" "m_dev_name x2 = name" by (simp_all add: config_def)
  have "cvi_probe_host ops reg x1 = add_or_free ops reg (sdhci_get_property (f x2))"
  proof (rule probe_host_plain[OF assms(3,5)])
    show "mmc_of_parse (sdhci_cv181x_sd_voltage_restore False x1) = (None, f x2)"
      using assms(7)[OF n(1)] by (simp add: x2_def)
    show "\<not> strstr (m_dev_name (f x2)) ''cv-emmc''" using assms(8,9) n(2) by simp
  qed
  then have "sdhci_cvi_probe send default_ops (Inr b) irq reg w0 = add_or_free ops reg (sdhci_get_property (f x2))"
    using assms(1) x(1) by (simp add: sdhci_cvi_probe_def w0_def Let_def x1_def)
  then show ?thesis using that c unfolding w0_def by blast
qed

lemma board_matches:
  "of_match_device (sdhci_cvi_dt_match send) (Some (sd_of p))
     = Some (Some (''cvitek,cv181x-sd'', sdhci_cv181x_sd_pdata send))"
  "of_match_device (sdhci_cvi_dt_match send) (Some (emmc_of p))
     = Some (Some (''cvitek,cv181x-emmc'', sdhci_cv181x_emmc_pdata send))"
  by (simp_all add: of_match_device_def node_defs sdhci_cvi_dt_match_def)

lemma board_ops:
  "driver_ops (sdhci_cv181x_sd_ops send)" "driver_ops (sdhci_cv181x_emmc_ops send)"
  by (auto simp: driver_ops_def)

lemma config_of: "config x = (n, name, c, f, q, e, r) \<Longrightarrow> of_node x = n \<and> m_dev_name x = name
    \<and> m_caps x = c \<and> f_max (mh x) = f \<and> h_quirks2 x = q \<and> e_num x = e \<and> e_CAP_NONREMOVABLE x = r"
  by (simp add: config_def)

text \<open>C38. Each start function of the example adds a host with the operations of its controller, set
  up from its device node: the SD slot with four data lines, high speed, at most 200 MHz and without
  1.8 V, the eMMC with four data lines, not removable, at most 200 MHz.  The outcome is that of
  adding this host, and freeing it when that fails: the pads of the eMMC are never set up, because
  the name the start function gives the device does not contain \<^verbatim>\<open>cv-emmc\<close>.  There is memory for the
  host, its registers can be mapped, and installing the interrupt leaves the name of the device
  alone.\<close>

theorem board_nodes_configure:
  assumes "ioremap 0x4300000 = Inr b" "ioremap 0x4310000 = Inr b'" "e_alloc w (hist w) \<noteq> 0"
    and "\<And>x. m_dev_name (snd (reg x)) = m_dev_name x"
  shows "(\<exists>w1. emmc_init True (send, default_ops, ioremap, reg) p w
        = add_or_free (sdhci_cv181x_emmc_ops send) reg w1
      \<and> m_caps w1 = MMC_CAP_4_BIT_DATA w OR e_CAP_NONREMOVABLE w \<and> f_max (mh w1) = 200000000
      \<and> h_quirks2 w1 = SDHCI_QUIRK2_PRESET_VALUE_BROKEN)
    \<and> (\<exists>w1. sd_init (send, default_ops, ioremap, reg) p w
        = add_or_free (sdhci_cv181x_sd_ops send) reg w1
      \<and> m_caps w1 = MMC_CAP_4_BIT_DATA w OR MMC_CAP_SD_HIGHSPEED w \<and> f_max (mh w1) = 200000000
      \<and> h_quirks2 w1 = SDHCI_QUIRK2_PRESET_VALUE_BROKEN OR SDHCI_QUIRK2_NO_1_8_V)"
proof
  define fe where "fe = (\<lambda>x. add_caps (e_CAP_NONREMOVABLE x)
    (upd_mh (\<lambda>m. m\<lparr>f_max := 200000000\<rparr>) (add_caps (MMC_CAP_4_BIT_DATA x) x)))"
  have e: "m_dev_name (fe x) = m_dev_name x" "\<not> strstr ''emmc'' ''cv-emmc''" for x
    by (simp add: fe_def) code_simp
  obtain x where x: "sdhci_cvi_probe send default_ops (Inr b) 34 reg
      (w\<lparr>of_node := Some (emmc_of p), m_dev_name := ''emmc''\<rparr>)
      = add_or_free (sdhci_cv181x_emmc_ops send) reg (sdhci_get_property (fe x))"
    "config x = (Some (emmc_of p), ''emmc'', 0, 0, pd_quirks2 (sdhci_cv181x_emmc_pdata send),
       e_num w, e_CAP_NONREMOVABLE w)"
    by (rule probe_board[OF board_matches(2)[of send p] _ board_ops(2) _ assms(4,3) _ e,
        where irq = 34 and default_ops = default_ops and b = b])
      (simp_all add: sdhci_cv181x_emmc_pdata_def parse_emmc fe_def)
  show "\<exists>w1. emmc_init True (send, default_ops, ioremap, reg) p w
        = add_or_free (sdhci_cv181x_emmc_ops send) reg w1
      \<and> m_caps w1 = MMC_CAP_4_BIT_DATA w OR e_CAP_NONREMOVABLE w \<and> f_max (mh w1) = 200000000
      \<and> h_quirks2 w1 = SDHCI_QUIRK2_PRESET_VALUE_BROKEN"
    using x(1) config_of[OF x(2)] assms(1)
    by (intro exI[of _ "sdhci_get_property (fe x)"])
      (simp add: emmc_init_def property_fields property_quirks2 fe_def add_caps_def upd_mh_def
        emmc_reads MMC_CAP_4_BIT_DATA_def sdhci_cv181x_emmc_pdata_def)
next
  define fs where "fs = (\<lambda>x. add_caps (MMC_CAP_SD_HIGHSPEED x)
    (upd_mh (\<lambda>m. m\<lparr>f_max := 200000000\<rparr>) (add_caps (MMC_CAP_4_BIT_DATA x) x)))"
  have s: "m_dev_name (fs x) = m_dev_name x" "\<not> strstr ''sd'' ''cv-emmc''" for x
    by (simp add: fs_def) code_simp
  obtain x where x: "sdhci_cvi_probe send default_ops (Inr b') 36 reg
      (w\<lparr>of_node := Some (sd_of p), m_dev_name := ''sd''\<rparr>)
      = add_or_free (sdhci_cv181x_sd_ops send) reg (sdhci_get_property (fs x))"
    "config x = (Some (sd_of p), ''sd'', 0, 0, pd_quirks2 (sdhci_cv181x_sd_pdata send),
       e_num w, e_CAP_NONREMOVABLE w)"
    by (rule probe_board[OF board_matches(1)[of send p] _ board_ops(1) _ assms(4,3) _ s,
        where irq = 36 and default_ops = default_ops and b = b'])
      (simp_all add: sdhci_cv181x_sd_pdata_def parse_sd fs_def)
  show "\<exists>w1. sd_init (send, default_ops, ioremap, reg) p w
        = add_or_free (sdhci_cv181x_sd_ops send) reg w1
      \<and> m_caps w1 = MMC_CAP_4_BIT_DATA w OR MMC_CAP_SD_HIGHSPEED w \<and> f_max (mh w1) = 200000000
      \<and> h_quirks2 w1 = SDHCI_QUIRK2_PRESET_VALUE_BROKEN OR SDHCI_QUIRK2_NO_1_8_V"
    using x(1) config_of[OF x(2)] assms(2)
    by (intro exI[of _ "sdhci_get_property (fs x)"])
      (simp add: sd_init_def property_fields property_quirks2 fs_def add_caps_def upd_mh_def
        sd_reads MMC_CAP_4_BIT_DATA_def MMC_CAP_SD_HIGHSPEED_def sdhci_cv181x_sd_pdata_def)
qed

text \<open>A board whose registers are mapped where they are, with the interrupt function of the example.\<close>

theorem board_nodes_configure_witness:
  "\<exists>w1. emmc_init True (\<lambda>_ _. None, sdhci_pltfm_ops, Inr, irq_hw_register) 0
        (blank_world\<lparr>e_alloc := \<lambda>_. 0x9000\<rparr>)
      = add_or_free (sdhci_cv181x_emmc_ops (\<lambda>_ _. None)) irq_hw_register w1
    \<and> f_max (mh w1) = 200000000"
  using board_nodes_configure[where ioremap = Inr and w = "blank_world\<lparr>e_alloc := \<lambda>_. 0x9000\<rparr>"
      and reg = irq_hw_register and send = "\<lambda>_ _. None" and default_ops = sdhci_pltfm_ops and p = 0]
  by (auto simp: irq_hw_register_def)

end
