(* ===== verification/NodeList.thy ===== *)
theory NodeList
  imports Of
begin

text \<open>
  The properties of a device node as they lie in memory: a linked list of \<^verbatim>\<open>struct property\<close>
  cells, the last added first (\<^verbatim>\<open>dn_pp_set_and_add_u32\<close>, \<dots>, \<^verbatim>\<open>__find_property\<close> of
  \<^verbatim>\<open>port/l-of.c\<close>).  The lists of \<open>Of\<close> are its abstraction, as long as each cell is added once.
  The search walks the list until it ends, which it does not when the list has become circular.
\<close>

text \<open>Cells are named by numbers.  \<open>pv\<close> is the union of \<^verbatim>\<open>value\<close> and \<^verbatim>\<open>str\<close>.\<close>

record property_cell =
  p_name :: string
  p_next :: "nat option"
  pv :: prop_val

record node_heap =
  properties :: "nat option"
  cell :: "nat \<Rightarrow> property_cell"

text \<open>The common part of the three functions that add a property: the new cell is put in front.\<close>

definition set_and_add :: "nat \<Rightarrow> string \<Rightarrow> prop_val \<Rightarrow> node_heap \<Rightarrow> node_heap" where
  "set_and_add p name v dn =
     (let pre = properties dn;
          dn = dn\<lparr>properties := Some p\<rparr>;
          dn = dn\<lparr>cell := (cell dn)(p := (cell dn p)\<lparr>p_next := pre\<rparr>)\<rparr>;
          dn = dn\<lparr>cell := (cell dn)(p := (cell dn p)\<lparr>p_name := name\<rparr>)\<rparr>
      in dn\<lparr>cell := (cell dn)(p := (cell dn p)\<lparr>pv := v\<rparr>)\<rparr>)"

definition set_and_add_u32 :: "nat \<Rightarrow> string \<Rightarrow> u32 \<Rightarrow> node_heap \<Rightarrow> node_heap" where
  "set_and_add_u32 p name val = set_and_add p name (PropNum (ucast val))"

definition set_and_add_bool :: "nat \<Rightarrow> string \<Rightarrow> node_heap \<Rightarrow> node_heap" where
  "set_and_add_bool p name = set_and_add p name (PropNum 0)"

definition set_and_add_string :: "nat \<Rightarrow> string \<Rightarrow> u64 \<Rightarrow> string \<Rightarrow> node_heap \<Rightarrow> node_heap" where
  "set_and_add_string p name a val = set_and_add p name (PropStr a val)"

text \<open>The loop of \<^verbatim>\<open>__find_property\<close>, from the cell \<open>pp\<close>.\<close>

partial_function (option) find_cell :: "node_heap \<Rightarrow> string \<Rightarrow> nat option \<Rightarrow> nat option option" where
  "find_cell dn name pp =
     (case pp of
        None \<Rightarrow> Some None
      | Some p \<Rightarrow> if p_name (cell dn p) = name then Some (Some p)
                  else find_cell dn name (p_next (cell dn p)))"

declare find_cell.simps [code]

subsection \<open>The list behind the cells\<close>

text \<open>\<open>chain dn pp ps\<close>: the list that starts at \<open>pp\<close> ends, and runs through the cells \<open>ps\<close>.\<close>

fun chain :: "node_heap \<Rightarrow> nat option \<Rightarrow> nat list \<Rightarrow> bool" where
  "chain dn pp [] \<longleftrightarrow> pp = None"
| "chain dn pp (p # ps) \<longleftrightarrow> pp = Some p \<and> chain dn (p_next (cell dn p)) ps"

definition node_of :: "node_heap \<Rightarrow> nat list \<Rightarrow> device_node" where
  "node_of dn ps = map (\<lambda>p. (p_name (cell dn p), pv (cell dn p))) ps"

lemma set_and_add_fields [simp]:
  "properties (set_and_add p name v dn) = Some p"
  "cell (set_and_add p name v dn) q = (if q = p then
     \<lparr>p_name = name, p_next = properties dn, pv = v, \<dots> = property_cell.more (cell dn p)\<rparr> else cell dn q)"
  by (simp_all add: set_and_add_def Let_def)

lemma chain_frame: "p \<notin> set ps \<Longrightarrow> chain (set_and_add p name v dn) pp ps = chain dn pp ps"
  by (induction ps arbitrary: pp) auto

lemma node_of_frame: "p \<notin> set ps \<Longrightarrow> node_of (set_and_add p name v dn) ps = node_of dn ps"
  by (auto simp: node_of_def)

lemma find_chain:
  assumes "chain dn pp ps"
  shows "\<exists>q. find_cell dn k pp = Some q
    \<and> map_option (\<lambda>p. pv (cell dn p)) q = find_property (Some (node_of dn ps)) k"
  using assms
proof (induction ps arbitrary: pp)
  case Nil
  then show ?case by (simp add: node_of_def find_property_def find_cell.simps)
next
  case (Cons p ps)
  then show ?case
    by (subst find_cell.simps) (auto simp: node_of_def find_property_def)
qed

lemma find_circular:
  "find_cell dn k pp = Some r \<Longrightarrow>
     \<not> (pp \<in> Some ` A \<and> (\<forall>p \<in> A. p_next (cell dn p) \<in> Some ` A \<and> p_name (cell dn p) \<noteq> k))"
proof (induction rule: find_cell.raw_induct[rotated, consumes 1, case_names step])
  case (step find dn name pp r)
  then show ?case by (auto split: option.splits if_splits) blast
qed

lemma chain_reaches:
  assumes "chain dn pp ps" "q \<in> set ps"
  shows "\<exists>as. (\<forall>r \<in> set as. r \<in> set ps \<and> p_next (cell dn r) \<in> Some ` set (as @ [q]))
    \<and> pp \<in> Some ` set (as @ [q]) \<and> q \<notin> set as"
  using assms
proof (induction ps arbitrary: pp)
  case (Cons p ps)
  show ?case
  proof (cases "p = q")
    case True
    then show ?thesis using Cons.prems by (intro exI[of _ "[]"]) simp
  next
    case False
    then obtain as where "\<forall>r \<in> set as. r \<in> set ps \<and> p_next (cell dn r) \<in> Some ` set (as @ [q])"
      "p_next (cell dn p) \<in> Some ` set (as @ [q])" "q \<notin> set as"
      using Cons.IH[of "p_next (cell dn p)"] Cons.prems by auto
    then show ?thesis using False Cons.prems by (intro exI[of _ "p # as"]) auto
  qed
qed simp

text \<open>C39. Adding a fresh cell to a node prolongs its list by the property, and a search finds what the
  abstract list holds under the name, the last added first; adding a cell that is already in the
  list closes a circle, and the search for a name that does not occur never ends.\<close>

theorem node_list_refines:
  assumes "chain dn (properties dn) ps"
  shows "(p \<notin> set ps \<longrightarrow>
      chain (set_and_add p name v dn) (properties (set_and_add p name v dn)) (p # ps)
      \<and> node_of (set_and_add p name v dn) (p # ps) = (name, v) # node_of dn ps
      \<and> (\<exists>q. find_cell (set_and_add p name v dn) k (Some p) = Some q
          \<and> map_option (\<lambda>q. pv (cell (set_and_add p name v dn) q)) q
            = find_property (Some ((name, v) # node_of dn ps)) k))
    \<and> (p \<in> set ps \<and> k \<noteq> name \<and> (\<forall>q \<in> set ps. p_name (cell dn q) \<noteq> k) \<longrightarrow>
      find_cell (set_and_add p name v dn) k (properties (set_and_add p name v dn)) = None)"
proof (intro conjI impI)
  let ?dn = "set_and_add p name v dn"
  assume fresh: "p \<notin> set ps"
  show c: "chain ?dn (properties ?dn) (p # ps)" using assms chain_frame[OF fresh] by simp
  show n: "node_of ?dn (p # ps) = (name, v) # node_of dn ps"
    using node_of_frame[OF fresh] by (simp add: node_of_def)
  show "\<exists>q. find_cell ?dn k (Some p) = Some q
      \<and> map_option (\<lambda>q. pv (cell ?dn q)) q = find_property (Some ((name, v) # node_of dn ps)) k"
    using find_chain[OF c] n by simp
next
  let ?dn = "set_and_add p name v dn"
  assume a: "p \<in> set ps \<and> k \<noteq> name \<and> (\<forall>q \<in> set ps. p_name (cell dn q) \<noteq> k)"
  then obtain as where as: "\<forall>r \<in> set as. r \<in> set ps \<and> p_next (cell dn r) \<in> Some ` set (as @ [p])"
    "properties dn \<in> Some ` set (as @ [p])" "p \<notin> set as"
    using chain_reaches[OF assms, of p] by auto
  let ?A = "set (as @ [p])"
  have "\<forall>q \<in> ?A. p_next (cell ?dn q) \<in> Some ` ?A \<and> p_name (cell ?dn q) \<noteq> k"
    using as a by auto
  then have "find_cell ?dn k (properties ?dn) \<noteq> Some r" for r
    using find_circular[of ?dn k "properties ?dn" r ?A] by auto
  then show "find_cell ?dn k (properties ?dn) = None" by (cases "find_cell ?dn k (properties ?dn)") auto
qed

text \<open>The node of the SD slot, its first cell added a second time.\<close>

definition sd_heap :: node_heap where
  "sd_heap = set_and_add_bool 4 ''no-1-8-v'' (set_and_add_bool 3 ''cap-sd-highspeed''
     (set_and_add_u32 2 ''max-frequency'' 200000000 (set_and_add_u32 1 ''bus-width'' 4
       (set_and_add_string 0 ''compatible'' 0x1000 ''cvitek,cv181x-sd''
         \<lparr>properties = None, cell = \<lambda>_. \<lparr>p_name = [], p_next = None, pv = PropNum 0\<rparr>\<rparr>))))"

theorem node_list_refines_witness:
  "find_cell (set_and_add 0 ''compatible'' (PropStr 0x1000 ''cvitek,cv181x-sd'') sd_heap)
     ''non-removable'' (Some 0) = None"
proof -
  have c: "chain sd_heap (properties sd_heap) [4, 3, 2, 1, 0]"
    by (simp add: sd_heap_def set_and_add_bool_def set_and_add_u32_def set_and_add_string_def)
  have "\<forall>q \<in> set [4, 3, 2, 1, 0]. p_name (cell sd_heap q) \<noteq> ''non-removable''"
    by (simp add: sd_heap_def set_and_add_bool_def set_and_add_u32_def set_and_add_string_def)
  then show ?thesis
    using node_list_refines[OF c, of 0 "''compatible''" _ "''non-removable''"] by simp
qed

end
