(* ===== verification/ExtDma.thy ===== *)
theory ExtDma
  imports Host
begin

text \<open>
  The two parts of \<^verbatim>\<open>sdhci.c\<close> that this port does not compile, because its \<^verbatim>\<open>IS_ENABLED\<close> and
  \<^verbatim>\<open>IS_REACHABLE\<close> are 0: a DMA controller outside the host
  (\<^verbatim>\<open>CONFIG_MMC_SDHCI_EXTERNAL_DMA\<close>) and the LED class device (\<^verbatim>\<open>CONFIG_LEDS_CLASS\<close>).  The
  compiled variants, which do nothing, are in \<open>Setup\<close>, \<open>Request\<close> and \<open>Host\<close>.  The DMA engine and
  the LED class have no code in the repository: the first is the record \<open>dma_engine\<close> of
  functions, the functions of the second are arguments.  Channels are numbers, \<open>None\<close> is a NULL pointer.
\<close>

subsection \<open>Channels\<close>

type_synonym chan = nat

record slave_config =
  src_addr :: u64
  dst_addr :: u64
  src_addr_width :: u32
  dst_addr_width :: u32
  src_maxburst :: u32
  dst_maxburst :: u32

record dma_engine =
  dma_request_chan :: "string \<Rightarrow> world \<Rightarrow> errno + chan"
  dmaengine_slave_config :: "chan option \<Rightarrow> slave_config \<Rightarrow> world \<Rightarrow> errno option"
  dmaengine_prep_slave_sg ::
    "chan option \<Rightarrow> scatterlist list \<Rightarrow> u32 \<Rightarrow> bool \<Rightarrow> world \<Rightarrow> nat option"
  dmaengine_submit :: "nat \<Rightarrow> world \<Rightarrow> errno option"

text \<open>The members of \<^verbatim>\<open>struct sdhci_host\<close> this part adds, and the channels it holds of the engine
  (given out and not yet released).\<close>

record ext_host =
  mapbase :: u64
  rx_chan :: "chan option"
  tx_chan :: "chan option"
  held :: "chan list"
  issued :: "chan list"

definition take_chan :: "chan \<Rightarrow> ext_host \<Rightarrow> ext_host" where
  "take_chan c x = x\<lparr>held := c # held x\<rparr>"

definition dma_release_channel :: "chan \<Rightarrow> ext_host \<Rightarrow> ext_host" where
  "dma_release_channel c x = x\<lparr>held := remove1 c (held x)\<rparr>"

definition release_tx :: "ext_host \<Rightarrow> ext_host" where
  "release_tx x =
     (case tx_chan x of
        Some c \<Rightarrow> (dma_release_channel c x)\<lparr>tx_chan := None\<rparr>
      | None \<Rightarrow> x)"

definition release_rx :: "ext_host \<Rightarrow> ext_host" where
  "release_rx x =
     (case rx_chan x of
        Some c \<Rightarrow> (dma_release_channel c x)\<lparr>rx_chan := None\<rparr>
      | None \<Rightarrow> x)"

definition external_dma_init ::
  "dma_engine \<Rightarrow> world \<Rightarrow> ext_host \<Rightarrow> errno option \<times> ext_host" where
  "external_dma_init de w x =
     (case dma_request_chan de ''tx'' w of
        Inl e \<Rightarrow> (Some e, x\<lparr>tx_chan := None\<rparr>)
      | Inr t \<Rightarrow>
          (let x = (take_chan t x)\<lparr>tx_chan := Some t\<rparr>
           in case dma_request_chan de ''rx'' w of
                Inl e \<Rightarrow> (Some e, (release_tx x)\<lparr>rx_chan := None\<rparr>)
              | Inr r \<Rightarrow> (None, (take_chan r x)\<lparr>rx_chan := Some r\<rparr>)))"

definition sdhci_external_dma_channel :: "datap \<Rightarrow> world \<Rightarrow> ext_host \<Rightarrow> chan option" where
  "sdhci_external_dma_channel dp w x =
     (if d_write (datas w dp) then tx_chan x else rx_chan x)"

definition external_dma_release :: "world \<Rightarrow> ext_host \<Rightarrow> world \<times> ext_host" where
  "external_dma_release w x = (sdhci_switch_external_dma False w, release_rx (release_tx x))"

subsection \<open>Transfers\<close>

text \<open>Whether an entry is no multiple of the block size; \<open>None\<close> beyond the end of the list or when
  dividing by 0.\<close>

fun sg_misfits :: "nat \<Rightarrow> u32 \<Rightarrow> scatterlist list \<Rightarrow> bool option" where
  "sg_misfits 0 blksz l = Some False"
| "sg_misfits (Suc n) blksz [] = None"
| "sg_misfits (Suc n) blksz (s # l) =
     (if blksz = 0 then None
      else if sg_length s mod blksz \<noteq> 0 then Some True else sg_misfits n blksz l)"

definition sdhci_external_dma_setup ::
  "dma_engine \<Rightarrow> sdhci_ops \<Rightarrow> cmdp \<Rightarrow> world \<Rightarrow> ext_host \<Rightarrow> (errno option \<times> world) option" where
  "sdhci_external_dma_setup de ops cp w x =
    (
     if mapbase x = 0 then Some (Some EINVAL, w)
     else do {
       dp \<leftarrow> c_data (cmds w cp);
       let d = datas w dp;
       let cfg = \<lparr>src_addr = mapbase x + of_nat SDHCI_BUFFER, dst_addr = mapbase x + of_nat SDHCI_BUFFER,
                  src_addr_width = 4, dst_addr_width = 4,
                  src_maxburst = d_blksz d div 4, dst_maxburst = d_blksz d div 4\<rparr>;
       bad \<leftarrow> sg_misfits (unat (d_sg_len d)) (d_blksz d) (m_sg w);
       if bad then Some (Some EINVAL, w)
       else
         (let ch = sdhci_external_dma_channel dp w x;
              ret = dmaengine_slave_config de ch cfg w
          in if ret \<noteq> None then Some (ret, w)
             else do {
               (sg_cnt, w) \<leftarrow> sdhci_pre_dma_transfer ops dp COOKIE_MAPPED w;
               if (case sg_cnt of Inl _ \<Rightarrow> True | Inr n \<Rightarrow> n \<le> 0) then Some (Some EINVAL, w)
               else
                 (case dmaengine_prep_slave_sg de ch (m_sg w) (d_sg_len (datas w dp)) (d_write d) w of
                    None \<Rightarrow> Some (Some EINVAL, w)
                  | Some desc \<Rightarrow> Some (dmaengine_submit de desc w, w))
             })
     })"

definition raw_sdhci_external_dma_prepare_data :: "cmdp \<Rightarrow> world \<Rightarrow> world option" where
  "raw_sdhci_external_dma_prepare_data cp w = do {
     dp \<leftarrow> c_data (cmds w cp);
     w \<leftarrow> sdhci_initialize_data dp w;
     let w = set_flags SDHCI_REQ_USE_DMA w;
     let w = sdhci_set_transfer_irqs w;
     Some (sdhci_set_block_info dp w)
   }"

definition external_dma_prepare_data ::
  "dma_engine \<Rightarrow> sdhci_ops \<Rightarrow> cmdp \<Rightarrow> world \<Rightarrow> ext_host \<Rightarrow> (world \<times> ext_host) option" where
  "external_dma_prepare_data de ops cp w x = do {
     (ret, w) \<leftarrow> sdhci_external_dma_setup de ops cp w x;
     if ret = None then do {
       w \<leftarrow> raw_sdhci_external_dma_prepare_data cp w;
       Some (w, x)
     } else do {
       let (w, x) = external_dma_release w x;
       w \<leftarrow> sdhci_prepare_data ops cp w;
       Some (w, x)
     }
   }"

definition external_dma_pre_transfer :: "cmdp \<Rightarrow> world \<Rightarrow> ext_host \<Rightarrow> ext_host" where
  "external_dma_pre_transfer cp w x =
     (case c_data (cmds w cp) of
        None \<Rightarrow> x
      | Some dp \<Rightarrow>
          (case sdhci_external_dma_channel dp w x of
             Some c \<Rightarrow> x\<lparr>issued := c # issued x\<rparr>
           | None \<Rightarrow> x))"

subsection \<open>The LED class device\<close>

datatype led_brightness = LED_OFF | LED_ON nat

record led_dev =
  led_name :: string
  brightness :: led_brightness
  default_trigger :: string

definition sdhci_led_control :: "led_brightness \<Rightarrow> world \<Rightarrow> world" where
  "sdhci_led_control b w =
     (if h_runtime_suspended w then w
      else if b = LED_OFF then sdhci_led_deactivate w else sdhci_led_activate w)"

text \<open>The result is that of \<^verbatim>\<open>led_classdev_register\<close> and the device handed to it, if it is called.
  The name is cut to the 31 characters that fit \<^verbatim>\<open>led_name\<close>.\<close>

definition led_register ::
  "(led_dev \<Rightarrow> world \<Rightarrow> errno option) \<Rightarrow> world \<Rightarrow> errno option \<times> led_dev option" where
  "led_register classdev_register w =
     (if tst (h_quirks w) SDHCI_QUIRK_NO_LED then (None, None)
      else
        (let led = \<lparr>led_name = take 31 (m_dev_name w @ ''::''), brightness = LED_OFF,
                    default_trigger = m_dev_name w\<rparr>
         in (classdev_register led w, Some led)))"

definition led_unregister :: "(world \<Rightarrow> world) \<Rightarrow> world \<Rightarrow> world" where
  "led_unregister classdev_unregister w =
     (if tst (h_quirks w) SDHCI_QUIRK_NO_LED then w else classdev_unregister w)"

subsection \<open>Channels are not lost\<close>

text \<open>The host holds exactly the channels its two pointers name.\<close>

definition holds_chans :: "ext_host \<Rightarrow> bool" where
  "holds_chans x \<longleftrightarrow> held x = [c. Some c \<leftarrow> [rx_chan x, tx_chan x]]"

lemma external_dma_init_holds:
  assumes "external_dma_init de w x = (e, x')" "rx_chan x = None" "tx_chan x = None" "holds_chans x"
  shows "holds_chans x' \<and> (if e = None then rx_chan x' \<noteq> None \<and> tx_chan x' \<noteq> None else held x' = [])"
  using assms
  by (auto simp: external_dma_init_def holds_chans_def take_chan_def release_tx_def
      dma_release_channel_def Let_def split: sum.splits)

lemma external_dma_release_holds:
  "holds_chans x \<Longrightarrow> held (snd (external_dma_release w x)) = []
     \<and> rx_chan (snd (external_dma_release w x)) = None \<and> tx_chan (snd (external_dma_release w x)) = None
     \<and> \<not> h_use_external_dma (fst (external_dma_release w x))"
  by (cases "rx_chan x"; cases "tx_chan x")
    (simp_all add: holds_chans_def external_dma_release_def release_tx_def release_rx_def
      dma_release_channel_def sdhci_switch_external_dma_def)

text \<open>A transfer the external controller cannot take is prepared as one of the host's own, and the
  channels are given back.\<close>

lemma external_dma_falls_back:
  assumes "external_dma_prepare_data de ops cp w x = Some (w', x')" "holds_chans x"
    and "sdhci_external_dma_setup de ops cp w x = Some (Some e, w1)"
  shows "sdhci_prepare_data ops cp (w1\<lparr>h_use_external_dma := False\<rparr>) = Some w' \<and> held x' = []"
  using assms external_dma_release_holds[OF assms(2)]
  by (auto simp: external_dma_prepare_data_def external_dma_release_def
      sdhci_switch_external_dma_def Option.bind_eq_Some_conv)

end
