(* ===== verification/ModeFacts.thy ===== *)
theory ModeFacts
  imports CmdFacts
begin

text \<open>
  The transfer mode register (\<^verbatim>\<open>sdhci_set_transfer_mode\<close> and \<^verbatim>\<open>sdhci_auto_cmd_select\<close> of
  \<^verbatim>\<open>sdhci.c\<close>): the value written before a data command, in closed form, and what a controller
  that decodes it is told about the transfer.
\<close>

definition is_multi :: "cmdp \<Rightarrow> datap \<Rightarrow> world \<Rightarrow> bool" where
  "is_multi cp dp w \<longleftrightarrow> mmc_op_multi (c_opcode (cmds w cp)) \<or> d_blocks (datas w dp) > 1"

text \<open>The two bits that choose an automatic command: none, CMD12, CMD23, or (from version 4.10 on)
  the choice left to a bit of the second control register.\<close>

definition auto_field :: "cmdp \<Rightarrow> world \<Rightarrow> u16" where
  "auto_field cp w =
     (let q = c_mrq (cmds w cp);
          cmd12 = sdhci_auto_cmd12 q w \<and> c_opcode (cmds w cp) \<noteq> SD_IO_RW_EXTENDED;
          cmd23 = sdhci_auto_cmd23 q w
      in if \<not> cmd12 \<and> \<not> cmd23 then 0
         else if h_version w \<ge> SDHCI_SPEC_410 \<and> h_v4_mode w then SDHCI_TRNS_AUTO_SEL
         else if cmd12 then SDHCI_TRNS_AUTO_CMD12 else SDHCI_TRNS_AUTO_CMD23)"

definition mode_of :: "cmdp \<Rightarrow> datap \<Rightarrow> world \<Rightarrow> u16" where
  "mode_of cp dp w =
     ((if is_multi cp dp w then (SDHCI_TRNS_BLK_CNT_EN OR SDHCI_TRNS_MULTI) OR auto_field cp w
       else if tst (h_quirks2 w) SDHCI_QUIRK2_SUPPORT_SINGLE then 0 else SDHCI_TRNS_BLK_CNT_EN)
      OR (if d_read (datas w dp) then SDHCI_TRNS_READ else 0))
     OR (if tst (h_flags w) SDHCI_REQ_USE_DMA then SDHCI_TRNS_DMA else 0)"

lemma auto_cmd_excl: "sdhci_auto_cmd12 q w \<Longrightarrow> \<not> sdhci_auto_cmd23 q w"
  by (simp add: sdhci_auto_cmd12_def sdhci_auto_cmd23_def)

lemma auto_select_mode:
  "fst (sdhci_auto_cmd_select cp m w) = m OR auto_field cp w"
  by (auto simp: sdhci_auto_cmd_select_def auto_field_def Let_def)

lemma auto_select_frame:
  "cmds (snd (sdhci_auto_cmd_select cp m w)) = cmds w" "mrqs (snd (sdhci_auto_cmd_select cp m w)) = mrqs w"
  "h_flags (snd (sdhci_auto_cmd_select cp m w)) = h_flags w"
  "sdhci_auto_cmd23 q (snd (sdhci_auto_cmd_select cp m w)) = sdhci_auto_cmd23 q w"
  by (simp_all add: sdhci_auto_cmd_select_def sdhci_auto_cmd23_def Let_def)

lemma auto_emit:
  "sdhci_auto_cmd12 q (emit e w) = sdhci_auto_cmd12 q w"
  "sdhci_auto_cmd23 q (emit e w) = sdhci_auto_cmd23 q w"
  "auto_field cp (emit e w) = auto_field cp w"
proof -
  show e: "sdhci_auto_cmd12 q (emit e w) = sdhci_auto_cmd12 q w"
    "sdhci_auto_cmd23 q (emit e w) = sdhci_auto_cmd23 q w" for q
    by (simp_all add: sdhci_auto_cmd12_def sdhci_auto_cmd23_def emit_def)
  show "auto_field cp (emit e w) = auto_field cp w"
    by (simp add: auto_field_def e Let_def cong: if_cong)
qed

lemma transfer_mode_written:
  assumes "c_data (cmds w cp) = Some dp"
  shows "\<exists>es. hist (sdhci_set_transfer_mode cp w) = Wr16 SDHCI_TRANSFER_MODE (mode_of cp dp w) # es
    \<and> (\<forall>sbc. is_multi cp dp w \<and> q_sbc (mrqs w (c_mrq (cmds w cp))) = Some sbc
          \<and> sdhci_auto_cmd23 (c_mrq (cmds w cp)) w
        \<longrightarrow> last_wr32 SDHCI_ARGUMENT2 es = Some (c_arg (cmds w sbc)))"
proof (cases "is_multi cp dp w")
  case False
  then show ?thesis using assms
    by (auto simp: sdhci_set_transfer_mode_def is_multi_def mode_of_def WARN_ON_def Let_def
        sdhci_writew_def emit_def)
next
  case True
  define w1 where "w1 = WARN_ON 1411 (h_data w = None) w"
  have eq: "cmds w1 = cmds w" "mrqs w1 = mrqs w" "h_flags w1 = h_flags w"
    "sdhci_auto_cmd23 q w1 = sdhci_auto_cmd23 q w" "auto_field cp w1 = auto_field cp w" for q
    by (simp_all add: w1_def WARN_ON_def auto_emit)
  show ?thesis using assms True
    by (cases "q_sbc (mrqs w (c_mrq (cmds w cp)))")
      (auto simp: sdhci_set_transfer_mode_def is_multi_def mode_of_def w1_def[symmetric] split_beta
        auto_select_mode auto_select_frame eq Let_def sdhci_writew_def sdhci_writel_def emit_def)
qed

lemma auto_field_cases: "auto_field cp w \<in> {0, 4, 8, 12}"
  by (simp add: auto_field_def Let_def)

lemma mode_of_decodes:
  "tst (mode_of cp dp w) SDHCI_TRNS_READ = d_read (datas w dp)"
  "tst (mode_of cp dp w) SDHCI_TRNS_DMA = tst (h_flags w) SDHCI_REQ_USE_DMA"
  "tst (mode_of cp dp w) SDHCI_TRNS_MULTI = is_multi cp dp w"
  "tst (mode_of cp dp w) SDHCI_TRNS_BLK_CNT_EN
     = (is_multi cp dp w \<or> \<not> tst (h_quirks2 w) SDHCI_QUIRK2_SUPPORT_SINGLE)"
  "mode_of cp dp w AND SDHCI_TRNS_AUTO_SEL = (if is_multi cp dp w then auto_field cp w else 0)"
  using auto_field_cases[of cp w] by (auto simp: mode_of_def tst_def)

text \<open>C31. Before a data command the transfer mode register is written last, and the value written
  describes the transfer: direction, use of DMA, several blocks, block count, and the automatic
  command chosen (none for a single block); when the automatic command is CMD23 its argument has
  been written to the argument 2 register before, and it is the argument of the request's own
  CMD23.\<close>

theorem transfer_mode_encodes:
  assumes "c_data (cmds w cp) = Some dp"
  shows "\<exists>m es. hist (sdhci_set_transfer_mode cp w) = Wr16 SDHCI_TRANSFER_MODE m # es
    \<and> tst m SDHCI_TRNS_READ = d_read (datas w dp)
    \<and> tst m SDHCI_TRNS_DMA = tst (h_flags w) SDHCI_REQ_USE_DMA
    \<and> tst m SDHCI_TRNS_MULTI = is_multi cp dp w
    \<and> tst m SDHCI_TRNS_BLK_CNT_EN
        = (is_multi cp dp w \<or> \<not> tst (h_quirks2 w) SDHCI_QUIRK2_SUPPORT_SINGLE)
    \<and> m AND SDHCI_TRNS_AUTO_SEL = (if is_multi cp dp w then auto_field cp w else 0)
    \<and> (\<forall>sbc. is_multi cp dp w \<and> q_sbc (mrqs w (c_mrq (cmds w cp))) = Some sbc
          \<and> sdhci_auto_cmd23 (c_mrq (cmds w cp)) w
        \<longrightarrow> last_wr32 SDHCI_ARGUMENT2 es = Some (c_arg (cmds w sbc)))"
proof -
  obtain es where es: "hist (sdhci_set_transfer_mode cp w) = Wr16 SDHCI_TRANSFER_MODE (mode_of cp dp w) # es"
    "\<forall>sbc. is_multi cp dp w \<and> q_sbc (mrqs w (c_mrq (cmds w cp))) = Some sbc
       \<and> sdhci_auto_cmd23 (c_mrq (cmds w cp)) w
     \<longrightarrow> last_wr32 SDHCI_ARGUMENT2 es = Some (c_arg (cmds w sbc))"
    using transfer_mode_written[OF assms] by blast
  show ?thesis
    by (rule exI[of _ "mode_of cp dp w"], rule exI[of _ es])
      (intro conjI mode_of_decodes es)
qed

definition mode_world :: world where
  "mode_world = free_world\<lparr>h_flags := SDHCI_REQ_USE_DMA OR SDHCI_AUTO_CMD23,
     cmds := \<lambda>c. blank_cmd\<lparr>c_mrq := c, c_opcode := 18, c_arg := of_nat c, c_data := Some 7\<rparr>,
     datas := \<lambda>_. (datas free_world 7)\<lparr>d_read := True, d_blocks := 4\<rparr>,
     mrqs := \<lambda>_. (mrqs free_world 7)\<lparr>q_sbc := Some 9, q_cap_cmd_during_tfr := False\<rparr>\<rparr>"

theorem transfer_mode_encodes_witness:
  "\<exists>m es. hist (sdhci_set_transfer_mode 7 mode_world) = Wr16 SDHCI_TRANSFER_MODE m # es
    \<and> tst m SDHCI_TRNS_READ \<and> tst m SDHCI_TRNS_DMA \<and> tst m SDHCI_TRNS_MULTI
    \<and> m AND SDHCI_TRNS_AUTO_SEL = SDHCI_TRNS_AUTO_CMD23
    \<and> last_wr32 SDHCI_ARGUMENT2 es = Some 9"
proof -
  have f: "c_data (cmds mode_world 7) = Some 7" "q_sbc (mrqs mode_world (c_mrq (cmds mode_world 7))) = Some 9"
    "sdhci_auto_cmd23 (c_mrq (cmds mode_world 7)) mode_world" "is_multi 7 7 mode_world"
    "d_read (datas mode_world 7)" "tst (h_flags mode_world) SDHCI_REQ_USE_DMA"
    "auto_field 7 mode_world = SDHCI_TRNS_AUTO_CMD23" "c_arg (cmds mode_world 9) = 9"
    by code_simp+
  show ?thesis using transfer_mode_encodes[OF f(1)] f(2-8) by auto
qed

end
