(* ===== verification/TuningFacts.thy ===== *)
theory TuningFacts
  imports ResetFacts Tuning
begin

text \<open>
  The outcome of the generic tuning procedure (\<^verbatim>\<open>sdhci_execute_tuning\<close> of \<^verbatim>\<open>sdhci.c\<close>) with the
  operations of \<^verbatim>\<open>sdhci-pltfm.c\<close>: what the driver reports in \<open>h_tuning_err\<close> against what
  the controller said last and what was written to it last.
\<close>

definition hc2 :: "world \<Rightarrow> u16 option" where
  "hc2 w = last_wr16 SDHCI_HOST_CONTROL2 (hist w)"

lemma hc2_upd [simp]:
  "hc2 (w\<lparr>h_clock := c\<rparr>) = hc2 w" "hc2 (w\<lparr>h_preset_enabled := p\<rparr>) = hc2 w"
  "hc2 (w\<lparr>h_bus_on := b\<rparr>) = hc2 w" "hc2 (w\<lparr>h_tuning_err := e\<rparr>) = hc2 w"
  "hc2 (w\<lparr>h_flags := f\<rparr>) = hc2 w"
  by (simp_all add: hc2_def)

lemma hc2_emit:
  "hc2 (emit e w) = (case e of Wr16 r v \<Rightarrow> if r = SDHCI_HOST_CONTROL2 then Some v else hc2 w | _ \<Rightarrow> hc2 w)"
  by (cases e) (simp_all add: hc2_def emit_def)

lemma hc2_dump [simp]: "hc2 (sdhci_dumpregs None w) = hc2 w"
  by (simp add: sdhci_dumpregs_def dump_regs1_def dump_regs2_def access_defs Let_def call_opt_def
      hc2_def)

lemma hc2_wait: "reset_wait v m t w = Some w' \<Longrightarrow> v = None \<longrightarrow> hc2 w' = hc2 w"
proof (induction rule: reset_wait.raw_induct[rotated, consumes 1, case_names step])
  case (step loop v m t w w')
  show ?case
  proof
    assume v: "v = None"
    show "hc2 w' = hc2 w"
      using step(2) step(1) v
      by (auto simp: Let_def split_beta hc2_emit ktime_get_def jiffies_def rt_tick_get_def
          sdhci_readb_def udelay_def split: if_split_asm)
  qed
qed

lemma pltfm_reset: "o_reset sdhci_pltfm_ops = sdhci_reset None"
  by (simp add: sdhci_pltfm_ops_def)

lemma hc2_reset:
  assumes "sdhci_do_reset sdhci_pltfm_ops m w = Some w'"
  shows "hc2 w' = hc2 w"
proof -
  have cd: "hc2 (snd (sdhci_get_cd x)) = hc2 x" for x
    by (simp add: sdhci_get_cd_def Let_def split_beta sdhci_readl_def hc2_emit split: sum.split)
  have ep: "hc2 (reset_epilogue sdhci_pltfm_ops m x) = hc2 x" for x
    by (simp add: reset_epilogue_def run_enable_dma_def driver_no_hooks[of sdhci_pltfm_ops]
        driver_ops_def Let_def)
  have o: "hc2 x' = hc2 x" if "sdhci_reset None m x = Some x'" for x x'
    using that by (auto simp: sdhci_reset_def Let_def split_beta hc2_emit
        ktime_get_def jiffies_def rt_tick_get_def sdhci_writeb_def sdhci_runtime_pm_bus_off_def
        dest!: hc2_wait split: if_split_asm)
  show ?thesis using assms unfolding sdhci_do_reset_def
    by (auto simp: Let_def split_beta ep cd pltfm_reset Option.bind_eq_Some_conv dest!: o
        split: if_split_asm)
qed

definition untuned :: "u16 option \<Rightarrow> bool" where
  "untuned h \<longleftrightarrow> (\<exists>v. h = Some v \<and> \<not> tst v SDHCI_CTRL_EXEC_TUNING \<and> \<not> tst v SDHCI_CTRL_TUNED_CLK)"

lemma both_cleared:
  fixes c :: u16
  shows "\<not> tst ((c AND NOT SDHCI_CTRL_TUNED_CLK) AND NOT SDHCI_CTRL_EXEC_TUNING) SDHCI_CTRL_EXEC_TUNING"
    and "\<not> tst ((c AND NOT SDHCI_CTRL_TUNED_CLK) AND NOT SDHCI_CTRL_EXEC_TUNING) SDHCI_CTRL_TUNED_CLK"
   apply (rule tst_clear_same, simp)
  apply (subst tst_clear_other, simp, rule tst_clear_same, simp)
  done

lemma reset_tuning_untunes: "untuned (hc2 (sdhci_reset_tuning w))"
  unfolding untuned_def using both_cleared[of "ucast (e_rd w (hist w) SDHCI_HOST_CONTROL2)"]
  by (simp add: sdhci_reset_tuning_def Let_def split_beta sdhci_writew_def sdhci_readw_def hc2_emit)

lemma abort_tuning_untunes:
  assumes "sdhci_abort_tuning sdhci_pltfm_ops opcode w = Some w'"
  shows "untuned (hc2 w')"
  using assms reset_tuning_untunes[of w]
  by (auto simp: sdhci_abort_tuning_def Let_def Option.bind_eq_Some_conv mmc_abort_tuning_def
      sdhci_end_tuning_def write_ier_def sdhci_writel_def hc2_emit dest!: hc2_reset)

lemma end_tuning_hist:
  "hist (sdhci_end_tuning w) = Wr32 SDHCI_SIGNAL_ENABLE (h_ier w) # Wr32 SDHCI_INT_ENABLE (h_ier w) # hist w"
  "hc2 (sdhci_end_tuning w) = hc2 w" "h_ier (sdhci_end_tuning w) = h_ier w" "e_rd (sdhci_end_tuning w) = e_rd w"
  "h_tuning_err (sdhci_end_tuning w) = h_tuning_err w"
  by (simp_all add: sdhci_end_tuning_def write_ier_def sdhci_writel_def hc2_def emit_def)

text \<open>The controller has said last that tuning is over and the sampling clock is tuned.\<close>

definition tuned_report :: "(event list \<Rightarrow> nat \<Rightarrow> u32) \<Rightarrow> event list \<Rightarrow> bool" where
  "tuned_report rd h \<longleftrightarrow>
     (\<exists>es. h = Rd16 SDHCI_HOST_CONTROL2 # es
       \<and> tst (ucast (rd es SDHCI_HOST_CONTROL2) :: u16) SDHCI_CTRL_TUNED_CLK
       \<and> \<not> tst (ucast (rd es SDHCI_HOST_CONTROL2) :: u16) SDHCI_CTRL_EXEC_TUNING)"

lemma tuning_loop_outcome:
  assumes "tuning_loop sdhci_pltfm_ops u cp mrq opcode n w = Some (err, w')"
  shows "if err = None then tuned_report (e_rd w') (hist w') else untuned (hc2 w')"
  using assms
proof (induction sdhci_pltfm_ops u cp mrq opcode n w rule: tuning_loop.induct)
  case (1 u cp mrq opcode w)
  then show ?case using reset_tuning_untunes by auto
next
  case (2 u cp mrq opcode n w)
  from 2(2) obtain w1 where w1: "sdhci_send_tuning sdhci_pltfm_ops u cp mrq opcode w = Some w1"
    by (auto elim: bind_eq_SomeD)
  define w2 where "w2 = (if h_tuning_delay w1 > 0 then mdelay (nat (h_tuning_delay w1)) w1 else w1)"
  show ?case
  proof (cases "h_tuning_done w1")
    case False
    then show ?thesis using 2(2) w1
      by (auto simp: Option.bind_eq_Some_conv dest: abort_tuning_untunes)
  next
    case True
    show ?thesis using 2(2) w1 True 2(1)[OF w1] reset_tuning_untunes
      by (auto simp: w2_def[symmetric] sdhci_readw_def Let_def tuned_report_def split: if_splits)
  qed
qed

lemma silent_tuning_times_out:
  assumes "tuning_loop ops (\<lambda>w. w) cp mrq opcode n w = Some (err, w')"
  shows "err = Some (if n = 0 then EAGAIN else ETIMEDOUT)"
proof (cases n)
  case (Suc m)
  have "\<not> h_tuning_done w1" if "sdhci_send_tuning ops (\<lambda>w. w) cp mrq opcode w = Some w1" for w1
    using that by (auto simp: sdhci_send_tuning_def Let_def Option.bind_eq_Some_conv split: if_splits)
  then show ?thesis using assms Suc by (auto simp: Option.bind_eq_Some_conv)
qed (use assms in simp)

text \<open>C32. Generic tuning: when the timing asks for it the function always reports success to the
  core, restores both interrupt enable registers and forgets the HS400 mark; what really happened
  is in \<open>h_tuning_err\<close>.  No error there means that the controller has said last that tuning
  is over and the clock tuned; after an error the last write to the control register has
  taken both tuning bits back, so the controller is on the fixed clock.  In this port, where
  waiting for the interrupt is a stub, every tuning that no handler interrupts at the right moment
  ends with ETIMEDOUT (or EAGAIN without a single attempt).\<close>

theorem tuning_outcome:
  assumes "sdhci_execute_tuning sdhci_pltfm_ops u cp mrq opcode w = Some (err, w')"
    and "tuning_needed w = Inr c"
  shows "err = None \<and> ier_ok w' \<and> \<not> tst (h_flags w') SDHCI_HS400_TUNING
    \<and> (if h_tuning_err w' = None then \<exists>e1 e2 es. hist w' = e1 # e2 # es \<and> tuned_report (e_rd w') es
       else untuned (hc2 w'))
    \<and> (u = (\<lambda>w. w) \<longrightarrow> h_tuning_err w' = Some (if h_tuning_loop_count w = 0 then EAGAIN else ETIMEDOUT))"
proof -
  define ws where "ws = sdhci_start_tuning
    (let w = w\<lparr>m_retune_period := c\<rparr>
     in if h_tuning_delay w < 0
        then w\<lparr>h_tuning_delay := if opcode = MMC_SEND_TUNING_BLOCK then 1 else 0\<rparr> else w)"
  have n: "h_tuning_loop_count ws = h_tuning_loop_count w"
    by (simp add: ws_def sdhci_start_tuning_def Let_def split_beta sdhci_readw_def sdhci_writew_def
        sdhci_writel_def emit_def)
  obtain e w1 where loop: "tuning_loop sdhci_pltfm_ops u cp mrq opcode (h_tuning_loop_count ws) ws = Some (e, w1)"
    and out: "err = None" "w' = (let w = sdhci_end_tuning (w1\<lparr>h_tuning_err := e\<rparr>)
        in w\<lparr>h_flags := h_flags w AND NOT SDHCI_HS400_TUNING\<rparr>)"
    using assms by (auto simp: sdhci_execute_tuning_def raw_sdhci_execute_tuning_def Let_def
        ws_def sdhci_pltfm_ops_def Option.bind_eq_Some_conv split: if_splits)
  have end_ok: "ier_ok w'" "\<not> tst (h_flags w') SDHCI_HS400_TUNING" "h_tuning_err w' = e"
    "hc2 w' = hc2 w1" "e_rd w' = e_rd w1"
    "hist w' = Wr32 SDHCI_SIGNAL_ENABLE (h_ier w1) # Wr32 SDHCI_INT_ENABLE (h_ier w1) # hist w1"
    using tst_clear_same[of SDHCI_HS400_TUNING SDHCI_HS400_TUNING
        "h_flags (sdhci_end_tuning (w1\<lparr>h_tuning_err := e\<rparr>))"]
    by (simp_all add: out Let_def ier_ok_def end_tuning_hist)
  have silent: "e = Some (if h_tuning_loop_count w = 0 then EAGAIN else ETIMEDOUT)" if "u = (\<lambda>w. w)"
    using silent_tuning_times_out loop that n by metis
  have "if e = None then \<exists>e1 e2 es. hist w' = e1 # e2 # es \<and> tuned_report (e_rd w') es
      else untuned (hc2 w')"
    using tuning_loop_outcome[OF loop] end_ok(4-6) by (auto split: if_splits)
  then show ?thesis using silent end_ok(1-3) out(1) by simp
qed

text \<open>A controller that raises its interrupt for the tuning command and is tuned at once.\<close>

definition tuned_world :: world where
  "tuned_world = blank_world\<lparr>h_timing := MMC_TIMING_UHS_SDR104, h_tuning_loop_count := 40,
     h_ier := 3, e_rd := \<lambda>_ r. if r = SDHCI_COMMAND then 19 * 256
       else if r = SDHCI_HOST_CONTROL2 then SDHCI_CTRL_TUNED_CLK else 0\<rparr>"

abbreviation tuning_irqs :: "world \<Rightarrow> world" where
  "tuning_irqs \<equiv> \<lambda>w. snd (tuning_irq SDHCI_INT_DATA_AVAIL w)"

theorem tuning_outcome_witness:
  "\<exists>w' e1 e2 es. sdhci_execute_tuning sdhci_pltfm_ops tuning_irqs 7 7 19 tuned_world = Some (None, w')
    \<and> h_tuning_err w' = None \<and> ier_ok w' \<and> hist w' = e1 # e2 # es \<and> tuned_report (e_rd w') es"
proof -
  have n: "tuning_needed tuned_world = Inr 0" by code_simp
  have "map_option (\<lambda>(err, w'). (err, h_tuning_err w'))
      (sdhci_execute_tuning sdhci_pltfm_ops tuning_irqs 7 7 19 tuned_world) = Some (None, None)"
    by code_simp
  then obtain w' where w': "sdhci_execute_tuning sdhci_pltfm_ops tuning_irqs 7 7 19 tuned_world = Some (None, w')"
    "h_tuning_err w' = None" by auto
  show ?thesis using tuning_outcome[OF w'(1) n] w' by auto
qed

end
