(* ===== verification/PortMacros.thy ===== *)
theory PortMacros
  imports Setup
begin

text \<open>
  The arithmetic macros and the thin wrappers of the port layer (\<^verbatim>\<open>port/osdep/port.h\<close>,
  \<^verbatim>\<open>port/port.c\<close>, \<^verbatim>\<open>port/l-mem.c\<close>, \<^verbatim>\<open>port/l-spinlock.c\<close>, the callbacks of \<^verbatim>\<open>port/l-timer.c\<close> and
  \<^verbatim>\<open>port/l-workqueue.c\<close>), and why the rest of the development may use what it uses instead of
  them: masks written out, fields read in 32 bits, a sum type for a pointer that may be an
  error, \<open>sg_virt\<close> for a mapped page.
\<close>

subsection \<open>Masks and fields\<close>

definition BIT :: "nat \<Rightarrow> u32" where
  "BIT nr = push_bit nr 1"

text \<open>\<^verbatim>\<open>unsigned long\<close> has 64 bits.\<close>

definition GENMASK :: "nat \<Rightarrow> nat \<Rightarrow> u64" where
  "GENMASK h l = ((NOT 0 - push_bit l 1) + 1) AND drop_bit (64 - 1 - h) (NOT 0)"

lemma bit_GENMASK:
  assumes "h < 64"
  shows "bit (GENMASK h l) i \<longleftrightarrow> l \<le> i \<and> i \<le> h"
proof -
  have "(NOT 0 - push_bit l 1) + 1 = NOT (mask l :: u64)"
    using minus_exp_eq_not_mask[of l, where 'a = "64 word"] by (simp add: push_bit_eq_mult)
  moreover have "i \<le> h \<longleftrightarrow> i + (63 - h) < 64" if "h < 64" using that by linarith
  ultimately show ?thesis
    using assms by (auto simp: GENMASK_def bit_simps)
qed

lemma masks_of_sdhci_h:
  "GENMASK 5 0 = SDHCI_TIMEOUT_CLK_MASK" "GENMASK 13 8 = SDHCI_CLOCK_BASE_MASK"
  "GENMASK 15 8 = SDHCI_CLOCK_V3_BASE_MASK" "GENMASK 11 8 = SDHCI_RETUNING_TIMER_COUNT_MASK"
  "GENMASK 15 14 = SDHCI_RETUNING_MODE_MASK" "GENMASK 23 16 = SDHCI_CLOCK_MUL_MASK"
  "GENMASK 7 0 = SDHCI_MAX_CURRENT_LIMIT"
  by (simp_all add: GENMASK_def mask_eq_exp_minus_1)

text \<open>A mask of consecutive bits.\<close>

definition field :: "nat \<Rightarrow> nat \<Rightarrow> 'a::len word \<Rightarrow> bool" where
  "field h l m \<longleftrightarrow> l \<le> h \<and> h < LENGTH('a) \<and> (\<forall>i. bit m i \<longleftrightarrow> l \<le> i \<and> i \<le> h)"

lemma field_GENMASK: "l \<le> h \<Longrightarrow> h < 64 \<Longrightarrow> field h l (GENMASK h l)"
  by (simp add: field_def bit_GENMASK)

lemma fieldD:
  fixes m :: "'a::len word"
  assumes "field h l m"
  shows "bit m i \<longleftrightarrow> l \<le> i \<and> i \<le> h" "l \<le> h" "h < LENGTH('a)"
  using assms by (simp_all add: field_def)

lemma bf_shf_field:
  fixes m :: "'a::len word"
  assumes "field h l m"
  shows "bf_shf m = l"
proof -
  have l: "l < LENGTH('a)" using fieldD[OF assms] by simp
  then have "[0..<LENGTH('a)] = [0..<l] @ l # [Suc l..<LENGTH('a)]"
    by (metis le_add_diff_inverse less_imp_le upt_add_eq_append upt_conv_Cons zero_le)
  then show ?thesis
    using fieldD[OF assms] by (simp add: bf_shf_def takeWhile_append)
qed

text \<open>Bit \<open>n\<close> of a field is bit \<open>l + n\<close> of the register, as long as the field has it.\<close>

lemma bit_FIELD:
  assumes "field h l m"
  shows "bit (FIELD_GET m r) n \<longleftrightarrow> l + n \<le> h \<and> bit r (l + n)"
    and "bit (FIELD_PREP m r) n \<longleftrightarrow> l \<le> n \<and> n \<le> h \<and> bit r (n - l)"
  using fieldD[OF assms]
  by (auto simp: FIELD_GET_def FIELD_PREP_def bf_shf_field[OF assms] bit_drop_bit_eq bit_and_iff
      bit_push_bit_iff)

lemma FIELD_GET_field:
  assumes "field h l m"
  shows "FIELD_GET m r = take_bit (Suc h - l) (drop_bit l r)"
  by (rule bit_word_eqI) (use fieldD(2)[OF assms] in
      \<open>auto simp: bit_FIELD[OF assms] bit_take_bit_iff bit_drop_bit_eq\<close>)

lemma FIELD_GET_PREP:
  assumes "field h l m"
  shows "FIELD_GET m (FIELD_PREP m v) = take_bit (Suc h - l) v"
  by (rule bit_word_eqI) (use fieldD(2)[OF assms] in
      \<open>auto simp: bit_FIELD[OF assms] bit_take_bit_iff\<close>)

lemma FIELD_PREP_GET:
  assumes "field h l m"
  shows "FIELD_PREP m (FIELD_GET m r) = r AND m"
  by (rule bit_word_eqI) (auto simp: bit_FIELD[OF assms] bit_and_iff fieldD(1)[OF assms])

text \<open>The macros compute in 64 bits, the model in the 32 bits of the register.\<close>

lemma FIELD_GET_narrow:
  fixes m r :: u32
  assumes "field h l m"
  shows "(ucast (FIELD_GET (ucast m :: u64) (ucast r)) :: u32) = FIELD_GET m r"
proof -
  have w: "field h l (ucast m :: u64)"
  proof -
    have "bit (ucast m :: u64) i \<longleftrightarrow> l \<le> i \<and> i \<le> h" for i
      using fieldD(3)[OF assms] by (simp only: bit_ucast_iff fieldD(1)[OF assms]) auto
    then show ?thesis using fieldD(2,3)[OF assms] by (simp add: field_def)
  qed
  show ?thesis
  proof (rule bit_word_eqI)
    fix n assume n: "n < LENGTH(32)"
    have "bit (ucast (FIELD_GET (ucast m :: u64) (ucast r :: u64)) :: u32) n
        \<longleftrightarrow> l + n \<le> h \<and> l + n < 64 \<and> bit r (l + n)"
      using n by (simp only: bit_ucast_iff bit_FIELD[OF w]) auto
    also have "\<dots> \<longleftrightarrow> bit (FIELD_GET m r) n"
      using fieldD(3)[OF assms] by (simp only: bit_FIELD[OF assms]) auto
    finally show "bit (ucast (FIELD_GET (ucast m :: u64) (ucast r :: u64)) :: u32) n
        = bit (FIELD_GET m r) n" .
  qed
qed

subsection \<open>Pointers that are errors\<close>

definition MAX_ERRNO :: int where
  "MAX_ERRNO = 4095"

definition IS_ERR_VALUE :: "u64 \<Rightarrow> bool" where
  "IS_ERR_VALUE x \<longleftrightarrow> x \<ge> word_of_int (- MAX_ERRNO)"

definition IS_ERR :: "u64 \<Rightarrow> bool" where
  "IS_ERR p = IS_ERR_VALUE p"

definition ERR_PTR :: "int \<Rightarrow> u64" where
  "ERR_PTR error = word_of_int error"

definition PTR_ERR :: "u64 \<Rightarrow> int" where
  "PTR_ERR p = sint p"

definition ptr_result :: "u64 \<Rightarrow> int + u64" where
  "ptr_result p = (if IS_ERR p then Inl (PTR_ERR p) else Inr p)"

definition result_ptr :: "int + u64 \<Rightarrow> u64" where
  "result_ptr r = (case r of Inl e \<Rightarrow> ERR_PTR e | Inr p \<Rightarrow> p)"

lemma IS_ERR_iff: "IS_ERR p \<longleftrightarrow> 2 ^ 64 - MAX_ERRNO \<le> uint p"
  by (simp add: IS_ERR_def IS_ERR_VALUE_def MAX_ERRNO_def word_le_def uint_word_of_int)

lemma PTR_ERR_error:
  assumes "IS_ERR p"
  shows "PTR_ERR p = uint p - 2 ^ 64"
proof -
  have "2 ^ 63 \<le> uint p" using assms by (simp add: IS_ERR_iff MAX_ERRNO_def)
  moreover have "uint p < 2 ^ 64" using uint_lt2p[of p] by simp
  ultimately have "(uint p + 2 ^ 63) mod 2 ^ 64 = uint p + 2 ^ 63 - 2 ^ 64"
    using mod_pos_pos_trivial[of "uint p + 2 ^ 63 - 2 ^ 64" "2 ^ 64"]
      mod_add_self2[of "uint p + 2 ^ 63 - 2 ^ 64" "2 ^ 64"] by (simp add: add.commute)
  then show ?thesis
    unfolding PTR_ERR_def by (simp add: sint_uint signed_take_bit_eq_take_bit_shift take_bit_int_def)
qed

lemma ERR_PTR_error:
  assumes "1 \<le> e" "e \<le> MAX_ERRNO"
  shows "IS_ERR (ERR_PTR (- e))" "PTR_ERR (ERR_PTR (- e)) = - e"
proof -
  have "uint (ERR_PTR (- e)) = (- e) mod 2 ^ 64"
    by (simp only: ERR_PTR_def uint_word_of_int) simp
  moreover have "(- e) mod 2 ^ 64 = 2 ^ 64 - e"
    using assms by (subst zmod_zminus1_eq_if) (simp add: MAX_ERRNO_def)
  ultimately have u: "uint (ERR_PTR (- e)) = 2 ^ 64 - e" by simp
  then show i: "IS_ERR (ERR_PTR (- e))" using assms by (simp add: IS_ERR_iff)
  show "PTR_ERR (ERR_PTR (- e)) = - e" using PTR_ERR_error[OF i] u by simp
qed

lemma ptr_result_inverse: "result_ptr (ptr_result p) = p"
  by (simp add: result_ptr_def ptr_result_def ERR_PTR_def PTR_ERR_def)

lemma result_ptr_inverse:
  "(case r of Inl e \<Rightarrow> - MAX_ERRNO \<le> e \<and> e < 0 | Inr p \<Rightarrow> \<not> IS_ERR p) \<Longrightarrow>
   ptr_result (result_ptr r) = r"
  using ERR_PTR_error[of "- projl r"] by (cases r) (simp_all add: result_ptr_def ptr_result_def)

text \<open>NULL is no error pointer: a test with \<^verbatim>\<open>IS_ERR\<close> lets it pass.\<close>

lemma null_is_no_error: "\<not> IS_ERR 0"
  by (simp add: IS_ERR_iff MAX_ERRNO_def)

subsection \<open>Arithmetic\<close>

text \<open>The result is the remainder and the new value of the first argument.\<close>

definition do_div :: "u64 \<Rightarrow> u32 \<Rightarrow> u32 \<times> u64" where
  "do_div n base = (ucast (n mod ucast base), n div ucast base)"

lemma do_div_splits:
  assumes "base \<noteq> 0"
  shows "unat n = unat (snd (do_div n base)) * unat base + unat (fst (do_div n base))"
    and "fst (do_div n base) < base"
proof -
  have b: "unat (ucast base :: u64) = unat base"
    using unsigned_less[of base, where 'a = nat]
    by (simp add: unsigned_ucast_eq take_bit_nat_eq_self_iff less_trans)
  have lt: "unat n mod unat base < unat base"
    using assms by (simp add: unat_gt_0)
  then have "unat n mod unat base < 2 ^ 32"
    using unsigned_less[of base, where 'a = nat] by (simp add: less_trans)
  moreover have "unat (n mod ucast base) = unat n mod unat base"
    unfolding unat_mod b ..
  ultimately have f: "unat (fst (do_div n base)) = unat n mod unat base"
    by (simp add: do_div_def unsigned_ucast_eq take_bit_nat_eq_self)
  then show "unat n = unat (snd (do_div n base)) * unat base + unat (fst (do_div n base))"
    by (simp add: do_div_def unat_div b)
  show "fst (do_div n base) < base" using f lt by (simp add: word_less_nat_alt)
qed

definition container_of :: "u64 \<Rightarrow> u64 \<Rightarrow> u64" where
  "container_of ptr offset = ptr - offset"

lemma container_of_member: "container_of (obj + offset) offset = obj"
  by (simp add: container_of_def)

subsection \<open>Pages, memory, names\<close>

definition sg_page :: "scatterlist \<Rightarrow> u64" where
  "sg_page s = sg_page_link s"

definition kmap_atomic :: "u64 \<Rightarrow> u64" where
  "kmap_atomic page = page"

definition sdhci_kmap_atomic :: "scatterlist \<Rightarrow> u64" where
  "sdhci_kmap_atomic s = kmap_atomic (sg_page s) + ucast (sg_offset s)"

lemma kmap_sg_virt: "sdhci_kmap_atomic s = sg_virt s"
  by (simp add: sdhci_kmap_atomic_def kmap_atomic_def sg_page_def sg_virt_def)

text \<open>\<^verbatim>\<open>rt_calloc\<close> clears what it returns.\<close>

definition alloc :: "u64 \<Rightarrow> u64 \<Rightarrow> bool \<Rightarrow> world \<Rightarrow> u64 \<times> world" where
  "alloc n sz zero w =
     (let p = e_alloc w (hist w);
          w = emit (Malloc (n * sz)) w
      in (p, if zero \<and> p \<noteq> 0
             then w\<lparr>mem := store_bytes (mem w) p (replicate (unat (n * sz)) 0)\<rparr> else w))"

definition kvzalloc :: "u64 \<Rightarrow> world \<Rightarrow> u64 \<times> world" where
  "kvzalloc sz = alloc 1 sz True"

definition devm_kzalloc :: "u64 \<Rightarrow> bool \<Rightarrow> world \<Rightarrow> u64 \<times> world" where
  "devm_kzalloc sz flags = alloc 1 sz True"

lemma devm_kmalloc_alloc: "devm_kmalloc sz w = alloc 1 sz False w"
  by (simp add: devm_kmalloc_def alloc_def Let_def)

definition dev_name :: "string option \<Rightarrow> string" where
  "dev_name init_name = (case init_name of Some s \<Rightarrow> s | None \<Rightarrow> '''')"

subsection \<open>Callbacks and locks\<close>

text \<open>The function of a timer, when it has one, is called with the timer; a work item always has
  its function.  What RT-Thread does with a lock is the argument.\<close>

definition timer_cb :: "(world \<Rightarrow> world option) option \<Rightarrow> world \<Rightarrow> world option" where
  "timer_cb func w = (case func of Some f \<Rightarrow> f w | None \<Rightarrow> Some w)"

definition work_func :: "(world \<Rightarrow> world option) \<Rightarrow> world \<Rightarrow> world option" where
  "work_func func w = func w"

record 'l rt_locks =
  rt_spin_lock_init :: "'l \<Rightarrow> 'l"
  rt_spin_lock :: "'l \<Rightarrow> 'l"
  rt_spin_unlock :: "'l \<Rightarrow> 'l"
  rt_spin_lock_irqsave :: "'l \<Rightarrow> u64 \<times> 'l"
  rt_spin_unlock_irqrestore :: "u64 \<Rightarrow> 'l \<Rightarrow> 'l"

definition spin_lock_init :: "'l rt_locks \<Rightarrow> 'l \<Rightarrow> 'l" where
  "spin_lock_init rt l = rt_spin_lock_init rt l"

definition spin_lock :: "'l rt_locks \<Rightarrow> 'l \<Rightarrow> 'l" where
  "spin_lock rt l = rt_spin_lock rt l"

definition spin_unlock :: "'l rt_locks \<Rightarrow> 'l \<Rightarrow> 'l" where
  "spin_unlock rt l = rt_spin_unlock rt l"

definition spin_irqsave :: "'l rt_locks \<Rightarrow> 'l \<Rightarrow> u64 \<times> 'l" where
  "spin_irqsave rt l = (let (f, l) = rt_spin_lock_irqsave rt l in (f, l))"

definition spin_irqrestore :: "'l rt_locks \<Rightarrow> 'l \<Rightarrow> u64 \<Rightarrow> 'l" where
  "spin_irqrestore rt l f = rt_spin_unlock_irqrestore rt f l"

end
