(* ===== verification/Spec2Isabelle.thy ===== *)
theory Spec2Isabelle
  imports Machine TimeoutFacts Cqe ClockFacts CvitekTuning CvitekFacts PortFacts DoneFacts SetupFacts SuspendFacts
    DataFacts PioFacts BoardFacts NodeList ExtDma ModeFacts TuningFacts PortMacros
begin

text \<open>
  A verification library for the SD host controller driver of this repository: the Linux driver
  \<^verbatim>\<open>sdhci.c\<close> with its platform glue \<^verbatim>\<open>sdhci-pltfm.c\<close>, the port layer that runs it on
  RT-Thread (\<^verbatim>\<open>port/\<close>), the platform driver of the CVITEK CV181x (\<^verbatim>\<open>platform/cvitek/\<close>) and
  the example boards (\<^verbatim>\<open>example/\<close>).

  \<^bold>\<open>The program.\<close>  RT-Thread's MMC layer gives requests (a command, possibly with data, a stop
  command and a CMD23) to \<^verbatim>\<open>port/l-mmc.c\<close>, which builds a scatter list of the buffer and calls
  \<^verbatim>\<open>sdhci_request\<close>.  The core keeps one command per line of the bus (\<^verbatim>\<open>host->cmd\<close>,
  \<^verbatim>\<open>host->data_cmd\<close>), one that waits (\<^verbatim>\<open>deferred_cmd\<close>), the running transfer (\<^verbatim>\<open>data\<close>)
  and at most two finished requests (\<^verbatim>\<open>mrqs_done\<close>).  It maps the scatter list for DMA, writes a
  table of ADMA descriptors, programs the registers and starts a timer.  The interrupt handler
  ends commands and transfers, a work item hands finished requests back, a timer ends what the
  controller forgets.  The platform driver replaces single operations through \<^verbatim>\<open>struct sdhci_ops\<close>.

  \<^bold>\<open>How code becomes definitions.\<close>  The state is one record, \<open>world\<close> (\<open>World\<close>): the fields of
  \<^verbatim>\<open>struct sdhci_host\<close> with the prefix \<open>h_\<close>, those of \<^verbatim>\<open>struct mmc_host\<close> with \<open>m_\<close> and in
  \<open>mh\<close>, the stores of commands, data descriptors and requests by address, byte-addressed memory,
  the history of everything done to the outside, and the environment (\<open>e_\<close>).  A function
  of the code is a definition of the same name (\<open>raw_f\<close> for \<^verbatim>\<open>__f\<close>; a long function is cut
  into parts named after what they do, which the manifest maps to their lines) that takes and
  returns the state.  What may fail to return is an \<open>option\<close>: \<open>None\<close> is a loop that does not end, a
  \<^verbatim>\<open>BUG_ON\<close>, a NULL dereference or a division by zero (of the timeout clock in
  \<^verbatim>\<open>sdhci_calc_timeout\<close>, of \<^verbatim>\<open>max_lead_lag_size\<close> in the CVITEK tuning), which C leaves undefined.  An error code is \<open>errno option\<close>, \<open>None\<close> for 0.  Hardware
  registers and the tick counter answer as functions of the history, so every theorem holds for
  every behaviour of the device.  Where the driver releases its lock, the argument \<open>u\<close> stands for
  what runs meanwhile; \<open>Machine\<close> instantiates it with any schedule of handlers, which may differ
  from release to release.  Integers are words
  of the width of the C type, so all arithmetic wraps as it does in C.

  \<^bold>\<open>The model, theory by theory.\<close>
  \<^item> \<open>Prelude\<close>, \<open>Regs\<close>, \<open>Mmc\<close>, \<open>World\<close>, \<open>Os\<close>, \<open>Ops\<close>: words and memory; the constants of
    \<^verbatim>\<open>sdhci.h\<close>; requests and bus settings (\<^verbatim>\<open>port/osdep/mmc/mmc.h\<close>); state and register access;
    time, timers, work queue (\<^verbatim>\<open>port/l-timer.c\<close>, \<^verbatim>\<open>port/port.c\<close>); \<^verbatim>\<open>struct sdhci_ops\<close>.
  \<^item> \<open>LowLevel\<close>, \<open>Clock\<close>, \<open>Ios\<close>, \<open>Tuning\<close>, \<open>Cqe\<close>: reset, register dump, card detection; dividers
    and clock enable; power, width, timing, voltage; generic tuning; command queue helpers.
  \<^item> \<open>Dma\<close>, \<open>Adma\<close>, \<open>Pio\<close>, \<open>Timeout\<close>, \<open>Data\<close>: mapping (\<^verbatim>\<open>port/l-dma.c\<close>, \<^verbatim>\<open>port/l-sg.c\<close>); the
    descriptor table; programmed I/O; timeouts; preparation of a transfer.
  \<^item> \<open>Request\<close>, \<open>Complete\<close>, \<open>Irq\<close>: sending commands; the end of commands, transfers and requests,
    the timers and the removal of the card; the interrupt handlers.
  \<^item> \<open>Of\<close>, \<open>NodeList\<close>, \<open>Setup\<close>, \<open>Host\<close>, \<open>MmcPort\<close>, \<open>Suspend\<close>, \<open>ExtDma\<close>, \<open>PortMacros\<close>: device
    properties (\<^verbatim>\<open>port/l-of.c\<close>) as lists and as linked cells; \<^verbatim>\<open>sdhci_setup_host\<close>; adding and
    removing hosts, \<^verbatim>\<open>sdhci-pltfm.c\<close> and the interrupt port (\<^verbatim>\<open>port/l-irq.c\<close>); \<^verbatim>\<open>port/l-mmc.c\<close>;
    suspend and resume; the external DMA and LED code this port leaves out; macros and wrappers of
    \<^verbatim>\<open>port/osdep/port.h\<close>.
  \<^item> \<open>Cvitek\<close>, \<open>Board\<close>: the platform driver \<^verbatim>\<open>sdhci-cv181x.c\<close> and the example boards.

  \<^bold>\<open>The interfaces.\<close>  What the core expects of \<^verbatim>\<open>struct sdhci_ops\<close> are the locales \<open>host_ops\<close>
  (resets, clock, descriptor writer and the other hooks leave the bookkeeping alone),
  \<open>host_bus\<close> (also power, width and voltage), \<open>setup_ops\<close> (what the setup needs) and
  \<open>adma_writer\<close> (one call covers a piece of the buffer by at most \<open>k\<close> descriptors); \<open>host_run\<close> adds
  the contract of the code that runs while the lock is free.  Each is interpreted for the default
  operations and for both tables of the CVITEK driver (\<open>Pltfm\<close>, \<open>Machine\<close>, \<open>CvitekOps\<close>,
  \<open>AdmaFacts\<close>, \<open>SetupFacts\<close>), so the properties hold for each of them.

  \<^bold>\<open>The lemmas.\<close>
  \<^item> \<open>Views\<close>, \<open>Frames\<close>: which operations leave the request bookkeeping (\<open>rq\<close>) and the interrupt
    registers (\<open>iv\<close>) alone.  \<open>ReqInv\<close>, \<open>ReqSteps\<close>, \<open>Safety\<close>, \<open>Runs\<close>,
    \<open>TuningInv\<close>, \<open>PowerInv\<close>: the request invariant
    \<open>req_inv\<close> (no request both active and finished, none finished twice, at most two) and that
    every operation keeps it; \<open>Pltfm\<close>, \<open>Machine\<close>: the step relation and its reachable states.
    The abstract view is \<open>active\<close>, \<open>finished\<close> and \<open>tracked\<close>, the sets of requests the host knows.
  \<^item> \<open>ReqFacts\<close>, \<open>DoneFacts\<close>, \<open>CmdFacts\<close>, \<open>DataFacts\<close>, \<open>ModeFacts\<close>, \<open>PioFacts\<close>, \<open>ResetFacts\<close>:
    what becomes of a request on each path, from the registers written to the error reported.
  \<^item> \<open>AdmaFacts\<close>, \<open>CvitekFacts\<close>: the table as the controller walks it transfers exactly the bytes
    of the scatter list, and for a write it fetches their contents.  \<open>ClockFacts\<close>,
    \<open>TimeoutFacts\<close>, \<open>PollFacts\<close>: dividers, timeouts against the time asked for in nanoseconds,
    polling loops.
  \<^item> \<open>PortFacts\<close>, \<open>SetupFacts\<close>, \<open>SuspendFacts\<close>, \<open>TuningFacts\<close>, \<open>CvitekTuning\<close>, \<open>BoardFacts\<close>,
    \<open>NodeList\<close>: the port, setting up and taking down, power cycles, both tuning procedures, the
    start functions of the boards, the device nodes.

  \<^bold>\<open>Bounds and fuel.\<close>  The only loops with a count are those the code counts: 16 rounds of the
  interrupt handler, 10 retries of a command, \<open>h_tuning_loop_count\<close> tuning blocks, 128 taps, the
  number of scatter list entries; \<open>irq_thread\<close> counts how often the endless thread is woken.
  Polling loops are \<open>partial_function (option)\<close> without fuel; that they end is proved
  (\<open>PollFacts\<close>, \<open>DoneFacts\<close>), as is where they do not (\<open>reset_deadline_lost\<close>).

  \<^bold>\<open>What the model assumes.\<close>  The device and the tick counter do not depend on when
  they are asked, only on what was done before.  What is stated of a register is the value last
  written to it: a controller that changes its interrupt masks by itself (on a reset) is met by the
  driver writing them again.  Handlers interrupt the driver only where it releases its lock, as its
  spin lock guarantees; an operation that holds no lock (bus settings, voltage, the parts of the
  tuning between two commands) is one step.  The schedule of a lock release (\<open>preempt\<close>) chooses its
  handlers from the interrupt handler, the timers, the removal of the card, the SDIO switches, the
  interrupt thread and the completion work, which release the lock in their turn; further requests
  and bus settings are not among them, since RT-Thread's MMC core holds the host while a request is
  under way.  They are steps of their own.  The numbers of RT-Thread's
  enumerations are constructors or parameters, because its headers are not here.

  \<^bold>\<open>Not modelled.\<close>  What RT-Thread does inside a call (threads, scheduler, allocator: events and
  parameters); printing (\<^verbatim>\<open>pr_err\<close>, \<^verbatim>\<open>pr_debug\<close>; the register reads of the dump are);
  the include guards, prototypes and renaming macros of \<^verbatim>\<open>port/osdep/\<close>; \<^verbatim>\<open>read_poll_timeout\<close>, which
  nothing uses; the registration macros (\<^verbatim>\<open>module_init\<close>, \<^verbatim>\<open>EXPORT_SYMBOL_GPL\<close>,
  \<^verbatim>\<open>MODULE_*\<close>), which expand to nothing.  The step relation of \<open>Machine\<close> has no step for
  setting up, removing and suspending the system, and none for the tuning of the CVITEK driver,
  which sends its blocks through RT-Thread: their effects are the subject of \<open>SetupFacts\<close>,
  \<open>SuspendFacts\<close> and \<open>CvitekTuning\<close>.
\<close>

subsection \<open>The request life cycle\<close>

text \<open>C1. In every state the driver reaches from a sound one, through any sequence of its entry
  points (tuning, runtime suspend and resume and the command queue engine included), timers,
  interrupts (also nested ones, wherever the lock is released) and preparations of the MMC core, no request is both in progress and finished, no finished request is listed
  twice, at most \<open>SDHCI_MAX_MRQS\<close> requests are known, and both interrupt enable registers
  hold the mask the driver keeps.\<close>

theorem reachable_sound:
  assumes "reachable sdhci_pltfm_ops w w'" "host_inv w"
  shows "distinct (finished w') \<and> set (active w') \<inter> set (finished w') = {}
    \<and> card (tracked w') \<le> SDHCI_MAX_MRQS
    \<and> last_wr32 SDHCI_INT_ENABLE (hist w') = Some (h_ier w')
    \<and> last_wr32 SDHCI_SIGNAL_ENABLE (hist w') = Some (h_ier w')"
  using pltfm_bus.reachable_host_inv[OF assms] by (simp add: host_inv_def req_inv_def ier_ok_def)

theorem reachable_sound_witness:
  "\<exists>w'. reachable sdhci_pltfm_ops idle_world w' \<and> active w' = [7] \<and> 7 \<notin> set (finished w')
    \<and> last_wr32 SDHCI_INT_ENABLE (hist w') = Some (h_ier w')"
proof -
  obtain w where w: "reachable sdhci_pltfm_ops idle_world w" "active w = [7]"
    by (rule idle_reachable[of sdhci_pltfm_ops])
  show ?thesis using reachable_sound[OF w(1) idle_host_inv(1)] w by auto
qed

text \<open>C2. A request given to \<^verbatim>\<open>sdhci_request\<close> is never lost and never duplicated: whatever
  handlers interrupt the retries, the interrupt thread and the completion work included and others
  at each retry, when the function returns the request is in progress or finished (not
  both), and the host knows of no other new request.\<close>

theorem request_taken_on:
  assumes "sdhci_request sdhci_pltfm_ops (preempt sdhci_pltfm_ops hs) q w = Some w'"
    and "req_inv w" "q \<notin> tracked w" "card (tracked w) < SDHCI_MAX_MRQS"
  shows "(q \<in> set (active w') \<longleftrightarrow> q \<notin> set (finished w')) \<and> tracked w' \<subseteq> insert q (tracked w)
    \<and> req_inv w'"
  using pltfm_run.request_joins(1,2,3)[OF assms] by (auto simp: tracked_def req_inv_def)

theorem request_taken_on_witness:
  "\<exists>w'. sdhci_request sdhci_pltfm_ops (preempt sdhci_pltfm_ops (\<lambda>_. [])) 7 idle_world = Some w'
    \<and> 7 \<in> set (active w') \<and> 7 \<notin> set (finished w') \<and> tracked w' \<subseteq> {7}"
proof -
  obtain w where w: "sdhci_request sdhci_pltfm_ops (preempt sdhci_pltfm_ops (\<lambda>_. [])) 7 idle_world = Some w"
    "active w = [7]"
    by (rule idle_reachable[of sdhci_pltfm_ops])
  show ?thesis
    using request_taken_on[OF w(1)] w idle_host_inv by (auto simp: host_inv_def SDHCI_MAX_MRQS_def)
qed

text \<open>C3. \<^verbatim>\<open>sdhci_request_atomic\<close> reports success exactly when the host has taken the request on;
  with \<open>EBUSY\<close> the host does not know of it.\<close>

theorem request_atomic_reports:
  assumes "sdhci_request_atomic sdhci_pltfm_ops q w = Some (err, w')"
    and "req_inv w" "q \<notin> tracked w" "card (tracked w) < SDHCI_MAX_MRQS"
  shows "(err = None \<longleftrightarrow> q \<in> tracked w') \<and> tracked w' \<subseteq> insert q (tracked w) \<and> req_inv w'"
  using pltfm_run.request_atomic_joins(1,2,3)[OF assms] by simp

theorem request_atomic_reports_witness:
  "\<exists>w'. sdhci_request_atomic sdhci_pltfm_ops 7
      (idle_world\<lparr>h_flags := SDHCI_DEVICE_DEAD\<rparr>) = Some (None, w') \<and> tracked w' = {7}"
proof -
  define w where "w = idle_world\<lparr>h_flags := SDHCI_DEVICE_DEAD\<rparr>"
  have "rq w = rq idle_world" by (simp add: w_def)
  note r = rq_active[OF this]
  obtain w' where w': "sdhci_request_atomic sdhci_pltfm_ops 7 w = Some (None, w')"
    by (simp add: sdhci_request_atomic_def sdhci_present_error_def w_def Let_def tst_def)
  then show ?thesis
    using request_atomic_reports[OF w'] r idle_host_inv
    by (auto simp: w_def host_inv_def SDHCI_MAX_MRQS_def)
qed

subsection \<open>Interrupts\<close>

text \<open>C4. One round of the interrupt handler clears in the status register every bit it was
  handed, except the error summary, the re-tuning request and the card interrupt, which the
  controller takes back itself, and clears no other bit.\<close>

theorem irq_acknowledges:
  assumes "irq_body sdhci_pltfm_ops m un r w = Some (un', r', w')"
  shows "acked w' = acked w OR
    (m AND NOT (SDHCI_INT_ERROR OR SDHCI_INT_RETUNE OR SDHCI_INT_CARD_INT))"
  using pltfm.irq_body_step(2)[OF assms] by (simp add: IRQ_ACKED_def)

theorem irq_acknowledges_witness:
  "\<exists>un r w'. irq_body sdhci_pltfm_ops (SDHCI_INT_BUS_POWER OR SDHCI_INT_RETUNE) 0 IRQ_NONE
      idle_world = Some (un, r, w') \<and> acked w' = SDHCI_INT_BUS_POWER"
proof -
  obtain un r w' where e: "irq_body sdhci_pltfm_ops (SDHCI_INT_BUS_POWER OR SDHCI_INT_RETUNE) 0
      IRQ_NONE idle_world = Some (un, r, w')"
    by (simp add: irq_body_def irq_begin_def irq_end_def Let_def tst_def IRQ_KNOWN_def
        mmc_retune_needed_def)
  moreover have "acked idle_world = 0" by (simp add: acked_def)
  ultimately show ?thesis using irq_acknowledges[OF e] by simp
qed

end
